(* ===== verification/Net_Prelude.thy ===== *)
theory Net_Prelude
  imports Main "HOL-Library.Word" "HOL-Library.State_Monad"
begin

text \<open>
  Shared vocabulary of the development: machine integers, byte buffers of a little-endian host
  (the ARM and x86 targets of the platform), network byte order, bounded reads of a buffer, the
  writes through an advancing pointer, and the lemmas on them that the component theories use.

  A C pair \<open>(buffer, count)\<close> is the list of the \<open>count\<close> bytes that the code may touch. A read at an
  index that can fall outside its object is \<open>rd\<close>, whose value is \<open>None\<close> there.
\<close>

unbundle bit_operations_syntax

named_theorems word_arith \<open>values of word operations as natural numbers\<close>
named_theorems byte_codec \<open>lengths and round trips of byte encodings\<close>

type_synonym u8 = "8 word"
type_synonym u16 = "16 word"
type_synonym u32 = "32 word"
type_synonym u64 = "64 word"
type_synonym bytes = "8 word list"

section \<open>Running operations of the state monad\<close>

declare State_Monad.run_state_bind [simp del]

lemma run_bind [simp]:
  "run_state (m \<bind> f) s = run_state (f (fst (run_state m s))) (snd (run_state m s))"
  by (simp add: State_Monad.bind_def split_beta)

lemma run_case_prod [simp]:
  "run_state (case p of (a, b) \<Rightarrow> f a b) s = run_state (f (fst p) (snd p)) s"
  by (simp add: split_beta)

section \<open>Words in memory\<close>

text \<open>A 16-bit or 32-bit object is stored with its low byte first.\<close>

definition le16 :: "u8 \<Rightarrow> u8 \<Rightarrow> u16" where
  "le16 a b = ucast a + 256 * ucast b"

definition bytes16 :: "u16 \<Rightarrow> bytes" where
  "bytes16 w = [ucast w, ucast (drop_bit 8 w)]"

definition le32 :: "u8 \<Rightarrow> u8 \<Rightarrow> u8 \<Rightarrow> u8 \<Rightarrow> u32" where
  "le32 a b c d = ucast a + 256 * ucast b + 65536 * ucast c + 16777216 * ucast d"

definition bytes32 :: "u32 \<Rightarrow> bytes" where
  "bytes32 w = [ucast w, ucast (drop_bit 8 w), ucast (drop_bit 16 w), ucast (drop_bit 24 w)]"

text \<open>\<open>htons\<close>, \<open>ntohs\<close>, \<open>htonl\<close> and \<open>ntohl\<close> reverse the bytes of a word.\<close>

definition htons :: "u16 \<Rightarrow> u16" where
  "htons w = le16 (ucast (drop_bit 8 w)) (ucast w)"

definition htonl :: "u32 \<Rightarrow> u32" where
  "htonl w = le32 (ucast (drop_bit 24 w)) (ucast (drop_bit 16 w)) (ucast (drop_bit 8 w)) (ucast w)"

abbreviation "ntohs \<equiv> htons"
abbreviation "ntohl \<equiv> htonl"

definition get16 :: "bytes \<Rightarrow> u16" where
  "get16 bs = (case bs of a # b # _ \<Rightarrow> le16 a b | _ \<Rightarrow> 0)"

definition get32 :: "bytes \<Rightarrow> u32" where
  "get32 bs = (case bs of a # b # c # d # _ \<Rightarrow> le32 a b c d | _ \<Rightarrow> 0)"

section \<open>Bounded reads and writes through a pointer\<close>

definition rd :: "bytes \<Rightarrow> nat \<Rightarrow> u8 option" where
  "rd bs i = (if i < length bs then Some (bs ! i) else None)"

text \<open>\<open>poke p src dst\<close>: the bytes \<open>src\<close> stored from index \<open>p\<close> of \<open>dst\<close> on (a run of \<open>*x++ = v\<close> or a
  \<open>memcpy\<close>); what would fall past the end of the object is outside the model's object.\<close>

definition poke :: "nat \<Rightarrow> bytes \<Rightarrow> bytes \<Rightarrow> bytes" where
  "poke p src dst = take p dst @ take (length dst - p) src @ drop (p + length src) dst"

section \<open>Lemmas on words\<close>

lemma unat_u8_less [simp]: "unat (a::u8) < 256"
  using unsigned_less [of a] by simp

lemma unat_u16_less [simp]: "unat (a::u16) < 65536"
  using unsigned_less [of a] by simp

lemma unat_u32_less [simp]: "unat (a::u32) < 4294967296"
  using unsigned_less [of a] by simp

text \<open>Positional arithmetic in base 256, least significant digit first.\<close>

lemma digits4:
  fixes a b c d :: nat
  assumes "a < 256" "b < 256" "c < 256"
  defines "n \<equiv> a + 256 * (b + 256 * (c + 256 * d))"
  shows "n mod 256 = a" "n div 256 mod 256 = b" "n div 65536 mod 256 = c" "n div 16777216 = d"
proof -
  have q1: "n div 256 = b + 256 * (c + 256 * d)" and "n mod 256 = a"
    unfolding n_def using assms(1) by (simp_all only: div_mult_self2 mod_mult_self2) simp_all
  then show "n mod 256 = a" by simp
  show "n div 256 mod 256 = b" unfolding q1 using assms(2) by (simp only: mod_mult_self2) simp
  have q2: "n div 65536 = c + 256 * d"
    using assms by (simp add: q1 flip: div_mult2_eq [of n 256 256, simplified])
  then show "n div 65536 mod 256 = c" using assms by simp
  show "n div 16777216 = d"
    using assms by (simp add: q2 flip: div_mult2_eq [of n 65536 256, simplified])
qed

lemma digits4_join:
  fixes n :: nat
  shows "n mod 256 + 256 * (n div 256 mod 256 + 256 * (n div 65536 mod 256 + 256 * (n div 16777216))) = n"
proof -
  have "n div 65536 = n div 256 div 256" "n div 16777216 = n div 256 div 256 div 256"
    by (simp_all flip: div_mult2_eq)
  then show ?thesis by simp
qed

lemma unat_le16 [word_arith]: "unat (le16 a b) = unat a + 256 * unat b"
proof -
  have "unat a + 256 * unat b < 65536"
    using unat_u8_less [of a] unat_u8_less [of b] by arith
  then show ?thesis
    by (simp add: le16_def unat_word_ariths unsigned_ucast_eq take_bit_eq_mod)
qed

lemma unat_le32 [word_arith]:
  "unat (le32 a b c d) = unat a + 256 * (unat b + 256 * (unat c + 256 * unat d))"
proof -
  have "unat a + 256 * unat b + 65536 * unat c + 16777216 * unat d < 4294967296"
    using unat_u8_less [of a] unat_u8_less [of b] unat_u8_less [of c] unat_u8_less [of d] by arith
  then show ?thesis
    by (simp add: le32_def unat_word_ariths unsigned_ucast_eq take_bit_eq_mod)
qed

lemma unat_drop [word_arith]: "unat (drop_bit n (w::'a::len word)) = unat w div 2 ^ n"
  by (simp only: unat_drop_bit_eq) (simp add: drop_bit_eq_div)

lemma unat_low16 [word_arith]: "unat (ucast (w::u16) :: u8) = unat w mod 256"
  by (simp add: unsigned_ucast_eq take_bit_eq_mod)

lemma unat_low32 [word_arith]: "unat (ucast (w::u32) :: u8) = unat w mod 256"
  by (simp add: unsigned_ucast_eq take_bit_eq_mod)

lemma le16_bytes [simp]: "le16 (ucast w) (ucast (drop_bit 8 w)) = w"
proof -
  have "unat w div 256 mod 256 = unat w div 256"
    using unat_u16_less [of w] by (intro mod_less) (simp add: less_mult_imp_div_less)
  then show ?thesis
    by (simp add: word_unat_eq_iff word_arith)
qed

lemma le32_bytes [simp]:
  "le32 (ucast w) (ucast (drop_bit 8 w)) (ucast (drop_bit 16 w)) (ucast (drop_bit 24 w)) = w"
proof -
  have "unat w div 16777216 mod 256 = unat w div 16777216"
    using unat_u32_less [of w] by (intro mod_less) (simp add: less_mult_imp_div_less)
  then show ?thesis
    using digits4_join [of "unat w"] by (simp only: word_unat_eq_iff word_arith) simp
qed

lemma low_le16 [simp]: "ucast (le16 a b) = a"
  by (simp add: word_unat_eq_iff word_arith)

lemma high_le16 [simp]: "ucast (drop_bit 8 (le16 a b)) = b"
  by (simp add: word_unat_eq_iff word_arith)

lemma bytes_le32 [simp]:
  "ucast (le32 a b c d) = a" "ucast (drop_bit 8 (le32 a b c d)) = b"
  "ucast (drop_bit 16 (le32 a b c d)) = c" "ucast (drop_bit 24 (le32 a b c d)) = d"
  using digits4 [of "unat a" "unat b" "unat c" "unat d"]
  by (simp_all only: word_unat_eq_iff word_arith unat_u8_less) simp_all

lemma htons_htons [simp]: "htons (htons w) = w"
  by (simp add: htons_def)

lemma htonl_htonl [simp]: "htonl (htonl w) = w"
  by (simp add: htonl_def)

lemma htons_inject [simp]: "htons v = htons w \<longleftrightarrow> v = w"
  by (metis htons_htons)

lemma htonl_inject [simp]: "htonl v = htonl w \<longleftrightarrow> v = w"
  by (metis htonl_htonl)

section \<open>Lemmas on byte lists\<close>

lemma length_bytes16 [simp, byte_codec]: "length (bytes16 w) = 2"
  by (simp add: bytes16_def)

lemma length_bytes32 [simp, byte_codec]: "length (bytes32 w) = 4"
  by (simp add: bytes32_def)

lemma get16_bytes16 [simp, byte_codec]: "get16 (bytes16 w @ r) = w" "get16 (bytes16 w) = w"
  by (simp_all add: get16_def bytes16_def)

lemma get32_bytes32 [simp, byte_codec]: "get32 (bytes32 w @ r) = w" "get32 (bytes32 w) = w"
  by (simp_all add: get32_def bytes32_def)

lemma length2E:
  assumes "length xs = 2" obtains a b where "xs = [a, b]"
  using assms by (auto simp: length_Suc_conv numeral_2_eq_2)

lemma length4E:
  assumes "length xs = 4" obtains a b c d where "xs = [a, b, c, d]"
  using assms by (auto simp: length_Suc_conv eval_nat_numeral)

lemma bytes16_get16 [byte_codec]: "length bs = 2 \<Longrightarrow> bytes16 (get16 bs) = bs"
  by (auto elim!: length2E simp: get16_def bytes16_def)

lemma bytes32_get32 [byte_codec]: "length bs = 4 \<Longrightarrow> bytes32 (get32 bs) = bs"
  by (auto elim!: length4E simp: get32_def bytes32_def)

lemma rd_Some_iff: "rd bs i = Some v \<longleftrightarrow> i < length bs \<and> bs ! i = v"
  by (auto simp: rd_def)

lemma rd_in [simp]: "i < length bs \<Longrightarrow> rd bs i = Some (bs ! i)"
  by (simp add: rd_def)

lemma length_poke [simp]: "p \<le> length dst \<Longrightarrow> length (poke p src dst) = length dst"
  by (simp add: poke_def)

lemma nth_poke:
  "p + length src \<le> length dst \<Longrightarrow> i < length dst \<Longrightarrow>
   poke p src dst ! i = (if p \<le> i \<and> i < p + length src then src ! (i - p) else dst ! i)"
  by (auto simp: poke_def nth_append min_def)

lemma take_poke:
  "p + length src \<le> length dst \<Longrightarrow> take (p + length src) (poke p src dst) = take p dst @ src"
  by (cases src) (auto simp: poke_def min_def)

section \<open>Machines with a retransmission budget\<close>

text \<open>A machine driven by events either goes on or stops (\<open>None\<close>). The contract of the timer-driven protocols
  of this development: each timer tick that does not stop the machine uses up some of a budget, no other event
  refills it. Then every run with more ticks than the budget has stopped.\<close>

fun steps :: "('e \<Rightarrow> 's \<Rightarrow> 's option) \<Rightarrow> 'e list \<Rightarrow> 's \<Rightarrow> 's option" where
  "steps step [] s = Some s"
| "steps step (e # es) s = (case step e s of None \<Rightarrow> None | Some s' \<Rightarrow> steps step es s')"

locale retransmitter =
  fixes step :: "'e \<Rightarrow> 's \<Rightarrow> 's option"
    and tick :: "'e \<Rightarrow> bool"
    and budget :: "'s \<Rightarrow> nat"
    and inv :: "'s \<Rightarrow> bool"
  assumes inv_step: "inv s \<Longrightarrow> step e s = Some s' \<Longrightarrow> inv s'"
    and tick_uses: "inv s \<Longrightarrow> tick e \<Longrightarrow> step e s = Some s' \<Longrightarrow> budget s' < budget s"
    and no_refill: "inv s \<Longrightarrow> \<not> tick e \<Longrightarrow> step e s = Some s' \<Longrightarrow> budget s' \<le> budget s"
begin

lemma inv_steps: "inv s \<Longrightarrow> steps step es s = Some s' \<Longrightarrow> inv s'"
  by (induction es arbitrary: s) (auto split: option.splits intro: inv_step)

lemma ticks_within_budget:
  "inv s \<Longrightarrow> steps step es s = Some s' \<Longrightarrow> length (filter tick es) + budget s' \<le> budget s"
proof (induction es arbitrary: s)
  case (Cons e es)
  then obtain t where t: "step e s = Some t" "steps step es t = Some s'"
    by (auto split: option.splits)
  then have "length (filter tick es) + budget s' \<le> budget t"
    using Cons inv_step by blast
  then show ?case
    using tick_uses [OF Cons.prems(1) _ t(1)] no_refill [OF Cons.prems(1) _ t(1)] by fastforce
qed simp

lemma stops_after_budget: "inv s \<Longrightarrow> budget s < length (filter tick es) \<Longrightarrow> steps step es s = None"
  using ticks_within_budget by (cases "steps step es s") fastforce+

end

end
