(* ===== verification/Packet.thy ===== *)
theory Packet
  imports Net_Prelude
begin

text \<open>
  The raw-socket layer of the DHCP client, \<open>src/system/core/libnetutils/packet.c\<close>: the Internet
  checksum, \<open>send_packet\<close>, which frames a DHCP message in UDP and IP, and \<open>receive_packet\<close>, which
  accepts and unframes one. The structs are records with their byte layout; \<open>sendmsg\<close> and \<open>read\<close> are
  the kernel's: the first is the message header handed to it, the second the bytes it returned.

  The lemmas show that \<open>checksum\<close> is the one's complement sum of its 16-bit words whatever the
  folding order, that a frame of \<open>send_packet\<close> passes the checks of \<open>receive_packet\<close> unchanged, and
  when \<open>receive_packet\<close> copies outside its objects.
\<close>

section \<open>Constants of the system headers\<close>

definition IPVERSION :: nat where "IPVERSION = 4"
definition IPDEFTTL :: u8 where "IPDEFTTL = 64"
definition IPPROTO_UDP :: u8 where "IPPROTO_UDP = 17"
definition ETH_P_IP :: u16 where "ETH_P_IP = 0x0800"
definition ETH_ALEN :: u8 where "ETH_ALEN = 6"
definition AF_PACKET :: u16 where "AF_PACKET = 17"
definition PORT_BOOTP_SERVER :: u32 where "PORT_BOOTP_SERVER = 67"
definition PORT_BOOTP_CLIENT :: u32 where "PORT_BOOTP_CLIENT = 68"

definition SIZEOF_IPHDR :: nat where "SIZEOF_IPHDR = 20"
definition SIZEOF_UDPHDR :: nat where "SIZEOF_UDPHDR = 8"
definition SIZEOF_DHCP_MSG :: nat where "SIZEOF_DHCP_MSG = 1260"

lemmas packet_consts = IPVERSION_def IPDEFTTL_def IPPROTO_UDP_def ETH_P_IP_def ETH_ALEN_def
  AF_PACKET_def PORT_BOOTP_SERVER_def PORT_BOOTP_CLIENT_def SIZEOF_IPHDR_def SIZEOF_UDPHDR_def
  SIZEOF_DHCP_MSG_def

section \<open>Headers and their layout\<close>

text \<open>The multi-byte fields hold the values the code stores: already in network order.\<close>

record iphdr =
  ip_version :: "4 word"
  ip_ihl :: "4 word"
  ip_tos :: u8
  ip_tot_len :: u16
  ip_id :: u16
  ip_frag_off :: u16
  ip_ttl :: u8
  ip_protocol :: u8
  ip_check :: u16
  ip_saddr :: u32
  ip_daddr :: u32

record udphdr =
  udp_source :: u16
  udp_dest :: u16
  udp_len :: u16
  udp_check :: u16

definition iphdr_bytes :: "iphdr \<Rightarrow> bytes" where
  "iphdr_bytes h =
     [ucast (ip_ihl h) + 16 * ucast (ip_version h), ip_tos h] @ bytes16 (ip_tot_len h)
     @ bytes16 (ip_id h) @ bytes16 (ip_frag_off h)
     @ [ip_ttl h, ip_protocol h] @ bytes16 (ip_check h)
     @ bytes32 (ip_saddr h) @ bytes32 (ip_daddr h)"

definition udphdr_bytes :: "udphdr \<Rightarrow> bytes" where
  "udphdr_bytes h =
     bytes16 (udp_source h) @ bytes16 (udp_dest h) @ bytes16 (udp_len h) @ bytes16 (udp_check h)"

definition iphdr_at :: "bytes \<Rightarrow> iphdr" where
  "iphdr_at bs =
     \<lparr> ip_version = ucast (drop_bit 4 (bs ! 0)), ip_ihl = ucast (bs ! 0), ip_tos = bs ! 1,
       ip_tot_len = get16 (drop 2 bs), ip_id = get16 (drop 4 bs), ip_frag_off = get16 (drop 6 bs),
       ip_ttl = bs ! 8, ip_protocol = bs ! 9, ip_check = get16 (drop 10 bs),
       ip_saddr = get32 (drop 12 bs), ip_daddr = get32 (drop 16 bs) \<rparr>"

definition udphdr_at :: "bytes \<Rightarrow> udphdr" where
  "udphdr_at bs =
     \<lparr> udp_source = get16 bs, udp_dest = get16 (drop 2 bs), udp_len = get16 (drop 4 bs),
       udp_check = get16 (drop 6 bs) \<rparr>"

definition zero_iphdr :: iphdr where
  "zero_iphdr = \<lparr> ip_version = 0, ip_ihl = 0, ip_tos = 0, ip_tot_len = 0, ip_id = 0, ip_frag_off = 0,
     ip_ttl = 0, ip_protocol = 0, ip_check = 0, ip_saddr = 0, ip_daddr = 0 \<rparr>"

record sockaddr_ll =
  sll_family :: u16
  sll_protocol :: u16
  sll_ifindex :: int
  sll_hatype :: u16
  sll_pkttype :: u8
  sll_halen :: u8
  sll_addr :: bytes

definition zero_sockaddr_ll :: sockaddr_ll where
  "zero_sockaddr_ll = \<lparr> sll_family = 0, sll_protocol = 0, sll_ifindex = 0, sll_hatype = 0,
     sll_pkttype = 0, sll_halen = 0, sll_addr = replicate 8 0 \<rparr>"

record msghdr =
  msg_name :: sockaddr_ll
  msg_iov :: "bytes list"
  msg_flags :: int

section \<open>Checksum\<close>

text \<open>The first loop and the trailing byte: \<open>sum += *up++\<close> in 32-bit arithmetic.\<close>

fun checksum_words :: "bytes \<Rightarrow> u32 \<Rightarrow> u32" where
  "checksum_words (a # b # bs) s = checksum_words bs (s + ucast (le16 a b))"
| "checksum_words [a] s = s + ucast a"
| "checksum_words [] s = s"

lemma unat_fold_step:
  "unat ((s AND 0xffff) + drop_bit 16 (s::u32)) = unat s mod 65536 + unat s div 65536"
proof -
  have low: "s AND 0xffff = take_bit 16 s"
    by (simp add: take_bit_eq_mask mask_numeral)
  have "unat s mod 65536 + unat s div 65536 < 4294967296"
    using unat_u32_less [of s] by arith
  then show ?thesis
    unfolding low by (simp add: unat_word_ariths unat_drop unsigned_take_bit_eq) (simp add: take_bit_eq_mod)
qed

text \<open>The second loop, which folds the carries into the low half until there are none.\<close>

function checksum_fold :: "u32 \<Rightarrow> u32" where
  "checksum_fold s =
     (let upper16 = drop_bit 16 s
      in if upper16 \<noteq> 0 then checksum_fold ((s AND 0xffff) + upper16) else s)"
  by pat_completeness auto
termination
proof (relation "measure unat", goal_cases)
  case (2 s upper)
  then have "unat s div 65536 \<noteq> 0"
    by (simp add: word_unat_eq_iff unat_drop)
  then have "unat s mod 65536 + unat s div 65536 < unat s"
    using div_mult_mod_eq [of "unat s" 65536] by linarith
  then show ?case
    by (simp add: 2 unat_fold_step)
qed simp

declare checksum_fold.simps [simp del]

definition checksum :: "bytes \<Rightarrow> u32 \<Rightarrow> u32" where
  "checksum buffer startsum = checksum_fold (checksum_words buffer startsum)"

definition finish_sum :: "u32 \<Rightarrow> u32" where
  "finish_sum s = NOT s AND 0xffff"

section \<open>Sending\<close>

definition send_packet_msghdr ::
  "int \<Rightarrow> bytes \<Rightarrow> nat \<Rightarrow> u32 \<Rightarrow> u32 \<Rightarrow> u32 \<Rightarrow> u32 \<Rightarrow> msghdr" where
  "send_packet_msghdr if_index msg sz saddr daddr sport dport =
     (let ip = \<lparr> ip_version = of_nat IPVERSION, ip_ihl = of_nat (SIZEOF_IPHDR div 4), ip_tos = 0,
            ip_tot_len = htons (of_nat (SIZEOF_IPHDR + SIZEOF_UDPHDR + sz)),
            ip_id = 0, ip_frag_off = 0, ip_ttl = IPDEFTTL, ip_protocol = IPPROTO_UDP,
            ip_check = 0, ip_saddr = saddr, ip_daddr = daddr \<rparr>;
          ip = ip\<lparr>ip_check := ucast (finish_sum (checksum (iphdr_bytes ip) 0))\<rparr>;
          udp = \<lparr> udp_source = htons (ucast sport), udp_dest = htons (ucast dport),
            udp_len = htons (of_nat (SIZEOF_UDPHDR + sz)), udp_check = 0 \<rparr>;
          udpsum = checksum (bytes32 (ip_saddr ip)) 0;
          udpsum = checksum (bytes32 (ip_daddr ip)) udpsum;
          udpsum = checksum (bytes16 (htons (ucast IPPROTO_UDP))) udpsum;
          udpsum = checksum (bytes16 (udp_len udp)) udpsum;
          udpsum = checksum (udphdr_bytes udp) udpsum;
          udpsum = checksum (take sz msg) udpsum;
          udp = udp\<lparr>udp_check := ucast (finish_sum udpsum)\<rparr>;
          destaddr = zero_sockaddr_ll\<lparr>sll_family := AF_PACKET, sll_protocol := htons ETH_P_IP,
            sll_ifindex := if_index, sll_halen := ETH_ALEN,
            sll_addr := poke 0 (replicate 6 0xff) (sll_addr zero_sockaddr_ll)\<rparr>
      in \<lparr> msg_name = destaddr, msg_iov = [iphdr_bytes ip, udphdr_bytes udp, take sz msg],
           msg_flags = 0 \<rparr>)"

definition send_packet ::
  "(int \<Rightarrow> msghdr \<Rightarrow> 'r) \<Rightarrow> int \<Rightarrow> int \<Rightarrow> bytes \<Rightarrow> nat \<Rightarrow> u32 \<Rightarrow> u32 \<Rightarrow> u32 \<Rightarrow> u32 \<Rightarrow> 'r" where
  "send_packet sendmsg s if_index msg sz saddr daddr sport dport =
     sendmsg s (send_packet_msghdr if_index msg sz saddr daddr sport dport)"

section \<open>Receiving\<close>

text \<open>What \<open>read\<close> delivered: an error number, or the bytes of one packet (never more than the size
  of the buffer it was given).\<close>

datatype read_result = ReadErr int | ReadOk bytes

text \<open>\<open>RxFail e\<close>: the function returned -1 with \<open>errno\<close> \<open>e\<close> (0 when a check failed); \<open>RxOk n m\<close>: it
  returned \<open>n\<close> and the caller's message is \<open>m\<close>; \<open>RxFault\<close>: the final \<open>memcpy\<close> was asked for a size
  that does not fit \<open>struct dhcp_msg\<close> (negative sizes become huge ones).\<close>

datatype rx_result = RxFail int | RxOk int bytes | RxFault

text \<open>\<open>stk\<close> is what the uninitialised local \<open>packet\<close> held; \<open>msg\<close> is the caller's message.\<close>

definition receive_packet :: "bytes \<Rightarrow> read_result \<Rightarrow> bytes \<Rightarrow> rx_result" where
  "receive_packet stk rr msg =
     (case rr of
        ReadErr e \<Rightarrow> RxFail e
      | ReadOk data \<Rightarrow>
         (let nread = int (length data);
              packet = data @ drop (length data) stk;
              ip = iphdr_at (take SIZEOF_IPHDR packet);
              udp = udphdr_at (take SIZEOF_UDPHDR (drop SIZEOF_IPHDR packet));
              dhcp = drop (SIZEOF_IPHDR + SIZEOF_UDPHDR) packet;
              is_valid =
                (if nread < int (SIZEOF_IPHDR + SIZEOF_UDPHDR) then False
                 else if ip_version ip \<noteq> of_nat IPVERSION \<or> ip_ihl ip \<noteq> of_nat (SIZEOF_IPHDR div 4)
                 then False
                 else if nread < int (unat (ntohs (ip_tot_len ip))) then False
                 else if ip_protocol ip \<noteq> IPPROTO_UDP then False
                 else if udp_dest udp \<noteq> htons (ucast PORT_BOOTP_CLIENT) then False
                 else True)
          in if \<not> is_valid then RxFail 0
             else if finish_sum (checksum (take SIZEOF_IPHDR packet) 0) \<noteq> 0 then RxFail 0
             else
               (let dhcp_size = int (unat (ntohs (udp_len udp))) - int SIZEOF_UDPHDR;
                    nread = unat (ntohs (ip_tot_len ip));
                    ip' = zero_iphdr\<lparr>ip_saddr := ip_saddr ip, ip_daddr := ip_daddr ip,
                      ip_protocol := IPPROTO_UDP, ip_tot_len := udp_len udp\<rparr>;
                    temp = udp_check udp;
                    udp' = udp\<lparr>udp_check := 0\<rparr>;
                    s = finish_sum (checksum
                          (take nread (iphdr_bytes ip' @ udphdr_bytes udp' @ dhcp)) 0);
                    s = (if s = 0 then finish_sum s else s)
                in if ucast temp \<noteq> s then RxFail 0
                   else if dhcp_size < 0 \<or> dhcp_size > int SIZEOF_DHCP_MSG then RxFault
                   else RxOk dhcp_size (poke 0 (take (nat dhcp_size) dhcp) msg))))"

section \<open>The one's complement sum\<close>

text \<open>Reference definitions: the sum of the 16-bit words as a natural number, and the representative
  of a sum that the folding computes, with end-around carry: 0 only for 0, else in 1..65535.\<close>

fun words16 :: "bytes \<Rightarrow> nat" where
  "words16 (a # b # bs) = unat (le16 a b) + words16 bs"
| "words16 [a] = unat a"
| "words16 [] = 0"

definition ocsum :: "nat \<Rightarrow> nat" where
  "ocsum n = (if n = 0 then 0 else (n - 1) mod 65535 + 1)"

lemma ocsum_0 [simp]: "ocsum 0 = 0"
  by (simp add: ocsum_def)

lemma ocsum_eq_0 [simp]: "ocsum n = 0 \<longleftrightarrow> n = 0"
  by (simp add: ocsum_def)

lemma ocsum_le [simp]: "ocsum n \<le> 65535"
proof -
  have "(n - 1) mod 65535 < 65535" by simp
  then have "(n - 1) mod 65535 + 1 \<le> 65535" by linarith
  then show ?thesis by (metis le0 ocsum_def)
qed

lemma ocsum_small [simp]: "n \<le> 65535 \<Longrightarrow> ocsum n = n"
  by (simp add: ocsum_def)

lemma ocsum_mod: "ocsum n mod 65535 = n mod 65535"
  by (cases n) (auto simp: ocsum_def mod_Suc_eq)

text \<open>\<open>ocsum\<close> is determined by the residue modulo 65535 and by being 0 or not.\<close>

lemma ocsum_cong:
  assumes "m mod 65535 = n mod 65535" and "m = 0 \<longleftrightarrow> n = 0"
  shows "ocsum m = ocsum n"
proof (cases "m = 0")
  case False
  then obtain m' n' where "m = Suc m'" "n = Suc n'"
    using assms(2) by (metis not0_implies_Suc)
  moreover have shift: "k mod 65535 = (Suc k mod 65535 + 65534) mod 65535" for k :: nat
    by (simp add: mod_add_left_eq)
  then have "m' mod 65535 = n' mod 65535"
    using assms(1) \<open>m = Suc m'\<close> \<open>n = Suc n'\<close> by (metis shift)
  ultimately show ?thesis by (simp add: ocsum_def)
qed (use assms in simp)

lemma ocsum_fold_step: "ocsum (n mod 65536 + n div 65536) = ocsum n"
proof (rule ocsum_cong)
  have "n = 65535 * (n div 65536) + (n mod 65536 + n div 65536)"
    using div_mult_mod_eq [of n 65536] by linarith
  then have "n mod 65535 = (65535 * (n div 65536) + (n mod 65536 + n div 65536)) mod 65535"
    by simp
  then show "(n mod 65536 + n div 65536) mod 65535 = n mod 65535"
    by (simp only: mod_mult_self4)
  show "n mod 65536 + n div 65536 = 0 \<longleftrightarrow> n = 0"
    using div_mult_mod_eq [of n 65536] by auto
qed

lemma ocsum_add_left [simp]: "ocsum (ocsum m + n) = ocsum (m + n)"
  by (rule ocsum_cong) (metis mod_add_left_eq ocsum_mod, simp)

lemma unat_checksum_fold: "unat (checksum_fold s) = ocsum (unat s)"
proof (induction s rule: checksum_fold.induct)
  case (1 s)
  show ?case
  proof (cases "drop_bit 16 s = 0")
    case True
    then have "unat s div 65536 = 0"
      by (simp add: word_unat_eq_iff unat_drop)
    then have "unat s \<le> 65535" by (simp add: div_eq_0_iff)
    then show ?thesis
      using True by (simp add: checksum_fold.simps [of s])
  next
    case False
    then have "unat (checksum_fold s) = ocsum (unat s mod 65536 + unat s div 65536)"
      using 1 [OF refl] by (simp add: checksum_fold.simps [of s] unat_fold_step)
    then show ?thesis by (simp add: ocsum_fold_step)
  qed
qed

lemma unat_checksum_words:
  "unat s + words16 bs < 4294967296 \<Longrightarrow> unat (checksum_words bs s) = unat s + words16 bs"
proof (induction bs s rule: checksum_words.induct)
  case (1 a b bs s)
  have "unat (s + ucast (le16 a b)) = unat s + unat (le16 a b)"
    using "1.prems" by (simp add: unat_word_ariths unsigned_ucast_eq take_bit_eq_mod)
  then show ?case using 1 by (simp add: add.assoc)
next
  case (2 a s)
  then show ?case by (simp add: unat_word_ariths unsigned_ucast_eq take_bit_eq_mod)
qed simp

lemma unat_checksum:
  "unat s + words16 bs < 4294967296 \<Longrightarrow> unat (checksum bs s) = ocsum (unat s + words16 bs)"
  by (simp add: checksum_def unat_checksum_fold unat_checksum_words)

lemma words16_le: "words16 bs \<le> 65535 * length bs"
proof (induction bs rule: words16.induct)
  case (1 a b bs)
  then show ?case using unat_u16_less [of "le16 a b"] by (simp del: unat_u16_less)
next
  case (2 a)
  then show ?case using unat_u8_less [of a] by (simp del: unat_u8_less)
qed simp

lemma words16_append: "even (length xs) \<Longrightarrow> words16 (xs @ ys) = words16 xs + words16 ys"
  by (induction xs rule: words16.induct) auto

lemma words16_bytes16 [simp]: "words16 (bytes16 w) = unat w"
  by (simp add: bytes16_def)

lemma unat_checksum_short:
  assumes "length bs \<le> 65535" and "unat s \<le> 65535"
  shows "unat (checksum bs s) = ocsum (unat s + words16 bs)"
proof -
  have "65535 * length bs \<le> 65535 * 65535" using assms(1) by simp
  then show ?thesis
    using assms(2) words16_le [of bs] by (intro unat_checksum) linarith
qed

lemma unat_finish_sum: "unat s \<le> 65535 \<Longrightarrow> unat (finish_sum s) = 65535 - unat s"
proof -
  assume s: "unat s \<le> 65535"
  have "unat (NOT s) = 4294967295 - unat s"
  proof -
    have "NOT s = - 1 - s" by (simp add: not_eq_complement)
    moreover have "unat (- 1 - s) = unat (- 1 :: u32) - unat s" by (rule unat_sub) simp
    moreover have "unat (- 1 :: u32) = 4294967295" by (simp add: unsigned_minus_1_eq_mask mask_numeral)
    ultimately show ?thesis by simp
  qed
  moreover have "(4294967295 - unat s) mod 65536 = 65535 - unat s"
  proof -
    have "4294967295 - unat s = (65535 - unat s) + 65535 * 65536" using s by simp
    then show ?thesis by (simp only: mod_mult_self1) simp
  qed
  moreover have "finish_sum s = take_bit 16 (NOT s)"
    by (simp add: finish_sum_def take_bit_eq_mask mask_numeral)
  ultimately show ?thesis
    by (simp add: unsigned_take_bit_eq) (simp add: take_bit_eq_mod)
qed

lemma ocsum_complement: "ocsum (n + 65535 - ocsum n) = 65535"
proof -
  have "(n + (65535 - ocsum n)) mod 65535 = (ocsum n + (65535 - ocsum n)) mod 65535"
    by (metis mod_add_left_eq ocsum_mod)
  then have res: "(n + (65535 - ocsum n)) mod 65535 = 65535 mod 65535"
    by simp
  have "ocsum (n + (65535 - ocsum n)) = ocsum 65535"
    by (rule ocsum_cong [OF res]) (metis add_is_0 diff_zero ocsum_0 zero_neq_numeral)
  then show ?thesis by simp
qed

section \<open>Layout of the headers\<close>

lemma length_iphdr_bytes [simp, byte_codec]: "length (iphdr_bytes h) = 20"
  by (simp add: iphdr_bytes_def)

lemma length_udphdr_bytes [simp, byte_codec]: "length (udphdr_bytes h) = 8"
  by (simp add: udphdr_bytes_def)

lemma unat_nibbles: "unat (ucast i + 16 * ucast v :: u8) = unat i + 16 * unat (v :: 4 word)"
  for i :: "4 word"
proof -
  have "unat i < 16" "unat v < 16"
    using unsigned_less [of i] unsigned_less [of v] by simp_all
  then show ?thesis
    by (simp add: unat_word_ariths unsigned_ucast_eq take_bit_eq_mod)
qed

lemma nibbles [simp]:
  "ucast (ucast i + 16 * ucast v :: u8) = i" "ucast (drop_bit 4 (ucast i + 16 * ucast v :: u8)) = v"
  for i v :: "4 word"
proof -
  have "unat i < 16" "unat v < 16"
    using unsigned_less [of i] unsigned_less [of v] by simp_all
  then show "ucast (ucast i + 16 * ucast v :: u8) = i"
    "ucast (drop_bit 4 (ucast i + 16 * ucast v :: u8)) = v"
    by (simp_all add: word_unat_eq_iff unsigned_ucast_eq unat_nibbles unat_drop)
      (simp_all add: take_bit_eq_mod)
qed

lemma iphdr_at_bytes [simp, byte_codec]: "iphdr_at (iphdr_bytes h) = h"
  by (simp add: iphdr_at_def iphdr_bytes_def bytes16_def bytes32_def get16_def get32_def)

lemma udphdr_at_bytes [simp, byte_codec]: "udphdr_at (udphdr_bytes h) = h"
  by (simp add: udphdr_at_def udphdr_bytes_def bytes16_def get16_def)

lemma words16_iphdr:
  "words16 (iphdr_bytes h) =
     unat (le16 (ucast (ip_ihl h) + 16 * ucast (ip_version h)) (ip_tos h)) + unat (ip_tot_len h)
     + unat (ip_id h) + unat (ip_frag_off h) + unat (le16 (ip_ttl h) (ip_protocol h))
     + unat (ip_check h) + words16 (bytes32 (ip_saddr h)) + words16 (bytes32 (ip_daddr h))"
  by (simp add: iphdr_bytes_def bytes16_def bytes32_def)

lemma words16_udphdr:
  "words16 (udphdr_bytes h) =
     unat (udp_source h) + unat (udp_dest h) + unat (udp_len h) + unat (udp_check h)"
  by (simp add: udphdr_bytes_def bytes16_def)

text \<open>Setting the check field of a header to the complement of its sum makes the whole header sum
  to the all-ones word, which is what the receiver tests.\<close>

lemma iphdr_check_valid:
  assumes "ip_check h = 0"
  shows "finish_sum (checksum
           (iphdr_bytes (h\<lparr>ip_check := ucast (finish_sum (checksum (iphdr_bytes h) 0))\<rparr>)) 0) = 0"
proof -
  define n where "n = words16 (iphdr_bytes h)"
  define c :: u16 where "c = ucast (finish_sum (checksum (iphdr_bytes h) 0))"
  have "unat (checksum (iphdr_bytes h) 0) = ocsum n"
    by (simp add: unat_checksum_short n_def)
  then have c: "unat c = 65535 - ocsum n"
    by (simp add: c_def unsigned_ucast_eq unat_finish_sum take_bit_eq_mod)
  have "words16 (iphdr_bytes (h\<lparr>ip_check := c\<rparr>)) = n + unat c"
    using assms by (simp add: n_def words16_iphdr)
  then have "unat (checksum (iphdr_bytes (h\<lparr>ip_check := c\<rparr>)) 0) = 65535"
    by (simp add: unat_checksum_short ocsum_complement c)
  then show ?thesis
    unfolding c_def [symmetric] by (simp add: word_unat_eq_iff unat_finish_sum)
qed

section \<open>What is sent\<close>

text \<open>The sum that the UDP checksum covers: pseudo-header, UDP header and payload.\<close>

definition udp_words :: "u32 \<Rightarrow> u32 \<Rightarrow> udphdr \<Rightarrow> bytes \<Rightarrow> nat" where
  "udp_words saddr daddr udp payload =
     words16 (bytes32 saddr) + words16 (bytes32 daddr) + unat (htons (ucast IPPROTO_UDP))
     + unat (udp_len udp) + words16 (udphdr_bytes udp) + words16 payload"

lemma checksum_chain:
  assumes "length bs \<le> 65535" "unat s = ocsum n"
  shows "unat (checksum bs s) = ocsum (n + words16 bs)"
  using assms by (simp add: unat_checksum_short)

lemma unat_of_nat_u16: "n < 65536 \<Longrightarrow> unat (of_nat n :: u16) = n"
  by (simp add: unat_of_nat take_bit_eq_mod)

lemma unat_ucast_u16_u32 [simp]: "unat (ucast (w :: u16) :: u32) = unat w"
  using unat_u16_less [of w]
  by (simp add: unsigned_ucast_eq take_bit_eq_mod del: unat_u16_less)

lemma unat_ucast_u32_u16: "unat s \<le> 65535 \<Longrightarrow> unat (ucast (s :: u32) :: u16) = unat s"
  by (simp add: unsigned_ucast_eq take_bit_eq_mod)

lemma send_packet_frame:
  assumes "length (take sz msg) \<le> 65535"
  obtains ip udp where
    "msg_iov (send_packet_msghdr i msg sz sa da sp dp) = [iphdr_bytes ip, udphdr_bytes udp, take sz msg]"
    "ip_version ip = of_nat IPVERSION" "ip_ihl ip = of_nat (SIZEOF_IPHDR div 4)"
    "ip_tot_len ip = htons (of_nat (28 + sz))" "ip_protocol ip = IPPROTO_UDP"
    "ip_saddr ip = sa" "ip_daddr ip = da"
    "finish_sum (checksum (iphdr_bytes ip) 0) = 0"
    "udp_source udp = htons (ucast sp)" "udp_dest udp = htons (ucast dp)"
    "udp_len udp = htons (of_nat (8 + sz))"
    "unat (udp_check udp) = 65535 - ocsum (udp_words sa da (udp\<lparr>udp_check := 0\<rparr>) (take sz msg))"
proof -
  define ip0 where "ip0 = \<lparr> ip_version = of_nat IPVERSION, ip_ihl = of_nat (SIZEOF_IPHDR div 4),
      ip_tos = 0, ip_tot_len = htons (of_nat (SIZEOF_IPHDR + SIZEOF_UDPHDR + sz)),
      ip_id = 0, ip_frag_off = 0, ip_ttl = IPDEFTTL, ip_protocol = IPPROTO_UDP,
      ip_check = 0, ip_saddr = sa, ip_daddr = da \<rparr>"
  define ip where "ip = ip0\<lparr>ip_check := ucast (finish_sum (checksum (iphdr_bytes ip0) 0))\<rparr>"
  define udp0 where "udp0 = \<lparr> udp_source = htons (ucast sp), udp_dest = htons (ucast dp),
      udp_len = htons (of_nat (SIZEOF_UDPHDR + sz)), udp_check = 0 \<rparr>"
  define s where "s = checksum (take sz msg) (checksum (udphdr_bytes udp0)
      (checksum (bytes16 (udp_len udp0)) (checksum (bytes16 (htons (ucast IPPROTO_UDP)))
        (checksum (bytes32 da) (checksum (bytes32 sa) 0)))))"
  define udp where "udp = udp0\<lparr>udp_check := ucast (finish_sum s)\<rparr>"
  have "unat s = ocsum (udp_words sa da udp0 (take sz msg))"
    unfolding s_def udp_words_def
    using assms by (intro checksum_chain) (simp_all add: unat_checksum_short)
  then have "unat (udp_check udp) = 65535 - ocsum (udp_words sa da udp0 (take sz msg))"
    by (simp add: udp_def unat_ucast_u32_u16 unat_finish_sum)
  moreover have "udp\<lparr>udp_check := 0\<rparr> = udp0"
    by (simp add: udp_def udp0_def)
  moreover have "finish_sum (checksum (iphdr_bytes ip) 0) = 0"
    unfolding ip_def by (rule iphdr_check_valid) (simp add: ip0_def)
  moreover have "msg_iov (send_packet_msghdr i msg sz sa da sp dp)
      = [iphdr_bytes ip, udphdr_bytes udp, take sz msg]"
    by (simp add: send_packet_msghdr_def Let_def udp_def udp0_def ip_def ip0_def s_def)
  ultimately show thesis
    by (intro that [of ip udp])
      (simp_all add: ip_def ip0_def udp_def udp0_def SIZEOF_IPHDR_def SIZEOF_UDPHDR_def add.assoc)
qed

section \<open>What is accepted\<close>

lemma receive_frame:
  assumes ip: "ip_version ip = of_nat IPVERSION" "ip_ihl ip = of_nat (SIZEOF_IPHDR div 4)"
      "ip_tot_len ip = htons (of_nat (28 + length pl))" "ip_protocol ip = IPPROTO_UDP"
      "finish_sum (checksum (iphdr_bytes ip) 0) = 0"
    and dest: "udp_dest udp = htons (ucast PORT_BOOTP_CLIENT)"
    and len: "length pl \<le> 1260"
  defines "w \<equiv> udp_words (ip_saddr ip) (ip_daddr ip) (udp\<lparr>udp_check := 0\<rparr>) pl"
    and "n \<equiv> int (unat (ntohs (udp_len udp))) - 8"
  shows "receive_packet stk (ReadOk (iphdr_bytes ip @ udphdr_bytes udp @ pl)) msg =
    (if unat (udp_check udp) \<noteq> (if ocsum w = 65535 then 65535 else 65535 - ocsum w) then RxFail 0
     else if n < 0 \<or> n > 1260 then RxFault
     else RxOk n (poke 0 (take (nat n) (pl @ drop (28 + length pl) stk)) msg))"
proof -
  define ip' where "ip' = zero_iphdr\<lparr>ip_saddr := ip_saddr ip, ip_daddr := ip_daddr ip,
      ip_protocol := IPPROTO_UDP, ip_tot_len := udp_len udp\<rparr>"
  define udp' where "udp' = udp\<lparr>udp_check := 0\<rparr>"
  have tot: "unat (ntohs (ip_tot_len ip)) = 28 + length pl"
    using len by (simp only: ip(3) htons_htons) (rule unat_of_nat_u16, simp)
  have tk: "take (28 + length pl)
      (iphdr_bytes ip' @ udphdr_bytes udp' @ pl @ drop (28 + length pl) stk)
      = iphdr_bytes ip' @ udphdr_bytes udp' @ pl"
    by simp
  have "words16 (iphdr_bytes ip' @ udphdr_bytes udp' @ pl) = w"
    by (simp add: words16_append words16_iphdr w_def udp_words_def ip'_def udp'_def zero_iphdr_def
        IPPROTO_UDP_def htons_def le16_def)
  then have "unat (checksum (iphdr_bytes ip' @ udphdr_bytes udp' @ pl) 0) = ocsum w"
    using len by (simp add: unat_checksum_short)
  then have sum: "unat (finish_sum (checksum (iphdr_bytes ip' @ udphdr_bytes udp' @ pl) 0))
      = 65535 - ocsum w"
    by (simp add: unat_finish_sum)
  define s where "s = finish_sum (checksum (iphdr_bytes ip' @ udphdr_bytes udp' @ pl) 0)"
  have fin: "unat (if s = 0 then finish_sum s else s)
      = (if ocsum w = 65535 then 65535 else 65535 - ocsum w)"
    using sum ocsum_le [of w]
    by (auto simp: s_def [symmetric] word_unat_eq_iff unat_finish_sum simp del: ocsum_le)
  have "receive_packet stk (ReadOk (iphdr_bytes ip @ udphdr_bytes udp @ pl)) msg =
    (if ucast (udp_check udp) \<noteq> (if s = 0 then finish_sum s else s) then RxFail 0
     else if n < 0 \<or> n > 1260 then RxFault
     else RxOk n (poke 0 (take (nat n) (pl @ drop (28 + length pl) stk)) msg))"
    using ip(1,2,4,5) dest
    by (simp add: receive_packet_def Let_def SIZEOF_IPHDR_def SIZEOF_UDPHDR_def SIZEOF_DHCP_MSG_def
        tot tk s_def n_def flip: ip'_def udp'_def)
  moreover have "ucast (udp_check udp) = (if s = 0 then finish_sum s else s) \<longleftrightarrow>
      unat (udp_check udp) = (if ocsum w = 65535 then 65535 else 65535 - ocsum w)"
    by (subst word_unat_eq_iff) (simp only: fin unat_ucast_u16_u32)
  ultimately show ?thesis by simp
qed

lemma receive_sent:
  assumes "sz \<le> SIZEOF_DHCP_MSG" and "sz \<le> length msg"
    and "udp_check (udphdr_at (msg_iov (send_packet_msghdr i msg sz sa da sp PORT_BOOTP_CLIENT) ! 1)) \<noteq> 0"
  shows "receive_packet stk
           (ReadOk (concat (msg_iov (send_packet_msghdr i msg sz sa da sp PORT_BOOTP_CLIENT)))) old
         = RxOk (int sz) (poke 0 (take sz msg) old)"
proof -
  have sz: "sz \<le> 1260" "length (take sz msg) = sz"
    using assms(1,2) by (simp_all add: SIZEOF_DHCP_MSG_def)
  then have "length (take sz msg) \<le> 65535" by simp
  then obtain ip udp where f:
    "msg_iov (send_packet_msghdr i msg sz sa da sp PORT_BOOTP_CLIENT)
       = [iphdr_bytes ip, udphdr_bytes udp, take sz msg]"
    "ip_version ip = of_nat IPVERSION" "ip_ihl ip = of_nat (SIZEOF_IPHDR div 4)"
    "ip_tot_len ip = htons (of_nat (28 + sz))" "ip_protocol ip = IPPROTO_UDP"
    "ip_saddr ip = sa" "ip_daddr ip = da" "finish_sum (checksum (iphdr_bytes ip) 0) = 0"
    "udp_source udp = htons (ucast sp)" "udp_dest udp = htons (ucast PORT_BOOTP_CLIENT)"
    "udp_len udp = htons (of_nat (8 + sz))"
    "unat (udp_check udp) = 65535 - ocsum (udp_words sa da (udp\<lparr>udp_check := 0\<rparr>) (take sz msg))"
    by (rule send_packet_frame)
  have "unat (udp_check udp) \<noteq> 0"
    using assms(3) f(1) by (simp add: unat_eq_0)
  then have "ocsum (udp_words sa da (udp\<lparr>udp_check := 0\<rparr>) (take sz msg)) \<noteq> 65535"
    using f(12) by simp
  moreover have "unat (ntohs (udp_len udp)) = 8 + sz"
    using sz(1) by (simp only: f(11) htons_htons) (rule unat_of_nat_u16, simp)
  moreover from this have "int (unat (ntohs (udp_len udp))) - 8 = int sz"
    by linarith
  ultimately show ?thesis
    using receive_frame [of ip "take sz msg" udp stk old] f(1-8,10,12) sz by simp
qed

section \<open>Properties\<close>

text \<open>C21: \<open>checksum\<close> computes the Internet checksum's one's complement sum: for every buffer of at most
  65535 bytes and every 16-bit partial sum, the two loops (32-bit additions, then folding of the
  carries) end with the end-around-carry sum of the partial sum and all 16-bit little-endian words of
  the buffer, an odd last byte counting as a low byte.\<close>

theorem checksum_is_ones_complement_sum:
  assumes "length buffer \<le> 65535" and "unat startsum \<le> 65535"
  shows "unat (checksum buffer startsum) = ocsum (unat startsum + words16 buffer)"
  by (rule unat_checksum_short [OF assms])

theorem checksum_is_ones_complement_sum_witness:
  "unat (checksum [0xff, 0xff, 0x02] 0xfffe) = 1"
  using checksum_is_ones_complement_sum [of "[0xff, 0xff, 0x02]" "0xfffe"]
  by (simp add: le16_def ocsum_def)

text \<open>C18: A frame that \<open>send_packet\<close> hands to \<open>sendmsg\<close> for the DHCP client port is accepted by
  \<open>receive_packet\<close> and delivers exactly the message bytes sent: header layout, both checksums, the
  length fields and the byte orders of the two functions agree. The one exception is a frame whose UDP
  checksum field comes out as 0.\<close>

theorem receive_send_roundtrip:
  assumes "sz \<le> SIZEOF_DHCP_MSG" and "sz \<le> length msg"
    and "udp_check (udphdr_at (msg_iov (send_packet_msghdr i msg sz sa da sp PORT_BOOTP_CLIENT) ! 1)) \<noteq> 0"
  shows "receive_packet stk
           (ReadOk (concat (msg_iov (send_packet_msghdr i msg sz sa da sp PORT_BOOTP_CLIENT)))) old
         = RxOk (int sz) (poke 0 (take sz msg) old)"
  by (rule receive_sent [OF assms])

theorem receive_send_roundtrip_witness:
  "receive_packet [] (ReadOk (concat (msg_iov (send_packet_msghdr 0 [1, 2, 3] 3 0 0xffffffff 67
     PORT_BOOTP_CLIENT)))) [9, 9, 9, 9] = RxOk 3 [1, 2, 3, 9]"
proof -
  have "udp_check (udphdr_at (msg_iov (send_packet_msghdr 0 [1, 2, 3] 3 0 0xffffffff 67
      PORT_BOOTP_CLIENT) ! 1)) \<noteq> 0"
    by code_simp
  then show ?thesis
    using receive_send_roundtrip [of 3 "[1, 2, 3]" 0 0 "0xffffffff" 67 "[]" "[9, 9, 9, 9]"]
    by (simp add: SIZEOF_DHCP_MSG_def poke_def)
qed

text \<open>C23: \<open>receive_packet\<close> trusts the length field of the UDP header: there is a 28-byte packet with
  correct checksums, which passes every check of the function, for which the final \<open>memcpy\<close> copies more
  than \<open>struct dhcp_msg\<close> holds.\<close>

theorem receive_packet_overflow:
  "\<exists>data. length data = SIZEOF_IPHDR + SIZEOF_UDPHDR \<and> receive_packet stk (ReadOk data) msg = RxFault"
proof -
  define ip0 where "ip0 = zero_iphdr\<lparr>ip_version := of_nat IPVERSION, ip_ihl := of_nat (SIZEOF_IPHDR div 4),
      ip_tot_len := htons (of_nat (28 + length ([] :: bytes))), ip_protocol := IPPROTO_UDP\<rparr>"
  define ip where "ip = ip0\<lparr>ip_check := ucast (finish_sum (checksum (iphdr_bytes ip0) 0))\<rparr>"
  define udp0 where "udp0 = \<lparr>udp_source = 0, udp_dest = htons (ucast PORT_BOOTP_CLIENT),
      udp_len = htons 2000, udp_check = 0\<rparr>"
  define w where "w = udp_words 0 0 udp0 []"
  define c where "c = (if ocsum w = 65535 then 65535 else 65535 - ocsum w)"
  define udp where "udp = udp0\<lparr>udp_check := of_nat c\<rparr>"
  have hdr: "finish_sum (checksum (iphdr_bytes ip) 0) = 0"
    unfolding ip_def by (rule iphdr_check_valid) (simp add: ip0_def zero_iphdr_def)
  have ipf: "ip_version ip = of_nat IPVERSION" "ip_ihl ip = of_nat (SIZEOF_IPHDR div 4)"
      "ip_tot_len ip = htons (of_nat (28 + length ([] :: bytes)))" "ip_protocol ip = IPPROTO_UDP"
      "ip_saddr ip = 0" "ip_daddr ip = 0"
    by (simp_all add: ip_def ip0_def zero_iphdr_def)
  have udpf: "udp_dest udp = htons (ucast PORT_BOOTP_CLIENT)" "udp\<lparr>udp_check := 0\<rparr> = udp0"
      "int (unat (ntohs (udp_len udp))) - 8 = 1992"
    by (simp_all add: udp_def udp0_def)
  have "c < 65536" unfolding c_def by arith
  then have "unat (udp_check udp) = c"
    by (simp add: udp_def unat_of_nat_u16)
  then have "receive_packet stk (ReadOk (iphdr_bytes ip @ udphdr_bytes udp @ [])) msg = RxFault"
    using receive_frame [where pl = "[]", OF ipf(1-4) hdr udpf(1), of stk msg]
    by (simp only: ipf udpf c_def w_def) simp
  then show ?thesis
    by (intro exI [of _ "iphdr_bytes ip @ udphdr_bytes udp @ []"])
      (simp add: SIZEOF_IPHDR_def SIZEOF_UDPHDR_def)
qed



end
