(* ===== verification/Dhcp_Msg.thy ===== *)
theory Dhcp_Msg
  imports Packet
begin

text \<open>
  DHCP messages, \<open>src/system/core/libnetutils/dhcpmsg.h\<close> and \<open>dhcpmsg.c\<close>: \<open>struct dhcp_msg\<close> with its byte
  layout, and the three functions that fill in a discover or request message. The pointer \<open>x\<close> into
  \<open>msg->options\<close> is an index; \<open>*x++ = v\<close> and \<open>memcpy(x, &a, 4); x += 4\<close> are \<open>put_opt\<close>.
\<close>

definition OP_BOOTREQUEST :: u8 where "OP_BOOTREQUEST = 1"
definition OP_BOOTREPLY :: u8 where "OP_BOOTREPLY = 2"
definition FLAGS_BROADCAST :: u16 where "FLAGS_BROADCAST = 0x8000"
definition HTYPE_ETHER :: u8 where "HTYPE_ETHER = 1"
definition DHCP_MSG_FIXED_SIZE :: nat where "DHCP_MSG_FIXED_SIZE = 236"

definition OPT_COOKIE1 :: u8 where "OPT_COOKIE1 = 0x63"
definition OPT_COOKIE2 :: u8 where "OPT_COOKIE2 = 0x82"
definition OPT_COOKIE3 :: u8 where "OPT_COOKIE3 = 0x53"
definition OPT_COOKIE4 :: u8 where "OPT_COOKIE4 = 0x63"

definition OPT_PAD :: u8 where "OPT_PAD = 0"
definition OPT_SUBNET_MASK :: u8 where "OPT_SUBNET_MASK = 1"
definition OPT_GATEWAY :: u8 where "OPT_GATEWAY = 3"
definition OPT_DNS :: u8 where "OPT_DNS = 6"
definition OPT_DOMAIN_NAME :: u8 where "OPT_DOMAIN_NAME = 15"
definition OPT_BROADCAST_ADDR :: u8 where "OPT_BROADCAST_ADDR = 28"
definition OPT_REQUESTED_IP :: u8 where "OPT_REQUESTED_IP = 50"
definition OPT_LEASE_TIME :: u8 where "OPT_LEASE_TIME = 51"
definition OPT_MESSAGE_TYPE :: u8 where "OPT_MESSAGE_TYPE = 53"
definition OPT_SERVER_ID :: u8 where "OPT_SERVER_ID = 54"
definition OPT_PARAMETER_LIST :: u8 where "OPT_PARAMETER_LIST = 55"
definition OPT_MESSAGE :: u8 where "OPT_MESSAGE = 56"
definition OPT_END :: u8 where "OPT_END = 255"

definition DHCPDISCOVER :: u8 where "DHCPDISCOVER = 1"
definition DHCPOFFER :: u8 where "DHCPOFFER = 2"
definition DHCPREQUEST :: u8 where "DHCPREQUEST = 3"
definition DHCPDECLINE :: u8 where "DHCPDECLINE = 4"
definition DHCPACK :: u8 where "DHCPACK = 5"
definition DHCPNAK :: u8 where "DHCPNAK = 6"
definition DHCPRELEASE :: u8 where "DHCPRELEASE = 7"
definition DHCPINFORM :: u8 where "DHCPINFORM = 8"

lemmas dhcp_consts = OP_BOOTREQUEST_def OP_BOOTREPLY_def FLAGS_BROADCAST_def HTYPE_ETHER_def
  DHCP_MSG_FIXED_SIZE_def OPT_COOKIE1_def OPT_COOKIE2_def OPT_COOKIE3_def OPT_COOKIE4_def OPT_PAD_def
  OPT_SUBNET_MASK_def OPT_GATEWAY_def OPT_DNS_def OPT_DOMAIN_NAME_def OPT_BROADCAST_ADDR_def
  OPT_REQUESTED_IP_def OPT_LEASE_TIME_def OPT_MESSAGE_TYPE_def OPT_SERVER_ID_def
  OPT_PARAMETER_LIST_def OPT_MESSAGE_def OPT_END_def DHCPDISCOVER_def DHCPOFFER_def DHCPREQUEST_def
  DHCPDECLINE_def DHCPACK_def DHCPNAK_def DHCPRELEASE_def DHCPINFORM_def

section \<open>The message\<close>

record dhcp_msg =
  op :: u8
  htype :: u8
  hlen :: u8
  hops :: u8
  xid :: u32
  secs :: u16
  m_flags :: u16
  ciaddr :: u32
  yiaddr :: u32
  siaddr :: u32
  giaddr :: u32
  chaddr :: bytes
  sname :: bytes
  m_file :: bytes
  options :: bytes

text \<open>The array members have their declared sizes.\<close>

definition dhcp_msg_ok :: "dhcp_msg \<Rightarrow> bool" where
  "dhcp_msg_ok m \<longleftrightarrow> length (chaddr m) = 16 \<and> length (sname m) = 64 \<and> length (m_file m) = 128
     \<and> length (options m) = 1024"

definition dhcp_msg_bytes :: "dhcp_msg \<Rightarrow> bytes" where
  "dhcp_msg_bytes m =
     [op m, htype m, hlen m, hops m] @ bytes32 (xid m) @ bytes16 (secs m) @ bytes16 (m_flags m)
     @ bytes32 (ciaddr m) @ bytes32 (yiaddr m) @ bytes32 (siaddr m) @ bytes32 (giaddr m)
     @ chaddr m @ sname m @ m_file m @ options m"

definition dhcp_msg_at :: "bytes \<Rightarrow> dhcp_msg" where
  "dhcp_msg_at bs =
     \<lparr> op = bs ! 0, htype = bs ! 1, hlen = bs ! 2, hops = bs ! 3, xid = get32 (drop 4 bs),
       secs = get16 (drop 8 bs), m_flags = get16 (drop 10 bs), ciaddr = get32 (drop 12 bs),
       yiaddr = get32 (drop 16 bs), siaddr = get32 (drop 20 bs), giaddr = get32 (drop 24 bs),
       chaddr = take 16 (drop 28 bs), sname = take 64 (drop 44 bs), m_file = take 128 (drop 108 bs),
       options = take 1024 (drop 236 bs) \<rparr>"

text \<open>\<open>memset(msg, 0, sizeof(dhcp_msg))\<close>\<close>

definition zero_dhcp_msg :: dhcp_msg where
  "zero_dhcp_msg = \<lparr> op = 0, htype = 0, hlen = 0, hops = 0, xid = 0, secs = 0, m_flags = 0, ciaddr = 0,
     yiaddr = 0, siaddr = 0, giaddr = 0, chaddr = replicate 16 0, sname = replicate 64 0,
     m_file = replicate 128 0, options = replicate 1024 0 \<rparr>"

section \<open>Building messages\<close>

definition put_opt :: "bytes \<Rightarrow> dhcp_msg \<times> nat \<Rightarrow> dhcp_msg \<times> nat" where
  "put_opt bs mx = (case mx of (m, x) \<Rightarrow> (m\<lparr>options := poke x bs (options m)\<rparr>, x + length bs))"

definition init_dhcp_msg :: "u8 \<Rightarrow> bytes \<Rightarrow> u32 \<Rightarrow> dhcp_msg \<times> nat" where
  "init_dhcp_msg type hwaddr x_id =
     (let msg = zero_dhcp_msg\<lparr>op := OP_BOOTREQUEST, htype := HTYPE_ETHER, hlen := 6, hops := 0,
                  m_flags := htons FLAGS_BROADCAST, xid := x_id,
                  chaddr := poke 0 (take 6 hwaddr) (chaddr zero_dhcp_msg)\<rparr>;
          mx = put_opt [OPT_COOKIE1, OPT_COOKIE2, OPT_COOKIE3, OPT_COOKIE4] (msg, 0)
      in put_opt [OPT_MESSAGE_TYPE, 1, type] mx)"

definition init_dhcp_discover_msg :: "bytes \<Rightarrow> u32 \<Rightarrow> dhcp_msg \<times> nat" where
  "init_dhcp_discover_msg hwaddr x_id =
     (let mx = init_dhcp_msg DHCPDISCOVER hwaddr x_id;
          mx = put_opt [OPT_PARAMETER_LIST, 4, OPT_SUBNET_MASK, OPT_GATEWAY, OPT_DNS,
                 OPT_BROADCAST_ADDR] mx;
          (msg, x) = put_opt [OPT_END] mx
      in (msg, DHCP_MSG_FIXED_SIZE + x))"

definition init_dhcp_request_msg :: "bytes \<Rightarrow> u32 \<Rightarrow> u32 \<Rightarrow> u32 \<Rightarrow> dhcp_msg \<times> nat" where
  "init_dhcp_request_msg hwaddr x_id ipaddr serveraddr =
     (let mx = init_dhcp_msg DHCPREQUEST hwaddr x_id;
          mx = put_opt [OPT_PARAMETER_LIST, 4, OPT_SUBNET_MASK, OPT_GATEWAY, OPT_DNS,
                 OPT_BROADCAST_ADDR] mx;
          mx = put_opt ([OPT_REQUESTED_IP, 4] @ bytes32 ipaddr) mx;
          mx = put_opt ([OPT_SERVER_ID, 4] @ bytes32 serveraddr) mx;
          (msg, x) = put_opt [OPT_END] mx
      in (msg, DHCP_MSG_FIXED_SIZE + x))"

section \<open>Layout and contents\<close>

lemma length_dhcp_msg_bytes [simp, byte_codec]:
  "dhcp_msg_ok m \<Longrightarrow> length (dhcp_msg_bytes m) = SIZEOF_DHCP_MSG"
  by (simp add: dhcp_msg_ok_def dhcp_msg_bytes_def SIZEOF_DHCP_MSG_def)

lemma dhcp_msg_ok_at [simp]: "length bs = SIZEOF_DHCP_MSG \<Longrightarrow> dhcp_msg_ok (dhcp_msg_at bs)"
  by (simp add: dhcp_msg_ok_def dhcp_msg_at_def SIZEOF_DHCP_MSG_def)

lemma dhcp_msg_ok_zero [simp]: "dhcp_msg_ok zero_dhcp_msg"
  by (simp add: dhcp_msg_ok_def zero_dhcp_msg_def)

lemma dhcp_msg_at_bytes [simp, byte_codec]: "dhcp_msg_ok m \<Longrightarrow> dhcp_msg_at (dhcp_msg_bytes m) = m"
  by (simp add: dhcp_msg_ok_def dhcp_msg_at_def dhcp_msg_bytes_def bytes16_def bytes32_def get16_def
      get32_def)

lemma put_opt_ok [simp]:
  "dhcp_msg_ok m \<Longrightarrow> x \<le> 1024 \<Longrightarrow> dhcp_msg_ok (fst (put_opt bs (m, x)))"
  by (simp add: put_opt_def dhcp_msg_ok_def)

text \<open>Consecutive writes through the advancing pointer lay the pieces out one after the other.\<close>

lemma poke_poke_append:
  "p + length a + length b \<le> length dst \<Longrightarrow> poke (p + length a) b (poke p a dst) = poke p (a @ b) dst"
  by (rule nth_equalityI) (auto simp: nth_poke nth_append)

lemma put_opt_put_opt:
  "x + length a + length b \<le> length (options m) \<Longrightarrow> put_opt b (put_opt a (m, x)) = put_opt (a @ b) (m, x)"
  by (simp add: put_opt_def poke_poke_append)

definition request_base :: "bytes \<Rightarrow> u32 \<Rightarrow> dhcp_msg" where
  "request_base hwaddr x_id =
     zero_dhcp_msg\<lparr>op := OP_BOOTREQUEST, htype := HTYPE_ETHER, hlen := 6, hops := 0,
       m_flags := htons FLAGS_BROADCAST, xid := x_id,
       chaddr := poke 0 (take 6 hwaddr) (chaddr zero_dhcp_msg)\<rparr>"

lemma length_options_request_base [simp]: "length (options (request_base h x)) = 1024"
  by (simp add: request_base_def zero_dhcp_msg_def)

lemma request_base_ok [simp]: "dhcp_msg_ok (request_base h x)"
  by (simp add: request_base_def dhcp_msg_ok_def zero_dhcp_msg_def)

text \<open>The option bytes of the two messages.\<close>

definition discover_options :: bytes where
  "discover_options = [0x63, 0x82, 0x53, 0x63, 53, 1, 1, 55, 4, 1, 3, 6, 28, 255]"

definition request_options :: "u32 \<Rightarrow> u32 \<Rightarrow> bytes" where
  "request_options ip server =
     [0x63, 0x82, 0x53, 0x63, 53, 1, 3, 55, 4, 1, 3, 6, 28] @ [50, 4] @ bytes32 ip
     @ [54, 4] @ bytes32 server @ [255]"

lemma discover_msg_eq:
  "init_dhcp_discover_msg h x =
     ((request_base h x)\<lparr>options := poke 0 discover_options (options (request_base h x))\<rparr>, 250)"
  unfolding init_dhcp_discover_msg_def init_dhcp_msg_def Let_def request_base_def [symmetric]
  by (simp add: put_opt_put_opt) (simp add: put_opt_def discover_options_def dhcp_consts)

lemma request_msg_eq:
  "init_dhcp_request_msg h x ip server =
     ((request_base h x)\<lparr>options := poke 0 (request_options ip server) (options (request_base h x))\<rparr>, 262)"
  unfolding init_dhcp_request_msg_def init_dhcp_msg_def Let_def request_base_def [symmetric]
  by (simp add: put_opt_put_opt) (simp add: put_opt_def request_options_def dhcp_consts)

lemma init_msgs_ok [simp]:
  "dhcp_msg_ok (fst (init_dhcp_discover_msg h x))" "dhcp_msg_ok (fst (init_dhcp_request_msg h x ip sv))"
  using request_base_ok [of h x] by (simp_all add: discover_msg_eq request_msg_eq dhcp_msg_ok_def)

end
