(* ===== verification/Os_Model.thy ===== *)
theory Os_Model
  imports Packet
begin

text \<open>
  The world of \<open>libnetutils\<close>: the static variables of the library, \<open>errno\<close>, and the state of the system
  outside it. The kernel and the C library calls that reach it (sockets, \<open>ioctl\<close>, netlink, \<open>poll\<close>, the
  property service, \<open>/proc\<close>, the text conversions of the C library) are not part of the sources: they are the fields of the record \<open>kernel\<close>,
  arguments of every definition that calls them, like the two limits of the property service
  (\<open>PROPERTY_KEY_MAX\<close>, \<open>PROPERTY_VALUE_MAX\<close>), whose header is not in the sources either. A call takes the outside world and gives its result,
  the error number it left (\<open>None\<close>: \<open>errno\<close> untouched) and the new outside world. \<open>k_uninit\<close> is what an
  uninitialised local object of the given size happens to hold.

  Operations are values of the library's state monad over that state.
\<close>

section \<open>State\<close>

record 'w nstate =
  world :: 'w
  errno :: int
  errmsg :: string
  ifc_ctl_sock :: int
  ifc_ctl_sock6 :: int

type_synonym ('w, 'z, 'a) op = "(('w, 'z) nstate_scheme, 'a) state"
type_synonym ('w, 'r) call = "'w \<Rightarrow> 'r \<times> int option \<times> 'w"

abbreviation "ret \<equiv> State_Monad.return"

definition gets :: "('s \<Rightarrow> 'a) \<Rightarrow> ('s, 'a) state" where
  "gets f = State (\<lambda>s. (f s, s))"

definition modify :: "('s \<Rightarrow> 's) \<Rightarrow> ('s, unit) state" where
  "modify f = State (\<lambda>s. ((), f s))"

definition sys :: "('w, 'r) call \<Rightarrow> ('w, 'z, 'r) op" where
  "sys c = State (\<lambda>s. case c (world s) of (r, e, w) \<Rightarrow>
     (r, s\<lparr>world := w, errno := (case e of None \<Rightarrow> errno s | Some n \<Rightarrow> n)\<rparr>))"

lemma run_gets [simp]: "run_state (gets f) s = (f s, s)"
  by (simp add: gets_def)

lemma run_modify [simp]: "run_state (modify f) s = ((), f s)"
  by (simp add: modify_def)

text \<open>A system call leaves the library's own variables alone.\<close>

lemma sys_frame [simp]:
  "errmsg (snd (run_state (sys c) s)) = errmsg s"
  "ifc_ctl_sock (snd (run_state (sys c) s)) = ifc_ctl_sock s"
  "ifc_ctl_sock6 (snd (run_state (sys c) s)) = ifc_ctl_sock6 s"
  "nstate.more (snd (run_state (sys c) s)) = nstate.more s"
  by (simp_all add: sys_def split: prod.split)

lemma run_sys:
  "c (world s) = (r, e, w) \<Longrightarrow>
   run_state (sys c) s = (r, s\<lparr>world := w, errno := (case e of None \<Rightarrow> errno s | Some n \<Rightarrow> n)\<rparr>)"
  by (simp add: sys_def)

lemma run_if [simp]: "run_state (if b then m else n) s = (if b then run_state m s else run_state n s)"
  by simp

section \<open>Arguments of the calls\<close>

text \<open>\<open>struct ifreq\<close>: the name buffer and the 16 bytes of the union that the code uses.\<close>

record ifreq =
  ifr_name :: string
  ifr_ru :: bytes

text \<open>\<open>struct rtentry\<close>: the sockaddr members as their 16 bytes, the flags and the device name.\<close>

record rtentry =
  rt_dst :: bytes
  rt_gateway :: bytes
  rt_genmask :: bytes
  rt_flags :: u16
  rt_dev :: "string option"

datatype ioctl_req =
    SIOCGIFHWADDR | SIOCGIFINDEX | SIOCGIFFLAGS | SIOCSIFFLAGS | SIOCSIFADDR | SIOCGIFADDR
  | SIOCSIFNETMASK | SIOCGIFNETMASK | SIOCSIFHWADDR | SIOCKILLADDR | SIOCADDRT | SIOCDELRT

text \<open>A line of \<open>/proc/net/if_inet6\<close> and of \<open>/proc/net/route\<close>, as \<open>fscanf\<close> converts it.\<close>

record if6_line =
  l6_addr :: string
  l6_prefixlen :: nat
  l6_ifname :: string

record route_line =
  rl_ifname :: string
  rl_dest :: u32
  rl_gway :: u32
  rl_flags :: u32
  rl_mask :: u32

datatype sock_domain = AF_INET | AF_INET6 | PF_NETLINK | PF_PACKET

record 'w kernel =
  k_socket :: "sock_domain \<Rightarrow> ('w, int) call"
  k_close :: "int \<Rightarrow> ('w, unit) call"
  k_bind :: "int \<Rightarrow> sockaddr_ll \<Rightarrow> ('w, int) call"
  k_ioctl :: "int \<Rightarrow> ioctl_req \<Rightarrow> ifreq \<Rightarrow> ('w, int \<times> ifreq) call"
  k_ioctl_rt :: "int \<Rightarrow> ioctl_req \<Rightarrow> rtentry \<Rightarrow> ('w, int) call"
  k_ioctl_ifr6 :: "int \<Rightarrow> ioctl_req \<Rightarrow> bytes \<Rightarrow> ('w, int) call"
  k_if_nametoindex :: "string \<Rightarrow> ('w, u32) call"
  k_getaddrinfo :: "string \<Rightarrow> ('w, int \<times> bytes) call"
  k_getpid :: "('w, u32) call"
  k_send :: "int \<Rightarrow> bytes \<Rightarrow> ('w, int) call"
  k_recv :: "int \<Rightarrow> nat \<Rightarrow> ('w, bytes option) call"
  k_sendmsg :: "int \<Rightarrow> msghdr \<Rightarrow> ('w, int) call"
  k_clock :: "('w, (u64 \<times> u64) option) call"
  k_if_inet6 :: "('w, if6_line list option) call"
  k_route :: "('w, route_line list option) call"
  k_strerror :: "int \<Rightarrow> string"
  k_property_set :: "string \<Rightarrow> string \<Rightarrow> ('w, unit) call"
  k_property_get :: "string \<Rightarrow> ('w, string) call"
  k_usleep :: "nat \<Rightarrow> ('w, unit) call"
  k_inet_addr :: "string \<Rightarrow> u32"
  k_atol :: "string \<Rightarrow> int"
  k_uninit :: "nat \<Rightarrow> bytes"
  k_key_max :: nat
  k_value_max :: nat

section \<open>Text\<close>

text \<open>Decimal output of \<open>%d\<close>, and \<open>inet_ntoa\<close>: the four bytes of an address in memory order.\<close>

fun show_nat :: "nat \<Rightarrow> string" where
  "show_nat n = (if n < 10 then [char_of (48 + n)] else show_nat (n div 10) @ [char_of (48 + n mod 10)])"

declare show_nat.simps [simp del]

definition show_int :: "int \<Rightarrow> string" where
  "show_int i = (if i < 0 then ''-'' @ show_nat (nat (- i)) else show_nat (nat i))"

definition inet_ntoa :: "u32 \<Rightarrow> string" where
  "inet_ntoa a =
     (case bytes32 a of
        [b0, b1, b2, b3] \<Rightarrow> show_nat (unat b0) @ ''.'' @ show_nat (unat b1) @ ''.''
          @ show_nat (unat b2) @ ''.'' @ show_nat (unat b3)
      | _ \<Rightarrow> '''')"

definition nl :: string where "nl = [char_of (10::nat)]"

text \<open>\<open>printerr\<close> of \<open>dhcpclient.c\<close>: the formatted message, cut to the 2048-byte buffer, stays in \<open>errmsg\<close>.\<close>

definition printerr :: "string \<Rightarrow> ('w, 'z, unit) op" where
  "printerr m = modify (errmsg_update (\<lambda>_. take 2047 m))"

definition fatal :: "'w kernel \<Rightarrow> string \<Rightarrow> ('w, 'z, int) op" where
  "fatal K reason = do {
     e \<leftarrow> gets errno;
     printerr (reason @ '': '' @ k_strerror K e @ nl);
     ret (- 1)
   }"

end
