(* ===== verification/Ifc_Utils.thy ===== *)
theory Ifc_Utils
  imports Os_Model
begin

text \<open>
  Interface configuration, \<open>src/system/core/libnetutils/ifc_utils.c\<close>: the conversions between prefix
  lengths and netmasks, the control sockets, the \<open>ioctl\<close> wrappers, the netlink address requests, routes,
  and \<open>ifc_configure\<close>, which the DHCP client calls with a lease. An \<open>in_addr_t\<close> is a 32-bit word in
  network order. Out-parameters are results.
\<close>

section \<open>Prefix lengths and netmasks\<close>

definition prefixLengthToIpv4Netmask :: "int \<Rightarrow> u32" where
  "prefixLengthToIpv4Netmask prefix_length =
     (if prefix_length \<le> 0 \<or> prefix_length > 32 then 0
      else htonl (push_bit (nat (32 - prefix_length)) (NOT 0)))"

lemma top_bit_iff: "m AND 0x80000000 \<noteq> 0 \<longleftrightarrow> bit m 31" for m :: u32
proof -
  have "(0x80000000 :: u32) = push_bit 31 1"
    by code_simp
  then show ?thesis
    by (simp only: bit_iff_and_push_bit_not_eq_0)
qed

lemma shl_drops_top_bit: "unat (push_bit 1 m) < unat m" if "m AND 0x80000000 \<noteq> 0" for m :: u32
proof -
  have "bit m 31"
    using that by (simp only: top_bit_iff)
  then have "odd (unat m div 2 ^ 31)"
    by (metis bit_iff_odd bit_unsigned_iff possible_bit_nat)
  then have big: "2 ^ 31 \<le> unat m"
    by (metis div_less even_zero not_le)
  have "unat (push_bit 1 m) = 2 * unat m mod 2 ^ 32"
    by (simp add: push_bit_eq_mult unat_word_ariths mult.commute)
  also have "\<dots> = 2 * unat m - 2 ^ 32"
    using big unat_u32_less [of m] by (simp del: unat_u32_less add: le_mod_geq)
  also have "\<dots> < unat m"
    using big unat_u32_less [of m] by (simp del: unat_u32_less)
  finally show ?thesis .
qed

function count_leading_ones :: "u32 \<Rightarrow> int \<Rightarrow> int" where
  "count_leading_ones m prefixLength =
     (if m AND 0x80000000 \<noteq> 0 then count_leading_ones (push_bit 1 m) (prefixLength + 1)
      else prefixLength)"
  by pat_completeness auto
termination
  by (relation "measure (unat \<circ> fst)", simp, simp only: comp_def fst_conv in_measure) (rule shl_drops_top_bit)

declare count_leading_ones.simps [simp del]

definition ipv4NetmaskToPrefixLength :: "u32 \<Rightarrow> int" where
  "ipv4NetmaskToPrefixLength msk = count_leading_ones (ntohl msk) 0"

definition ipaddr_to_string :: "u32 \<Rightarrow> string" where
  "ipaddr_to_string addr = inet_ntoa addr"


section \<open>Control sockets\<close>

definition ifc_init :: "'w kernel \<Rightarrow> ('w, 'z, int) op" where
  "ifc_init K = do {
     s \<leftarrow> gets ifc_ctl_sock;
     _ \<leftarrow> (if s = -1 then do {
            fd \<leftarrow> sys (k_socket K AF_INET);
            modify (ifc_ctl_sock_update (\<lambda>_. fd));
            (if fd < 0 then do {
               e \<leftarrow> gets errno;
               printerr (''socket() failed: '' @ k_strerror K e @ nl)
             } else ret ())
          } else ret ());
     s' \<leftarrow> gets ifc_ctl_sock;
     ret (if s' < 0 then -1 else 0)
   }"

definition ifc_init6 :: "'w kernel \<Rightarrow> ('w, 'z, int) op" where
  "ifc_init6 K = do {
     s \<leftarrow> gets ifc_ctl_sock6;
     _ \<leftarrow> (if s = -1 then do {
            fd \<leftarrow> sys (k_socket K AF_INET6);
            modify (ifc_ctl_sock6_update (\<lambda>_. fd));
            (if fd < 0 then do {
               e \<leftarrow> gets errno;
               printerr (''socket() failed: '' @ k_strerror K e @ nl)
             } else ret ())
          } else ret ());
     s' \<leftarrow> gets ifc_ctl_sock6;
     ret (if s' < 0 then -1 else 0)
   }"

definition ifc_close :: "'w kernel \<Rightarrow> ('w, 'z, unit) op" where
  "ifc_close K = do {
     s \<leftarrow> gets ifc_ctl_sock;
     (if s \<noteq> -1 then do {
        sys (k_close K s);
        modify (ifc_ctl_sock_update (\<lambda>_. -1))
      } else ret ())
   }"

definition ifc_close6 :: "'w kernel \<Rightarrow> ('w, 'z, unit) op" where
  "ifc_close6 K = do {
     s \<leftarrow> gets ifc_ctl_sock6;
     (if s \<noteq> -1 then do {
        sys (k_close K s);
        modify (ifc_ctl_sock6_update (\<lambda>_. -1))
      } else ret ())
   }"

section \<open>Interface requests\<close>

text \<open>\<open>ifc_init_ifr\<close>: everything zero, the name cut to 15 characters by the terminator that is stored last.\<close>

definition ifc_init_ifr :: "string \<Rightarrow> ifreq" where
  "ifc_init_ifr name = \<lparr>ifr_name = take 15 name, ifr_ru = replicate 16 0\<rparr>"

definition ctl :: "'w kernel \<Rightarrow> ioctl_req \<Rightarrow> ifreq \<Rightarrow> ('w, 'z, int \<times> ifreq) op" where
  "ctl K req ifr = do { s \<leftarrow> gets ifc_ctl_sock; sys (k_ioctl K s req ifr) }"

text \<open>\<open>sa_data\<close> of the hardware address, \<open>ETH_ALEN\<close> bytes; \<open>None\<close> is the result -1, with nothing stored.\<close>

definition ifc_get_hwaddr :: "'w kernel \<Rightarrow> string \<Rightarrow> ('w, 'z, bytes option) op" where
  "ifc_get_hwaddr K name = do {
     (r, ifr) \<leftarrow> ctl K SIOCGIFHWADDR (ifc_init_ifr name);
     ret (if r < 0 then None else Some (take 6 (drop 2 (ifr_ru ifr))))
   }"

definition ifc_get_ifindex :: "'w kernel \<Rightarrow> string \<Rightarrow> ('w, 'z, int option) op" where
  "ifc_get_ifindex K name = do {
     (r, ifr) \<leftarrow> ctl K SIOCGIFINDEX (ifc_init_ifr name);
     ret (if r < 0 then None else Some (sint (get32 (ifr_ru ifr))))
   }"

text \<open>\<open>ifr_flags\<close> is a signed short: it is widened with its sign, combined with the two \<open>unsigned\<close>
  arguments and cut back to 16 bits.\<close>

definition new_flags :: "u16 \<Rightarrow> u32 \<Rightarrow> u32 \<Rightarrow> u16" where
  "new_flags fl st clr = ucast (((scast fl :: u32) AND NOT clr) OR st)"

definition ifc_set_flags :: "'w kernel \<Rightarrow> string \<Rightarrow> u32 \<Rightarrow> u32 \<Rightarrow> ('w, 'z, int) op" where
  "ifc_set_flags K name st clr = do {
     (r, ifr) \<leftarrow> ctl K SIOCGIFFLAGS (ifc_init_ifr name);
     (if r < 0 then ret (-1)
      else do {
        (r2, _) \<leftarrow> ctl K SIOCSIFFLAGS
           (ifr\<lparr>ifr_ru := poke 0 (bytes16 (new_flags (get16 (ifr_ru ifr)) st clr)) (ifr_ru ifr)\<rparr>);
        ret r2
      })
   }"

definition IFF_UP :: u32 where "IFF_UP = 1"

definition ifc_up :: "'w kernel \<Rightarrow> string \<Rightarrow> ('w, 'z, int) op" where
  "ifc_up K name = ifc_set_flags K name IFF_UP 0"

definition ifc_down :: "'w kernel \<Rightarrow> string \<Rightarrow> ('w, 'z, int) op" where
  "ifc_down K name = ifc_set_flags K name 0 IFF_UP"

definition AF_INET_num :: u16 where "AF_INET_num = 2"
definition AF_INET6_num :: u16 where "AF_INET6_num = 10"

definition init_sockaddr_in :: "bytes \<Rightarrow> u32 \<Rightarrow> bytes" where
  "init_sockaddr_in sa addr = poke 0 (bytes16 AF_INET_num @ bytes16 0 @ bytes32 addr) sa"

definition sin_addr :: "bytes \<Rightarrow> u32" where
  "sin_addr sa = get32 (drop 4 sa)"

definition ifr_with_addr :: "string \<Rightarrow> u32 \<Rightarrow> ifreq" where
  "ifr_with_addr name addr =
     (let ifr = ifc_init_ifr name in ifr\<lparr>ifr_ru := init_sockaddr_in (ifr_ru ifr) addr\<rparr>)"

definition ifc_set_addr :: "'w kernel \<Rightarrow> string \<Rightarrow> u32 \<Rightarrow> ('w, 'z, int) op" where
  "ifc_set_addr K name addr = do {
     (r, _) \<leftarrow> ctl K SIOCSIFADDR (ifr_with_addr name addr);
     ret r
   }"

definition ifc_set_hwaddr :: "'w kernel \<Rightarrow> string \<Rightarrow> bytes \<Rightarrow> ('w, 'z, int) op" where
  "ifc_set_hwaddr K name ptr = do {
     (r, _) \<leftarrow> ctl K SIOCSIFHWADDR
        (let ifr = ifc_init_ifr name in ifr\<lparr>ifr_ru := poke 0 (bytes16 1 @ take 6 ptr) (ifr_ru ifr)\<rparr>);
     ret r
   }"

definition ifc_set_mask :: "'w kernel \<Rightarrow> string \<Rightarrow> u32 \<Rightarrow> ('w, 'z, int) op" where
  "ifc_set_mask K name msk = do {
     (r, _) \<leftarrow> ctl K SIOCSIFNETMASK (ifr_with_addr name msk);
     ret r
   }"

definition ifc_set_prefixLength :: "'w kernel \<Rightarrow> string \<Rightarrow> int \<Rightarrow> ('w, 'z, int) op" where
  "ifc_set_prefixLength K name prefixLength =
     (if prefixLength > 32 \<or> prefixLength < 0 then ret (-1)
      else do {
        (r, _) \<leftarrow> ctl K SIOCSIFNETMASK (ifr_with_addr name (prefixLengthToIpv4Netmask prefixLength));
        ret r
      })"

text \<open>The result and the value stored through \<open>addr\<close>, which every caller passes.\<close>

definition ifc_get_addr :: "'w kernel \<Rightarrow> string \<Rightarrow> ('w, 'z, int \<times> u32) op" where
  "ifc_get_addr K name = do {
     (r, ifr) \<leftarrow> ctl K SIOCGIFADDR (ifc_init_ifr name);
     ret (r, if r < 0 then 0 else sin_addr (ifr_ru ifr))
   }"

text \<open>\<open>ifc_get_info\<close>: the three booleans say which out-parameters are not null; the one \<open>ifreq\<close> goes
  through all the calls.\<close>

definition ifc_get_info ::
  "'w kernel \<Rightarrow> string \<Rightarrow> bool \<Rightarrow> bool \<Rightarrow> bool \<Rightarrow> ('w, 'z, u32 option \<times> int option \<times> u32 option) op" where
  "ifc_get_info K name want_addr want_prefix want_flags = do {
     let ifr0 = ifc_init_ifr name;
     (addr, ifr1) \<leftarrow> (if want_addr then do {
        (r, ifr) \<leftarrow> ctl K SIOCGIFADDR ifr0;
        ret (Some (if r < 0 then 0 else sin_addr (ifr_ru ifr)), ifr)
      } else ret (None, ifr0));
     (prefixLength, ifr2) \<leftarrow> (if want_prefix then do {
        (r, ifr) \<leftarrow> ctl K SIOCGIFNETMASK ifr1;
        ret (Some (if r < 0 then 0 else ipv4NetmaskToPrefixLength (sin_addr (ifr_ru ifr))), ifr)
      } else ret (None, ifr1));
     flags \<leftarrow> (if want_flags then do {
        (r, ifr) \<leftarrow> ctl K SIOCGIFFLAGS ifr2;
        ret (Some (if r < 0 then 0 else scast (get16 (ifr_ru ifr))))
      } else ret None);
     ret (addr, prefixLength, flags)
   }"

section \<open>Addresses by netlink\<close>

text \<open>\<open>getaddrinfo\<close> is called with \<open>AI_NUMERICHOST\<close>; on success the bytes of \<open>ai_addr\<close> go over the 128 bytes
  of the \<open>sockaddr_storage\<close>, which is uninitialised before. The callers pass a non-null \<open>ss\<close>.\<close>

definition string_to_ip :: "'w kernel \<Rightarrow> string \<Rightarrow> bytes \<Rightarrow> ('w, 'z, int \<times> bytes) op" where
  "string_to_ip K str ss = do {
     (r, ai_addr) \<leftarrow> sys (k_getaddrinfo K str);
     ret (r, if r = 0 then poke 0 ai_addr ss else ss)
   }"

definition RTM_NEWADDR :: u16 where "RTM_NEWADDR = 20"
definition RTM_DELADDR :: u16 where "RTM_DELADDR = 21"
definition NLMSG_ERROR :: u16 where "NLMSG_ERROR = 2"
definition NLM_F_REQUEST :: u16 where "NLM_F_REQUEST = 1"
definition NLM_F_ACK :: u16 where "NLM_F_ACK = 4"
definition IFA_LOCAL :: u16 where "IFA_LOCAL = 2"

definition NLMSG_ALIGN :: "nat \<Rightarrow> nat" where "NLMSG_ALIGN n = (n + 3) div 4 * 4"
definition NLMSG_LENGTH :: "nat \<Rightarrow> nat" where "NLMSG_LENGTH n = n + 16"
definition RTA_LENGTH :: "nat \<Rightarrow> nat" where "RTA_LENGTH n = 4 + n"

text \<open>The request: the 16-byte \<open>nlmsghdr\<close>, the 8-byte \<open>ifaddrmsg\<close> and the attribute buffer, 60 bytes in all,
  and the length stored in the header.\<close>

definition addr_request :: "u16 \<Rightarrow> u16 \<Rightarrow> int \<Rightarrow> u32 \<Rightarrow> u32 \<Rightarrow> bytes \<Rightarrow> nat \<times> bytes" where
  "addr_request action family prefixlen ifindex pid addr =
     (let nlmsg_len = NLMSG_LENGTH 8;
          req = replicate (16 + 8 + (NLMSG_ALIGN 16 + NLMSG_ALIGN 4 + NLMSG_ALIGN 16)) 0;
          req = poke 4 (bytes16 action @ bytes16 (NLM_F_REQUEST OR NLM_F_ACK)) req;
          req = poke 12 (bytes32 pid) req;
          req = poke 16 [ucast family, word_of_int prefixlen] req;
          req = poke 20 (bytes32 ifindex) req;
          rta = NLMSG_ALIGN nlmsg_len;
          req = poke rta (bytes16 (of_nat (RTA_LENGTH (length addr))) @ bytes16 IFA_LOCAL) req;
          nlmsg_len = NLMSG_ALIGN nlmsg_len + RTA_LENGTH (length addr);
          req = poke 0 (bytes32 (of_nat nlmsg_len)) req;
          req = poke (rta + RTA_LENGTH 0) addr req
      in (nlmsg_len, req))"

text \<open>The reply in its 52-byte buffer, of which \<open>recv\<close> has written the first \<open>len\<close> bytes.\<close>

definition addr_reply :: "nat \<Rightarrow> bytes \<Rightarrow> int" where
  "addr_reply len buf =
     (let nlmsg_len = unat (get32 buf) in
      if \<not> (len \<ge> 16 \<and> nlmsg_len \<ge> 16 \<and> nlmsg_len \<le> len) \<or> get16 (drop 4 buf) \<noteq> NLMSG_ERROR
      then -22
      else sint (get32 (drop 16 buf)))"

definition sockaddr_host :: "bytes \<Rightarrow> bytes option" where
  "sockaddr_host ss =
     (if get16 ss = AF_INET_num then Some (take 4 (drop 4 ss))
      else if get16 ss = AF_INET6_num then Some (take 16 (drop 8 ss))
      else None)"

definition neg_errno :: "('w, 'z, int) op" where
  "neg_errno = do { e \<leftarrow> gets errno; ret (- e) }"

definition ifc_act_on_address :: "'w kernel \<Rightarrow> u16 \<Rightarrow> string \<Rightarrow> string \<Rightarrow> int \<Rightarrow> ('w, 'z, int) op" where
  "ifc_act_on_address K action name address prefixlen = do {
     ifindex \<leftarrow> sys (k_if_nametoindex K name);
     (if ifindex = 0 then neg_errno
      else do {
        (r, ss) \<leftarrow> string_to_ip K address (k_uninit K 128);
        (if r \<noteq> 0 then ret r
         else case sockaddr_host ss of
           None \<Rightarrow> ret (-97)
         | Some addr \<Rightarrow> do {
             pid \<leftarrow> sys (k_getpid K);
             let (n, req) = addr_request action (get16 ss) prefixlen ifindex pid addr;
             s \<leftarrow> sys (k_socket K PF_NETLINK);
             sent \<leftarrow> sys (k_send K s (take n req));
             (if sent < 0 then do { sys (k_close K s); neg_errno }
              else do {
                got \<leftarrow> sys (k_recv K s 52);
                sys (k_close K s);
                (case got of
                   None \<Rightarrow> neg_errno
                 | Some bs \<Rightarrow> ret (addr_reply (length bs) (poke 0 bs (k_uninit K 52))))
              })
           })
      })
   }"

definition ifc_add_address :: "'w kernel \<Rightarrow> string \<Rightarrow> string \<Rightarrow> int \<Rightarrow> ('w, 'z, int) op" where
  "ifc_add_address K name address prefixlen = ifc_act_on_address K RTM_NEWADDR name address prefixlen"

definition ifc_del_address :: "'w kernel \<Rightarrow> string \<Rightarrow> string \<Rightarrow> int \<Rightarrow> ('w, 'z, int) op" where
  "ifc_del_address K name address prefixlen = ifc_act_on_address K RTM_DELADDR name address prefixlen"

text \<open>The colon after every fourth digit; the last one is overwritten by the terminator.\<close>

fun insert_colons :: "nat \<Rightarrow> string \<Rightarrow> string" where
  "insert_colons i [] = []"
| "insert_colons i (c # cs) = (if i mod 4 = 3 then c # CHR '':'' # insert_colons (i + 1) cs
                               else c # insert_colons (i + 1) cs)"

definition addrstr_of :: "string \<Rightarrow> string" where
  "addrstr_of rawaddrstr = butlast (insert_colons 0 (take 32 rawaddrstr))"

fun clear_ipv6_lines :: "'w kernel \<Rightarrow> string \<Rightarrow> if6_line list \<Rightarrow> int \<Rightarrow> ('w, 'z, int) op" where
  "clear_ipv6_lines K name [] lasterror = ret lasterror"
| "clear_ipv6_lines K name (l # ls) lasterror =
     (if name \<noteq> l6_ifname l then clear_ipv6_lines K name ls lasterror
      else let addrstr = addrstr_of (l6_addr l) in
        if take 5 addrstr = ''fe80:'' then clear_ipv6_lines K name ls lasterror
        else do {
          r \<leftarrow> ifc_del_address K (l6_ifname l) addrstr (int (l6_prefixlen l));
          clear_ipv6_lines K name ls (if r \<noteq> 0 then r else lasterror)
        })"

definition ifc_clear_ipv6_addresses :: "'w kernel \<Rightarrow> string \<Rightarrow> ('w, 'z, int) op" where
  "ifc_clear_ipv6_addresses K name = do {
     f \<leftarrow> sys (k_if_inet6 K);
     (case f of
        None \<Rightarrow> neg_errno
      | Some ls \<Rightarrow> clear_ipv6_lines K name ls 0)
   }"

text \<open>The loop \<open>for (count=0, addr=1; addr != 0 && count < 255; count++)\<close> of \<open>ifc_clear_ipv4_addresses\<close> and
  \<open>ifc_disable\<close>, entered with \<open>addr\<close> not 0: the argument is the number of rounds left.\<close>

fun zero_addr_loop :: "'w kernel \<Rightarrow> string \<Rightarrow> nat \<Rightarrow> ('w, 'z, unit) op" where
  "zero_addr_loop K name 0 = ret ()"
| "zero_addr_loop K name (Suc n) = do {
     (r, addr) \<leftarrow> ifc_get_addr K name;
     (if r < 0 then ret ()
      else if addr \<noteq> 0 then do { _ \<leftarrow> ifc_set_addr K name 0; zero_addr_loop K name n }
      else ret ())
   }"

definition ifc_clear_ipv4_addresses :: "'w kernel \<Rightarrow> string \<Rightarrow> ('w, 'z, unit) op" where
  "ifc_clear_ipv4_addresses K name = do {
     _ \<leftarrow> ifc_init K;
     zero_addr_loop K name 255;
     ifc_close K
   }"

definition ifc_clear_addresses :: "'w kernel \<Rightarrow> string \<Rightarrow> ('w, 'z, int) op" where
  "ifc_clear_addresses K name = do {
     ifc_clear_ipv4_addresses K name;
     ifc_clear_ipv6_addresses K name
   }"

section \<open>Routes\<close>

definition RTF_UP :: u16 where "RTF_UP = 1"
definition RTF_GATEWAY :: u16 where "RTF_GATEWAY = 2"
definition RTF_HOST :: u16 where "RTF_HOST = 4"

definition zero_rt :: rtentry where
  "zero_rt = \<lparr>rt_dst = replicate 16 0, rt_gateway = replicate 16 0, rt_genmask = replicate 16 0,
     rt_flags = 0, rt_dev = None\<rparr>"

definition ipv4_route :: "string \<Rightarrow> u32 \<Rightarrow> int \<Rightarrow> u32 \<Rightarrow> rtentry" where
  "ipv4_route ifname dst prefix_length gw =
     (let rt = zero_rt\<lparr>rt_dst := poke 0 (bytes16 AF_INET_num) (rt_dst zero_rt), rt_dev := Some ifname\<rparr>;
          rt = rt\<lparr>rt_genmask := init_sockaddr_in (rt_genmask rt) (prefixLengthToIpv4Netmask prefix_length)\<rparr>;
          rt = rt\<lparr>rt_dst := init_sockaddr_in (rt_dst rt) dst, rt_flags := RTF_UP\<rparr>;
          rt = (if prefix_length = 32 then rt\<lparr>rt_flags := rt_flags rt OR RTF_HOST\<rparr> else rt)
      in if gw \<noteq> 0
         then rt\<lparr>rt_flags := rt_flags rt OR RTF_GATEWAY, rt_gateway := init_sockaddr_in (rt_gateway rt) gw\<rparr>
         else rt)"

definition ifc_act_on_ipv4_route ::
  "'w kernel \<Rightarrow> ioctl_req \<Rightarrow> string \<Rightarrow> u32 \<Rightarrow> int \<Rightarrow> u32 \<Rightarrow> ('w, 'z, int) op" where
  "ifc_act_on_ipv4_route K action ifname dst prefix_length gw = do {
     let rt = ipv4_route ifname dst prefix_length gw;
     _ \<leftarrow> ifc_init K;
     s \<leftarrow> gets ifc_ctl_sock;
     (if s < 0 then neg_errno
      else do {
        r \<leftarrow> sys (k_ioctl_rt K s action rt);
        e \<leftarrow> gets errno;
        ifc_close K;
        ret (if r < 0 then (if e = 17 then 0 else - e) else r)
      })
   }"

definition ifc_create_default_route :: "'w kernel \<Rightarrow> string \<Rightarrow> u32 \<Rightarrow> ('w, 'z, int) op" where
  "ifc_create_default_route K name gw = ifc_act_on_ipv4_route K SIOCADDRT name 0 0 gw"

definition ifc_enable :: "'w kernel \<Rightarrow> string \<Rightarrow> ('w, 'z, int) op" where
  "ifc_enable K ifname = do {
     _ \<leftarrow> ifc_init K;
     result \<leftarrow> ifc_up K ifname;
     ifc_close K;
     ret result
   }"

definition ifc_disable :: "'w kernel \<Rightarrow> string \<Rightarrow> ('w, 'z, int) op" where
  "ifc_disable K ifname = do {
     _ \<leftarrow> ifc_init K;
     result \<leftarrow> ifc_down K ifname;
     _ \<leftarrow> ifc_set_addr K ifname 0;
     zero_addr_loop K ifname 255;
     ifc_close K;
     ret result
   }"

text \<open>The three bits of \<open>reset_mask\<close> (their values are in a header outside the sources) as booleans.\<close>

definition reset_ipv4 :: "'w kernel \<Rightarrow> string \<Rightarrow> bool \<Rightarrow> ('w, 'z, int) op" where
  "reset_ipv4 K ifname ignore_interface_address = do {
     ctl_sock \<leftarrow> sys (k_socket K AF_INET);
     (if ctl_sock \<ge> 0 then do {
        myaddr \<leftarrow> (if \<not> ignore_interface_address
                   then do { (a, _) \<leftarrow> ifc_get_info K ifname True False False; ret (the a) }
                   else ret 0);
        (result, _) \<leftarrow> sys (k_ioctl K ctl_sock SIOCKILLADDR (ifr_with_addr ifname myaddr));
        sys (k_close K ctl_sock);
        ret result
      } else ret (-1))
   }"

definition ifc_reset_connections :: "'w kernel \<Rightarrow> string \<Rightarrow> bool \<Rightarrow> bool \<Rightarrow> bool \<Rightarrow> ('w, 'z, int) op" where
  "ifc_reset_connections K ifname ipv4 ipv6 ignore_interface_address = do {
     result \<leftarrow> (if ipv4 then reset_ipv4 K ifname ignore_interface_address else ret 0);
     (if ipv6 then do {
        ctl_sock \<leftarrow> sys (k_socket K AF_INET6);
        (if ctl_sock \<ge> 0 then do {
           success \<leftarrow> sys (k_ioctl_ifr6 K ctl_sock SIOCKILLADDR (replicate 24 0));
           sys (k_close K ctl_sock);
           ret (if result = 0 then success else result)
         } else ret (-1))
      } else ret result)
   }"

fun remove_host_lines :: "'w kernel \<Rightarrow> string \<Rightarrow> route_line list \<Rightarrow> ('w, 'z, unit) op" where
  "remove_host_lines K name [] = ret ()"
| "remove_host_lines K name (l # ls) =
     (let up_host = ucast RTF_UP OR ucast RTF_HOST in
      if rl_flags l AND up_host \<noteq> up_host \<or> rl_ifname l \<noteq> name then remove_host_lines K name ls
      else do {
        s \<leftarrow> gets ifc_ctl_sock;
        _ \<leftarrow> sys (k_ioctl_rt K s SIOCDELRT
               (zero_rt\<lparr>rt_dev := Some name, rt_dst := init_sockaddr_in (rt_dst zero_rt) (rl_dest l),
                  rt_gateway := init_sockaddr_in (rt_gateway zero_rt) (rl_gway l),
                  rt_genmask := init_sockaddr_in (rt_genmask zero_rt) (rl_mask l)\<rparr>));
        remove_host_lines K name ls
      })"

text \<open>\<open>k_route\<close> gives the lines after the title line that \<open>fscanf\<close> converts completely; \<open>None\<close> when the
  file cannot be opened or has no title line.\<close>

definition ifc_remove_host_routes :: "'w kernel \<Rightarrow> string \<Rightarrow> ('w, 'z, int) op" where
  "ifc_remove_host_routes K name = do {
     f \<leftarrow> sys (k_route K);
     (case f of
        None \<Rightarrow> ret (-1)
      | Some ls \<Rightarrow> do {
          _ \<leftarrow> ifc_init K;
          remove_host_lines K name ls;
          ifc_close K;
          ret 0
        })
   }"

definition ifc_remove_default_route :: "'w kernel \<Rightarrow> string \<Rightarrow> ('w, 'z, int) op" where
  "ifc_remove_default_route K ifname = do {
     _ \<leftarrow> ifc_init K;
     s \<leftarrow> gets ifc_ctl_sock;
     result \<leftarrow> sys (k_ioctl_rt K s SIOCDELRT
        (zero_rt\<lparr>rt_dev := Some ifname, rt_flags := RTF_UP OR RTF_GATEWAY,
           rt_dst := init_sockaddr_in (rt_dst zero_rt) 0\<rparr>));
     ifc_close K;
     ret result
   }"

section \<open>Configuring an interface\<close>

definition dns_prop_name :: "'w kernel \<Rightarrow> string \<Rightarrow> string \<Rightarrow> string" where
  "dns_prop_name K ifname dns = take (k_key_max K - 1) (''net.'' @ ifname @ ''.'' @ dns)"

definition configure_failed :: "'w kernel \<Rightarrow> string \<Rightarrow> ('w, 'z, int) op" where
  "configure_failed K what = do {
     e \<leftarrow> gets errno;
     printerr (what @ '': '' @ k_strerror K e @ nl);
     ifc_close K;
     ret (-1)
   }"

definition ifc_configure ::
  "'w kernel \<Rightarrow> string \<Rightarrow> u32 \<Rightarrow> u32 \<Rightarrow> u32 \<Rightarrow> u32 \<Rightarrow> u32 \<Rightarrow> ('w, 'z, int) op" where
  "ifc_configure K ifname address prefixLength gateway dns1 dns2 = do {
     _ \<leftarrow> ifc_init K;
     up \<leftarrow> ifc_up K ifname;
     (if up \<noteq> 0 then configure_failed K (''failed to turn on interface '' @ ifname)
      else do {
        a \<leftarrow> ifc_set_addr K ifname address;
        (if a \<noteq> 0 then configure_failed K (''failed to set ipaddr '' @ ipaddr_to_string address)
         else do {
           p \<leftarrow> ifc_set_prefixLength K ifname (sint prefixLength);
           (if p \<noteq> 0 then configure_failed K (''failed to set prefixLength '' @ show_int (sint prefixLength))
            else do {
              ifc_close K;
              sys (k_property_set K (dns_prop_name K ifname ''dns1'')
                     (if dns1 \<noteq> 0 then ipaddr_to_string dns1 else ''''));
              sys (k_property_set K (dns_prop_name K ifname ''dns2'')
                     (if dns2 \<noteq> 0 then ipaddr_to_string dns2 else ''''));
              ret 0
            })
         })
      })
   }"

section \<open>Masks: lemmas and properties\<close>

lemma bit_shl1: "i < 31 \<Longrightarrow> bit (push_bit 1 m) (31 - i) \<longleftrightarrow> bit m (30 - i)" for m :: u32
  by (simp only: bit_push_bit_iff) (simp, linarith)

lemma count_leading_ones_spec:
  "\<exists>k. count_leading_ones m p = p + int k \<and> k \<le> 32 \<and> (\<forall>i<k. bit m (31 - i)) \<and> (k < 32 \<longrightarrow> \<not> bit m (31 - k))"
proof (induction m p rule: count_leading_ones.induct)
  case (1 m p)
  show ?case
  proof (cases "bit m 31")
    case False
    then show ?thesis
      by (subst count_leading_ones.simps) (simp only: top_bit_iff, auto intro!: exI [of _ 0])
  next
    case True
    then obtain k where k: "count_leading_ones (push_bit 1 m) (p + 1) = p + 1 + int k" "k \<le> 32"
        "\<forall>i<k. bit (push_bit 1 m) (31 - i)" "k < 32 \<longrightarrow> \<not> bit (push_bit 1 m) (31 - k)"
      using 1 by (auto simp: top_bit_iff)
    have "\<not> bit (push_bit 1 m) (31 - 31)"
      by (simp only: bit_push_bit_iff) simp
    then have le: "k \<le> 31"
      using k(2,3) by (metis le_less_linear not_le)
    have low: "bit m (31 - i)" if "i < Suc k" for i
      using that True k(3) le bit_shl1 [of "i - 1" m] by (cases i) (auto simp: Suc_diff_Suc)
    have "\<not> bit m (31 - Suc k)" if "Suc k < 32"
      using that k(4) bit_shl1 [of k m] by simp
    then show ?thesis
      using low k(1) le True
      by (subst count_leading_ones.simps) (intro exI [of _ "Suc k"], auto simp: top_bit_iff)
  qed
qed

lemma count_leading_ones_unique:
  assumes "k \<le> 32" "\<forall>i<k. bit m (31 - i)" "k < 32 \<longrightarrow> \<not> bit m (31 - k)"
  shows "count_leading_ones m p = p + int k"
proof -
  obtain j where j: "count_leading_ones m p = p + int j" "j \<le> 32" "\<forall>i<j. bit m (31 - i)"
      "j < 32 \<longrightarrow> \<not> bit m (31 - j)"
    using count_leading_ones_spec by blast
  then have "j = k"
    using assms by (metis le_neq_implies_less linorder_neqE_nat order_less_le_trans)
  with j show ?thesis by simp
qed

lemma netmask_prefix_range: obtains k where "ipv4NetmaskToPrefixLength msk = int k" "k \<le> 32"
  using count_leading_ones_spec [of "ntohl msk" 0] by (auto simp: ipv4NetmaskToPrefixLength_def)

lemma bit_netmask: "bit (NOT (mask (32 - n)) :: u32) i \<longleftrightarrow> 32 - n \<le> i \<and> i < 32"
  by (auto simp: bit_simps)

lemma contiguous_mask:
  fixes m :: u32
  assumes "k \<le> 32" "\<forall>i<k. bit m (31 - i)" "\<forall>i<32 - k. \<not> bit m i"
  shows "m = NOT (mask (32 - k))"
proof (rule bit_word_eqI)
  fix i assume "i < LENGTH(32)"
  then have i: "i < 32" by simp
  have "bit m i" if "32 - k \<le> i"
    using assms(2) [rule_format, of "31 - i"] that i assms(1) by simp
  then show "bit m i \<longleftrightarrow> bit (NOT (mask (32 - k)) :: u32) i"
    using assms(1,3) i by (auto simp: bit_netmask not_less)
qed

text \<open>C26: The two conversions are inverse on prefix lengths 1 to 32, and the netmask of such a prefix
  length n has exactly its n leading bits set (in host order).\<close>

theorem prefix_netmask_roundtrip:
  assumes "1 \<le> n" "n \<le> 32"
  shows "ipv4NetmaskToPrefixLength (prefixLengthToIpv4Netmask n) = n
    \<and> (\<forall>i<32. bit (ntohl (prefixLengthToIpv4Netmask n)) i \<longleftrightarrow> 32 - n \<le> int i)"
proof -
  obtain k where k: "n = int k" "1 \<le> k" "k \<le> 32"
    using assms by (metis nat_0_le nat_le_iff nat_mono nat_one_as_int of_nat_numeral order_trans zero_le_one)
  then have m: "ntohl (prefixLengthToIpv4Netmask n) = NOT (mask (32 - k))"
    by (simp add: prefixLengthToIpv4Netmask_def nat_diff_distrib)
  have "count_leading_ones (NOT (mask (32 - k))) 0 = 0 + int k"
    using k by (intro count_leading_ones_unique) (auto simp: bit_netmask)
  then show ?thesis
    using k m by (auto simp: ipv4NetmaskToPrefixLength_def bit_netmask)
qed

theorem prefix_netmask_roundtrip_witness:
  "ipv4NetmaskToPrefixLength (prefixLengthToIpv4Netmask 24) = 24"
  using prefix_netmask_roundtrip [of 24] by simp

lemma netmask_prefix_inverse:
  "0 \<le> ipv4NetmaskToPrefixLength msk \<and> ipv4NetmaskToPrefixLength msk \<le> 32
   \<and> (prefixLengthToIpv4Netmask (ipv4NetmaskToPrefixLength msk) = msk
      \<longleftrightarrow> (\<forall>i<32 - nat (ipv4NetmaskToPrefixLength msk). \<not> bit (ntohl msk) i))"
proof -
  obtain k where k: "ipv4NetmaskToPrefixLength msk = int k" "k \<le> 32" "\<forall>i<k. bit (ntohl msk) (31 - i)"
    using count_leading_ones_spec [of "ntohl msk" 0] by (auto simp: ipv4NetmaskToPrefixLength_def)
  have pk: "ntohl (prefixLengthToIpv4Netmask (int k)) = NOT (mask (32 - k))"
  proof (cases "k = 0")
    case True
    then show ?thesis
      by (simp add: prefixLengthToIpv4Netmask_def) code_simp
  next
    case False
    then show ?thesis
      using k(2) by (simp add: prefixLengthToIpv4Netmask_def nat_diff_distrib)
  qed
  have "prefixLengthToIpv4Netmask (int k) = msk \<longleftrightarrow> ntohl msk = NOT (mask (32 - k))"
    by (simp flip: pk) auto
  also have "\<dots> \<longleftrightarrow> (\<forall>i<32 - k. \<not> bit (ntohl msk) i)"
    using contiguous_mask [of k "ntohl msk"] k(2,3) bit_netmask [of k] by auto
  finally show ?thesis
    using k by simp
qed

text \<open>Every netmask, also one that is not contiguous, gives a prefix length between 0 and 32: the
  number of its leading ones; and the netmask is recovered from the prefix length exactly when no bit is set
  below the leading ones.\<close>

theorem netmask_prefix_canonical:
  "0 \<le> ipv4NetmaskToPrefixLength msk \<and> ipv4NetmaskToPrefixLength msk \<le> 32
   \<and> (prefixLengthToIpv4Netmask (ipv4NetmaskToPrefixLength msk) = msk
      \<longleftrightarrow> (\<forall>i<32 - nat (ipv4NetmaskToPrefixLength msk). \<not> bit (ntohl msk) i))"
  by (rule netmask_prefix_inverse)

theorem netmask_prefix_canonical_witness:
  "0 \<le> ipv4NetmaskToPrefixLength 0x00ff00ff \<and> ipv4NetmaskToPrefixLength 0x00ff00ff \<le> 32"
  using netmask_prefix_canonical [of "0x00ff00ff"] by blast

section \<open>Control sockets: lemmas and properties\<close>

named_theorems ifc_ops \<open>definitions of the operations on one interface\<close>

lemmas ifc_ioctls [ifc_ops] =
  ctl_def ifc_set_flags_def ifc_up_def ifc_down_def ifc_set_addr_def ifc_set_prefixLength_def ifc_get_addr_def

lemma printerr_frame [simp]:
  "ifc_ctl_sock (snd (run_state (printerr m) s)) = ifc_ctl_sock s"
  "world (snd (run_state (printerr m) s)) = world s"
  by (simp_all add: printerr_def)

lemma ctl_frame [simp]: "ifc_ctl_sock (snd (run_state (ctl K req ifr) s)) = ifc_ctl_sock s"
  by (simp add: ctl_def)

lemma zero_addr_loop_frame [simp]:
  "ifc_ctl_sock (snd (run_state (zero_addr_loop K name n) s)) = ifc_ctl_sock s"
  by (induction n arbitrary: s) (simp_all add: ifc_get_addr_def ifc_set_addr_def split_beta)

lemma ifc_close_sock [simp]: "ifc_ctl_sock (snd (run_state (ifc_close K) s)) = -1"
  by (simp add: ifc_close_def)

lemma ifc_init_sock:
  "ifc_ctl_sock (snd (run_state (ifc_init K) s)) =
     (if ifc_ctl_sock s = -1 then fst (k_socket K AF_INET (world s)) else ifc_ctl_sock s)"
  by (simp add: ifc_init_def sys_def split: prod.split)

lemma configure_failed_sock [simp]: "ifc_ctl_sock (snd (run_state (configure_failed K m) s)) = -1"
  by (simp add: configure_failed_def)

lemma configure_failed_result [simp]: "fst (run_state (configure_failed K m) s) = -1"
  by (simp add: configure_failed_def)

text \<open>Every operation that opens the control socket for itself leaves no control socket behind, on every
  path, whatever the kernel answers; \<open>ifc_act_on_ipv4_route\<close> returns with the variable negative.\<close>

theorem control_socket_released:
  "ifc_ctl_sock (snd (run_state (ifc_enable K n) s)) = -1
   \<and> ifc_ctl_sock (snd (run_state (ifc_disable K n) s)) = -1
   \<and> ifc_ctl_sock (snd (run_state (ifc_clear_ipv4_addresses K n) s)) = -1
   \<and> ifc_ctl_sock (snd (run_state (ifc_remove_default_route K n) s)) = -1
   \<and> ifc_ctl_sock (snd (run_state (ifc_configure K n a p g d1 d2) s)) = -1
   \<and> ifc_ctl_sock (snd (run_state (ifc_act_on_ipv4_route K act n dst l g) s)) < 0"
proof (intro conjI)
  show "ifc_ctl_sock (snd (run_state (ifc_configure K n a p g d1 d2) s)) = -1"
    by (simp add: ifc_configure_def)
  show "ifc_ctl_sock (snd (run_state (ifc_act_on_ipv4_route K act n dst l g) s)) < 0"
    by (simp add: ifc_act_on_ipv4_route_def neg_errno_def Let_def)
qed (simp_all add: ifc_enable_def ifc_disable_def ifc_clear_ipv4_addresses_def ifc_remove_default_route_def)

section \<open>What a configured interface is\<close>

text \<open>The documented behaviour of the kernel (\<open>netdevice(7)\<close>) and of the property service that
  \<open>ifc_configure\<close> relies on, over a view of the outside world: the flags, address and mask of each interface
  and the value of each property. Setting the address also resets the mask to some value of the kernel's
  choice.\<close>

record ifview =
  if_flags :: u16
  if_addr :: u32
  if_mask :: u32

definition quiet :: "('w \<Rightarrow> 'v) \<Rightarrow> ('w, 'r) call \<Rightarrow> bool" where
  "quiet view c \<longleftrightarrow> (\<forall>w. view (snd (snd (c w))) = view w)"

definition interface_kernel ::
  "'w kernel \<Rightarrow> ('w \<Rightarrow> (string \<rightharpoonup> ifview) \<times> (string \<Rightarrow> string)) \<Rightarrow> bool" where
  "interface_kernel K view \<longleftrightarrow>
     (\<forall>w. fst (k_socket K AF_INET w) \<ge> 0) \<and> quiet view (k_socket K AF_INET) \<and> (\<forall>fd. quiet view (k_close K fd))
     \<and> (\<forall>fd ifr w ifs ps v. fd \<ge> 0 \<and> view w = (ifs, ps) \<and> ifs (ifr_name ifr) = Some v \<and> length (ifr_ru ifr) = 16 \<longrightarrow>
          (\<exists>e w' ru. k_ioctl K fd SIOCGIFFLAGS ifr w = ((0, ifr\<lparr>ifr_ru := ru\<rparr>), e, w')
             \<and> view w' = view w \<and> length ru = 16 \<and> get16 ru = if_flags v)
        \<and> (\<exists>e w' ifr'. k_ioctl K fd SIOCSIFFLAGS ifr w = ((0, ifr'), e, w')
             \<and> view w' = (ifs(ifr_name ifr \<mapsto> v\<lparr>if_flags := get16 (ifr_ru ifr)\<rparr>), ps))
        \<and> (\<exists>e w' ifr' m. k_ioctl K fd SIOCSIFADDR ifr w = ((0, ifr'), e, w')
             \<and> view w' = (ifs(ifr_name ifr \<mapsto> v\<lparr>if_addr := sin_addr (ifr_ru ifr), if_mask := m\<rparr>), ps))
        \<and> (\<exists>e w' ifr'. k_ioctl K fd SIOCSIFNETMASK ifr w = ((0, ifr'), e, w')
             \<and> view w' = (ifs(ifr_name ifr \<mapsto> v\<lparr>if_mask := sin_addr (ifr_ru ifr)\<rparr>), ps)))
     \<and> (\<forall>k val w. view (snd (snd (k_property_set K k val w))) = (fst (view w), (snd (view w))(k := val)))"

lemma interface_kernelD:
  assumes "interface_kernel K view"
  shows "fst (k_socket K AF_INET w) \<ge> 0" "view (snd (snd (k_socket K AF_INET w))) = view w"
    "view (snd (snd (k_close K fd w))) = view w"
    "view (snd (snd (k_property_set K k val w))) = (fst (view w), (snd (view w))(k := val))"
    "fd \<ge> 0 \<Longrightarrow> view w = (ifs, ps) \<Longrightarrow> ifs (ifr_name ifr) = Some v \<Longrightarrow> length (ifr_ru ifr) = 16 \<Longrightarrow>
       \<exists>e w' ru. k_ioctl K fd SIOCGIFFLAGS ifr w = ((0, ifr\<lparr>ifr_ru := ru\<rparr>), e, w')
             \<and> view w' = view w \<and> length ru = 16 \<and> get16 ru = if_flags v"
    "fd \<ge> 0 \<Longrightarrow> view w = (ifs, ps) \<Longrightarrow> ifs (ifr_name ifr) = Some v \<Longrightarrow> length (ifr_ru ifr) = 16 \<Longrightarrow>
       \<exists>e w' ifr'. k_ioctl K fd SIOCSIFFLAGS ifr w = ((0, ifr'), e, w')
             \<and> view w' = (ifs(ifr_name ifr \<mapsto> v\<lparr>if_flags := get16 (ifr_ru ifr)\<rparr>), ps)"
    "fd \<ge> 0 \<Longrightarrow> view w = (ifs, ps) \<Longrightarrow> ifs (ifr_name ifr) = Some v \<Longrightarrow> length (ifr_ru ifr) = 16 \<Longrightarrow>
       \<exists>e w' ifr' m. k_ioctl K fd SIOCSIFADDR ifr w = ((0, ifr'), e, w')
             \<and> view w' = (ifs(ifr_name ifr \<mapsto> v\<lparr>if_addr := sin_addr (ifr_ru ifr), if_mask := m\<rparr>), ps)"
    "fd \<ge> 0 \<Longrightarrow> view w = (ifs, ps) \<Longrightarrow> ifs (ifr_name ifr) = Some v \<Longrightarrow> length (ifr_ru ifr) = 16 \<Longrightarrow>
       \<exists>e w' ifr'. k_ioctl K fd SIOCSIFNETMASK ifr w = ((0, ifr'), e, w')
             \<and> view w' = (ifs(ifr_name ifr \<mapsto> v\<lparr>if_mask := sin_addr (ifr_ru ifr)\<rparr>), ps)"
  using assms unfolding interface_kernel_def quiet_def by blast+

text \<open>The requests that the wrappers build.\<close>

lemma ifr_with_addr_fields [simp]:
  "ifr_name (ifr_with_addr n a) = take 15 n" "length (ifr_ru (ifr_with_addr n a)) = 16"
  "sin_addr (ifr_ru (ifr_with_addr n a)) = a"
  by (simp_all add: ifr_with_addr_def ifc_init_ifr_def init_sockaddr_in_def sin_addr_def poke_def)

lemma ifc_init_ifr_fields [simp]: "ifr_name (ifc_init_ifr n) = take 15 n" "length (ifr_ru (ifc_init_ifr n)) = 16"
  by (simp_all add: ifc_init_ifr_def)

lemma bit_new_flags: "bit (new_flags fl st clr) i \<longleftrightarrow> i < 16 \<and> (bit fl i \<and> \<not> bit clr i \<or> bit st i)"
  by (auto simp: new_flags_def bit_simps)

lemma new_flags_up [simp]: "new_flags fl IFF_UP 0 = fl OR 1"
  by (rule bit_word_eqI) (simp add: bit_new_flags IFF_UP_def bit_simps)

text \<open>One step of the run, on a state whose socket is open.\<close>

lemma run_sys_world [simp]: "world (snd (run_state (sys c) s)) = snd (snd (c (world s)))"
  by (simp add: sys_def split: prod.split)

lemma run_sys_val [simp]: "fst (run_state (sys c) s) = fst (c (world s))"
  by (simp add: sys_def split: prod.split)

lemma ifc_up_view:
  assumes "interface_kernel K view" "ifc_ctl_sock s \<ge> 0" "view (world s) = (ifs, ps)" "ifs (take 15 n) = Some v"
  shows "fst (run_state (ifc_up K n) s) = 0"
    and "view (world (snd (run_state (ifc_up K n) s))) = (ifs(take 15 n \<mapsto> v\<lparr>if_flags := if_flags v OR 1\<rparr>), ps)"
proof -
  obtain e w' ru where g: "k_ioctl K (ifc_ctl_sock s) SIOCGIFFLAGS (ifc_init_ifr n) (world s)
        = ((0, (ifc_init_ifr n)\<lparr>ifr_ru := ru\<rparr>), e, w')" "view w' = (ifs, ps)" "length ru = 16" "get16 ru = if_flags v"
    using interface_kernelD(5) [OF assms(1-3), of "ifc_init_ifr n" v] assms(3,4) by auto
  define ifr where "ifr = (ifc_init_ifr n)\<lparr>ifr_ru := poke 0 (bytes16 (if_flags v OR 1)) ru\<rparr>"
  have "ifr_name ifr = take 15 n" "length (ifr_ru ifr) = 16" "get16 (ifr_ru ifr) = if_flags v OR 1"
    using g(3) by (simp_all add: ifr_def poke_def)
  then obtain e' w'' ifr' where s2: "k_ioctl K (ifc_ctl_sock s) SIOCSIFFLAGS ifr w' = ((0, ifr'), e', w'')"
      "view w'' = (ifs(take 15 n \<mapsto> v\<lparr>if_flags := if_flags v OR 1\<rparr>), ps)"
    using interface_kernelD(6) [OF assms(1,2) g(2), of ifr v] assms(4) by auto
  show "fst (run_state (ifc_up K n) s) = 0"
    "view (world (snd (run_state (ifc_up K n) s))) = (ifs(take 15 n \<mapsto> v\<lparr>if_flags := if_flags v OR 1\<rparr>), ps)"
    using s2 by (simp_all add: ifc_up_def ifc_set_flags_def ctl_def g ifr_def)
qed

lemma ifc_set_addr_view:
  assumes "interface_kernel K view" "ifc_ctl_sock s \<ge> 0" "view (world s) = (ifs, ps)" "ifs (take 15 n) = Some v"
  shows "fst (run_state (ifc_set_addr K n a) s) = 0"
    and "\<exists>m. view (world (snd (run_state (ifc_set_addr K n a) s)))
             = (ifs(take 15 n \<mapsto> v\<lparr>if_addr := a, if_mask := m\<rparr>), ps)"
  using interface_kernelD(7) [OF assms(1-3), of "ifr_with_addr n a" v] assms(4)
  by (auto simp: ifc_set_addr_def ctl_def)

lemma ifc_set_prefixLength_view:
  assumes "interface_kernel K view" "ifc_ctl_sock s \<ge> 0" "view (world s) = (ifs, ps)" "ifs (take 15 n) = Some v"
    and "0 \<le> p" "p \<le> 32"
  shows "fst (run_state (ifc_set_prefixLength K n p) s) = 0"
    and "view (world (snd (run_state (ifc_set_prefixLength K n p) s)))
             = (ifs(take 15 n \<mapsto> v\<lparr>if_mask := prefixLengthToIpv4Netmask p\<rparr>), ps)"
  using interface_kernelD(8) [OF assms(1-3), of "ifr_with_addr n (prefixLengthToIpv4Netmask p)" v] assms(4-6)
  by (auto simp: ifc_set_prefixLength_def ctl_def)

lemma ifc_close_view: "interface_kernel K view \<Longrightarrow> view (world (snd (run_state (ifc_close K) s))) = view (world s)"
  by (simp add: ifc_close_def interface_kernelD)

lemma ifc_init_view:
  assumes "interface_kernel K view"
  shows "view (world (snd (run_state (ifc_init K) s))) = view (world s)"
  using interface_kernelD(2) [OF assms] by (simp add: ifc_init_def)

lemma ifc_op_socks [simp]:
  "ifc_ctl_sock (snd (run_state (ifc_up K n) s)) = ifc_ctl_sock s"
  "ifc_ctl_sock (snd (run_state (ifc_set_addr K n a) s)) = ifc_ctl_sock s"
  by (simp_all add: ifc_ops)

lemma ifc_configure_ok:
  assumes K: "interface_kernel K view"
    and sock: "ifc_ctl_sock s \<ge> -1"
    and view: "view (world s) = (ifs, ps)" "ifs (take 15 n) = Some v"
    and p: "unat p \<le> 32"
  shows "fst (run_state (ifc_configure K n a p g d1 d2) s) = 0
    \<and> view (world (snd (run_state (ifc_configure K n a p g d1 d2) s))) =
        (ifs(take 15 n \<mapsto> v\<lparr>if_flags := if_flags v OR 1, if_addr := a,
                           if_mask := prefixLengthToIpv4Netmask (int (unat p))\<rparr>),
         ps(dns_prop_name K n ''dns1'' := if d1 \<noteq> 0 then inet_ntoa d1 else '''',
            dns_prop_name K n ''dns2'' := if d2 \<noteq> 0 then inet_ntoa d2 else ''''))"
proof -
  define s1 where "s1 = snd (run_state (ifc_init K) s)"
  have s1: "ifc_ctl_sock s1 \<ge> 0" "view (world s1) = (ifs, ps)"
    using sock interface_kernelD(1) [OF K] ifc_init_view [OF K, of s] view(1) by (auto simp: s1_def ifc_init_sock)
  note up = ifc_up_view [OF K s1 view(2)]
  define s2 where "s2 = snd (run_state (ifc_up K n) s1)"
  have s2: "ifc_ctl_sock s2 \<ge> 0"
    using s1 by (simp add: s2_def)
  have v2: "(ifs(take 15 n \<mapsto> v\<lparr>if_flags := if_flags v OR 1\<rparr>)) (take 15 n) = Some (v\<lparr>if_flags := if_flags v OR 1\<rparr>)"
    by simp
  note set_addr = ifc_set_addr_view [OF K s2 up(2) [folded s2_def] v2, of a]
  define s3 where "s3 = snd (run_state (ifc_set_addr K n a) s2)"
  obtain m where s3: "ifc_ctl_sock s3 \<ge> 0" "view (world s3)
      = (ifs(take 15 n \<mapsto> v\<lparr>if_flags := if_flags v OR 1, if_addr := a, if_mask := m\<rparr>), ps)"
    using s2 set_addr(2) unfolding s3_def fun_upd_upd ifc_op_socks by (elim exE) simp
  have "int (unat p) \<le> 32"
    using p by linarith
  then have "uint p \<le> 32"
    by (simp only: of_nat_unat)
  moreover from this have "signed_take_bit 31 (uint p) = uint p"
  proof (intro signed_take_bit_int_eq_self)
    show "- (2 ^ 31) \<le> uint p"
      by (rule order_trans [OF _ uint_ge_0]) simp
    show "uint p < 2 ^ 31"
      using \<open>uint p \<le> 32\<close> by simp
  qed
  ultimately have sp: "sint p = uint p" "0 \<le> uint p" "uint p \<le> 32"
    by (simp_all add: sint_uint)
  note set_prefix = ifc_set_prefixLength_view [OF K s3 fun_upd_same, OF sp(2,3), unfolded fun_upd_upd]
  show ?thesis
    using up(1) set_addr(1) set_prefix p
    by (simp add: ifc_configure_def ipaddr_to_string_def interface_kernelD(4) [OF K] ifc_close_view [OF K] sp
        flip: s1_def s2_def s3_def)
qed

text \<open>C25: On a kernel that behaves as documented, \<open>ifc_configure\<close> of an existing interface with a prefix
  length of at most 32 succeeds; afterwards the interface is up with the given address and the mask of the
  prefix length, its other flags and every other interface are as before, and exactly the two DNS properties
  of the interface are set.\<close>

theorem ifc_configure_installs:
  assumes K: "interface_kernel K view"
    and sock: "ifc_ctl_sock s \<ge> -1"
    and view: "view (world s) = (ifs, ps)" "ifs (take 15 n) = Some v"
    and p: "unat p \<le> 32"
  shows "fst (run_state (ifc_configure K n a p g d1 d2) s) = 0
    \<and> view (world (snd (run_state (ifc_configure K n a p g d1 d2) s))) =
        (ifs(take 15 n \<mapsto> v\<lparr>if_flags := if_flags v OR 1, if_addr := a,
                           if_mask := prefixLengthToIpv4Netmask (int (unat p))\<rparr>),
         ps(dns_prop_name K n ''dns1'' := if d1 \<noteq> 0 then inet_ntoa d1 else '''',
            dns_prop_name K n ''dns2'' := if d2 \<noteq> 0 then inet_ntoa d2 else ''''))"
  by (rule ifc_configure_ok [OF assms])

text \<open>A small kernel that has the documented behaviour: the outside world is the table of interfaces and the
  table of properties.\<close>

type_synonym sim_world = "(string \<rightharpoonup> ifview) \<times> (string \<Rightarrow> string)"

definition sim_ioctl :: "int \<Rightarrow> ioctl_req \<Rightarrow> ifreq \<Rightarrow> (sim_world, int \<times> ifreq) call" where
  "sim_ioctl fd req ifr w =
     (case fst w (ifr_name ifr) of
        None \<Rightarrow> ((-1, ifr), Some 19, w)
      | Some v \<Rightarrow>
          let upd = (\<lambda>v'. ((0, ifr), None, ((fst w)(ifr_name ifr \<mapsto> v'), snd w))) in
          (case req of
             SIOCGIFFLAGS \<Rightarrow> ((0, ifr\<lparr>ifr_ru := bytes16 (if_flags v) @ drop 2 (ifr_ru ifr)\<rparr>), None, w)
           | SIOCSIFFLAGS \<Rightarrow> upd (v\<lparr>if_flags := get16 (ifr_ru ifr)\<rparr>)
           | SIOCSIFADDR \<Rightarrow> upd (v\<lparr>if_addr := sin_addr (ifr_ru ifr), if_mask := 0\<rparr>)
           | SIOCSIFNETMASK \<Rightarrow> upd (v\<lparr>if_mask := sin_addr (ifr_ru ifr)\<rparr>)
           | SIOCGIFADDR \<Rightarrow> ((0, ifr\<lparr>ifr_ru := init_sockaddr_in (ifr_ru ifr) (if_addr v)\<rparr>), None, w)
           | SIOCGIFNETMASK \<Rightarrow> ((0, ifr\<lparr>ifr_ru := init_sockaddr_in (ifr_ru ifr) (if_mask v)\<rparr>), None, w)
           | SIOCGIFHWADDR \<Rightarrow> ((0, ifr\<lparr>ifr_ru := poke 0 (bytes16 1 @ [2, 0, 0, 0, 0, 1]) (ifr_ru ifr)\<rparr>), None, w)
           | SIOCGIFINDEX \<Rightarrow> ((0, ifr\<lparr>ifr_ru := poke 0 (bytes32 1) (ifr_ru ifr)\<rparr>), None, w)
           | _ \<Rightarrow> ((-1, ifr), Some 22, w)))"

definition sim_kernel :: "sim_world kernel" where
  "sim_kernel = \<lparr>k_socket = \<lambda>_ w. (3, None, w), k_close = \<lambda>_ w. ((), None, w), k_bind = \<lambda>_ _ w. (0, None, w),
     k_ioctl = sim_ioctl, k_ioctl_rt = \<lambda>_ _ _ w. (0, None, w), k_ioctl_ifr6 = \<lambda>_ _ _ w. (0, None, w),
     k_if_nametoindex = \<lambda>_ w. (1, None, w), k_getaddrinfo = \<lambda>_ w. ((-2, []), None, w),
     k_getpid = \<lambda>w. (1, None, w), k_send = \<lambda>_ bs w. (int (length bs), None, w), k_recv = \<lambda>_ _ w. (None, Some 11, w),
     k_sendmsg = \<lambda>_ m w. (int (length (concat (msg_iov m))), None, w), k_clock = \<lambda>w. (Some (100, 0), None, w),
     k_if_inet6 = \<lambda>w. (Some [], None, w), k_route = \<lambda>w. (Some [], None, w), k_strerror = \<lambda>_. ''error'',
     k_property_set = \<lambda>k v w. ((), None, (fst w, (snd w)(k := v))), k_property_get = \<lambda>k w. (snd w k, None, w),
     k_usleep = \<lambda>_ w. ((), None, w), k_inet_addr = \<lambda>_. 0, k_atol = \<lambda>_. 0, k_uninit = \<lambda>n. replicate n 0, k_key_max = 32, k_value_max = 92\<rparr>"

lemma sim_kernel_ok: "interface_kernel sim_kernel (\<lambda>w. w)"
  unfolding interface_kernel_def quiet_def sim_kernel_def
  by (auto simp: sim_ioctl_def)

definition sim_state :: "sim_world nstate" where
  "sim_state = \<lparr>world = ([''wlan0'' \<mapsto> \<lparr>if_flags = 0x1002, if_addr = 0, if_mask = 0\<rparr>], \<lambda>_. ''''), errno = 0,
     errmsg = '''', ifc_ctl_sock = -1, ifc_ctl_sock6 = -1\<rparr>"

theorem ifc_configure_installs_witness:
  "fst (run_state (ifc_configure sim_kernel ''wlan0'' 0x0A01A8C0 24 0 0x08080808 0) sim_state) = 0
   \<and> fst (world (snd (run_state (ifc_configure sim_kernel ''wlan0'' 0x0A01A8C0 24 0 0x08080808 0) sim_state)))
       ''wlan0'' = Some \<lparr>if_flags = 0x1003, if_addr = 0x0A01A8C0, if_mask = prefixLengthToIpv4Netmask 24\<rparr>"
  using ifc_configure_installs [OF sim_kernel_ok, of sim_state _ _ "''wlan0''" _ 24 "0x0A01A8C0" 0 "0x08080808" 0]
  by (simp add: sim_state_def)

section \<open>Netlink requests and address text\<close>

lemma poke_past: "length xs \<le> p \<Longrightarrow> poke p b (xs @ ys) = xs @ poke (p - length xs) b ys"
  by (simp add: poke_def add.commute)

lemma poke_here: "length c = length b \<Longrightarrow> poke 0 b (c @ ys) = b @ ys"
  by (simp add: poke_def)

text \<open>The netlink request for an IPv4 or IPv6 address stays inside its 60-byte object, and the bytes that are
  sent are exactly the message header with the message's own length, the \<open>ifaddrmsg\<close>, and one local-address
  attribute that carries the address.\<close>

theorem addr_request_wire_format:
  assumes "length addr = 4 \<or> length addr = 16"
  shows "length (snd (addr_request action fam plen ifindex pid addr)) = 60
    \<and> fst (addr_request action fam plen ifindex pid addr) = 28 + length addr
    \<and> take (28 + length addr) (snd (addr_request action fam plen ifindex pid addr)) =
       bytes32 (of_nat (28 + length addr)) @ bytes16 action @ bytes16 (NLM_F_REQUEST OR NLM_F_ACK) @ bytes32 0
       @ bytes32 pid @ [ucast fam, word_of_int plen, 0, 0] @ bytes32 ifindex
       @ bytes16 (of_nat (4 + length addr)) @ bytes16 IFA_LOCAL @ addr"
proof -
  have z: "replicate 60 (0::u8) = replicate 4 0 @ replicate 4 0 @ bytes32 0 @ replicate 4 0 @ replicate 2 0
     @ replicate 2 0 @ replicate 4 0 @ replicate 4 0 @ replicate 32 0"
    by (simp add: bytes32_def numeral_eq_Suc)
  have t: "replicate 2 (0::u8) @ r = [0, 0] @ r" for r
    by (simp add: numeral_2_eq_2)
  show ?thesis
    using assms
    by (simp add: addr_request_def Let_def NLMSG_ALIGN_def NLMSG_LENGTH_def RTA_LENGTH_def z poke_past poke_here t)
      (auto simp: poke_def)
qed

theorem addr_request_wire_format_witness:
  "fst (addr_request RTM_NEWADDR AF_INET_num 24 2 77 [192, 168, 1, 10]) = 32
   \<and> take 32 (snd (addr_request RTM_NEWADDR AF_INET_num 24 2 77 [192, 168, 1, 10])) =
     [32,0,0,0, 20,0, 5,0, 0,0,0,0, 77,0,0,0, 2,24,0,0, 2,0,0,0, 8,0, 2,0, 192,168,1,10]"
  using addr_request_wire_format [of "[192, 168, 1, 10]" RTM_NEWADDR AF_INET_num 24 2 77]
  by (simp add: bytes16_def bytes32_def RTM_NEWADDR_def AF_INET_num_def NLM_F_REQUEST_def NLM_F_ACK_def IFA_LOCAL_def)

lemma insert_colons_filter: "CHR '':'' \<notin> set cs \<Longrightarrow> filter (\<lambda>c. c \<noteq> CHR '':'') (insert_colons i cs) = cs"
  by (induction i cs rule: insert_colons.induct) auto

lemma length_insert_colons: "length (insert_colons i cs) = length cs + ((i + length cs) div 4 - i div 4)"
proof (induction i cs rule: insert_colons.induct)
  case (2 i c cs)
  have "(i + 1) div 4 = (if i mod 4 = 3 then i div 4 + 1 else i div 4)"
    by (simp add: div_add1_eq) presburger
  moreover have "(i + 1) div 4 \<le> (i + 1 + length cs) div 4"
    by (rule div_le_mono) simp
  ultimately show ?case
    using 2 by (auto split: if_splits simp: Suc_diff_Suc Suc_le_lessD)
qed simp

lemma last_insert_colons:
  "cs \<noteq> [] \<Longrightarrow> (i + length cs) mod 4 = 0 \<Longrightarrow> \<exists>p. insert_colons i cs = p @ '':''"
proof (induction i cs rule: insert_colons.induct)
  case (2 i c cs)
  show ?case
  proof (cases "cs = []")
    case True
    then have "i mod 4 = 3"
      using 2(4) by simp presburger
    then show ?thesis
      using True by (auto intro: exI [of _ "[c]"])
  next
    case False
    then obtain p where "insert_colons (i + 1) cs = p @ '':''"
      using 2 by (cases "i mod 4 = 3") auto
    then show ?thesis
      by (auto intro: exI [of _ "c # CHR '':'' # p"] exI [of _ "c # p"])
  qed
qed simp

text \<open>The address text built from a line of \<open>/proc/net/if_inet6\<close> (32 digits, no colon) has 39 characters,
  so with its terminator it fits the 46-byte buffer, and without its colons it is the 32 digits again.\<close>

theorem ipv6_address_text:
  assumes "length raw = 32" "CHR '':'' \<notin> set raw"
  shows "length (addrstr_of raw) = 39 \<and> filter (\<lambda>c. c \<noteq> CHR '':'') (addrstr_of raw) = raw"
proof -
  have raw: "raw \<noteq> []"
    using assms(1) by auto
  obtain p where p: "insert_colons 0 raw = p @ '':''"
    using last_insert_colons [OF raw, of 0] assms(1) by auto
  have "length (insert_colons 0 raw) = 40"
    using assms(1) by (simp add: length_insert_colons)
  moreover have "filter (\<lambda>c. c \<noteq> CHR '':'') p = raw"
    using insert_colons_filter [OF assms(2), of 0] p by simp
  ultimately show ?thesis
    using assms(1) p by (simp add: addrstr_of_def)
qed

theorem ipv6_address_text_witness:
  "length (addrstr_of ''20010db8000000000000000000000001'') = 39
   \<and> filter (\<lambda>c. c \<noteq> CHR '':'') (addrstr_of ''20010db8000000000000000000000001'')
     = ''20010db8000000000000000000000001''"
  by (rule ipv6_address_text) simp_all

end
