(* ===== verification/Dhcp_Client.thy ===== *)
theory Dhcp_Client
  imports Dhcp_Msg Ifc_Utils
begin

text \<open>
  The DHCP client, \<open>src/system/core/libnetutils/dhcpclient.c\<close>, the raw socket of \<open>packet.c\<close> and the tool
  \<open>dhcptool.c\<close>. The main loop of \<open>dhcp_init_ifc\<close> is a function of the sequence of \<open>poll\<close> results: each
  event is a timeout, an error, or a readable socket with what \<open>read\<close> delivers; the loop may still be
  running when the events are used up. Log output is left out, but what the dump routines read and
  overwrite is not.
\<close>

section \<open>Data\<close>

record dhcp_info =
  type :: u32
  ipaddr :: u32
  gateway :: u32
  prefixLength :: u32
  dns1 :: u32
  dns2 :: u32
  serveraddr :: u32
  lease :: u32

record 'w cstate = "'w nstate" +
  last_good_info :: dhcp_info

type_synonym ('w, 'a) cop = "('w cstate, 'a) state"

definition zero_dhcp_info :: dhcp_info where
  "zero_dhcp_info = \<lparr>type = 0, ipaddr = 0, gateway = 0, prefixLength = 0, dns1 = 0, dns2 = 0, serveraddr = 0, lease = 0\<rparr>"

text \<open>An uninitialised \<open>dhcp_info\<close>, read from the bytes its storage holds.\<close>

definition dhcp_info_at :: "bytes \<Rightarrow> dhcp_info" where
  "dhcp_info_at bs = \<lparr>type = get32 bs, ipaddr = get32 (drop 4 bs), gateway = get32 (drop 8 bs),
     prefixLength = get32 (drop 12 bs), dns1 = get32 (drop 16 bs), dns2 = get32 (drop 20 bs),
     serveraddr = get32 (drop 24 bs), lease = get32 (drop 28 bs)\<rparr>"

definition get_msecs :: "'w kernel \<Rightarrow> ('w, u64) cop" where
  "get_msecs K = do {
     t \<leftarrow> sys (k_clock K);
     ret (case t of None \<Rightarrow> 0 | Some (tv_sec, tv_nsec) \<Rightarrow> tv_sec * 1000 + tv_nsec div 1000000)
   }"

definition dhcp_lasterror :: "('w, string) cop" where
  "dhcp_lasterror = gets errmsg"

definition get_dhcp_info :: "('w, u32 \<times> u32 \<times> u32 \<times> u32 \<times> u32 \<times> u32 \<times> u32) cop" where
  "get_dhcp_info = do {
     i \<leftarrow> gets last_good_info;
     ret (ipaddr i, gateway i, prefixLength i, dns1 i, dns2 i, serveraddr i, lease i)
   }"

definition dhcp_configure :: "'w kernel \<Rightarrow> string \<Rightarrow> dhcp_info \<Rightarrow> ('w, int) cop" where
  "dhcp_configure K ifname info = do {
     modify (last_good_info_update (\<lambda>_. info));
     ifc_configure K ifname (ipaddr info) (prefixLength info) (gateway info) (dns1 info) (dns2 info)
   }"

definition dhcp_type_to_name :: "u32 \<Rightarrow> string" where
  "dhcp_type_to_name t =
     (if t = ucast DHCPDISCOVER then ''discover'' else if t = ucast DHCPOFFER then ''offer''
      else if t = ucast DHCPREQUEST then ''request'' else if t = ucast DHCPDECLINE then ''decline''
      else if t = ucast DHCPACK then ''ack'' else if t = ucast DHCPNAK then ''nak''
      else if t = ucast DHCPRELEASE then ''release'' else if t = ucast DHCPINFORM then ''inform''
      else ''???'')"

section \<open>Decoding a message\<close>

text \<open>Four bytes of an array through a pointer: \<open>None\<close> when one of them is outside the array.\<close>

definition rd32 :: "bytes \<Rightarrow> nat \<Rightarrow> u32 option" where
  "rd32 bs i = (if i + 4 \<le> length bs then Some (get32 (drop i bs)) else None)"

text \<open>The \<open>switch\<close> of \<open>decode_dhcp_msg\<close>.\<close>

definition decode_option :: "bytes \<Rightarrow> nat \<Rightarrow> u8 \<Rightarrow> int \<Rightarrow> dhcp_info \<Rightarrow> dhcp_info option" where
  "decode_option opts x opt optlen info =
     (if opt = OPT_SUBNET_MASK then
        (if optlen \<ge> 4 then do {
           msk \<leftarrow> rd32 opts x;
           Some (info\<lparr>prefixLength := word_of_int (ipv4NetmaskToPrefixLength msk)\<rparr>)
         } else Some info)
      else if opt = OPT_GATEWAY then
        (if optlen \<ge> 4 then do { v \<leftarrow> rd32 opts x; Some (info\<lparr>gateway := v\<rparr>) } else Some info)
      else if opt = OPT_DNS then do {
        info \<leftarrow> (if optlen \<ge> 4 then do { v \<leftarrow> rd32 opts x; Some (info\<lparr>dns1 := v\<rparr>) } else Some info);
        (if optlen \<ge> 8 then do { v \<leftarrow> rd32 opts (x + 4); Some (info\<lparr>dns2 := v\<rparr>) } else Some info)
      }
      else if opt = OPT_LEASE_TIME then
        (if optlen \<ge> 4 then do { v \<leftarrow> rd32 opts x; Some (info\<lparr>lease := ntohl v\<rparr>) } else Some info)
      else if opt = OPT_SERVER_ID then
        (if optlen \<ge> 4 then do { v \<leftarrow> rd32 opts x; Some (info\<lparr>serveraddr := v\<rparr>) } else Some info)
      else if opt = OPT_MESSAGE_TYPE then do { v \<leftarrow> rd opts x; Some (info\<lparr>type := ucast v\<rparr>) }
      else Some info)"

text \<open>The \<open>while\<close> loop; \<open>x\<close> is the index of the pointer in \<open>options\<close>.\<close>

function decode_options :: "bytes \<Rightarrow> nat \<Rightarrow> int \<Rightarrow> dhcp_info \<Rightarrow> dhcp_info option" where
  "decode_options opts x len info =
     (if len > 2 then
        (case rd opts x of
           None \<Rightarrow> None
         | Some opt \<Rightarrow>
             if opt = OPT_PAD then decode_options opts (x + 1) (len - 1) info
             else if opt = OPT_END then Some info
             else (case rd opts (x + 1) of
                None \<Rightarrow> None
              | Some b \<Rightarrow>
                  (let optlen = int (unat b); len = len - 2 in
                   if optlen > len then Some info
                   else (case decode_option opts (x + 2) opt optlen info of
                      None \<Rightarrow> None
                    | Some info' \<Rightarrow> decode_options opts (x + 2 + unat b) (len - optlen) info'))))
      else Some info)"
  by pat_completeness auto
termination
  by (relation "measure (\<lambda>(opts, x, len, info). nat len)") (auto simp del: of_nat_unat)

declare decode_options.simps [simp del]

text \<open>The result and the contents of \<open>*info\<close>.\<close>

definition decode_dhcp_msg :: "dhcp_msg \<Rightarrow> int \<Rightarrow> (int \<times> dhcp_info) option" where
  "decode_dhcp_msg msg len =
     (let info = zero_dhcp_info in
      if len < int (DHCP_MSG_FIXED_SIZE + 4) then Some (-1, info)
      else if options msg ! 0 \<noteq> OPT_COOKIE1 then Some (-1, info)
      else if options msg ! 1 \<noteq> OPT_COOKIE2 then Some (-1, info)
      else if options msg ! 2 \<noteq> OPT_COOKIE3 then Some (-1, info)
      else if options msg ! 3 \<noteq> OPT_COOKIE4 then Some (-1, info)
      else (case decode_options (options msg) 4 (len - int (DHCP_MSG_FIXED_SIZE + 4)) info of
              None \<Rightarrow> None
            | Some info' \<Rightarrow> Some (0, info'\<lparr>ipaddr := yiaddr msg\<rparr>)))"

section \<open>Dumping a message\<close>

definition hex_digit :: "nat \<Rightarrow> char" where
  "hex_digit d = (if d < 10 then char_of (48 + d) else char_of (87 + d))"

text \<open>\<open>snprintf(cp, buf_end - cp, " %02x ", array[i])\<close> for every byte: what stays in a buffer of \<open>buf_size\<close>.
  (Every caller's text is far shorter than the buffer, see \<open>dump_texts_fit\<close> below.)\<close>

definition hex2str :: "nat \<Rightarrow> bytes \<Rightarrow> string" where
  "hex2str buf_size arr = take (buf_size - 1)
     (concat (map (\<lambda>b. [CHR '' '', hex_digit (unat b div 16), hex_digit (unat b mod 16), CHR '' '']) arr))"

text \<open>The loop over \<open>sname\<close> and over \<open>file\<close>: up to the first zero byte, what is not printable becomes a dot;
  then the last byte is cleared.\<close>

fun sanitise :: "bytes \<Rightarrow> bytes" where
  "sanitise [] = []"
| "sanitise (x # xs) =
     (if x < 32 \<or> x > 127 then (if x = 0 then x # xs else 46 # sanitise xs)
      else x # sanitise xs)"

definition clean_field :: "bytes \<Rightarrow> bytes" where
  "clean_field f = (sanitise f)[length f - 1 := 0]"

text \<open>One logged option: code, size, text and name.\<close>

type_synonym opt_log = "u8 \<times> nat \<times> string \<times> string"

definition text_of :: "bytes \<Rightarrow> string" where
  "text_of bs = map (\<lambda>b. char_of (unat b)) bs"

definition slice :: "bytes \<Rightarrow> nat \<Rightarrow> nat \<Rightarrow> bytes option" where
  "slice bs i n = (if i + n \<le> length bs then Some (take n (drop i bs)) else None)"

text \<open>The text of one option in the 2048-byte buffer.\<close>

definition opt_text :: "u8 \<Rightarrow> bytes \<Rightarrow> string" where
  "opt_text c arr =
     (if c = OPT_DOMAIN_NAME \<or> c = OPT_MESSAGE
      then text_of (take (if length arr < 2047 then length arr else 2047) arr)
      else hex2str 2048 arr)"

function dump_options :: "bytes \<Rightarrow> nat \<Rightarrow> int \<Rightarrow> opt_log list option" where
  "dump_options opts x len =
     (if len > 2 then
        (case rd opts x of
           None \<Rightarrow> None
         | Some c \<Rightarrow>
             if c = 0 then dump_options opts (x + 1) (len - 1)
             else if c = OPT_END then Some []
             else (case rd opts (x + 1) of
                None \<Rightarrow> None
              | Some b \<Rightarrow>
                  (let len = len - 2; optsz = unat b in
                   if int optsz > len then Some []
                   else (case slice opts (x + 2) optsz of
                      None \<Rightarrow> None
                    | Some arr \<Rightarrow>
                       (let buf = opt_text c arr
                        in case (if c = OPT_MESSAGE_TYPE
                                 then map_option (\<lambda>v. dhcp_type_to_name (ucast v)) (rd opts (x + 2))
                                 else Some '''') of
                             None \<Rightarrow> None
                           | Some name \<Rightarrow>
                               map_option (Cons (c, optsz, buf, name))
                                 (dump_options opts (x + optsz + 2) (len - int optsz)))))))
      else Some [])"
  by pat_completeness auto
termination
  by (relation "measure (\<lambda>(opts, x, len). nat len)") (auto simp del: of_nat_unat)

declare dump_options.simps [simp del]

definition dump_dhcp_msg :: "dhcp_msg \<Rightarrow> int \<Rightarrow> (dhcp_msg \<times> opt_log list) option" where
  "dump_dhcp_msg msg len =
     (if len < int DHCP_MSG_FIXED_SIZE then Some (msg, [])
      else let len = len - int DHCP_MSG_FIXED_SIZE;
               msg = msg\<lparr>sname := clean_field (sname msg)\<rparr>;
               msg = msg\<lparr>m_file := clean_field (m_file msg)\<rparr>
           in if len < 4 then Some (msg, [])
              else map_option (Pair msg) (dump_options (options msg) 4 (len - 4)))"

section \<open>Sending, and judging replies\<close>

definition INADDR_ANY :: u32 where "INADDR_ANY = 0"
definition INADDR_BROADCAST :: u32 where "INADDR_BROADCAST = 0xffffffff"

text \<open>The result and the message as the dump leaves it; \<open>None\<close> when the dump reads outside the message.\<close>

definition send_message :: "'w kernel \<Rightarrow> int \<Rightarrow> int \<Rightarrow> dhcp_msg \<Rightarrow> nat \<Rightarrow> ('w, (int \<times> dhcp_msg) option) cop" where
  "send_message K sock if_index msg sz =
     (case dump_dhcp_msg msg (int sz) of
        None \<Rightarrow> ret None
      | Some (msg', _) \<Rightarrow> do {
          r \<leftarrow> send_packet (\<lambda>s m. sys (k_sendmsg K s m)) sock if_index (dhcp_msg_bytes msg') sz
                 INADDR_ANY INADDR_BROADCAST PORT_BOOTP_CLIENT PORT_BOOTP_SERVER;
          ret (Some (r, msg'))
        })"

definition is_valid_reply :: "dhcp_msg \<Rightarrow> dhcp_msg \<Rightarrow> int \<Rightarrow> bool" where
  "is_valid_reply msg reply sz =
     (if sz < int DHCP_MSG_FIXED_SIZE then False
      else if op reply \<noteq> OP_BOOTREPLY then False
      else if xid reply \<noteq> xid msg then False
      else if htype reply \<noteq> htype msg then False
      else if hlen reply \<noteq> hlen msg then False
      else if take (unat (hlen msg)) (chaddr msg) \<noteq> take (unat (hlen msg)) (chaddr reply) then False
      else True)"

definition open_raw_socket :: "'w kernel \<Rightarrow> string \<Rightarrow> bytes \<Rightarrow> int \<Rightarrow> ('w, int) cop" where
  "open_raw_socket K ifname hwaddr if_index = do {
     s \<leftarrow> sys (k_socket K PF_PACKET);
     (if s < 0 then fatal K ''socket(PF_PACKET)''
      else do {
        let bindaddr = zero_sockaddr_ll\<lparr>sll_family := AF_PACKET, sll_protocol := htons ETH_P_IP,
              sll_halen := ETH_ALEN, sll_addr := poke 0 (take 6 hwaddr) (sll_addr zero_sockaddr_ll),
              sll_ifindex := if_index\<rparr>;
        b \<leftarrow> sys (k_bind K s bindaddr);
        (if b < 0 then fatal K ''Cannot bind raw socket to interface'' else ret s)
      })
   }"

section \<open>The main loop\<close>

datatype dhcp_state = STATE_SELECTING | STATE_REQUESTING

definition TIMEOUT_INITIAL :: u32 where "TIMEOUT_INITIAL = 4000"
definition TIMEOUT_MAX :: u32 where "TIMEOUT_MAX = 32000"

text \<open>The local variables of \<open>dhcp_init_ifc\<close>.\<close>

record dhcp_vars =
  discover_msg :: dhcp_msg
  request_msg :: dhcp_msg
  reply :: dhcp_msg
  info :: dhcp_info
  v_s :: int
  v_xid :: u32
  hwaddr :: bytes
  v_state :: dhcp_state
  timeout :: u32
  if_index :: int

datatype poll_event = PollTimeout | PollErr int | PollIn read_result

text \<open>After an event the loop goes on, or the function has returned, or it has read or written outside an
  object.\<close>

datatype outcome = Running dhcp_vars | Returned int | Fault

definition transmit :: "'w kernel \<Rightarrow> dhcp_vars \<Rightarrow> ('w, outcome) cop" where
  "transmit K v = do {
     let (msg, sz) = (case v_state v of
        STATE_SELECTING \<Rightarrow> init_dhcp_discover_msg (hwaddr v) (v_xid v)
      | STATE_REQUESTING \<Rightarrow>
          init_dhcp_request_msg (hwaddr v) (v_xid v) (ipaddr (info v)) (serveraddr (info v)));
     sent \<leftarrow> send_message K (v_s v) (if_index v) msg sz;
     (case sent of
        None \<Rightarrow> ret Fault
      | Some (r, msg') \<Rightarrow> do {
          (if r < 0 then do {
             e \<leftarrow> gets errno;
             printerr (''error sending dhcp msg: '' @ k_strerror K e @ nl)
           } else ret ());
          ret (Running (case v_state v of
             STATE_SELECTING \<Rightarrow> v\<lparr>discover_msg := msg'\<rparr>
           | STATE_REQUESTING \<Rightarrow> v\<lparr>request_msg := msg'\<rparr>))
        })
   }"

definition on_timeout :: "'w kernel \<Rightarrow> string \<Rightarrow> dhcp_vars \<Rightarrow> ('w, outcome) cop" where
  "on_timeout K ifname v = do {
     printerr (''TIMEOUT'' @ nl);
     (if timeout v \<ge> TIMEOUT_MAX then do {
        printerr (''timed out'' @ nl);
        (if type (info v) = ucast DHCPOFFER then do {
           printerr (''no acknowledgement from DHCP server'' @ nl @ ''configuring '' @ ifname
                     @ '' with offered parameters'' @ nl);
           r \<leftarrow> dhcp_configure K ifname (info v);
           ret (Returned r)
         } else do {
           modify (errno_update (\<lambda>_. 62));
           sys (k_close K (v_s v));
           ret (Returned (-1))
         })
      } else transmit K (v\<lparr>timeout := timeout v * 2\<rparr>))
   }"

definition on_poll_error :: "'w kernel \<Rightarrow> int \<Rightarrow> dhcp_vars \<Rightarrow> ('w, outcome) cop" where
  "on_poll_error K e v = do {
     modify (errno_update (\<lambda>_. e));
     (if e = 11 \<or> e = 4 then ret (Running v)
      else do { r \<leftarrow> fatal K ''poll failed''; ret (Returned r) })
   }"

text \<open>The second half of the loop body: a message of size \<open>r\<close> is in \<open>reply\<close>.\<close>

definition on_reply :: "'w kernel \<Rightarrow> string \<Rightarrow> dhcp_vars \<Rightarrow> int \<Rightarrow> ('w, outcome) cop" where
  "on_reply K ifname v r =
     (case dump_dhcp_msg (reply v) r of
        None \<Rightarrow> ret Fault
      | Some (rep, _) \<Rightarrow>
     (case decode_dhcp_msg rep r of
        None \<Rightarrow> ret Fault
      | Some (_, nfo) \<Rightarrow> do {
          let v = v\<lparr>reply := rep, info := nfo\<rparr>;
          let valid_reply = (case v_state v of
             STATE_SELECTING \<Rightarrow> is_valid_reply (discover_msg v) rep r
           | STATE_REQUESTING \<Rightarrow> is_valid_reply (request_msg v) rep r);
          (if \<not> valid_reply then do {
             printerr (''invalid reply'' @ nl);
             ret (Running v)
           } else case v_state v of
             STATE_SELECTING \<Rightarrow>
               if type nfo = ucast DHCPOFFER
               then transmit K (v\<lparr>v_state := STATE_REQUESTING, timeout := TIMEOUT_INITIAL, v_xid := v_xid v + 1\<rparr>)
               else ret (Running v)
           | STATE_REQUESTING \<Rightarrow>
               if type nfo = ucast DHCPACK then do {
                 printerr (''configuring '' @ ifname @ nl);
                 sys (k_close K (v_s v));
                 c \<leftarrow> dhcp_configure K ifname nfo;
                 ret (Returned c)
               } else if type nfo = ucast DHCPNAK then do {
                 printerr (''configuration request denied'' @ nl);
                 sys (k_close K (v_s v));
                 ret (Returned (-1))
               } else do {
                 printerr (''ignoring '' @ dhcp_type_to_name (type nfo) @ '' message in state 2'' @ nl);
                 ret (Running v)
               })
        }))"

definition on_readable :: "'w kernel \<Rightarrow> string \<Rightarrow> read_result \<Rightarrow> dhcp_vars \<Rightarrow> ('w, outcome) cop" where
  "on_readable K ifname rr v = do {
     modify (errno_update (\<lambda>_. 0));
     (case receive_packet (k_uninit K (SIZEOF_IPHDR + SIZEOF_UDPHDR + SIZEOF_DHCP_MSG)) rr
             (dhcp_msg_bytes (reply v)) of
        RxFail e \<Rightarrow> do {
          modify (errno_update (\<lambda>_. e));
          ret (if e \<noteq> 0 \<and> (e = 100 \<or> e = 6) then Returned (-1) else Running v)
        }
      | RxFault \<Rightarrow> ret Fault
      | RxOk r bs \<Rightarrow> on_reply K ifname (v\<lparr>reply := dhcp_msg_at bs\<rparr>) r)
   }"

definition dhcp_event :: "'w kernel \<Rightarrow> string \<Rightarrow> poll_event \<Rightarrow> dhcp_vars \<Rightarrow> ('w, outcome) cop" where
  "dhcp_event K ifname ev v =
     (case ev of
        PollTimeout \<Rightarrow> on_timeout K ifname v
      | PollErr e \<Rightarrow> on_poll_error K e v
      | PollIn rr \<Rightarrow> on_readable K ifname rr v)"

fun dhcp_loop :: "'w kernel \<Rightarrow> string \<Rightarrow> poll_event list \<Rightarrow> outcome \<Rightarrow> ('w, outcome) cop" where
  "dhcp_loop K ifname (ev # evs) (Running v) = do {
     r \<leftarrow> dhcp_event K ifname ev v;
     dhcp_loop K ifname evs r
   }"
| "dhcp_loop K ifname _ r = ret r"

definition dhcp_begin :: "'w kernel \<Rightarrow> string \<Rightarrow> ('w, outcome) cop" where
  "dhcp_begin K ifname = do {
     ms \<leftarrow> get_msecs K;
     hw \<leftarrow> ifc_get_hwaddr K ifname;
     (case hw of
        None \<Rightarrow> do { r \<leftarrow> fatal K ''cannot obtain interface address''; ret (Returned r) }
      | Some hwa \<Rightarrow> do {
          ix \<leftarrow> ifc_get_ifindex K ifname;
          (case ix of
             None \<Rightarrow> do { r \<leftarrow> fatal K ''cannot obtain interface index''; ret (Returned r) }
           | Some idx \<Rightarrow> do {
               s \<leftarrow> open_raw_socket K ifname hwa idx;
               let junk = dhcp_msg_at (k_uninit K SIZEOF_DHCP_MSG);
               transmit K \<lparr>discover_msg = junk, request_msg = junk, reply = junk,
                 info = (dhcp_info_at (k_uninit K 32))\<lparr>type := 0\<rparr>, v_s = s, v_xid = ucast ms, hwaddr = hwa,
                 v_state = STATE_SELECTING, timeout = TIMEOUT_INITIAL, if_index = idx\<rparr>
             })
        })
   }"

definition dhcp_init_ifc :: "'w kernel \<Rightarrow> poll_event list \<Rightarrow> string \<Rightarrow> ('w, outcome) cop" where
  "dhcp_init_ifc K evs ifname = do {
     r \<leftarrow> dhcp_begin K ifname;
     dhcp_loop K ifname evs r
   }"

definition do_dhcp :: "'w kernel \<Rightarrow> poll_event list \<Rightarrow> string \<Rightarrow> ('w, outcome) cop" where
  "do_dhcp K evs iname = do {
     a \<leftarrow> ifc_set_addr K iname 0;
     (if a \<noteq> 0 then do {
        e \<leftarrow> gets errno;
        printerr (''failed to set ip addr for '' @ iname @ '' to 0.0.0.0: '' @ k_strerror K e @ nl);
        ret (Returned (-1))
      } else do {
        u \<leftarrow> ifc_up K iname;
        (if u \<noteq> 0 then do {
           e \<leftarrow> gets errno;
           printerr (''failed to bring up interface '' @ iname @ '': '' @ k_strerror K e @ nl);
           ret (Returned (-1))
         } else dhcp_init_ifc K evs iname)
      })
   }"

text \<open>\<open>main\<close> of \<open>dhcptool\<close>: the exit status (1 is \<open>EXIT_FAILURE\<close>), once \<open>do_dhcp\<close> has returned.\<close>

definition dhcptool_main :: "'w kernel \<Rightarrow> poll_event list \<Rightarrow> string list \<Rightarrow> ('w, int option) cop" where
  "dhcptool_main K evs argv =
     (if length argv \<noteq> 2 then ret (Some 1)
      else do {
        i \<leftarrow> ifc_init K;
        (if i \<noteq> 0 then ret (Some 1)
         else do {
           rc \<leftarrow> do_dhcp K evs (argv ! 1);
           (case rc of
              Returned r \<Rightarrow> do { ifc_close K; ret (Some (if r \<noteq> 0 then 1 else 0)) }
            | _ \<Rightarrow> ret None)
         })
      })"

section \<open>Memory safety of the decoders\<close>

lemma rd32_in [simp]: "x + 4 \<le> length bs \<Longrightarrow> rd32 bs x = Some (get32 (drop x bs))"
  by (simp add: rd32_def)

lemma decode_option_safe:
  assumes "x + nat optlen \<le> length opts" "x < length opts" "0 \<le> optlen"
  shows "\<exists>i. decode_option opts x opt optlen nf = Some i"
  using assms by (auto simp: decode_option_def)

lemma decode_options_safe:
  "0 \<le> len \<Longrightarrow> int x + len \<le> int (length opts) \<Longrightarrow> \<exists>i. decode_options opts x len nf = Some i"
proof (induction opts x len nf rule: decode_options.induct)
  case (1 opts x len nf)
  show ?case
  proof (cases "len > 2")
    case True
    then have x: "x + 2 < length opts"
      using 1 by linarith
    define l where "l = int (unat (opts ! (x + 1)))"
    have fit: "x + 2 + nat l \<le> length opts" if "l \<le> len - 2"
      using that 1(4) by (simp add: l_def del: of_nat_unat)
    show ?thesis
    proof (cases "opts ! x = OPT_PAD \<or> opts ! x = OPT_END \<or> l > len - 2")
      case True
      then show ?thesis
        using x \<open>len > 2\<close> 1(1) [of "opts ! x"] 1(3,4)
        by (subst decode_options.simps) (auto simp: l_def simp del: of_nat_unat)
    next
      case False
      then obtain i where i: "decode_option opts (x + 2) (opts ! x) l nf = Some i"
        using decode_option_safe [of "x + 2" l opts "opts ! x" nf] fit x
        by (auto simp: l_def simp del: of_nat_unat)
      moreover have "\<exists>j. decode_options opts (x + 2 + nat l) (len - 2 - l) i = Some j"
        using 1(2) [of "opts ! x" "opts ! (x + 1)" l "len - 2" i] x False True i 1(4)
        by (simp add: l_def del: of_nat_unat)
      ultimately show ?thesis
        using x False True
        by (subst decode_options.simps) (simp add: l_def del: of_nat_unat)
    qed
  qed (simp add: decode_options.simps)
qed

lemma dump_options_safe:
  "0 \<le> len \<Longrightarrow> int x + len \<le> int (length opts) \<Longrightarrow> \<exists>l. dump_options opts x len = Some l"
proof (induction opts x len rule: dump_options.induct)
  case (1 opts x len)
  show ?case
  proof (cases "len > 2")
    case True
    then have x: "x + 2 < length opts"
      using 1 by linarith
    define l where "l = unat (opts ! (x + 1))"
    show ?thesis
    proof (cases "opts ! x = 0 \<or> opts ! x = OPT_END \<or> int l > len - 2")
      case True
      then show ?thesis
        using x \<open>len > 2\<close> 1(1) [of "opts ! x"] 1(3,4)
        by (subst dump_options.simps) (auto simp: l_def simp del: of_nat_unat)
    next
      case False
      then have "x + 2 + l \<le> length opts"
        using 1(4) by linarith
      then have s: "slice opts (x + 2) l = Some (take l (drop (x + 2) opts))"
        by (simp add: slice_def)
      have "\<exists>j. dump_options opts (x + l + 2) (len - 2 - int l) = Some j"
        using 1(2) [OF True rd_in _ _ rd_in refl l_def _ s refl, of
            "if opts ! x = OPT_MESSAGE_TYPE then dhcp_type_to_name (ucast (opts ! (x + 2))) else []"]
          x False 1(4)
        by (simp del: of_nat_unat)
      then show ?thesis
        using x False True s
        by (subst dump_options.simps) (auto simp: l_def Let_def simp del: of_nat_unat)
    qed
  qed (simp add: dump_options.simps)
qed

lemma length_sanitise [simp]: "length (sanitise bs) = length bs"
  by (induction bs) auto

lemma length_clean_field [simp]: "length (clean_field f) = length f"
  by (simp add: clean_field_def)

text \<open>What dumping does to a message: only the two text fields change, and the message keeps its shape.\<close>

lemma dump_dhcp_msg_safe:
  assumes "dhcp_msg_ok msg" "n \<le> 1260"
  obtains msg' l where "dump_dhcp_msg msg n = Some (msg', l)" "dhcp_msg_ok msg'"
    "msg' = msg\<lparr>sname := sname msg', m_file := m_file msg'\<rparr>"
proof (cases "n < int DHCP_MSG_FIXED_SIZE + 4")
  case True
  with assms show thesis
    by (intro that [of "if n < int DHCP_MSG_FIXED_SIZE then msg
        else msg\<lparr>sname := clean_field (sname msg), m_file := clean_field (m_file msg)\<rparr>" "[]"])
      (auto simp: dump_dhcp_msg_def Let_def dhcp_msg_ok_def DHCP_MSG_FIXED_SIZE_def)
next
  case False
  then obtain l where "dump_options (options msg) 4 (n - 240) = Some l"
    using dump_options_safe [of "n - 240" 4 "options msg"] assms
    by (auto simp: dhcp_msg_ok_def DHCP_MSG_FIXED_SIZE_def)
  with assms False show thesis
    by (intro that [of "msg\<lparr>sname := clean_field (sname msg), m_file := clean_field (m_file msg)\<rparr>" l])
      (auto simp: dump_dhcp_msg_def Let_def dhcp_msg_ok_def DHCP_MSG_FIXED_SIZE_def)
qed

lemma decode_dhcp_msg_safe:
  assumes "dhcp_msg_ok msg" "n \<le> 1260"
  shows "decode_dhcp_msg msg n = Some (-1, zero_dhcp_info)
    \<or> (\<exists>i. decode_dhcp_msg msg n = Some (0, i\<lparr>ipaddr := yiaddr msg\<rparr>))"
proof (cases "n < 240")
  case False
  then obtain i where "decode_options (options msg) 4 (n - 240) zero_dhcp_info = Some i"
    using decode_options_safe [of "n - 240" 4 "options msg"] assms by (auto simp: dhcp_msg_ok_def)
  then show ?thesis
    by (auto simp: decode_dhcp_msg_def DHCP_MSG_FIXED_SIZE_def)
qed (simp add: decode_dhcp_msg_def DHCP_MSG_FIXED_SIZE_def)

section \<open>Decoding inverts encoding\<close>

text \<open>The reference: options as a list of code and value in the encoding of RFC 2132, and what each of them
  means for the lease.\<close>

definition enc_option :: "u8 \<times> bytes \<Rightarrow> bytes" where
  "enc_option ov = fst ov # of_nat (length (snd ov)) # snd ov"

definition enc_options :: "(u8 \<times> bytes) list \<Rightarrow> bytes" where
  "enc_options os = concat (map enc_option os)"

definition option_ok :: "u8 \<times> bytes \<Rightarrow> bool" where
  "option_ok ov \<longleftrightarrow> fst ov \<noteq> OPT_PAD \<and> fst ov \<noteq> OPT_END \<and> length (snd ov) \<le> 255
     \<and> (fst ov = OPT_MESSAGE_TYPE \<longrightarrow> snd ov \<noteq> [])"

definition lease_option :: "u8 \<times> bytes \<Rightarrow> dhcp_info \<Rightarrow> dhcp_info" where
  "lease_option ov i =
     (case ov of (c, v) \<Rightarrow>
        if c = OPT_MESSAGE_TYPE then i\<lparr>type := ucast (hd v)\<rparr>
        else if length v < 4 then i
        else if c = OPT_SUBNET_MASK then i\<lparr>prefixLength := word_of_int (ipv4NetmaskToPrefixLength (get32 v))\<rparr>
        else if c = OPT_GATEWAY then i\<lparr>gateway := get32 v\<rparr>
        else if c = OPT_DNS then (if length v < 8 then i\<lparr>dns1 := get32 v\<rparr>
                                  else i\<lparr>dns1 := get32 v, dns2 := get32 (drop 4 v)\<rparr>)
        else if c = OPT_LEASE_TIME then i\<lparr>lease := ntohl (get32 v)\<rparr>
        else if c = OPT_SERVER_ID then i\<lparr>serveraddr := get32 v\<rparr>
        else i)"

lemma get32_append [simp]: "4 \<le> length v \<Longrightarrow> get32 (v @ r) = get32 v"
  by (cases v rule: list.exhaust; cases "tl v"; cases "tl (tl v)"; cases "tl (tl (tl v))")
    (auto simp: get32_def)

lemma decode_option_value:
  assumes "opts = pre @ v @ rest" "x = length pre" "option_ok (c, v)"
  shows "decode_option opts x c (int (length v)) i = Some (lease_option (c, v) i)"
proof -
  have "rd opts x = Some (hd v)" if "v \<noteq> []"
    using that assms by (simp add: hd_conv_nth nth_append)
  moreover have "get32 (drop (x + 4) opts) = get32 (drop 4 v)" if "8 \<le> length v"
    using that assms by simp
  ultimately show ?thesis
    using assms by (auto simp: decode_option_def lease_option_def option_ok_def dhcp_consts)
qed

lemma decode_options_step:
  assumes "opts = pre @ enc_option (c, v) @ rest" "x = length pre" "option_ok (c, v)"
    and len: "int (length v) + 2 \<le> len" "2 < len"
  shows "decode_options opts x len i =
    decode_options opts (x + 2 + length v) (len - 2 - int (length v)) (lease_option (c, v) i)"
proof -
  have b: "rd opts x = Some c" "rd opts (x + 1) = Some (of_nat (length v))"
    using assms by (simp_all add: enc_option_def nth_append)
  have n: "unat (of_nat (length v) :: u8) = length v"
    using assms(3) by (simp add: option_ok_def unat_of_nat take_bit_eq_mod)
  have d: "decode_option opts (x + 2) c (int (length v)) i = Some (lease_option (c, v) i)"
    using assms by (intro decode_option_value [of _ "pre @ [c, of_nat (length v)]" _ rest]) (auto simp: enc_option_def)
  show ?thesis
    using assms(3) b d len by (subst decode_options.simps) (simp add: option_ok_def n del: of_nat_unat)
qed

lemma decode_enc_options:
  "list_all option_ok os \<Longrightarrow> opts = pre @ enc_options os @ OPT_END # rest \<Longrightarrow> x = length pre \<Longrightarrow>
   int (length (enc_options os)) < len \<Longrightarrow> decode_options opts x len i = Some (fold lease_option os i)"
proof (induction os arbitrary: pre x len i)
  case Nil
  then show ?case
    by (subst decode_options.simps) (simp add: enc_options_def dhcp_consts)
next
  case (Cons ov os)
  obtain c v where ov: "ov = (c, v)" by (cases ov)
  have l: "length (enc_option (c, v)) = 2 + length v"
    by (simp add: enc_option_def)
  have "decode_options opts x len i
      = decode_options opts (x + 2 + length v) (len - 2 - int (length v)) (lease_option (c, v) i)"
    using Cons.prems ov l
    by (intro decode_options_step [of _ pre _ _ "enc_options os @ OPT_END # rest"]) (auto simp: enc_options_def)
  also have "\<dots> = Some (fold lease_option os (lease_option (c, v) i))"
    using Cons.prems ov l by (intro Cons.IH [of "pre @ enc_option (c, v)"]) (auto simp: enc_options_def)
  finally show ?case by (simp add: ov)
qed

text \<open>C19: Decoding inverts encoding. For every list of well-formed options (RFC 2132 code, length, value) laid
  out after the cookie, closed by the end option and followed by anything, \<open>decode_dhcp_msg\<close> succeeds and
  yields exactly the lease that the options describe, later options overriding earlier ones, with the
  client's address taken from \<open>yiaddr\<close>.\<close>

theorem decode_dhcp_msg_correct:
  assumes "list_all option_ok os"
    and "options msg = [OPT_COOKIE1, OPT_COOKIE2, OPT_COOKIE3, OPT_COOKIE4] @ enc_options os @ OPT_END # rest"
    and "240 + int (length (enc_options os)) < len"
  shows "decode_dhcp_msg msg len = Some (0, (fold lease_option os zero_dhcp_info)\<lparr>ipaddr := yiaddr msg\<rparr>)"
proof -
  have "decode_options (options msg) 4 (len - 240) zero_dhcp_info = Some (fold lease_option os zero_dhcp_info)"
    using assms by (intro decode_enc_options [of _ _ "[OPT_COOKIE1, OPT_COOKIE2, OPT_COOKIE3, OPT_COOKIE4]" rest]) auto
  then show ?thesis
    using assms(2,3) by (simp add: decode_dhcp_msg_def DHCP_MSG_FIXED_SIZE_def)
qed

theorem decode_dhcp_msg_correct_witness:
  "decode_dhcp_msg (zero_dhcp_msg\<lparr>yiaddr := 0x0A01A8C0, options := [0x63, 0x82, 0x53, 0x63]
       @ enc_options [(53, [5]), (1, [255, 255, 255, 0]), (51, [0, 0, 14, 16])] @ OPT_END # replicate 1003 0\<rparr>) 300
   = Some (0, zero_dhcp_info\<lparr>type := 5, prefixLength := 24, lease := 3600, ipaddr := 0x0A01A8C0\<rparr>)"
proof -
  have m: "ipv4NetmaskToPrefixLength (le32 255 255 255 0) = 24" "htonl (le32 0 0 14 16) = 3600"
    by code_simp+
  show ?thesis
    using decode_dhcp_msg_correct [where os = "[(53, [5]), (1, [255, 255, 255, 0]), (51, [0, 0, 14, 16])]"
        and rest = "replicate 1003 0" and len = 300
        and msg = "zero_dhcp_msg\<lparr>yiaddr := 0x0A01A8C0, options := [0x63, 0x82, 0x53, 0x63]
       @ enc_options [(53, [5]), (1, [255, 255, 255, 0]), (51, [0, 0, 14, 16])] @ OPT_END # replicate 1003 0\<rparr>"]
    by (simp add: option_ok_def dhcp_consts enc_options_def enc_option_def lease_option_def get32_def m)
qed

lemma length_hex2str: "length (hex2str n arr) \<le> 4 * length arr"
proof -
  have "length (concat (map (\<lambda>b. [CHR '' '', f b, g b, CHR '' '']) arr)) = 4 * length arr" for f g :: "u8 \<Rightarrow> char"
    by (induction arr) auto
  then show ?thesis
    by (simp add: hex2str_def)
qed

lemma dump_options_cases:
  assumes "dump_options opts x len = Some l"
  obtains "l = []"
  | y len' where "nat len' < nat len" "dump_options opts y len' = Some l"
  | c b arr name y len' l' where "length arr = unat (b::u8)" "l = (c, unat b, opt_text c arr, name) # l'"
      "nat len' < nat len" "dump_options opts y len' = Some l'"
proof (cases "len > 2 \<and> rd opts x \<noteq> Some OPT_END")
  case True
  then obtain c where c: "rd opts x = Some c" "c \<noteq> OPT_END"
    using assms by (subst (asm) dump_options.simps) (auto split: option.splits)
  show thesis
  proof (cases "c = 0")
    case zero: True
    then show thesis
      using assms True c that(2) [of "len - 1" "x + 1"] by (subst (asm) dump_options.simps) simp
  next
    case nonzero: False
    then obtain b where b: "rd opts (x + 1) = Some b"
      using assms True c by (subst (asm) dump_options.simps) (auto split: option.splits)
    show thesis
    proof (cases "int (unat b) > len - 2")
      case True
      then show thesis
        using assms \<open>len > 2 \<and> _\<close> c nonzero b that(1)
        by (subst (asm) dump_options.simps) (simp add: Let_def del: of_nat_unat)
    next
      case False
      obtain arr name l' where "slice opts (x + 2) (unat b) = Some arr" "l = (c, unat b, opt_text c arr, name) # l'"
          "dump_options opts (x + unat b + 2) (len - 2 - int (unat b)) = Some l'"
        using assms True c nonzero b False
        by (subst (asm) dump_options.simps) (auto simp: Let_def simp del: of_nat_unat split: option.splits)
      then show thesis
        using True by (intro that(3) [of arr b c name l']) (auto simp: slice_def simp del: of_nat_unat split: if_splits)
    qed
  qed
next
  case False
  then show thesis
    using assms that(1) by (subst (asm) dump_options.simps) (auto split: if_splits simp: OPT_END_def)
qed

lemma dump_texts_fit:
  "dump_options opts x len = Some l \<Longrightarrow> e \<in> set l \<Longrightarrow> length (fst (snd (snd e))) \<le> 1020"
proof (induction "nat len" arbitrary: x len l rule: less_induct)
  case less
  have t: "length (opt_text c arr) \<le> 1020" if "length arr = unat (b::u8)" for c arr b
    using length_hex2str [of 2048 arr] unat_u8_less [of b] that by (auto simp: opt_text_def text_of_def simp del: unat_u8_less)
  from less.prems(1) show ?case
  proof (cases rule: dump_options_cases)
    case (3 c b arr name y len' l')
    then show ?thesis
      using less t by auto
  qed (use less in auto)
qed



section \<open>One turn of the main loop\<close>

lemma send_frame [simp]:
  "ifc_ctl_sock (snd (run_state (send_message K sk ix m n) s)) = ifc_ctl_sock s"
  "last_good_info (snd (run_state (send_message K sk ix m n) s)) = last_good_info s"
  by (simp_all add: send_message_def send_packet_def sys_def split: option.split prod.split)

definition next_msg :: "dhcp_vars \<Rightarrow> dhcp_msg" where
  "next_msg v = fst (case v_state v of
        STATE_SELECTING \<Rightarrow> init_dhcp_discover_msg (hwaddr v) (v_xid v)
      | STATE_REQUESTING \<Rightarrow>
          init_dhcp_request_msg (hwaddr v) (v_xid v) (ipaddr (info v)) (serveraddr (info v)))"

text \<open>Transmitting always leaves the loop running, with the message just built (up to the text fields, which
  the dump cleans) in the variable of the state.\<close>

lemma transmit_runs:
  obtains m s' where "run_state (transmit K v) s =
      (Running (case v_state v of STATE_SELECTING \<Rightarrow> v\<lparr>discover_msg := m\<rparr> | STATE_REQUESTING \<Rightarrow> v\<lparr>request_msg := m\<rparr>), s')"
    "m = (next_msg v)\<lparr>sname := sname m, m_file := m_file m\<rparr>"
    "last_good_info s' = last_good_info s" "ifc_ctl_sock s' = ifc_ctl_sock s"
proof -
  define ms where "ms = (case v_state v of
        STATE_SELECTING \<Rightarrow> init_dhcp_discover_msg (hwaddr v) (v_xid v)
      | STATE_REQUESTING \<Rightarrow>
          init_dhcp_request_msg (hwaddr v) (v_xid v) (ipaddr (info v)) (serveraddr (info v)))"
  have "dhcp_msg_ok (fst ms)" "int (snd ms) \<le> 1260"
    by (auto simp: ms_def discover_msg_eq [of "hwaddr v"] request_msg_eq [of "hwaddr v"] split: dhcp_state.split)
      (metis fst_conv init_msgs_ok discover_msg_eq request_msg_eq)+
  then obtain m l where m: "dump_dhcp_msg (fst ms) (int (snd ms)) = Some (m, l)"
      "m = (fst ms)\<lparr>sname := sname m, m_file := m_file m\<rparr>"
    using dump_dhcp_msg_safe by metis
  show thesis
    using m(2)
    by (intro that [of m "snd (run_state (transmit K v) s)"])
      (auto simp: transmit_def send_message_def m(1) next_msg_def ms_def printerr_def send_packet_def
        sys_def Let_def split_beta simp flip: ms_def split: dhcp_state.split prod.split)
qed

definition rounds :: "u32 \<Rightarrow> nat" where
  "rounds t = (if t = 4000 then 3 else if t = 8000 then 2 else if t = 16000 then 1 else 0)"

text \<open>The timeouts after which the loop still goes on: three per state.\<close>

definition dhcp_budget :: "dhcp_vars \<times> 'w cstate \<Rightarrow> nat" where
  "dhcp_budget vs = rounds (timeout (fst vs)) + (if v_state (fst vs) = STATE_SELECTING then 3 else 0)"

definition vars_ok :: "dhcp_vars \<Rightarrow> bool" where
  "vars_ok v \<longleftrightarrow> dhcp_msg_ok (reply v) \<and> timeout v \<in> {4000, 8000, 16000, 32000}"

definition dhcp_step ::
  "'w kernel \<Rightarrow> string \<Rightarrow> poll_event \<Rightarrow> dhcp_vars \<times> 'w cstate \<Rightarrow> (dhcp_vars \<times> 'w cstate) option" where
  "dhcp_step K ifname ev vs =
     (case run_state (dhcp_event K ifname ev (fst vs)) (snd vs) of
        (Running v', s') \<Rightarrow> Some (v', s')
      | _ \<Rightarrow> None)"

lemma dhcp_loop_not_running [simp]:
  "run_state (dhcp_loop K n evs (Returned r)) s = (Returned r, s)"
  "run_state (dhcp_loop K n evs Fault) s = (Fault, s)"
  by (cases evs; simp)+

lemma dhcp_loop_steps:
  "run_state (dhcp_loop K n evs (Running v)) s = (Running v', s') \<longleftrightarrow>
   steps (dhcp_step K n) evs (v, s) = Some (v', s')"
proof (induction evs arbitrary: v s)
  case (Cons e es)
  obtain r t where "run_state (dhcp_event K n e v) s = (r, t)"
    by (cases "run_state (dhcp_event K n e v) s")
  then show ?case
    by (cases r) (auto simp: Cons dhcp_step_def)
qed auto

lemma reply_ok_received:
  "receive_packet stk rr (dhcp_msg_bytes m) = RxOk r bs \<Longrightarrow> dhcp_msg_ok m \<Longrightarrow> dhcp_msg_ok (dhcp_msg_at bs) \<and> r \<le> 1260"
  using length_dhcp_msg_bytes [of m]
  by (auto simp: receive_packet_def Let_def SIZEOF_DHCP_MSG_def split: read_result.splits if_splits)

text \<open>How a message changes the variables when the loop goes on.\<close>

lemma on_reply_running:
  assumes "run_state (on_reply K n v r) s = (Running v', s')" "dhcp_msg_ok (reply v)" "r \<le> 1260"
  shows "dhcp_msg_ok (reply v')"
    and "timeout v' = timeout v \<and> v_state v' = v_state v
      \<or> timeout v' = TIMEOUT_INITIAL \<and> v_state v = STATE_SELECTING \<and> v_state v' = STATE_REQUESTING"
proof -
  obtain rep l where d: "dump_dhcp_msg (reply v) r = Some (rep, l)" "dhcp_msg_ok rep"
    using dump_dhcp_msg_safe [OF assms(2,3)] by metis
  obtain x i where x: "decode_dhcp_msg rep r = Some (x, i)"
    using decode_dhcp_msg_safe [OF d(2) assms(3)] by blast
  define w where "w = v\<lparr>reply := rep, info := i, v_state := STATE_REQUESTING, timeout := TIMEOUT_INITIAL, v_xid := v_xid v + 1\<rparr>"
  obtain m t where "run_state (transmit K w) s = (Running (w\<lparr>request_msg := m\<rparr>), t)"
    by (rule transmit_runs [of K w s]) (rule that, simp add: w_def)
  then have "v' \<in> {v\<lparr>reply := rep, info := i\<rparr>, w\<lparr>request_msg := m\<rparr>} \<and> (v' = w\<lparr>request_msg := m\<rparr> \<longrightarrow> v_state v = STATE_SELECTING)
      \<or> v' = v\<lparr>reply := rep, info := i\<rparr>"
    using assms(1)
    by (auto simp: on_reply_def d x w_def Let_def split: dhcp_state.splits if_splits)
  then show "dhcp_msg_ok (reply v')" "timeout v' = timeout v \<and> v_state v' = v_state v
      \<or> timeout v' = TIMEOUT_INITIAL \<and> v_state v = STATE_SELECTING \<and> v_state v' = STATE_REQUESTING"
    using d(2) by (auto simp: w_def)
qed

lemma on_timeout_running:
  assumes "run_state (on_timeout K n v) s = (Running v', s')"
  shows "timeout v < TIMEOUT_MAX \<and> timeout v' = timeout v * 2 \<and> v_state v' = v_state v \<and> reply v' = reply v"
proof -
  have "\<not> timeout v \<ge> TIMEOUT_MAX"
    using assms by (auto simp: on_timeout_def split: if_splits)
  moreover obtain m t where "run_state (transmit K (v\<lparr>timeout := timeout v * 2\<rparr>)) (snd (run_state (printerr (''TIMEOUT'' @ nl)) s))
      = (Running (case v_state v of STATE_SELECTING \<Rightarrow> v\<lparr>timeout := timeout v * 2, discover_msg := m\<rparr>
           | STATE_REQUESTING \<Rightarrow> v\<lparr>timeout := timeout v * 2, request_msg := m\<rparr>), t)"
    by (rule transmit_runs [of K "v\<lparr>timeout := timeout v * 2\<rparr>"]) simp
  ultimately show ?thesis
    using assms by (auto simp: on_timeout_def split: dhcp_state.splits)
qed

lemma on_readable_running:
  assumes "run_state (on_readable K n rr v) s = (Running v', s')" "dhcp_msg_ok (reply v)"
  shows "dhcp_msg_ok (reply v') \<and> (timeout v' = timeout v \<and> v_state v' = v_state v
      \<or> timeout v' = TIMEOUT_INITIAL \<and> v_state v = STATE_SELECTING \<and> v_state v' = STATE_REQUESTING)"
proof (cases "receive_packet (k_uninit K (SIZEOF_IPHDR + SIZEOF_UDPHDR + SIZEOF_DHCP_MSG)) rr (dhcp_msg_bytes (reply v))")
  case (RxOk r bs)
  note ok = reply_ok_received [OF RxOk assms(2)]
  have "run_state (on_reply K n (v\<lparr>reply := dhcp_msg_at bs\<rparr>) r) (s\<lparr>errno := 0\<rparr>) = (Running v', s')"
    using assms(1) RxOk by (simp add: on_readable_def)
  from on_reply_running [OF this] ok show ?thesis by simp
qed (use assms in \<open>auto simp: on_readable_def split: if_splits\<close>)

lemma dhcp_step_cases:
  assumes "dhcp_step K n ev (v, s) = Some (v', s')" "vars_ok v"
  shows "dhcp_msg_ok (reply v')"
    and "ev = PollTimeout \<Longrightarrow> timeout v \<noteq> 32000 \<and> timeout v' = timeout v * 2 \<and> v_state v' = v_state v"
    and "ev \<noteq> PollTimeout \<Longrightarrow> timeout v' = timeout v \<and> v_state v' = v_state v
      \<or> timeout v' = TIMEOUT_INITIAL \<and> v_state v = STATE_SELECTING \<and> v_state v' = STATE_REQUESTING"
proof -
  have r: "run_state (dhcp_event K n ev v) s = (Running v', s')"
    using assms(1) by (auto simp: dhcp_step_def split: prod.splits outcome.splits)
  show "dhcp_msg_ok (reply v')"
    using r assms(2) on_timeout_running [of K n v s v' s'] on_readable_running [of K n _ v s v' s']
    by (cases ev) (auto simp: dhcp_event_def vars_ok_def on_poll_error_def split: if_splits)
  show "ev = PollTimeout \<Longrightarrow> timeout v \<noteq> 32000 \<and> timeout v' = timeout v * 2 \<and> v_state v' = v_state v"
    using r on_timeout_running [of K n v s v' s'] by (auto simp: dhcp_event_def TIMEOUT_MAX_def)
  show "ev \<noteq> PollTimeout \<Longrightarrow> timeout v' = timeout v \<and> v_state v' = v_state v
      \<or> timeout v' = TIMEOUT_INITIAL \<and> v_state v = STATE_SELECTING \<and> v_state v' = STATE_REQUESTING"
    using r assms(2) on_readable_running [of K n _ v s v' s']
    by (cases ev) (auto simp: dhcp_event_def vars_ok_def on_poll_error_def split: if_splits)
qed

interpretation dhcp: retransmitter "dhcp_step K ifname" "\<lambda>e. e = PollTimeout" dhcp_budget "\<lambda>vs. vars_ok (fst vs)"
  for K :: "'w kernel" and ifname
proof
  fix vs vs' :: "dhcp_vars \<times> 'w cstate" and e
  obtain v s v' s' where p: "vs = (v, s)" "vs' = (v', s')"
    by (metis surj_pair)
  assume ok: "vars_ok (fst vs)" and st: "dhcp_step K ifname e vs = Some vs'"
  note c = dhcp_step_cases [OF st [unfolded p]] ok [unfolded p]
  show "vars_ok (fst vs')"
    using c by (cases "e = PollTimeout") (auto simp: p vars_ok_def TIMEOUT_INITIAL_def)
  show "dhcp_budget vs' < dhcp_budget vs" if "e = PollTimeout"
    using c that by (auto simp: p vars_ok_def dhcp_budget_def rounds_def)
  show "dhcp_budget vs' \<le> dhcp_budget vs" if "e \<noteq> PollTimeout"
    using c that by (auto simp: p vars_ok_def dhcp_budget_def rounds_def TIMEOUT_INITIAL_def)
qed

section \<open>Properties of the main loop\<close>

text \<open>An event that does not make \<open>receive_packet\<close> overrun the message it fills.\<close>

definition benign :: "'w kernel \<Rightarrow> poll_event \<Rightarrow> bool" where
  "benign K ev = (\<forall>rr m. ev = PollIn rr \<longrightarrow>
     receive_packet (k_uninit K (SIZEOF_IPHDR + SIZEOF_UDPHDR + SIZEOF_DHCP_MSG)) rr m \<noteq> RxFault)"

lemma transmit_no_fault: "fst (run_state (transmit K v) s) \<noteq> Fault"
  by (rule transmit_runs [of K v s]) simp

lemma on_reply_no_fault:
  assumes "dhcp_msg_ok (reply v)" "r \<le> 1260"
  shows "fst (run_state (on_reply K n v r) s) \<noteq> Fault"
proof -
  obtain rep l where d: "dump_dhcp_msg (reply v) r = Some (rep, l)" "dhcp_msg_ok rep"
    using dump_dhcp_msg_safe [OF assms] by metis
  moreover obtain x i where "decode_dhcp_msg rep r = Some (x, i)"
    using decode_dhcp_msg_safe [OF d(2) assms(2)] by blast
  ultimately show ?thesis
    by (simp add: on_reply_def Let_def transmit_no_fault split: dhcp_state.split)
qed

lemma dhcp_event_no_fault:
  assumes "vars_ok v" "benign K ev"
  shows "fst (run_state (dhcp_event K n ev v) s) \<noteq> Fault"
proof (cases ev)
  case (PollIn rr)
  show ?thesis
  proof (cases "receive_packet (k_uninit K (SIZEOF_IPHDR + SIZEOF_UDPHDR + SIZEOF_DHCP_MSG)) rr (dhcp_msg_bytes (reply v))")
    case (RxOk r bs)
    with assms(1) reply_ok_received [OF RxOk] show ?thesis
      by (simp add: dhcp_event_def PollIn on_readable_def on_reply_no_fault vars_ok_def)
  qed (use assms(2) in \<open>simp_all add: dhcp_event_def PollIn on_readable_def benign_def\<close>)
qed (simp_all add: dhcp_event_def on_timeout_def on_poll_error_def transmit_no_fault)

lemma dhcp_loop_no_fault:
  "vars_ok v \<Longrightarrow> list_all (benign K) evs \<Longrightarrow> fst (run_state (dhcp_loop K n evs (Running v)) s) \<noteq> Fault"
proof (induction evs arbitrary: v s)
  case (Cons e es)
  obtain r t where rt: "run_state (dhcp_event K n e v) s = (r, t)"
    by (cases "run_state (dhcp_event K n e v) s")
  then have "r \<noteq> Fault"
    using dhcp_event_no_fault [of v K e n s] Cons.prems by simp
  moreover have "vars_ok v'" if "r = Running v'" for v'
    using dhcp.inv_step [of "(v, s)" K n e "(v', t)"] rt that Cons.prems by (simp add: dhcp_step_def)
  ultimately show ?case
    using Cons by (cases r) (simp_all add: rt)
qed simp

lemma dhcp_begin_running:
  assumes "run_state (dhcp_begin K n) s = (Running v, s')" "\<And>k. length (k_uninit K k) = k"
  shows "vars_ok v \<and> v_state v = STATE_SELECTING \<and> timeout v = TIMEOUT_INITIAL"
proof -
  have "vars_ok w \<and> v_state w = STATE_SELECTING \<and> timeout w = TIMEOUT_INITIAL"
    if "run_state (transmit K \<lparr>discover_msg = junk, request_msg = junk, reply = dhcp_msg_at (k_uninit K SIZEOF_DHCP_MSG),
        info = i, v_s = k, v_xid = x, hwaddr = h, v_state = STATE_SELECTING, timeout = TIMEOUT_INITIAL,
        if_index = ix\<rparr>) t = (Running w, t')" for junk i k x h ix t w t'
    using that assms(2)
      transmit_runs [of K "\<lparr>discover_msg = junk, request_msg = junk, reply = dhcp_msg_at (k_uninit K SIZEOF_DHCP_MSG),
        info = i, v_s = k, v_xid = x, hwaddr = h, v_state = STATE_SELECTING, timeout = TIMEOUT_INITIAL,
        if_index = ix\<rparr>" t "vars_ok w \<and> v_state w = STATE_SELECTING \<and> timeout w = TIMEOUT_INITIAL"]
    by (auto simp: vars_ok_def TIMEOUT_INITIAL_def)
  then show ?thesis
    using assms(1) by (auto simp: dhcp_begin_def Let_def split: option.splits)
qed

lemma dhcp_begin_no_fault: "fst (run_state (dhcp_begin K n) s) \<noteq> Fault"
  by (simp add: dhcp_begin_def transmit_no_fault Let_def split: option.split)

text \<open>C17: The client gives up. Whatever the kernel answers and whatever arrives in between (as long as no packet
  overruns the receive buffer), after at most seven poll timeouts \<open>dhcp_init_ifc\<close> has returned: the
  retransmission intervals 4, 8, 16 and 32 seconds are used once for each of the two states.\<close>

theorem dhcp_init_ifc_returns:
  assumes "\<And>k. length (k_uninit K k) = k" and "list_all (benign K) evs"
    and "7 \<le> length (filter (\<lambda>e. e = PollTimeout) evs)"
  shows "\<exists>r. fst (run_state (dhcp_init_ifc K evs ifname) s) = Returned r"
proof -
  obtain o1 s1 where st: "run_state (dhcp_begin K ifname) s = (o1, s1)"
    by (cases "run_state (dhcp_begin K ifname) s")
  show ?thesis
  proof (cases o1)
    case (Running v)
    then have v: "vars_ok v" "v_state v = STATE_SELECTING" "timeout v = TIMEOUT_INITIAL"
      using dhcp_begin_running st assms(1) by blast+
    then have "steps (dhcp_step K ifname) evs (v, s1) = None"
      using dhcp.stops_after_budget [of "(v, s1)" evs K ifname] assms(3)
      by (simp add: dhcp_budget_def rounds_def TIMEOUT_INITIAL_def)
    then have "fst (run_state (dhcp_loop K ifname evs (Running v)) s1) \<noteq> Running v'" for v'
      using dhcp_loop_steps [of K ifname evs v s1] by (metis option.distinct(1) prod.collapse)
    moreover note dhcp_loop_no_fault [OF v(1) assms(2), of ifname s1]
    ultimately show ?thesis
      by (cases "fst (run_state (dhcp_loop K ifname evs (Running v)) s1)")
        (auto simp: dhcp_init_ifc_def st Running)
  qed (use dhcp_begin_no_fault [of K ifname s] in \<open>simp_all add: dhcp_init_ifc_def st\<close>)
qed

theorem dhcp_init_ifc_returns_witness:
  "\<exists>r. fst (run_state (dhcp_init_ifc sim_kernel (replicate 7 PollTimeout) ''wlan0'')
     (nstate.extend sim_state \<lparr>last_good_info = zero_dhcp_info\<rparr>)) = Returned r"
  by (rule dhcp_init_ifc_returns) (simp_all add: sim_kernel_def benign_def list_all_iff)

text \<open>The message that replies are judged by, and what it says about this client: the invariant of the loop that
  ties it to the current transaction.\<close>

definition asked :: "dhcp_vars \<Rightarrow> dhcp_msg" where
  "asked v = (case v_state v of STATE_SELECTING \<Rightarrow> discover_msg v | STATE_REQUESTING \<Rightarrow> request_msg v)"

definition asks_for :: "dhcp_vars \<Rightarrow> dhcp_msg \<Rightarrow> bool" where
  "asks_for v m \<longleftrightarrow> xid m = v_xid v \<and> htype m = HTYPE_ETHER \<and> hlen m = 6
     \<and> take 6 (chaddr m) = take 6 (take 6 (hwaddr v) @ replicate 6 0)"

lemma asks_for_next: "asks_for v (next_msg v)"
  by (auto simp: asks_for_def next_msg_def discover_msg_eq request_msg_eq request_base_def zero_dhcp_msg_def
      poke_def min_def split: dhcp_state.split)

lemma asks_for_text [simp]: "asks_for v (m\<lparr>sname := a, m_file := b\<rparr>) = asks_for v m"
  by (simp add: asks_for_def)

lemma transmit_asked:
  assumes "run_state (transmit K v) s = (Running v', s')"
  shows "asks_for v' (asked v')"
proof (rule transmit_runs [of K v s])
  fix m t
  assume "run_state (transmit K v) s = (Running (case v_state v of STATE_SELECTING \<Rightarrow> v\<lparr>discover_msg := m\<rparr>
      | STATE_REQUESTING \<Rightarrow> v\<lparr>request_msg := m\<rparr>), t)" "m = (next_msg v)\<lparr>sname := sname m, m_file := m_file m\<rparr>"
  moreover from this(2) have "asks_for v m"
    by (metis asks_for_next asks_for_text)
  ultimately show ?thesis
    using assms by (auto simp: asked_def asks_for_def split: dhcp_state.splits)
qed

lemma is_valid_reply_text [simp]: "is_valid_reply m (r\<lparr>sname := a, m_file := b\<rparr>) n = is_valid_reply m r n"
  by (simp add: is_valid_reply_def)

lemma decode_text [simp]: "decode_dhcp_msg (r\<lparr>sname := a, m_file := b\<rparr>) n = decode_dhcp_msg r n"
  by (simp add: decode_dhcp_msg_def split: option.split)

lemma dhcp_step_asked:
  assumes "dhcp_step K n ev (v, s) = Some (v', s')" "asks_for v (asked v)"
  shows "asks_for v' (asked v')"
proof -
  have r: "run_state (dhcp_event K n ev v) s = (Running v', s')"
    using assms(1) by (auto simp: dhcp_step_def split: prod.splits outcome.splits)
  have same: "asks_for (v\<lparr>reply := a, info := b\<rparr>) (asked (v\<lparr>reply := a, info := b\<rparr>))" for a b
    using assms(2) by (simp add: asks_for_def asked_def split: dhcp_state.splits)
  have same': "asks_for (v\<lparr>reply := a\<rparr>) (asked (v\<lparr>reply := a\<rparr>))" for a
    using assms(2) by (simp add: asks_for_def asked_def split: dhcp_state.splits)
  show ?thesis
    using r assms(2) transmit_asked same same'
    by (fastforce simp: dhcp_event_def on_timeout_def on_poll_error_def on_readable_def on_reply_def Let_def
        split: poll_event.splits if_splits rx_result.splits option.splits prod.splits dhcp_state.splits)
qed

lemma more_frame [simp]:
  "nstate.more (snd (run_state (printerr m) s)) = nstate.more s"
  "nstate.more (snd (run_state (ifc_init K) s)) = nstate.more s"
  "nstate.more (snd (run_state (ifc_close K) s)) = nstate.more s"
  "nstate.more (snd (run_state (configure_failed K m) s)) = nstate.more s"
  "nstate.more (snd (run_state (ctl K q f) s)) = nstate.more s"
  by (simp_all add: printerr_def ifc_init_def ifc_close_def configure_failed_def ctl_def)

lemma more_frame_configure: "nstate.more (snd (run_state (ifc_configure K n a p g d e) s)) = nstate.more s"
  by (simp add: ifc_configure_def ifc_up_def ifc_set_flags_def ifc_set_addr_def ifc_set_prefixLength_def)

lemma last_good_info_more: "nstate.more s = nstate.more t \<Longrightarrow> last_good_info s = last_good_info t"
  by (cases s; cases t) simp

lemma ifc_configure_last [simp]:
  "last_good_info (snd (run_state (ifc_configure K n a p g d e) s)) = last_good_info s"
  by (rule last_good_info_more) (rule more_frame_configure)

lemma dhcp_configure_last [simp]: "last_good_info (snd (run_state (dhcp_configure K n i) s)) = i"
  by (simp add: dhcp_configure_def)

text \<open>How a reply ends the loop.\<close>

lemma on_reply_returned:
  assumes "run_state (on_reply K n v r) s = (Returned c, s')" "dhcp_msg_ok (reply v)" "r \<le> 1260"
  obtains x i where "decode_dhcp_msg (reply v) r = Some (x, i)" "v_state v = STATE_REQUESTING"
    "is_valid_reply (request_msg v) (reply v) r"
    "type i = ucast DHCPACK \<and> last_good_info s' = i \<or> type i = ucast DHCPNAK \<and> c = -1"
proof -
  obtain rep l where d: "dump_dhcp_msg (reply v) r = Some (rep, l)"
      "rep = (reply v)\<lparr>sname := sname rep, m_file := m_file rep\<rparr>"
    using dump_dhcp_msg_safe [OF assms(2,3)] by metis
  obtain x i where x: "decode_dhcp_msg (reply v) r = Some (x, i)"
    using decode_dhcp_msg_safe [OF assms(2,3)] by blast
  have dec: "decode_dhcp_msg rep r = Some (x, i)"
    by (subst d(2)) (simp add: x)
  have val: "is_valid_reply m rep r = is_valid_reply m (reply v) r" for m
    by (subst d(2)) simp
  have "run_state (transmit K w) t \<noteq> (Returned c, s')" for w t
    by (rule transmit_runs [of K w t]) simp
  then show thesis
    using assms(1) by (intro that [OF x])
      (auto simp: on_reply_def d(1) dec val Let_def split: dhcp_state.splits if_splits)
qed

text \<open>C3: What \<open>poll\<close> delivers ends the session successfully only by a valid acknowledgement. If the client has
  a request out and returns 0 on a packet, then the packet passed all the checks of \<open>receive_packet\<close>, is a
  BOOTREPLY that carries the transaction id and hardware address of this client, decodes as a DHCPACK, and the
  decoded lease is the one configured and remembered.\<close>

theorem ack_configures:
  assumes "run_state (dhcp_event K ifname (PollIn rr) v) s = (Returned 0, s')"
    and "vars_ok v" and "asks_for v (asked v)"
  shows "v_state v = STATE_REQUESTING \<and> (\<exists>r bs x.
     receive_packet (k_uninit K (SIZEOF_IPHDR + SIZEOF_UDPHDR + SIZEOF_DHCP_MSG)) rr (dhcp_msg_bytes (reply v)) = RxOk r bs
     \<and> op (dhcp_msg_at bs) = OP_BOOTREPLY \<and> xid (dhcp_msg_at bs) = v_xid v
     \<and> take 6 (chaddr (dhcp_msg_at bs)) = take 6 (take 6 (hwaddr v) @ replicate 6 0)
     \<and> decode_dhcp_msg (dhcp_msg_at bs) r = Some (x, last_good_info s')
     \<and> type (last_good_info s') = ucast DHCPACK)"
proof -
  define stk where "stk = k_uninit K (SIZEOF_IPHDR + SIZEOF_UDPHDR + SIZEOF_DHCP_MSG)"
  obtain r bs where rx: "receive_packet stk rr (dhcp_msg_bytes (reply v)) = RxOk r bs"
    using assms(1) by (cases "receive_packet stk rr (dhcp_msg_bytes (reply v))")
      (auto simp: dhcp_event_def on_readable_def split: if_splits simp flip: stk_def)
  have ok: "dhcp_msg_ok (dhcp_msg_at bs)" "r \<le> 1260"
    using reply_ok_received [OF rx] assms(2) by (simp_all add: vars_ok_def)
  have "run_state (on_reply K ifname (v\<lparr>reply := dhcp_msg_at bs\<rparr>) r) (s\<lparr>errno := 0\<rparr>) = (Returned 0, s')"
    using assms(1) rx by (simp add: dhcp_event_def on_readable_def flip: stk_def)
  from this obtain x i where i: "decode_dhcp_msg (dhcp_msg_at bs) r = Some (x, i)" "v_state v = STATE_REQUESTING"
      "is_valid_reply (request_msg v) (dhcp_msg_at bs) r" "type i = ucast DHCPACK" "last_good_info s' = i"
    by (rule on_reply_returned) (use ok in auto)
  have "take 6 (chaddr (dhcp_msg_at bs)) = take 6 (take 6 (hwaddr v) @ replicate 6 0)"
      "op (dhcp_msg_at bs) = OP_BOOTREPLY" "xid (dhcp_msg_at bs) = v_xid v"
    using i(2,3) assms(3) by (simp_all add: is_valid_reply_def asks_for_def asked_def split: if_splits)
  then show ?thesis
    using i rx by (fold stk_def) blast
qed

section \<open>A whole session\<close>

text \<open>What a server puts on the wire, with the layout of \<open>send_packet\<close>, and the message that the client then has:
  the bytes sent over what its buffer held.\<close>

definition server_frame :: "u32 \<Rightarrow> dhcp_msg \<Rightarrow> nat \<Rightarrow> bytes" where
  "server_frame server m sz = concat (msg_iov (send_packet_msghdr 0 (dhcp_msg_bytes m) sz server INADDR_BROADCAST
     PORT_BOOTP_SERVER PORT_BOOTP_CLIENT))"

definition frame_ok :: "u32 \<Rightarrow> dhcp_msg \<Rightarrow> nat \<Rightarrow> bool" where
  "frame_ok server m sz \<longleftrightarrow> udp_check (udphdr_at (msg_iov (send_packet_msghdr 0 (dhcp_msg_bytes m) sz server INADDR_BROADCAST
     PORT_BOOTP_SERVER PORT_BOOTP_CLIENT) ! 1)) \<noteq> 0"

definition deliver :: "dhcp_msg \<Rightarrow> nat \<Rightarrow> dhcp_msg \<Rightarrow> dhcp_msg" where
  "deliver m sz old = dhcp_msg_at (poke 0 (take sz (dhcp_msg_bytes m)) (dhcp_msg_bytes old))"

lemma receive_server_frame:
  assumes "dhcp_msg_ok m" "sz \<le> 1260" "frame_ok server m sz"
  shows "receive_packet stk (ReadOk (server_frame server m sz)) old =
    RxOk (int sz) (poke 0 (take sz (dhcp_msg_bytes m)) old)"
  unfolding server_frame_def
  using assms by (intro receive_sent) (simp_all add: frame_ok_def SIZEOF_DHCP_MSG_def)

lemma dhcp_msg_bytes_parts:
  "dhcp_msg_bytes m = take 236 (dhcp_msg_bytes m) @ options m"  if "dhcp_msg_ok m"
  using that by (simp add: dhcp_msg_bytes_def dhcp_msg_ok_def)

lemma deliver_fields:
  assumes "dhcp_msg_ok m" "dhcp_msg_ok old" "236 \<le> sz" "sz \<le> 1260"
  shows "deliver m sz old = m\<lparr>options := poke 0 (take (sz - 236) (options m)) (options old)\<rparr>"
proof -
  have len: "length (take 236 (dhcp_msg_bytes m)) = 236" "length (take 236 (dhcp_msg_bytes old)) = 236"
    using assms by (simp_all add: SIZEOF_DHCP_MSG_def)
  have split_poke: "poke 0 (take sz (h @ p)) (g @ q) = h @ poke 0 (take (sz - 236) p) q"
    if "length h = 236" "length g = 236" "length p = 1024" "length q = 1024" for h g p q :: bytes
    using that assms(3,4) by (simp add: poke_def)
  have "poke 0 (take sz (dhcp_msg_bytes m)) (dhcp_msg_bytes old)
      = take 236 (dhcp_msg_bytes m) @ poke 0 (take (sz - 236) (options m)) (options old)"
    using assms(1,2) len
    by (subst dhcp_msg_bytes_parts [OF assms(1)], subst dhcp_msg_bytes_parts [OF assms(2)], intro split_poke)
      (simp_all add: dhcp_msg_ok_def)
  also have "\<dots> = dhcp_msg_bytes (m\<lparr>options := poke 0 (take (sz - 236) (options m)) (options old)\<rparr>)"
    using assms(1) by (simp add: dhcp_msg_bytes_def dhcp_msg_ok_def)
  finally show ?thesis
    using assms by (simp add: deliver_def dhcp_msg_ok_def)
qed

text \<open>A reply of a server to the transaction \<open>x\<close> of this client: \<open>sz\<close> bytes with the options \<open>os\<close>.\<close>

definition server_msg :: "dhcp_vars \<Rightarrow> u32 \<Rightarrow> u32 \<Rightarrow> dhcp_msg \<Rightarrow> (u8 \<times> bytes) list \<Rightarrow> nat \<Rightarrow> bool" where
  "server_msg v x server m os sz \<longleftrightarrow> dhcp_msg_ok m \<and> op m = OP_BOOTREPLY \<and> xid m = x \<and> htype m = HTYPE_ETHER \<and> hlen m = 6
     \<and> take 6 (chaddr m) = take 6 (take 6 (hwaddr v) @ replicate 6 0)
     \<and> list_all option_ok os \<and> take (5 + length (enc_options os)) (options m)
         = [OPT_COOKIE1, OPT_COOKIE2, OPT_COOKIE3, OPT_COOKIE4] @ enc_options os @ [OPT_END]
     \<and> 240 + length (enc_options os) < sz \<and> sz \<le> 1260 \<and> frame_ok server m sz"

definition lease_of :: "dhcp_msg \<Rightarrow> (u8 \<times> bytes) list \<Rightarrow> dhcp_info" where
  "lease_of m os = (fold lease_option os zero_dhcp_info)\<lparr>ipaddr := yiaddr m\<rparr>"

lemma server_msg_decodes:
  assumes "server_msg v x server m os sz" "dhcp_msg_ok old"
  shows "decode_dhcp_msg (deliver m sz old) (int sz) = Some (0, lease_of m os)"
    and "dhcp_msg_ok (deliver m sz old)"
    and "asks_for v q \<Longrightarrow> v_xid v = x \<Longrightarrow> is_valid_reply q (deliver m sz old) (int sz)"
proof -
  have sz: "236 \<le> sz" "sz \<le> 1260" and m: "dhcp_msg_ok m"
    using assms(1) by (simp_all add: server_msg_def)
  note d = deliver_fields [OF m assms(2) sz]
  define k where "k = 5 + length (enc_options os)"
  have "k \<le> sz - 236" "sz - 236 \<le> 1024" "length (options m) = 1024" "length (options old) = 1024"
    using assms m by (auto simp: dhcp_msg_ok_def server_msg_def k_def)
  then have "take k (poke 0 (take (sz - 236) (options m)) (options old)) = take k (options m)"
    by (simp add: poke_def min_def)
  then have "options (deliver m sz old) = take k (options m) @ drop k (options (deliver m sz old))"
    by (metis append_take_drop_id d dhcp_msg.select_convs(15) dhcp_msg.surjective dhcp_msg.update_convs(15))
  then have "options (deliver m sz old) = [OPT_COOKIE1, OPT_COOKIE2, OPT_COOKIE3, OPT_COOKIE4] @ enc_options os
      @ OPT_END # drop k (options (deliver m sz old))"
    using assms(1) by (simp add: server_msg_def k_def)
  then have dec: "decode_options (options (deliver m sz old)) 4 (int sz - 240) zero_dhcp_info
      = Some (fold lease_option os zero_dhcp_info)"
    using assms(1)
    by (intro decode_enc_options [where pre = "[OPT_COOKIE1, OPT_COOKIE2, OPT_COOKIE3, OPT_COOKIE4]"])
      (auto simp: server_msg_def)
  moreover have "options (deliver m sz old) ! 0 = OPT_COOKIE1" "options (deliver m sz old) ! 1 = OPT_COOKIE2"
      "options (deliver m sz old) ! 2 = OPT_COOKIE3" "options (deliver m sz old) ! 3 = OPT_COOKIE4"
    by (subst \<open>options (deliver m sz old) = [_, _, _, _] @ _\<close>, simp)+
  moreover have "yiaddr (deliver m sz old) = yiaddr m"
    by (simp add: d)
  ultimately show "decode_dhcp_msg (deliver m sz old) (int sz) = Some (0, lease_of m os)"
    using assms(1) by (simp add: decode_dhcp_msg_def lease_of_def server_msg_def DHCP_MSG_FIXED_SIZE_def)
  show "dhcp_msg_ok (deliver m sz old)"
    using m assms(2) by (simp add: d dhcp_msg_ok_def)
  show "asks_for v q \<Longrightarrow> v_xid v = x \<Longrightarrow> is_valid_reply q (deliver m sz old) (int sz)"
    using assms(1) by (auto simp: d is_valid_reply_def asks_for_def server_msg_def DHCP_MSG_FIXED_SIZE_def)
qed

text \<open>Receiving a message of a server, up to the point where the reply is judged.\<close>

lemma on_readable_server:
  assumes "server_msg v x server m os sz" "dhcp_msg_ok (reply v)"
  shows "run_state (on_readable K n (ReadOk (server_frame server m sz)) v) s
    = run_state (on_reply K n (v\<lparr>reply := deliver m sz (reply v)\<rparr>) (int sz)) (s\<lparr>errno := 0\<rparr>)"
proof -
  have "receive_packet stk (ReadOk (server_frame server m sz)) (dhcp_msg_bytes (reply v))
      = RxOk (int sz) (poke 0 (take sz (dhcp_msg_bytes m)) (dhcp_msg_bytes (reply v)))" for stk
    using assms(1) by (intro receive_server_frame) (simp_all add: server_msg_def)
  then show ?thesis
    by (simp add: on_readable_def deliver_def)
qed

lemma on_reply_server:
  assumes "server_msg v x server m os sz" "dhcp_msg_ok old"
  obtains rep where "dump_dhcp_msg (deliver m sz old) (int sz) = Some rep"
    "decode_dhcp_msg (fst rep) (int sz) = Some (0, lease_of m os)" "dhcp_msg_ok (fst rep)"
    "\<And>q. is_valid_reply q (fst rep) (int sz) = is_valid_reply q (deliver m sz old) (int sz)"
proof -
  have "int sz \<le> 1260"
    using assms(1) by (simp add: server_msg_def)
  then obtain r l where r: "dump_dhcp_msg (deliver m sz old) (int sz) = Some (r, l)" "dhcp_msg_ok r"
      "r = (deliver m sz old)\<lparr>sname := sname r, m_file := m_file r\<rparr>"
    using dump_dhcp_msg_safe server_msg_decodes(2) [OF assms] by metis
  have "decode_dhcp_msg r (int sz) = Some (0, lease_of m os)"
    by (subst r(3)) (simp add: server_msg_decodes(1) [OF assms])
  moreover have "is_valid_reply q r (int sz) = is_valid_reply q (deliver m sz old) (int sz)" for q
    by (subst r(3)) simp
  ultimately show thesis
    using that [of "(r, l)"] r by simp
qed

lemma lease_prefix: "unat (prefixLength i) \<le> 32 \<Longrightarrow> unat (prefixLength (fold lease_option os i)) \<le> 32"
proof (induction os arbitrary: i)
  case (Cons a os)
  have "unat (word_of_int (ipv4NetmaskToPrefixLength w) :: u32) \<le> 32" for w
  proof (rule netmask_prefix_range [of w])
    fix k assume "ipv4NetmaskToPrefixLength w = int k" "k \<le> 32"
    then show ?thesis by (simp add: unat_of_nat take_bit_eq_mod)
  qed
  then have "unat (prefixLength (lease_option a i)) \<le> 32"
    using Cons.prems by (simp add: lease_option_def split: prod.split)
  then show ?case
    using Cons.IH by simp
qed simp

lemma lease_of_prefix: "unat (prefixLength (lease_of m os)) \<le> 32"
  using lease_prefix [of zero_dhcp_info os] by (simp add: lease_of_def zero_dhcp_info_def)

lemma transmit_view:
  assumes "\<And>fd m. quiet view (k_sendmsg K fd m)"
  shows "view (world (snd (run_state (transmit K v) s))) = view (world s)"
  using assms
  by (auto simp: transmit_def send_message_def send_packet_def quiet_def split: option.split prod.split)

text \<open>The two turns of a successful session.\<close>

lemma offer_turn:
  assumes "server_msg v (v_xid v) server m os sz" "vars_ok v" "asks_for v (asked v)" "v_state v = STATE_SELECTING"
    and "type (lease_of m os) = ucast DHCPOFFER"
  obtains v' s' where "run_state (dhcp_event K n (PollIn (ReadOk (server_frame server m sz))) v) s = (Running v', s')"
    "vars_ok v'" "asks_for v' (asked v')" "v_state v' = STATE_REQUESTING" "v_xid v' = v_xid v + 1"
    "hwaddr v' = hwaddr v" "info v' = lease_of m os" "ifc_ctl_sock s' = ifc_ctl_sock s"
    "(\<And>fd m. quiet view (k_sendmsg K fd m)) \<Longrightarrow> view (world s') = view (world s)"
proof -
  have ok: "dhcp_msg_ok (reply v)"
    using assms(2) by (simp add: vars_ok_def)
  obtain rep where r: "dump_dhcp_msg (deliver m sz (reply v)) (int sz) = Some rep"
      "decode_dhcp_msg (fst rep) (int sz) = Some (0, lease_of m os)" "dhcp_msg_ok (fst rep)"
      "is_valid_reply q (fst rep) (int sz) = is_valid_reply q (deliver m sz (reply v)) (int sz)" for q
    using on_reply_server [OF assms(1) ok] by metis
  define w where "w = v\<lparr>reply := fst rep, info := lease_of m os, v_state := STATE_REQUESTING,
      timeout := TIMEOUT_INITIAL, v_xid := v_xid v + 1\<rparr>"
  have valid: "is_valid_reply (discover_msg v) (fst rep) (int sz)"
    using server_msg_decodes(3) [OF assms(1) ok, of "discover_msg v"] r(4) assms(3,4) by (simp add: asked_def)
  have run: "run_state (dhcp_event K n (PollIn (ReadOk (server_frame server m sz))) v) s
      = run_state (transmit K w) (s\<lparr>errno := 0\<rparr>)"
    using valid assms(4,5) r(1,2)
    by (simp add: dhcp_event_def on_readable_server [OF assms(1) ok] on_reply_def split_beta Let_def w_def)
  obtain q t where q: "run_state (transmit K w) (s\<lparr>errno := 0\<rparr>) = (Running (w\<lparr>request_msg := q\<rparr>), t)"
      "ifc_ctl_sock t = ifc_ctl_sock s"
    by (rule transmit_runs [of K w "s\<lparr>errno := 0\<rparr>"]) (rule that, simp add: w_def, simp)
  have "asks_for (w\<lparr>request_msg := q\<rparr>) (asked (w\<lparr>request_msg := q\<rparr>))"
    using transmit_asked q(1) by blast
  moreover have "view (world t) = view (world s)" if "\<And>fd m. quiet view (k_sendmsg K fd m)"
    using transmit_view [OF that, of w "s\<lparr>errno := 0\<rparr>"] q(1) by simp
  ultimately show thesis
    using q r(3) by (intro that [of "w\<lparr>request_msg := q\<rparr>" t])
      (simp_all add: run, simp_all add: w_def vars_ok_def TIMEOUT_INITIAL_def)
qed

lemma ack_turn:
  assumes "server_msg v (v_xid v) server m os sz" "vars_ok v" "asks_for v (asked v)" "v_state v = STATE_REQUESTING"
    and "type (lease_of m os) = ucast DHCPACK"
  obtains t where "run_state (dhcp_event K n (PollIn (ReadOk (server_frame server m sz))) v) s
     = (Returned (fst (run_state (dhcp_configure K n (lease_of m os)) t)), snd (run_state (dhcp_configure K n (lease_of m os)) t))"
    "ifc_ctl_sock t = ifc_ctl_sock s" "world t = snd (snd (k_close K (v_s v) (world s)))"
proof -
  have ok: "dhcp_msg_ok (reply v)"
    using assms(2) by (simp add: vars_ok_def)
  obtain rep where r: "dump_dhcp_msg (deliver m sz (reply v)) (int sz) = Some rep"
      "decode_dhcp_msg (fst rep) (int sz) = Some (0, lease_of m os)" "dhcp_msg_ok (fst rep)"
      "is_valid_reply q (fst rep) (int sz) = is_valid_reply q (deliver m sz (reply v)) (int sz)" for q
    using on_reply_server [OF assms(1) ok] by metis
  have valid: "is_valid_reply (request_msg v) (fst rep) (int sz)"
    using server_msg_decodes(3) [OF assms(1) ok, of "request_msg v"] r(4) assms(3,4) by (simp add: asked_def)
  define t where "t = snd (run_state (sys (k_close K (v_s v)))
      (snd (run_state (printerr (''configuring '' @ n @ nl)) (s\<lparr>errno := 0\<rparr>))))"
  show thesis
    using valid assms(4,5) r(1,2)
    by (intro that [of t])
      (simp_all add: dhcp_event_def on_readable_server [OF assms(1) ok] on_reply_def split_beta Let_def t_def)
qed

text \<open>C2: A whole DHCP session. On a kernel that behaves as documented, a client that is waiting for offers and
  receives, as frames with the layout of \<open>send_packet\<close>, an offer for its transaction and then an acknowledgement for
  the next one returns 0; the interface is then up with the address and netmask of the acknowledgement,
  the DNS properties are those of its options, and \<open>last_good_info\<close> holds the lease.\<close>

theorem dhcp_session_configures:
  assumes K: "interface_kernel K view" "\<And>fd m. quiet view (k_sendmsg K fd m)"
    and s: "ifc_ctl_sock s \<ge> -1" "view (world s) = (ifs, ps)" "ifs (take 15 n) = Some iv"
    and v: "vars_ok v" "asks_for v (asked v)" "v_state v = STATE_SELECTING"
    and offer: "server_msg v (v_xid v) server m1 os1 n1" "type (lease_of m1 os1) = ucast DHCPOFFER"
    and ack: "server_msg v (v_xid v + 1) server m2 os2 n2" "type (lease_of m2 os2) = ucast DHCPACK"
  defines "run \<equiv> run_state (dhcp_loop K n [PollIn (ReadOk (server_frame server m1 n1)),
      PollIn (ReadOk (server_frame server m2 n2))] (Running v)) s"
    and "l \<equiv> lease_of m2 os2"
  shows "fst run = Returned 0 \<and> last_good_info (snd run) = l
    \<and> view (world (snd run)) =
        (ifs(take 15 n \<mapsto> iv\<lparr>if_flags := if_flags iv OR 1, if_addr := yiaddr m2,
                           if_mask := prefixLengthToIpv4Netmask (int (unat (prefixLength l)))\<rparr>),
         ps(dns_prop_name K n ''dns1'' := if dns1 l \<noteq> 0 then inet_ntoa (dns1 l) else '''',
            dns_prop_name K n ''dns2'' := if dns2 l \<noteq> 0 then inet_ntoa (dns2 l) else ''''))"
proof -
  obtain v' s' where 1: "run_state (dhcp_event K n (PollIn (ReadOk (server_frame server m1 n1))) v) s = (Running v', s')"
      "vars_ok v'" "asks_for v' (asked v')" "v_state v' = STATE_REQUESTING" "v_xid v' = v_xid v + 1"
      "hwaddr v' = hwaddr v" "ifc_ctl_sock s' = ifc_ctl_sock s" "view (world s') = view (world s)"
    using offer_turn [OF offer(1) v offer(2), of K n s view] K(2) by metis
  have "server_msg v' (v_xid v') server m2 os2 n2"
    using ack(1) 1 by (simp add: server_msg_def)
  from ack_turn [OF this 1(2-4) ack(2)] obtain t where 2:
      "run_state (dhcp_event K n (PollIn (ReadOk (server_frame server m2 n2))) v') s'
       = (Returned (fst (run_state (dhcp_configure K n l) t)), snd (run_state (dhcp_configure K n l) t))"
      "ifc_ctl_sock t = ifc_ctl_sock s'" "world t = snd (snd (k_close K (v_s v') (world s')))"
    unfolding l_def by metis
  have t: "ifc_ctl_sock (t\<lparr>last_good_info := l\<rparr>) \<ge> -1" "view (world (t\<lparr>last_good_info := l\<rparr>)) = (ifs, ps)"
    using s 1 2 interface_kernelD(3) [OF K(1)] by simp_all
  have "run = (Returned (fst (run_state (dhcp_configure K n l) t)), snd (run_state (dhcp_configure K n l) t))"
    by (simp add: run_def 1 2)
  moreover have "ipaddr l = yiaddr m2"
    by (simp add: l_def lease_of_def)
  ultimately show ?thesis
    using ifc_configure_ok [OF K(1) t s(3), of "prefixLength l"] lease_of_prefix [of m2 os2]
    by (simp add: dhcp_configure_def l_def)
qed

text \<open>A concrete session for the witnesses: a client with hardware address 02:00:00:00:00:01 in transaction 7, and
  replies of a server with a message type, a /24 netmask and a name server.\<close>

definition demo_hw :: bytes where "demo_hw = [2, 0, 0, 0, 0, 1]"

definition demo_vars :: dhcp_vars where
  "demo_vars = \<lparr>discover_msg = fst (init_dhcp_discover_msg demo_hw 7), request_msg = zero_dhcp_msg, reply = zero_dhcp_msg,
     info = zero_dhcp_info, v_s = 3, v_xid = 7, hwaddr = demo_hw, v_state = STATE_SELECTING, timeout = TIMEOUT_INITIAL,
     if_index = 1\<rparr>"

definition demo_options :: "u8 \<Rightarrow> (u8 \<times> bytes) list" where
  "demo_options t = [(53, [t]), (1, [255, 255, 255, 0]), (6, [8, 8, 8, 8])]"

definition demo_reply :: "u32 \<Rightarrow> u8 \<Rightarrow> dhcp_msg" where
  "demo_reply x t = zero_dhcp_msg\<lparr>op := 2, htype := 1, hlen := 6, xid := x, yiaddr := 0x0A01A8C0,
     chaddr := demo_hw @ replicate 10 0,
     options := [0x63, 0x82, 0x53, 0x63] @ enc_options (demo_options t) @ OPT_END # replicate 1004 0\<rparr>"

definition demo_state :: "sim_world cstate" where
  "demo_state = nstate.extend sim_state \<lparr>last_good_info = zero_dhcp_info\<rparr>"

lemma demo_frames_ok: "frame_ok 1 (demo_reply 7 2) 260" "frame_ok 1 (demo_reply 8 5) 260"
  by code_simp+

lemma demo_lease: "lease_of (demo_reply x t) (demo_options t) =
    zero_dhcp_info\<lparr>type := ucast t, prefixLength := 24, dns1 := 0x08080808, ipaddr := 0x0A01A8C0\<rparr>"
proof -
  have "ipv4NetmaskToPrefixLength (le32 255 255 255 0) = 24" "le32 8 8 8 8 = 0x08080808"
    by code_simp+
  then show ?thesis
    by (simp add: lease_of_def demo_options_def demo_reply_def lease_option_def dhcp_consts get32_def zero_dhcp_info_def)
qed

lemma demo_server_msg: "frame_ok 1 (demo_reply x t) 260 \<Longrightarrow> server_msg demo_vars x 1 (demo_reply x t) (demo_options t) 260"
  by (simp add: server_msg_def dhcp_msg_ok_def demo_reply_def demo_options_def demo_vars_def demo_hw_def zero_dhcp_msg_def
      enc_options_def enc_option_def option_ok_def dhcp_consts)

lemma demo_vars_ok: "vars_ok demo_vars" "asks_for demo_vars (asked demo_vars)" "v_state demo_vars = STATE_SELECTING"
  "v_xid demo_vars = 7"
  using asks_for_next [of demo_vars] by (simp_all add: vars_ok_def demo_vars_def TIMEOUT_INITIAL_def asked_def next_msg_def)

theorem dhcp_session_configures_witness:
  "fst (run_state (dhcp_loop sim_kernel ''wlan0'' [PollIn (ReadOk (server_frame 1 (demo_reply 7 2) 260)),
      PollIn (ReadOk (server_frame 1 (demo_reply 8 5) 260))] (Running demo_vars)) demo_state) = Returned 0"
  using dhcp_session_configures [OF sim_kernel_ok _ _ _ _ demo_vars_ok(1-3), where s = demo_state and n = "''wlan0''"
      and server = 1 and ?m1.0 = "demo_reply 7 2" and ?os1.0 = "demo_options 2" and ?n1.0 = 260
      and ?m2.0 = "demo_reply 8 5" and ?os2.0 = "demo_options 5" and ?n2.0 = 260]
    demo_server_msg [OF demo_frames_ok(1)] demo_server_msg [OF demo_frames_ok(2)]
  by (simp add: demo_vars_ok demo_lease demo_state_def sim_state_def nstate.defs quiet_def sim_kernel_def dhcp_consts)

definition demo_requesting :: dhcp_vars where
  "demo_requesting = demo_vars\<lparr>v_state := STATE_REQUESTING, v_xid := 8,
     request_msg := fst (init_dhcp_request_msg demo_hw 8 0 0)\<rparr>"

lemma demo_requesting_ok: "vars_ok demo_requesting" "asks_for demo_requesting (asked demo_requesting)"
    "v_state demo_requesting = STATE_REQUESTING" "v_xid demo_requesting = 8"
    "server_msg demo_requesting x y m os n = server_msg demo_vars x y m os n"
  using asks_for_next [of "demo_vars\<lparr>v_state := STATE_REQUESTING, v_xid := 8\<rparr>"]
  by (simp_all add: demo_requesting_def vars_ok_def demo_vars_def TIMEOUT_INITIAL_def asked_def next_msg_def
      asks_for_def server_msg_def zero_dhcp_info_def)

lemma demo_ack_run:
  "fst (run_state (dhcp_event sim_kernel ''wlan0'' (PollIn (ReadOk (server_frame 1 (demo_reply 8 5) 260))) demo_requesting)
     demo_state) = Returned 0"
proof -
  have m: "server_msg demo_requesting (v_xid demo_requesting) 1 (demo_reply 8 5) (demo_options 5) 260"
    using demo_server_msg [OF demo_frames_ok(2)] by (simp add: demo_requesting_ok)
  have l: "type (lease_of (demo_reply 8 5) (demo_options 5)) = ucast DHCPACK"
    by (simp add: demo_lease DHCPACK_def)
  obtain t where t: "run_state (dhcp_event sim_kernel ''wlan0'' (PollIn (ReadOk (server_frame 1 (demo_reply 8 5) 260)))
       demo_requesting) demo_state
     = (Returned (fst (run_state (dhcp_configure sim_kernel ''wlan0'' (lease_of (demo_reply 8 5) (demo_options 5))) t)),
        snd (run_state (dhcp_configure sim_kernel ''wlan0'' (lease_of (demo_reply 8 5) (demo_options 5))) t))"
      "ifc_ctl_sock t = ifc_ctl_sock demo_state"
      "world t = snd (snd (k_close sim_kernel (v_s demo_requesting) (world demo_state)))"
    by (rule ack_turn [OF m demo_requesting_ok(1-3) l])
  show ?thesis
    using t ifc_configure_ok [OF sim_kernel_ok, of "t\<lparr>last_good_info := lease_of (demo_reply 8 5) (demo_options 5)\<rparr>"
        _ _ "''wlan0''" _ 24]
    by (simp add: dhcp_configure_def demo_lease demo_state_def sim_state_def nstate.defs sim_kernel_def)
qed

theorem ack_configures_witness:
  "type (last_good_info (snd (run_state (dhcp_event sim_kernel ''wlan0''
     (PollIn (ReadOk (server_frame 1 (demo_reply 8 5) 260))) demo_requesting) demo_state))) = ucast DHCPACK"
proof -
  define r where "r = run_state (dhcp_event sim_kernel ''wlan0''
     (PollIn (ReadOk (server_frame 1 (demo_reply 8 5) 260))) demo_requesting) demo_state"
  have "run_state (dhcp_event sim_kernel ''wlan0'' (PollIn (ReadOk (server_frame 1 (demo_reply 8 5) 260))) demo_requesting)
      demo_state = (Returned 0, snd r)"
    using demo_ack_run unfolding r_def by (metis prod.collapse)
  from ack_configures [OF this demo_requesting_ok(1,2)] show ?thesis
    unfolding r_def by blast
qed

text \<open>C24: A reply that the client itself judges invalid can become its configuration. The lease is decoded over
  \<open>info\<close> before the reply is checked; so an offer that belongs to another transaction, arriving before the
  last timeout, is what the client configures when it gives up.\<close>

theorem invalid_offer_configured:
  assumes "vars_ok v" and "timeout v = TIMEOUT_MAX"
    and "receive_packet (k_uninit K (SIZEOF_IPHDR + SIZEOF_UDPHDR + SIZEOF_DHCP_MSG)) rr (dhcp_msg_bytes (reply v)) = RxOk r bs"
    and "\<not> is_valid_reply (asked v) (dhcp_msg_at bs) r"
    and "decode_dhcp_msg (dhcp_msg_at bs) r = Some (x, i)" and "type i = ucast DHCPOFFER"
  shows "\<exists>t. run_state (dhcp_loop K n [PollIn rr, PollTimeout] (Running v)) s =
     (Returned (fst (run_state (dhcp_configure K n i) t)), snd (run_state (dhcp_configure K n i) t))"
proof -
  have ok: "dhcp_msg_ok (dhcp_msg_at bs)" "r \<le> 1260"
    using reply_ok_received [OF assms(3)] assms(1) by (simp_all add: vars_ok_def)
  obtain rep l where d: "dump_dhcp_msg (dhcp_msg_at bs) r = Some (rep, l)"
      "rep = (dhcp_msg_at bs)\<lparr>sname := sname rep, m_file := m_file rep\<rparr>"
    using dump_dhcp_msg_safe [OF ok] by metis
  have dec: "decode_dhcp_msg rep r = Some (x, i)"
    by (subst d(2)) (simp add: assms(5))
  have val: "is_valid_reply m rep r = is_valid_reply m (dhcp_msg_at bs) r" for m
    by (subst d(2)) simp
  have "run_state (dhcp_event K n (PollIn rr) v) s
      = (Running (v\<lparr>reply := rep, info := i\<rparr>), snd (run_state (printerr (''invalid reply'' @ nl)) (s\<lparr>errno := 0\<rparr>)))"
    using assms(4) by (auto simp: dhcp_event_def on_readable_def assms(3) on_reply_def d(1) dec val Let_def asked_def
        split: dhcp_state.splits)
  then show ?thesis
    using assms(2,6) by (simp add: dhcp_event_def on_timeout_def) blast
qed

lemma demo_foreign:
  "receive_packet (k_uninit sim_kernel 1288) (ReadOk (server_frame 1 (demo_reply 9 2) 260)) (dhcp_msg_bytes zero_dhcp_msg)
     = RxOk 260 (poke 0 (take 260 (dhcp_msg_bytes (demo_reply 9 2))) (dhcp_msg_bytes zero_dhcp_msg))"
  "server_msg demo_vars 9 1 (demo_reply 9 2) (demo_options 2) 260"
proof -
  have f: "frame_ok 1 (demo_reply 9 2) 260"
    by code_simp
  show m: "server_msg demo_vars 9 1 (demo_reply 9 2) (demo_options 2) 260"
    by (rule demo_server_msg [OF f])
  show "receive_packet (k_uninit sim_kernel 1288) (ReadOk (server_frame 1 (demo_reply 9 2) 260)) (dhcp_msg_bytes zero_dhcp_msg)
     = RxOk 260 (poke 0 (take 260 (dhcp_msg_bytes (demo_reply 9 2))) (dhcp_msg_bytes zero_dhcp_msg))"
    using receive_server_frame [of "demo_reply 9 2" 260 1] f m by (simp add: server_msg_def)
qed

theorem invalid_offer_configured_witness:
  "last_good_info (snd (run_state (dhcp_loop sim_kernel ''wlan0''
      [PollIn (ReadOk (server_frame 1 (demo_reply 9 2) 260)), PollTimeout]
      (Running (demo_vars\<lparr>timeout := TIMEOUT_MAX\<rparr>))) demo_state))
   = zero_dhcp_info\<lparr>type := 2, prefixLength := 24, dns1 := 0x08080808, ipaddr := 0x0A01A8C0\<rparr>"
proof -
  define bs where "bs = poke 0 (take 260 (dhcp_msg_bytes (demo_reply 9 2))) (dhcp_msg_bytes zero_dhcp_msg)"
  have at: "dhcp_msg_at bs = deliver (demo_reply 9 2) 260 zero_dhcp_msg"
    by (simp add: bs_def deliver_def)
  have i: "decode_dhcp_msg (dhcp_msg_at bs) 260 = Some (0, zero_dhcp_info\<lparr>type := 2, prefixLength := 24, dns1 := 0x08080808, ipaddr := 0x0A01A8C0\<rparr>)"
    using server_msg_decodes(1) [OF demo_foreign(2), of zero_dhcp_msg] by (simp add: at demo_lease)
  have v: "vars_ok (demo_vars\<lparr>timeout := TIMEOUT_MAX\<rparr>)" "reply (demo_vars\<lparr>timeout := TIMEOUT_MAX\<rparr>) = zero_dhcp_msg"
    by (simp_all add: vars_ok_def demo_vars_def TIMEOUT_MAX_def)
  have rx: "receive_packet (k_uninit sim_kernel (SIZEOF_IPHDR + SIZEOF_UDPHDR + SIZEOF_DHCP_MSG))
      (ReadOk (server_frame 1 (demo_reply 9 2) 260)) (dhcp_msg_bytes (reply (demo_vars\<lparr>timeout := TIMEOUT_MAX\<rparr>))) = RxOk 260 bs"
    using demo_foreign(1) by (simp add: v SIZEOF_IPHDR_def SIZEOF_UDPHDR_def SIZEOF_DHCP_MSG_def bs_def)
  have nv: "\<not> is_valid_reply (asked (demo_vars\<lparr>timeout := TIMEOUT_MAX\<rparr>)) (dhcp_msg_at bs) 260"
    using demo_foreign(2)
    by (simp add: at deliver_fields server_msg_def is_valid_reply_def asked_def demo_vars_def discover_msg_eq request_base_def)
  show ?thesis
    using invalid_offer_configured [OF v(1) _ rx nv i, where n = "''wlan0''" and s = demo_state]
    by (auto simp: DHCPOFFER_def simp del: dhcp_loop.simps)
qed

end
