(* ===== verification/Dhcp_Utils.thy ===== *)
theory Dhcp_Utils
  imports Ifc_Utils
begin

text \<open>
  Control of the \<open>dhcpcd\<close> daemon through the property service, \<open>src/system/core/libnetutils/dhcp_utils.c\<close>: start,
  stop, release and renew, the bounded wait for a property, and reading the results back. The file has an
  \<open>errmsg\<close> buffer of its own (100 bytes), added to the state. Interface names are shorter than
  the 25 bytes of \<open>MAX_INTERFACE_LENGTH\<close>.
\<close>

record 'w ustate = "'w nstate" +
  u_errmsg :: string

type_synonym ('w, 'a) uop = "('w ustate, 'a) state"

definition DAEMON_NAME :: string where "DAEMON_NAME = ''dhcpcd''"
definition DAEMON_PROP_NAME :: string where "DAEMON_PROP_NAME = ''init.svc.dhcpcd''"
definition HOSTNAME_PROP_NAME :: string where "HOSTNAME_PROP_NAME = ''net.hostname''"
definition DHCP_PROP_NAME_PREFIX :: string where "DHCP_PROP_NAME_PREFIX = ''dhcp''"
definition DHCP_CONFIG_PATH :: string where "DHCP_CONFIG_PATH = ''/system/etc/dhcpcd/dhcpcd.conf''"
definition DAEMON_NAME_RENEW :: string where "DAEMON_NAME_RENEW = ''iprenew''"
definition NAP_TIME :: nat where "NAP_TIME = 200"
definition MAX_INTERFACE_LENGTH :: nat where "MAX_INTERFACE_LENGTH = 25"

definition set_errmsg :: "string \<Rightarrow> ('w, unit) uop" where
  "set_errmsg m = modify (u_errmsg_update (\<lambda>_. take 99 m))"

definition get_p2p_interface_replacement :: "string \<Rightarrow> string" where
  "get_p2p_interface_replacement iface =
     (if take 3 iface = ''p2p'' then ''p2p'' else take MAX_INTERFACE_LENGTH iface)"

text \<open>\<open>snprintf\<close> into a key buffer.\<close>

definition prop_key :: "'w kernel \<Rightarrow> string \<Rightarrow> string" where
  "prop_key K name = take (k_key_max K - 1) name"

definition dhcp_prop :: "'w kernel \<Rightarrow> string \<Rightarrow> string \<Rightarrow> string" where
  "dhcp_prop K p2p what = prop_key K (DHCP_PROP_NAME_PREFIX @ ''.'' @ p2p @ ''.'' @ what)"

section \<open>Waiting for a property\<close>

text \<open>The loop \<open>while (maxnaps-- >= 0)\<close>, by the number of polls left: a nap follows every poll but the last. The
  desired value is \<open>None\<close> for a null pointer.\<close>

fun wait_polls :: "'w kernel \<Rightarrow> string \<Rightarrow> string option \<Rightarrow> nat \<Rightarrow> ('w, int) uop" where
  "wait_polls K name desired 0 = ret (-1)"
| "wait_polls K name desired (Suc left) = do {
     v \<leftarrow> sys (k_property_get K name);
     (if v \<noteq> '''' \<and> (desired = None \<or> desired = Some v) then ret 0
      else do {
        (if left > 0 then sys (k_usleep K (NAP_TIME * 1000)) else ret ());
        wait_polls K name desired left
      })
   }"

definition wait_for_property :: "'w kernel \<Rightarrow> string \<Rightarrow> string option \<Rightarrow> nat \<Rightarrow> ('w, int) uop" where
  "wait_for_property K name desired maxwait =
     (let maxnaps = (maxwait * 1000) div NAP_TIME;
          maxnaps = (if maxnaps < 1 then 1 else maxnaps)
      in wait_polls K name desired (maxnaps + 1))"

section \<open>Reading the results\<close>

text \<open>The loop over the bits of the mask, \<open>for (p = 0; p < 32; p++)\<close>: the prefix length, or \<open>None\<close> for the
  early return.\<close>

fun mask_bits :: "nat \<Rightarrow> nat \<Rightarrow> u32 \<Rightarrow> nat option" where
  "mask_bits 0 p msk = Some p"
| "mask_bits (Suc left) p msk =
     (if msk = 0 then Some p
      else if msk AND 0x80000000 = 0 then None
      else mask_bits left (p + 1) (push_bit 1 msk))"

record ip_results =
  r_ipaddr :: string
  r_gateway :: string
  r_prefixLength :: u32
  r_dns :: "string list"
  r_server :: string
  r_lease :: u32
  r_vendorInfo :: string
  r_domain :: string
  r_mtu :: string

definition INADDR_NONE :: u32 where "INADDR_NONE = 0xffffffff"

fun get_dns :: "'w kernel \<Rightarrow> string \<Rightarrow> nat \<Rightarrow> nat \<Rightarrow> ('w, string list) uop" where
  "get_dns K p2p x 0 = ret []"
| "get_dns K p2p x (Suc n) = do {
     v \<leftarrow> sys (k_property_get K (dhcp_prop K p2p (''dns'' @ show_nat (x + 1))));
     vs \<leftarrow> get_dns K p2p (x + 1) n;
     ret (v # vs)
   }"

text \<open>The prefix length for the \<open>mask\<close> property, or \<open>None\<close> for an invalid mask; an unset property leaves what
  the caller has.\<close>

definition mask_prefix :: "'w kernel \<Rightarrow> string \<Rightarrow> u32 \<Rightarrow> u32 option" where
  "mask_prefix K m old =
     (if m = '''' then Some old
      else let msk = ntohl (k_inet_addr K m) in
        if msk = INADDR_NONE \<and> m \<noteq> ''255.255.255.255'' then None
        else map_option of_nat (mask_bits 32 0 msk))"

text \<open>The result is the return value and the caller's variables, which hold \<open>old\<close> before; the number of
  entries of \<open>dns\<close> is that of \<open>old\<close>.\<close>

definition fill_ip_info :: "'w kernel \<Rightarrow> string \<Rightarrow> ip_results \<Rightarrow> ('w, int \<times> ip_results) uop" where
  "fill_ip_info K iface old = do {
     let p2p = get_p2p_interface_replacement iface;
     ip \<leftarrow> sys (k_property_get K (dhcp_prop K p2p ''ipaddress''));
     gw \<leftarrow> sys (k_property_get K (dhcp_prop K p2p ''gateway''));
     sv \<leftarrow> sys (k_property_get K (dhcp_prop K p2p ''server''));
     let gw = (if gw = '''' \<or> take 7 gw = ''0.0.0.0'' then sv else gw);
     let res = old\<lparr>r_ipaddr := ip, r_gateway := gw, r_server := sv\<rparr>;
     m \<leftarrow> sys (k_property_get K (dhcp_prop K p2p ''mask''));
     (case mask_prefix K m (r_prefixLength old) of
        None \<Rightarrow> do {
          set_errmsg (''DHCP gave invalid net mask '' @ m);
          ret (-1, res)
        }
      | Some p \<Rightarrow> do {
          dns \<leftarrow> get_dns K p2p 0 (length (r_dns old));
          l \<leftarrow> sys (k_property_get K (dhcp_prop K p2p ''leasetime''));
          vi \<leftarrow> sys (k_property_get K (dhcp_prop K p2p ''vendorInfo''));
          dom \<leftarrow> sys (k_property_get K (dhcp_prop K p2p ''domain''));
          mtu \<leftarrow> sys (k_property_get K (dhcp_prop K p2p ''mtu''));
          ret (0, res\<lparr>r_prefixLength := p, r_dns := dns,
             r_lease := (if l \<noteq> '''' then word_of_int (k_atol K l) else r_lease res),
             r_vendorInfo := vi, r_domain := dom, r_mtu := mtu\<rparr>)
        })
   }"

definition dhcp_get_results :: "'w kernel \<Rightarrow> string \<Rightarrow> ip_results \<Rightarrow> ('w, int \<times> ip_results) uop" where
  "dhcp_get_results K iface old = do {
     let p2p = get_p2p_interface_replacement iface;
     v \<leftarrow> sys (k_property_get K (dhcp_prop K p2p ''result''));
     (if v = '''' then do {
        set_errmsg ''DHCP result property was not set'';
        ret (-1, old)
      } else if v = ''ok'' then fill_ip_info K iface old
      else do {
        set_errmsg (''DHCP result was '' @ v);
        ret (-1, old)
      })
   }"

section \<open>Controlling the daemon\<close>

definition daemon_prop :: "'w kernel \<Rightarrow> string \<Rightarrow> string" where
  "daemon_prop K p2p = prop_key K (DAEMON_PROP_NAME @ ''_'' @ p2p)"

definition dhcp_start :: "'w kernel \<Rightarrow> string \<Rightarrow> ('w, int) uop" where
  "dhcp_start K iface = do {
     let p2p = get_p2p_interface_replacement iface;
     let result_prop_name = dhcp_prop K p2p ''result'';
     sys (k_property_set K result_prop_name '''');
     host \<leftarrow> sys (k_property_get K HOSTNAME_PROP_NAME);
     let cmd = take (k_value_max K * 2 + length DHCP_CONFIG_PATH)
       (if host \<noteq> '''' then DAEMON_NAME @ ''_'' @ p2p @ '':-f '' @ DHCP_CONFIG_PATH @ '' -h '' @ host @ '' '' @ iface
        else DAEMON_NAME @ ''_'' @ p2p @ '':-f '' @ DHCP_CONFIG_PATH @ '' '' @ iface);
     sys (k_property_set K ''ctl.start'' cmd);
     w \<leftarrow> wait_for_property K (daemon_prop K p2p) (Some ''running'') 10;
     (if w < 0 then do {
        set_errmsg ''Timed out waiting for dhcpcd to start'';
        ret (-1)
      } else do {
        w \<leftarrow> wait_for_property K result_prop_name None 30;
        (if w < 0 then do {
           set_errmsg ''Timed out waiting for DHCP to finish'';
           ret (-1)
         } else ret 0)
      })
   }"

definition daemon_cmd :: "'w kernel \<Rightarrow> string \<Rightarrow> string" where
  "daemon_cmd K p2p = take (k_value_max K * 2 - 1) (DAEMON_NAME @ ''_'' @ p2p)"

definition dhcp_stop :: "'w kernel \<Rightarrow> string \<Rightarrow> ('w, int) uop" where
  "dhcp_stop K iface = do {
     let p2p = get_p2p_interface_replacement iface;
     sys (k_property_set K ''ctl.stop'' (daemon_cmd K p2p));
     w \<leftarrow> wait_for_property K (daemon_prop K p2p) (Some ''stopped'') 5;
     (if w < 0 then ret (-1)
      else do {
        sys (k_property_set K (dhcp_prop K p2p ''result'') ''failed'');
        ret 0
      })
   }"

definition dhcp_release_lease :: "'w kernel \<Rightarrow> string \<Rightarrow> ('w, int) uop" where
  "dhcp_release_lease K iface = do {
     let p2p = get_p2p_interface_replacement iface;
     sys (k_property_set K ''ctl.stop'' (daemon_cmd K p2p));
     w \<leftarrow> wait_for_property K (daemon_prop K p2p) (Some ''stopped'') 5;
     ret (if w < 0 then -1 else 0)
   }"

definition dhcp_get_errmsg :: "('w, string) uop" where
  "dhcp_get_errmsg = gets u_errmsg"

definition dhcp_start_renew :: "'w kernel \<Rightarrow> string \<Rightarrow> ('w, int) uop" where
  "dhcp_start_renew K iface = do {
     let p2p = get_p2p_interface_replacement iface;
     let result_prop_name = dhcp_prop K p2p ''result'';
     sys (k_property_set K result_prop_name '''');
     sys (k_property_set K ''ctl.start'' (take (k_value_max K * 2 - 1) (DAEMON_NAME_RENEW @ ''_'' @ p2p @ '':'' @ iface)));
     w \<leftarrow> wait_for_property K result_prop_name None 30;
     (if w < 0 then do {
        set_errmsg ''Timed out waiting for DHCP Renew to finish'';
        ret (-1)
      } else ret 0)
   }"

section \<open>Properties\<close>


text \<open>The loop of \<open>fill_ip_info\<close> in terms of the bits of the mask: \<open>k\<close> leading ones, then nothing or a refusal.\<close>

lemma mask_bits_cases:
  "left \<le> 32 \<Longrightarrow>
     (\<exists>k\<le>left. mask_bits left p m = Some (p + k) \<and> (\<forall>i<k. bit m (31 - i)) \<and> (k < left \<longrightarrow> (\<forall>i<32 - k. \<not> bit m i)))
   \<or> (\<exists>k<left. mask_bits left p m = None \<and> (\<forall>i<k. bit m (31 - i)) \<and> \<not> bit m (31 - k) \<and> (\<exists>i<32 - k. bit m i))"
proof (induction left arbitrary: p m)
  case (Suc left)
  show ?case
  proof (cases "bit m 31")
    case False
    show ?thesis
    proof (cases "m = 0")
      case True
      then show ?thesis by (intro disjI1 exI [of _ 0]) simp
    next
      case nonzero: False
      then obtain i where "bit m i"
        by (metis bit_0_eq bit_word_eqI bot_apply bot_bool_def)
      moreover from this have "i < 32"
        using bit_imp_le_length [of m i] by simp
      moreover have "m AND 0x80000000 = 0"
        using False top_bit_iff [of m] by blast
      ultimately show ?thesis
        using False nonzero by (intro disjI2 exI [of _ 0]) auto
    qed
  next
    case True
    then have "m \<noteq> 0"
      by auto
    define n where "n = push_bit 1 m"
    have eq: "mask_bits (Suc left) p m = mask_bits left (p + 1) n"
      using True top_bit_iff [of m] \<open>m \<noteq> 0\<close> by (simp add: n_def)
    have left: "left \<le> 31" "left \<le> 32"
      using Suc.prems by simp_all
    have top: "bit n (31 - i) = bit m (31 - Suc i)" if "i < 31" for i
      using that bit_shl1 [of i m] by (simp add: n_def)
    have hi: "\<forall>i<Suc k. bit m (31 - i)" if "\<forall>i<k. bit n (31 - i)" "k \<le> left" for k
    proof (intro allI impI)
      fix i assume "i < Suc k"
      then show "bit m (31 - i)"
        using that True top [of "i - 1"] left by (cases i) auto
    qed
    have lo: "bit n (Suc i) = bit m i" "\<not> bit n 0" if "i < 31" for i
      using that unfolding n_def by (simp_all only: bit_push_bit_iff) simp_all
    from Suc.IH [OF left(2), of "p + 1" n] show ?thesis
    proof (elim disjE exE conjE, goal_cases)
      case (1 k)
      have "\<not> bit m i" if "k < left" "i < 31 - k" for i
        using 1 lo [of i] that by fastforce
      with 1 hi [of k] show ?case
        by (intro disjI1 exI [of _ "Suc k"]) (simp add: eq del: mask_bits.simps)
    next
      case (2 k i)
      then obtain j where "i = Suc j" "j < 31 - k" "bit m j"
        using lo(1) [of "i - 1"] lo(2) [of 0] left by (cases i) auto
      with 2 hi [of k] top [of k] left show ?case
        by (intro disjI2 exI [of _ "Suc k"]) (auto simp: eq simp del: mask_bits.simps)
    qed
  qed
qed simp

lemma mask_bits_equiv:
  "mask_bits 32 0 m =
     (if prefixLengthToIpv4Netmask (ipv4NetmaskToPrefixLength (htonl m)) = htonl m
      then Some (nat (ipv4NetmaskToPrefixLength (htonl m))) else None)"
proof -
  have inv: "prefixLengthToIpv4Netmask (ipv4NetmaskToPrefixLength (htonl m)) = htonl m
      \<longleftrightarrow> (\<forall>i<32 - nat (ipv4NetmaskToPrefixLength (htonl m)). \<not> bit m i)"
    using netmask_prefix_inverse [of "htonl m"] by simp
  from mask_bits_cases [of 32 0 m, OF order_refl] show ?thesis
  proof (elim disjE exE conjE, goal_cases)
    case (1 k)
    then have "count_leading_ones m 0 = int k"
      using count_leading_ones_unique [of k m 0] by (cases "k < 32") auto
    with 1 inv show ?case
      by (auto simp: ipv4NetmaskToPrefixLength_def)
  next
    case (2 k i)
    then have "count_leading_ones m 0 = int k"
      using count_leading_ones_unique [of k m 0] by simp
    with 2 inv show ?case
      by (auto simp: ipv4NetmaskToPrefixLength_def)
  qed
qed

text \<open>The mask loop of \<open>fill_ip_info\<close> and the conversions of \<open>ifc_utils.c\<close> agree: it accepts exactly the
  masks that are the netmask of their prefix length, with that prefix length, and refuses all others.\<close>

theorem mask_loop_equivalent:
  "mask_bits 32 0 m =
     (if prefixLengthToIpv4Netmask (ipv4NetmaskToPrefixLength (htonl m)) = htonl m
      then Some (nat (ipv4NetmaskToPrefixLength (htonl m))) else None)"
  by (rule mask_bits_equiv)

lemma wait_polls_time:
  assumes "\<And>k w. clock (snd (snd (k_property_get K k w))) = clock w"
    and "\<And>n w. clock (snd (snd (k_usleep K n w))) = clock w + n"
  shows "clock (world (snd (run_state (wait_polls K name d n) s))) \<le> clock (world s) + (n - 1) * 200000
    \<and> (fst (run_state (wait_polls K name d n) s) \<noteq> 0 \<longrightarrow>
       clock (world (snd (run_state (wait_polls K name d n) s))) = clock (world s) + (n - 1) * (200000::nat))"
proof (induction n arbitrary: s)
  case (Suc n)
  define t where "t = snd (run_state (sys (k_usleep K (NAP_TIME * 1000))) (snd (run_state (sys (k_property_get K name)) s)))"
  have t: "clock (world t) = clock (world s) + 200000"
    using assms by (simp add: t_def NAP_TIME_def)
  show ?case
  proof (cases n)
    case 0
    then show ?thesis using assms by simp
  next
    case (Suc m)
    then show ?thesis
      using Suc.IH [of t] t assms(1) by (auto simp flip: t_def)
  qed
qed simp

text \<open>\<open>wait_for_property\<close> with a limit of \<open>maxwait\<close> seconds (at least 1) sleeps at most that long, and exactly
  that long before it reports failure; its results are 0 and -1 only.\<close>

theorem wait_for_property_bounded:
  assumes "\<And>k w. clock (snd (snd (k_property_get K k w))) = clock w"
    and "\<And>n w. clock (snd (snd (k_usleep K n w))) = clock w + n"
    and "1 \<le> maxwait"
  shows "clock (world (snd (run_state (wait_for_property K name d maxwait) s))) \<le> clock (world s) + maxwait * 1000000
    \<and> (fst (run_state (wait_for_property K name d maxwait) s) = 0
       \<or> fst (run_state (wait_for_property K name d maxwait) s) = -1
         \<and> clock (world (snd (run_state (wait_for_property K name d maxwait) s))) = clock (world s) + maxwait * 1000000)"
proof -
  have r: "fst (run_state (wait_polls K name d n) t) = 0 \<or> fst (run_state (wait_polls K name d n) t) = -1" for n t
    by (induction n arbitrary: t) auto
  have n: "(maxwait * 1000) div NAP_TIME = maxwait * 5"
    by (simp add: NAP_TIME_def)
  show ?thesis
    using wait_polls_time [of clock K name d "maxwait * 5 + 1" s, OF assms(1,2)] r [of "maxwait * 5 + 1" s] assms(3)
    by (auto simp: wait_for_property_def n Let_def simp del: wait_polls.simps)
qed

text \<open>A kernel whose outside world is the time slept and whose properties are never set.\<close>

definition clock_kernel :: "nat kernel" where
  "clock_kernel = \<lparr>k_socket = \<lambda>_ w. (3, None, w), k_close = \<lambda>_ w. ((), None, w), k_bind = \<lambda>_ _ w. (0, None, w),
     k_ioctl = \<lambda>_ _ ifr w. ((-1, ifr), Some 22, w), k_ioctl_rt = \<lambda>_ _ _ w. (0, None, w), k_ioctl_ifr6 = \<lambda>_ _ _ w. (0, None, w),
     k_if_nametoindex = \<lambda>_ w. (1, None, w), k_getaddrinfo = \<lambda>_ w. ((-2, []), None, w),
     k_getpid = \<lambda>w. (1, None, w), k_send = \<lambda>_ bs w. (int (length bs), None, w), k_recv = \<lambda>_ _ w. (None, Some 11, w),
     k_sendmsg = \<lambda>_ m w. (int (length (concat (msg_iov m))), None, w), k_clock = \<lambda>w. (Some (100, 0), None, w),
     k_if_inet6 = \<lambda>w. (Some [], None, w), k_route = \<lambda>w. (Some [], None, w), k_strerror = \<lambda>_. ''error'',
     k_property_set = \<lambda>k v w. ((), None, w), k_property_get = \<lambda>k w. ('''', None, w),
     k_usleep = \<lambda>n w. ((), None, w + n), k_inet_addr = \<lambda>_. 0, k_atol = \<lambda>_. 0,
     k_uninit = \<lambda>n. replicate n 0, k_key_max = 32, k_value_max = 92\<rparr>"

definition clock_state :: "nat ustate" where
  "clock_state = \<lparr>world = 0, errno = 0, errmsg = '''', ifc_ctl_sock = -1, ifc_ctl_sock6 = -1, u_errmsg = ''''\<rparr>"

theorem wait_for_property_bounded_witness:
  "world (snd (run_state (wait_for_property clock_kernel ''dhcp.wlan0.result'' None 30) clock_state)) \<le> 30000000"
  using wait_for_property_bounded [of "\<lambda>w. w" clock_kernel 30 "''dhcp.wlan0.result''" None clock_state]
  by (simp add: clock_kernel_def clock_state_def)

section \<open>Results on a property store\<close>

text \<open>On a property service that is a store, the results are the properties of the interface.\<close>

definition property_store :: "'w kernel \<Rightarrow> ('w \<Rightarrow> string \<Rightarrow> string) \<Rightarrow> bool" where
  "property_store K store \<longleftrightarrow> (\<forall>k w. k_property_get K k w = (store w k, None, w))"

lemma property_get_store:
  "property_store K store \<Longrightarrow> run_state (sys (k_property_get K k)) s = (store (world s) k, s)"
  by (simp add: property_store_def sys_def)

lemma get_dns_store:
  "property_store K store \<Longrightarrow> run_state (get_dns K p2p x n) s =
     (map (\<lambda>i. store (world s) (dhcp_prop K p2p (''dns'' @ show_nat (i + 1)))) [x..<x + n], s)"
  by (induction n arbitrary: x) (simp_all add: property_get_store upt_rec)


text \<open>A store with the results for \<open>wlan0\<close>, and a caller with room for one name server.\<close>

definition results_kernel :: "sim_world kernel" where
  "results_kernel = sim_kernel\<lparr>k_inet_addr := \<lambda>_. 0x00ffffff, k_atol := \<lambda>_. 3600\<rparr>"

definition results_props :: "string \<Rightarrow> string" where
  "results_props k =
     (if k = ''dhcp.wlan0.result'' then ''ok'' else if k = ''dhcp.wlan0.ipaddress'' then ''192.168.1.10''
      else if k = ''dhcp.wlan0.server'' then ''192.168.1.1'' else if k = ''dhcp.wlan0.mask'' then ''255.255.255.0''
      else if k = ''dhcp.wlan0.dns1'' then ''8.8.8.8'' else '''')"

definition results_state :: "sim_world ustate" where
  "results_state = \<lparr>world = (\<lambda>_. None, results_props), errno = 0, errmsg = '''', ifc_ctl_sock = -1, ifc_ctl_sock6 = -1,
     u_errmsg = ''''\<rparr>"

definition no_results :: ip_results where
  "no_results = \<lparr>r_ipaddr = '''', r_gateway = '''', r_prefixLength = 0, r_dns = [''''], r_server = '''', r_lease = 0,
     r_vendorInfo = '''', r_domain = '''', r_mtu = ''''\<rparr>"


end
