(* ===== verification/Ppp_Fsm.thy ===== *)
theory Ppp_Fsm
  imports Net_Prelude
begin

text \<open>
  The option negotiation automaton of \<open>pppd\<close>, \<open>src/external/ppp/pppd/fsm.c\<close> and \<open>fsm.h\<close>: the automaton of RFC 1661
  that LCP and the network control protocols share.

  The state of a run is the \<open>fsm\<close> structure, the number of pending \<open>fsm_timeout\<close> callouts (\<open>TIMEOUT\<close> adds one,
  \<open>UNTIMEOUT\<close> removes one), the packets handed to \<open>output\<close> so far, the peer's MRU of the unit, and the data of
  the protocol that uses the automaton. The callbacks are functions on this whole state, so that a callback may
  call back into the automaton, as some of them do. Debug and log output is left out.
\<close>

section \<open>Data\<close>

datatype fsm_state = INITIAL | STARTING | CLOSED | STOPPED | CLOSING | STOPPING | REQSENT | ACKRCVD | ACKSENT | OPENED

definition HEADERLEN :: nat where "HEADERLEN = 4"
definition CONFREQ :: u8 where "CONFREQ = 1"
definition CONFACK :: u8 where "CONFACK = 2"
definition CONFNAK :: u8 where "CONFNAK = 3"
definition CONFREJ :: u8 where "CONFREJ = 4"
definition TERMREQ :: u8 where "TERMREQ = 5"
definition TERMACK :: u8 where "TERMACK = 6"
definition CODEREJ :: u8 where "CODEREJ = 7"

definition OPT_PASSIVE :: u32 where "OPT_PASSIVE = 1"
definition OPT_RESTART :: u32 where "OPT_RESTART = 2"
definition OPT_SILENT :: u32 where "OPT_SILENT = 4"

definition DEFTIMEOUT :: int where "DEFTIMEOUT = 3"
definition DEFMAXTERMREQS :: int where "DEFMAXTERMREQS = 2"
definition DEFMAXCONFREQS :: int where "DEFMAXCONFREQS = 10"
definition DEFMAXNAKLOOPS :: int where "DEFMAXNAKLOOPS = 5"

lemmas fsm_codes = CONFREQ_def CONFACK_def CONFNAK_def CONFREJ_def TERMREQ_def TERMACK_def CODEREJ_def

text \<open>\<open>term_reason\<close> stands for the pointer and its length, \<open>''''\<close> for no reason.\<close>

record fsm =
  unit :: int
  protocol :: u16
  f_state :: fsm_state
  flags :: u32
  id :: u8
  reqid :: u8
  seen_ack :: bool
  timeouttime :: int
  maxconfreqtransmits :: int
  retransmits :: int
  maxtermtransmits :: int
  nakloops :: int
  rnakloops :: int
  maxnakloops :: int
  term_reason :: bytes

record 'c sys =
  fsm :: fsm
  timers :: nat
  sent :: "bytes list"
  peer_mru :: int
  client :: 'c

text \<open>The callbacks; a null pointer is \<open>None\<close>. \<open>addci\<close> gets the length allowed and gives the bytes it writes;
  \<open>reqci\<close> gives the code to answer with and the bytes it leaves in the packet.\<close>

record 'c fsm_callbacks =
  resetci :: "('c sys \<Rightarrow> 'c sys) option"
  cilen :: "('c sys \<Rightarrow> int) option"
  addci :: "(int \<Rightarrow> 'c sys \<Rightarrow> bytes \<times> 'c sys) option"
  ackci :: "(bytes \<Rightarrow> 'c sys \<Rightarrow> bool \<times> 'c sys) option"
  nakci :: "(bytes \<Rightarrow> bool \<Rightarrow> 'c sys \<Rightarrow> int \<times> 'c sys) option"
  rejci :: "(bytes \<Rightarrow> 'c sys \<Rightarrow> int \<times> 'c sys) option"
  reqci :: "(bytes \<Rightarrow> bool \<Rightarrow> 'c sys \<Rightarrow> u8 \<times> bytes \<times> 'c sys) option"
  up :: "('c sys \<Rightarrow> 'c sys) option"
  down :: "('c sys \<Rightarrow> 'c sys) option"
  starting :: "('c sys \<Rightarrow> 'c sys) option"
  finished :: "('c sys \<Rightarrow> 'c sys) option"
  retransmit :: "('c sys \<Rightarrow> 'c sys) option"
  extcode :: "(u8 \<Rightarrow> u8 \<Rightarrow> bytes \<Rightarrow> 'c sys \<Rightarrow> bool \<times> 'c sys) option"

definition opt_call :: "('s \<Rightarrow> 's) option \<Rightarrow> 's \<Rightarrow> 's" where
  "opt_call c s = (case c of None \<Rightarrow> s | Some f \<Rightarrow> f s)"

definition upd :: "(fsm \<Rightarrow> fsm) \<Rightarrow> 'c sys \<Rightarrow> 'c sys" where
  "upd g s = s\<lparr>fsm := g (fsm s)\<rparr>"

definition goto :: "fsm_state \<Rightarrow> 'c sys \<Rightarrow> 'c sys" where
  "goto st = upd (f_state_update (\<lambda>_. st))"

definition TIMEOUT :: "'c sys \<Rightarrow> 'c sys" where
  "TIMEOUT s = s\<lparr>timers := timers s + 1\<rparr>"

definition UNTIMEOUT :: "'c sys \<Rightarrow> 'c sys" where
  "UNTIMEOUT s = s\<lparr>timers := timers s - 1\<rparr>"

definition has_flag :: "u32 \<Rightarrow> 'c sys \<Rightarrow> bool" where
  "has_flag b s = (flags (fsm s) AND b \<noteq> 0)"

section \<open>Output\<close>

text \<open>Big-endian \<open>PUTSHORT\<close>, and \<open>MAKEHEADER\<close>.\<close>

definition be16 :: "nat \<Rightarrow> bytes" where
  "be16 n = [of_nat (n div 256), of_nat n]"

definition MAKEHEADER :: "u16 \<Rightarrow> bytes" where
  "MAKEHEADER t = [0xff, 0x03] @ be16 (unat t)"

definition fsm_sdata :: "u8 \<Rightarrow> u8 \<Rightarrow> bytes \<Rightarrow> 'c sys \<Rightarrow> 'c sys" where
  "fsm_sdata code pid bs s =
     (let datalen = int (length bs);
          datalen = (if datalen > peer_mru s - int HEADERLEN then peer_mru s - int HEADERLEN else datalen);
          outlen = datalen + int HEADERLEN
      in s\<lparr>sent := sent s @ [MAKEHEADER (protocol (fsm s)) @ [code, pid] @ be16 (nat outlen) @ take (nat datalen) bs]\<rparr>)"

definition next_id :: "'c sys \<Rightarrow> 'c sys" where
  "next_id = upd (\<lambda>f. f\<lparr>id := id f + 1, reqid := id f + 1\<rparr>)"

definition fsm_sconfreq :: "'c fsm_callbacks \<Rightarrow> bool \<Rightarrow> 'c sys \<Rightarrow> 'c sys" where
  "fsm_sconfreq cb retrans s =
     (let s = (if f_state (fsm s) \<noteq> REQSENT \<and> f_state (fsm s) \<noteq> ACKRCVD \<and> f_state (fsm s) \<noteq> ACKSENT
               then upd (\<lambda>f. f\<lparr>nakloops := 0, rnakloops := 0\<rparr>) (opt_call (resetci cb) s)
               else s);
          s = (if \<not> retrans
               then next_id (upd (\<lambda>f. f\<lparr>retransmits := maxconfreqtransmits f\<rparr>) s)
               else s);
          s = upd (seen_ack_update (\<lambda>_. False)) s;
          (bs, s) = (case (cilen cb, addci cb) of
             (Some cl, Some ac) \<Rightarrow>
               (let n = cl s; n = (if n > peer_mru s - int HEADERLEN then peer_mru s - int HEADERLEN else n)
                in ac n s)
           | _ \<Rightarrow> ([], s));
          s = fsm_sdata CONFREQ (reqid (fsm s)) bs s;
          s = upd (\<lambda>f. f\<lparr>retransmits := retransmits f - 1\<rparr>) s
      in TIMEOUT s)"

definition send_termreq :: "'c sys \<Rightarrow> 'c sys" where
  "send_termreq s = (let s = next_id s in fsm_sdata TERMREQ (reqid (fsm s)) (term_reason (fsm s)) s)"

section \<open>Events from above and below\<close>

text \<open>\<open>unit\<close>, \<open>protocol\<close> and the callbacks are set by the protocol before; the counters that \<open>fsm_init\<close> does
  not touch keep their values.\<close>

definition fsm_init :: "'c sys \<Rightarrow> 'c sys" where
  "fsm_init = upd (\<lambda>f. f\<lparr>f_state := INITIAL, flags := 0, id := 0, timeouttime := DEFTIMEOUT,
     maxconfreqtransmits := DEFMAXCONFREQS, maxtermtransmits := DEFMAXTERMREQS, maxnakloops := DEFMAXNAKLOOPS,
     term_reason := []\<rparr>)"

definition fsm_lowerup :: "'c fsm_callbacks \<Rightarrow> 'c sys \<Rightarrow> 'c sys" where
  "fsm_lowerup cb s =
     (case f_state (fsm s) of
        INITIAL \<Rightarrow> goto CLOSED s
      | STARTING \<Rightarrow> if has_flag OPT_SILENT s then goto STOPPED s
                    else goto REQSENT (fsm_sconfreq cb False s)
      | _ \<Rightarrow> s)"

definition fsm_lowerdown :: "'c fsm_callbacks \<Rightarrow> 'c sys \<Rightarrow> 'c sys" where
  "fsm_lowerdown cb s =
     (case f_state (fsm s) of
        CLOSED \<Rightarrow> goto INITIAL s
      | STOPPED \<Rightarrow> opt_call (starting cb) (goto STARTING s)
      | CLOSING \<Rightarrow> UNTIMEOUT (goto INITIAL s)
      | STOPPING \<Rightarrow> UNTIMEOUT (goto STARTING s)
      | REQSENT \<Rightarrow> UNTIMEOUT (goto STARTING s)
      | ACKRCVD \<Rightarrow> UNTIMEOUT (goto STARTING s)
      | ACKSENT \<Rightarrow> UNTIMEOUT (goto STARTING s)
      | OPENED \<Rightarrow> goto STARTING (opt_call (down cb) s)
      | _ \<Rightarrow> s)"

definition restart :: "'c fsm_callbacks \<Rightarrow> 'c sys \<Rightarrow> 'c sys" where
  "restart cb s = (if has_flag OPT_RESTART s then fsm_lowerup cb (fsm_lowerdown cb s) else s)"

definition fsm_open :: "'c fsm_callbacks \<Rightarrow> 'c sys \<Rightarrow> 'c sys" where
  "fsm_open cb s =
     (case f_state (fsm s) of
        INITIAL \<Rightarrow> opt_call (starting cb) (goto STARTING s)
      | CLOSED \<Rightarrow> if has_flag OPT_SILENT s then goto STOPPED s
                  else goto REQSENT (fsm_sconfreq cb False s)
      | CLOSING \<Rightarrow> restart cb (goto STOPPING s)
      | STOPPED \<Rightarrow> restart cb s
      | OPENED \<Rightarrow> restart cb s
      | _ \<Rightarrow> s)"

definition terminate_layer :: "'c fsm_callbacks \<Rightarrow> fsm_state \<Rightarrow> 'c sys \<Rightarrow> 'c sys" where
  "terminate_layer cb nextstate s =
     (let s = (if f_state (fsm s) \<noteq> OPENED then UNTIMEOUT s else opt_call (down cb) s);
          s = upd (\<lambda>f. f\<lparr>retransmits := maxtermtransmits f\<rparr>) s;
          s = send_termreq s
      in if retransmits (fsm s) = 0
         then opt_call (finished cb) (goto (if nextstate = CLOSING then CLOSED else STOPPED) s)
         else goto nextstate (upd (\<lambda>f. f\<lparr>retransmits := retransmits f - 1\<rparr>) (TIMEOUT s)))"

definition fsm_close :: "'c fsm_callbacks \<Rightarrow> bytes \<Rightarrow> 'c sys \<Rightarrow> 'c sys" where
  "fsm_close cb reason s =
     (let s = upd (term_reason_update (\<lambda>_. reason)) s in
      case f_state (fsm s) of
        STARTING \<Rightarrow> goto INITIAL s
      | STOPPED \<Rightarrow> goto CLOSED s
      | STOPPING \<Rightarrow> goto CLOSING s
      | REQSENT \<Rightarrow> terminate_layer cb CLOSING s
      | ACKRCVD \<Rightarrow> terminate_layer cb CLOSING s
      | ACKSENT \<Rightarrow> terminate_layer cb CLOSING s
      | OPENED \<Rightarrow> terminate_layer cb CLOSING s
      | _ \<Rightarrow> s)"

text \<open>\<open>fsm_timeout\<close> runs when a callout fires, which takes it off the queue.\<close>

definition term_timeout :: "'c fsm_callbacks \<Rightarrow> fsm_state \<Rightarrow> 'c sys \<Rightarrow> 'c sys" where
  "term_timeout cb done s =
     (if retransmits (fsm s) \<le> 0 then opt_call (finished cb) (goto done s)
      else upd (\<lambda>f. f\<lparr>retransmits := retransmits f - 1\<rparr>) (TIMEOUT (send_termreq s)))"

definition conf_timeout :: "'c fsm_callbacks \<Rightarrow> 'c sys \<Rightarrow> 'c sys" where
  "conf_timeout cb s =
     (if retransmits (fsm s) \<le> 0
      then let s = goto STOPPED s in
           if \<not> has_flag OPT_PASSIVE s then opt_call (finished cb) s else s
      else let s = fsm_sconfreq cb True (opt_call (retransmit cb) s) in
           if f_state (fsm s) = ACKRCVD then goto REQSENT s else s)"

definition fsm_timeout :: "'c fsm_callbacks \<Rightarrow> 'c sys \<Rightarrow> 'c sys" where
  "fsm_timeout cb s =
     (case f_state (fsm s) of
        CLOSING \<Rightarrow> term_timeout cb CLOSED s
      | STOPPING \<Rightarrow> term_timeout cb STOPPED s
      | REQSENT \<Rightarrow> conf_timeout cb s
      | ACKRCVD \<Rightarrow> conf_timeout cb s
      | ACKSENT \<Rightarrow> conf_timeout cb s
      | _ \<Rightarrow> s)"

definition timer_fires :: "'c fsm_callbacks \<Rightarrow> 'c sys \<Rightarrow> 'c sys" where
  "timer_fires cb s = (if timers s = 0 then s else fsm_timeout cb (UNTIMEOUT s))"

section \<open>Packets\<close>

text \<open>\<open>fsm_rconfreq\<close>: the \<open>switch\<close> that restarts the negotiation, the protocol's verdict on the options, and the
  state change that goes with the answer.\<close>

definition rconfreq_restart :: "'c fsm_callbacks \<Rightarrow> 'c sys \<Rightarrow> 'c sys" where
  "rconfreq_restart cb s =
     (if f_state (fsm s) = OPENED then goto REQSENT (fsm_sconfreq cb False (opt_call (down cb) s))
      else if f_state (fsm s) = STOPPED then goto REQSENT (fsm_sconfreq cb False s)
      else s)"

definition reqci_verdict :: "'c fsm_callbacks \<Rightarrow> bytes \<Rightarrow> 'c sys \<Rightarrow> u8 \<times> bytes \<times> 'c sys" where
  "reqci_verdict cb inp s =
     (case reqci cb of
        Some rq \<Rightarrow> rq inp (nakloops (fsm s) \<ge> maxnakloops (fsm s)) s
      | None \<Rightarrow> (if inp \<noteq> [] then CONFREJ else CONFACK, inp, s))"

definition rconfreq_answer :: "'c fsm_callbacks \<Rightarrow> u8 \<Rightarrow> 'c sys \<Rightarrow> 'c sys" where
  "rconfreq_answer cb code s =
     (if code = CONFACK then
        upd (nakloops_update (\<lambda>_. 0))
          (if f_state (fsm s) = ACKRCVD then opt_call (up cb) (goto OPENED (UNTIMEOUT s)) else goto ACKSENT s)
      else let s = (if f_state (fsm s) \<noteq> ACKRCVD then goto REQSENT s else s)
           in if code = CONFNAK then upd (\<lambda>f. f\<lparr>nakloops := nakloops f + 1\<rparr>) s else s)"

definition fsm_rconfreq :: "'c fsm_callbacks \<Rightarrow> u8 \<Rightarrow> bytes \<Rightarrow> 'c sys \<Rightarrow> 'c sys" where
  "fsm_rconfreq cb pid inp s =
     (if f_state (fsm s) = CLOSED then fsm_sdata TERMACK pid [] s
      else if f_state (fsm s) = CLOSING \<or> f_state (fsm s) = STOPPING then s
      else let (code, inp, s) = reqci_verdict cb inp (rconfreq_restart cb s)
           in rconfreq_answer cb code (fsm_sdata code pid inp s))"

definition fsm_rconfack :: "'c fsm_callbacks \<Rightarrow> u8 \<Rightarrow> bytes \<Rightarrow> 'c sys \<Rightarrow> 'c sys" where
  "fsm_rconfack cb pid inp s =
     (if pid \<noteq> reqid (fsm s) \<or> seen_ack (fsm s) then s
      else let (ok, s) = (case ackci cb of Some ac \<Rightarrow> ac inp s | None \<Rightarrow> (inp = [], s)) in
        if \<not> ok then s
        else let s = upd (\<lambda>f. f\<lparr>seen_ack := True, rnakloops := 0\<rparr>) s in
          case f_state (fsm s) of
            CLOSED \<Rightarrow> fsm_sdata TERMACK pid [] s
          | STOPPED \<Rightarrow> fsm_sdata TERMACK pid [] s
          | REQSENT \<Rightarrow> upd (\<lambda>f. f\<lparr>retransmits := maxconfreqtransmits f\<rparr>) (goto ACKRCVD s)
          | ACKRCVD \<Rightarrow> goto REQSENT (fsm_sconfreq cb False (UNTIMEOUT s))
          | ACKSENT \<Rightarrow> opt_call (up cb)
                (upd (\<lambda>f. f\<lparr>retransmits := maxconfreqtransmits f\<rparr>) (goto OPENED (UNTIMEOUT s)))
          | OPENED \<Rightarrow> goto REQSENT (fsm_sconfreq cb False (opt_call (down cb) s))
          | _ \<Rightarrow> s)"

text \<open>The first half of \<open>fsm_rconfnakrej\<close>: the protocol's verdict, \<open>None\<close> when the packet is bad.\<close>

definition nakrej_verdict :: "'c fsm_callbacks \<Rightarrow> u8 \<Rightarrow> bytes \<Rightarrow> 'c sys \<Rightarrow> int option \<times> 'c sys" where
  "nakrej_verdict cb code inp s =
     (if code = CONFNAK then
        (let s = upd (\<lambda>f. f\<lparr>rnakloops := rnakloops f + 1\<rparr>) s in
         case nakci cb of
           None \<Rightarrow> (None, s)
         | Some nc \<Rightarrow> (let (r, s) = nc inp (rnakloops (fsm s) \<ge> maxnakloops (fsm s)) s
                       in (if r = 0 then None else Some r, s)))
      else
        (let s = upd (rnakloops_update (\<lambda>_. 0)) s in
         case rejci cb of
           None \<Rightarrow> (None, s)
         | Some rj \<Rightarrow> (let (r, s) = rj inp s in (if r = 0 then None else Some r, s))))"

definition fsm_rconfnakrej :: "'c fsm_callbacks \<Rightarrow> u8 \<Rightarrow> u8 \<Rightarrow> bytes \<Rightarrow> 'c sys \<Rightarrow> 'c sys" where
  "fsm_rconfnakrej cb code pid inp s =
     (if pid \<noteq> reqid (fsm s) \<or> seen_ack (fsm s) then s
      else let (verdict, s) = nakrej_verdict cb code inp s in
        case verdict of
          None \<Rightarrow> s
        | Some r \<Rightarrow>
           (let s = upd (seen_ack_update (\<lambda>_. True)) s in
            case f_state (fsm s) of
              CLOSED \<Rightarrow> fsm_sdata TERMACK pid [] s
            | STOPPED \<Rightarrow> fsm_sdata TERMACK pid [] s
            | REQSENT \<Rightarrow> if r < 0 then goto STOPPED (UNTIMEOUT s) else fsm_sconfreq cb False (UNTIMEOUT s)
            | ACKSENT \<Rightarrow> if r < 0 then goto STOPPED (UNTIMEOUT s) else fsm_sconfreq cb False (UNTIMEOUT s)
            | ACKRCVD \<Rightarrow> goto REQSENT (fsm_sconfreq cb False (UNTIMEOUT s))
            | OPENED \<Rightarrow> goto REQSENT (fsm_sconfreq cb False (opt_call (down cb) s))
            | _ \<Rightarrow> s))"

definition fsm_rtermreq :: "'c fsm_callbacks \<Rightarrow> u8 \<Rightarrow> bytes \<Rightarrow> 'c sys \<Rightarrow> 'c sys" where
  "fsm_rtermreq cb pid p s =
     (let s = (case f_state (fsm s) of
                 ACKRCVD \<Rightarrow> goto REQSENT s
               | ACKSENT \<Rightarrow> goto REQSENT s
               | OPENED \<Rightarrow> TIMEOUT (opt_call (down cb) (goto STOPPING (upd (retransmits_update (\<lambda>_. 0)) s)))
               | _ \<Rightarrow> s)
      in fsm_sdata TERMACK pid [] s)"

definition fsm_rtermack :: "'c fsm_callbacks \<Rightarrow> 'c sys \<Rightarrow> 'c sys" where
  "fsm_rtermack cb s =
     (case f_state (fsm s) of
        CLOSING \<Rightarrow> opt_call (finished cb) (goto CLOSED (UNTIMEOUT s))
      | STOPPING \<Rightarrow> opt_call (finished cb) (goto STOPPED (UNTIMEOUT s))
      | ACKRCVD \<Rightarrow> goto REQSENT s
      | OPENED \<Rightarrow> goto REQSENT (fsm_sconfreq cb False (opt_call (down cb) s))
      | _ \<Rightarrow> s)"

definition fsm_rcoderej :: "bytes \<Rightarrow> 'c sys \<Rightarrow> 'c sys" where
  "fsm_rcoderej inp s =
     (if length inp < HEADERLEN then s
      else if f_state (fsm s) = ACKRCVD then goto REQSENT s else s)"

definition fsm_protreject :: "'c fsm_callbacks \<Rightarrow> 'c sys \<Rightarrow> 'c sys" where
  "fsm_protreject cb s =
     (case f_state (fsm s) of
        CLOSING \<Rightarrow> opt_call (finished cb) (goto CLOSED (UNTIMEOUT s))
      | CLOSED \<Rightarrow> opt_call (finished cb) (goto CLOSED s)
      | STOPPING \<Rightarrow> opt_call (finished cb) (goto STOPPED (UNTIMEOUT s))
      | REQSENT \<Rightarrow> opt_call (finished cb) (goto STOPPED (UNTIMEOUT s))
      | ACKRCVD \<Rightarrow> opt_call (finished cb) (goto STOPPED (UNTIMEOUT s))
      | ACKSENT \<Rightarrow> opt_call (finished cb) (goto STOPPED (UNTIMEOUT s))
      | STOPPED \<Rightarrow> opt_call (finished cb) (goto STOPPED s)
      | OPENED \<Rightarrow> terminate_layer cb STOPPING s
      | _ \<Rightarrow> s)"

text \<open>The header of an incoming packet: code, id and the data within the length it claims; \<open>None\<close> for the packets
  that \<open>fsm_input\<close> drops.\<close>

definition parse_header :: "bytes \<Rightarrow> (u8 \<times> u8 \<times> bytes) option" where
  "parse_header p =
     (if length p < HEADERLEN then None
      else let len = unat (p ! 2) * 256 + unat (p ! 3) in
        if len < HEADERLEN then None
        else if len > length p then None
        else Some (p ! 0, p ! 1, take (len - HEADERLEN) (drop HEADERLEN p)))"

definition fsm_input :: "'c fsm_callbacks \<Rightarrow> bytes \<Rightarrow> 'c sys \<Rightarrow> 'c sys" where
  "fsm_input cb inpacket s =
     (case parse_header inpacket of
        None \<Rightarrow> s
      | Some (code, pid, inp) \<Rightarrow>
          if f_state (fsm s) = INITIAL \<or> f_state (fsm s) = STARTING then s
          else if code = CONFREQ then fsm_rconfreq cb pid inp s
          else if code = CONFACK then fsm_rconfack cb pid inp s
          else if code = CONFNAK \<or> code = CONFREJ then fsm_rconfnakrej cb code pid inp s
          else if code = TERMREQ then fsm_rtermreq cb pid inp s
          else if code = TERMACK then fsm_rtermack cb s
          else if code = CODEREJ then fsm_rcoderej inp s
          else
            (let (handled, s) = (case extcode cb of
                None \<Rightarrow> (False, s)
              | Some ec \<Rightarrow> ec code pid inp s)
             in if handled then s
                else let s = upd (\<lambda>f. f\<lparr>id := id f + 1\<rparr>) s
                     in fsm_sdata CODEREJ (id (fsm s)) (take (length inp + HEADERLEN) inpacket) s))"

section \<open>Steps\<close>

text \<open>What the outside does to the automaton: the seven entry points.\<close>

datatype fsm_event = Lowerup | Lowerdown | Open | Close bytes | Timer | Input bytes | Protreject

fun fsm_do :: "'c fsm_callbacks \<Rightarrow> fsm_event \<Rightarrow> 'c sys \<Rightarrow> 'c sys" where
  "fsm_do cb Lowerup s = fsm_lowerup cb s"
| "fsm_do cb Lowerdown s = fsm_lowerdown cb s"
| "fsm_do cb Open s = fsm_open cb s"
| "fsm_do cb (Close reason) s = fsm_close cb reason s"
| "fsm_do cb Timer s = timer_fires cb s"
| "fsm_do cb (Input p) s = fsm_input cb p s"
| "fsm_do cb Protreject s = fsm_protreject cb s"

inductive fsm_reach :: "'c fsm_callbacks \<Rightarrow> 'c sys \<Rightarrow> 'c sys \<Rightarrow> bool" for cb s where
  start: "fsm_reach cb s s"
| step: "fsm_reach cb s t \<Longrightarrow> fsm_reach cb s (fsm_do cb e t)"

inductive_cases fsm_reachE: "fsm_reach cb s t"

definition waiting :: "fsm_state \<Rightarrow> bool" where
  "waiting st \<longleftrightarrow> st \<in> {CLOSING, STOPPING, REQSENT, ACKRCVD, ACKSENT}"

lemma waiting_simps [simp]:
  "waiting CLOSING" "waiting STOPPING" "waiting REQSENT" "waiting ACKRCVD" "waiting ACKSENT"
  "\<not> waiting INITIAL" "\<not> waiting STARTING" "\<not> waiting CLOSED" "\<not> waiting STOPPED" "\<not> waiting OPENED"
  by (simp_all add: waiting_def)

definition resting :: "fsm_state \<Rightarrow> bool" where
  "resting st \<longleftrightarrow> st \<in> {INITIAL, STARTING, CLOSED, STOPPED}"

lemma restingD: "resting st \<Longrightarrow> \<not> waiting st \<and> st \<noteq> OPENED"
  by (auto simp: resting_def)

text \<open>Exactly one callout is pending in the states that wait for the peer, and none in the others.\<close>

definition timers_ok :: "'c sys \<Rightarrow> bool" where
  "timers_ok s \<longleftrightarrow> timers s = (if waiting (f_state (fsm s)) then 1 else 0)"

definition low :: "fsm_state \<Rightarrow> bool" where
  "low st \<longleftrightarrow> st = INITIAL \<or> st = STARTING"

lemma low_simps [simp]: "low INITIAL" "low STARTING" "\<not> low CLOSED" "\<not> low STOPPED" "\<not> low CLOSING" "\<not> low STOPPING" "\<not> low REQSENT"
    "\<not> low ACKRCVD" "\<not> low ACKSENT" "\<not> low OPENED"
  by (simp_all add: low_def)

text \<open>The invariant of the automaton and of the protocol above it: its layer is up exactly when the automaton is open, and
  \<open>J\<close> holds of its data, for the flags and for whether the layer below is down.\<close>

definition fsm_inv :: "('c \<Rightarrow> bool) \<Rightarrow> (bool \<Rightarrow> u32 \<Rightarrow> 'c \<Rightarrow> bool) \<Rightarrow> 'c sys \<Rightarrow> bool" where
  "fsm_inv raised J s \<longleftrightarrow> timers_ok s \<and> (raised (client s) \<longleftrightarrow> f_state (fsm s) = OPENED) \<and> J (low (f_state (fsm s))) (flags (fsm s)) (client s)"

text \<open>The options and limits under which the table applies as it stands.\<close>

definition plain :: "'c sys \<Rightarrow> bool" where
  "plain s \<longleftrightarrow> \<not> has_flag OPT_SILENT s \<and> \<not> has_flag OPT_RESTART s \<and> maxtermtransmits (fsm s) \<noteq> 0"

section \<open>Effects of the building blocks\<close>

lemma upd_sel [simp]: "fsm (upd g s) = g (fsm s)" "timers (upd g s) = timers s" "client (upd g s) = client s"
    "sent (upd g s) = sent s" "peer_mru (upd g s) = peer_mru s"
  by (simp_all add: upd_def)

lemma goto_sel [simp]: "fsm (goto st s) = (fsm s)\<lparr>f_state := st\<rparr>" "timers (goto st s) = timers s" "client (goto st s) = client s"
    "sent (goto st s) = sent s" "peer_mru (goto st s) = peer_mru s"
  by (simp_all add: goto_def)

lemma timeout_sel [simp]: "fsm (TIMEOUT s) = fsm s" "timers (TIMEOUT s) = Suc (timers s)" "client (TIMEOUT s) = client s"
    "fsm (UNTIMEOUT s) = fsm s" "timers (UNTIMEOUT s) = timers s - 1" "client (UNTIMEOUT s) = client s"
    "sent (TIMEOUT s) = sent s" "sent (UNTIMEOUT s) = sent s" "peer_mru (TIMEOUT s) = peer_mru s" "peer_mru (UNTIMEOUT s) = peer_mru s"
  by (simp_all add: TIMEOUT_def UNTIMEOUT_def)

lemma sdata_sel [simp]: "fsm (fsm_sdata c i bs s) = fsm s" "timers (fsm_sdata c i bs s) = timers s"
    "client (fsm_sdata c i bs s) = client s" "peer_mru (fsm_sdata c i bs s) = peer_mru s"
  by (simp_all add: fsm_sdata_def Let_def)

lemma termreq_sel [simp]: "f_state (fsm (send_termreq s)) = f_state (fsm s)" "retransmits (fsm (send_termreq s)) = retransmits (fsm s)"
    "timers (send_termreq s) = timers s" "client (send_termreq s) = client s" "flags (fsm (send_termreq s)) = flags (fsm s)"
  by (simp_all add: send_termreq_def next_id_def Let_def)

lemma opt_call_None [simp]: "opt_call None s = s" and opt_call_Some [simp]: "opt_call (Some f) s = f s"
  by (simp_all add: opt_call_def)

section \<open>The contract of a protocol\<close>

text \<open>A callback that neither touches the automaton nor its timer, nor moves the protocol's layer.\<close>

definition keeps :: "('c \<Rightarrow> bool) \<Rightarrow> (bool \<Rightarrow> u32 \<Rightarrow> 'c \<Rightarrow> bool) \<Rightarrow> 'c sys \<Rightarrow> 'c sys \<Rightarrow> bool" where
  "keeps raised J s t \<longleftrightarrow> fsm t = fsm s \<and> timers t = timers s \<and> (raised (client t) \<longleftrightarrow> raised (client s)) \<and>
     ((raised (client s) \<longrightarrow> f_state (fsm s) = OPENED) \<longrightarrow> (\<forall>b fl. J b fl (client s) \<longrightarrow> J b fl (client t)))"

lemma keeps_inv: "fsm_inv raised J s \<Longrightarrow> keeps raised J s t \<Longrightarrow> fsm_inv raised J t"
  by (simp add: keeps_def fsm_inv_def timers_ok_def)

text \<open>The protocols that use the automaton promise, first those that it needs to go down: \<open>starting\<close> keeps out of
  the automaton; \<open>down\<close> takes the layer down; \<open>finished\<close>, which may call back into the automaton, leaves a consistent state and does not
  start anything anew. \<open>J\<close> is an invariant that all of them keep, and that does not get lost when the layer below goes down.\<close>

locale fsm_closer =
  fixes cb :: "'c fsm_callbacks" and raised :: "'c \<Rightarrow> bool" and J :: "bool \<Rightarrow> u32 \<Rightarrow> 'c \<Rightarrow> bool"
  assumes starting_keeps: "keeps raised J s (opt_call (starting cb) s)"
    and down_takes_down: "fsm (opt_call (down cb) s) = fsm s" "timers (opt_call (down cb) s) = timers s"
      "\<not> raised (client (opt_call (down cb) s))" "J b fl (client s) \<Longrightarrow> J b fl (client (opt_call (down cb) s))"
    and finished_consistent: "f_state (fsm s) \<in> {CLOSED, STOPPED} \<Longrightarrow> fsm_inv raised J s \<Longrightarrow> fsm_inv raised J (opt_call (finished cb) s)"
    and finished_rests: "f_state (fsm s) \<in> {CLOSED, STOPPED} \<Longrightarrow> resting (f_state (fsm (opt_call (finished cb) s)))"
    and J_low: "J False fl d \<Longrightarrow> J True fl d"
begin

lemma starting_sel [simp]:
  "fsm (opt_call (starting cb) s) = fsm s" "timers (opt_call (starting cb) s) = timers s"
  "raised (client (opt_call (starting cb) s)) = raised (client s)"
  "\<not> raised (client s) \<Longrightarrow> J b fl (client s) \<Longrightarrow> J b fl (client (opt_call (starting cb) s))"
  using starting_keeps [of s] by (auto simp: keeps_def)

declare down_takes_down [simp]

lemmas inv_simps = fsm_inv_def timers_ok_def

lemma finished_sel [simp]:
  assumes "timers s = 0" "\<not> raised (client s)" "J False (flags (fsm s)) (client s)" "st = CLOSED \<or> st = STOPPED"
  defines "t \<equiv> opt_call (finished cb) (goto st s)"
  shows "timers t = 0" "\<not> raised (client t)" "f_state (fsm t) \<noteq> OPENED" "J (low (f_state (fsm t))) (flags (fsm t)) (client t)" "\<not> waiting (f_state (fsm t))"
proof -
  have "fsm_inv raised J (goto st s)" "f_state (fsm (goto st s)) \<in> {CLOSED, STOPPED}"
    using assms by (auto simp: inv_simps)
  then show "timers t = 0" "\<not> raised (client t)" "f_state (fsm t) \<noteq> OPENED" "J (low (f_state (fsm t))) (flags (fsm t)) (client t)" "\<not> waiting (f_state (fsm t))"
    using finished_consistent [of "goto st s"] finished_rests [of "goto st s", THEN restingD] by (auto simp: inv_simps t_def)
qed

lemma lowerdown_inv: "fsm_inv raised J s \<Longrightarrow> fsm_inv raised J (fsm_lowerdown cb s)"
  by (auto simp: inv_simps fsm_lowerdown_def J_low split: fsm_state.split)

lemma lowerdown_J: "fsm_inv raised J s \<Longrightarrow> J False (flags (fsm s)) (client s) \<Longrightarrow>
    J False (flags (fsm (fsm_lowerdown cb s))) (client (fsm_lowerdown cb s))"
  by (auto simp: inv_simps fsm_lowerdown_def split: fsm_state.split)

lemma terminate_inv:
  "fsm_inv raised J s \<Longrightarrow> f_state (fsm s) \<in> {REQSENT, ACKRCVD, ACKSENT, OPENED} \<Longrightarrow> nextstate \<in> {CLOSING, STOPPING} \<Longrightarrow>
   fsm_inv raised J (terminate_layer cb nextstate s)"
  by (auto simp: inv_simps terminate_layer_def Let_def)

text \<open>Closing from an open automaton, whatever is left of the layer above.\<close>

lemma close_opened:
  assumes "f_state (fsm s) = OPENED" "timers s = 0" "J False (flags (fsm s)) (client (opt_call (down cb) (upd (term_reason_update (\<lambda>_. r)) s)))"
  shows "fsm_inv raised J (fsm_close cb r s)" "f_state (fsm (fsm_close cb r s)) \<noteq> OPENED"
  using assms by (auto simp: inv_simps fsm_close_def terminate_layer_def Let_def)

lemma close_inv: "fsm_inv raised J s \<Longrightarrow> fsm_inv raised J (fsm_close cb r s)"
  using terminate_inv [of "upd (term_reason_update (\<lambda>_. r)) s" CLOSING]
  by (auto simp: inv_simps fsm_close_def Let_def split: fsm_state.split)

lemma protreject_inv: "fsm_inv raised J s \<Longrightarrow> fsm_inv raised J (fsm_protreject cb s)"
  using terminate_inv [of s STOPPING]
  by (auto simp: inv_simps fsm_protreject_def split: fsm_state.split)

lemma keepsD: "keeps raised J s t \<Longrightarrow> fsm t = fsm s" "keeps raised J s t \<Longrightarrow> timers t = timers s"
    "keeps raised J s t \<Longrightarrow> raised (client t) = raised (client s)"
  by (simp_all add: keeps_def)

lemma upd_inv: "fsm_inv raised J s \<Longrightarrow> f_state (g (fsm s)) = f_state (fsm s) \<Longrightarrow> flags (g (fsm s)) = flags (fsm s) \<Longrightarrow> fsm_inv raised J (upd g s)"
  by (simp add: inv_simps)

lemma sdata_inv: "fsm_inv raised J s \<Longrightarrow> fsm_inv raised J (fsm_sdata c i bs s)"
  by (simp add: inv_simps)

end

text \<open>Then all of them: the option callbacks and \<open>retransmit\<close> keep out of the automaton; \<open>up\<close>, \<open>nakci\<close> and \<open>extcode\<close> may call back into
  it and leave a consistent state, with the layer up exactly when the automaton is open.\<close>

locale fsm_layer = fsm_closer +
  assumes resetci_keeps: "keeps raised (\<lambda>_ _ _. True) s (opt_call (resetci cb) s)"
      "\<not> raised (client s) \<Longrightarrow> J b fl (client s) \<Longrightarrow> J b fl (client (opt_call (resetci cb) s))"
    and retransmit_keeps: "keeps raised J s (opt_call (retransmit cb) s)"
    and addci_keeps: "addci cb = Some ac \<Longrightarrow> keeps raised J s (snd (ac n s))"
    and ackci_keeps: "ackci cb = Some kc \<Longrightarrow> keeps raised J s (snd (kc bs s))"
    and rejci_keeps: "rejci cb = Some jc \<Longrightarrow> keeps raised J s (snd (jc bs s))"
    and reqci_keeps: "reqci cb = Some rc \<Longrightarrow> keeps raised J s (snd (snd (rc bs x s)))"
    and nakci_consistent: "nakci cb = Some nc \<Longrightarrow> fsm_inv raised J s \<Longrightarrow> fsm_inv raised J (snd (nc bs x s))"
    and extcode_consistent: "extcode cb = Some xc \<Longrightarrow> fsm_inv raised J s \<Longrightarrow> fsm_inv raised J (snd (xc c i bs s))"
    and up_consistent: "f_state (fsm s) = OPENED \<Longrightarrow> timers s = 0 \<Longrightarrow> \<not> raised (client s) \<Longrightarrow> J False (flags (fsm s)) (client s) \<Longrightarrow>
      fsm_inv raised J (opt_call (up cb) s)"
begin

lemma quiet_sel [simp]:
  "fsm (opt_call (resetci cb) s) = fsm s" "timers (opt_call (resetci cb) s) = timers s"
  "raised (client (opt_call (resetci cb) s)) = raised (client s)"
  "\<not> raised (client s) \<Longrightarrow> J b fl (client s) \<Longrightarrow> J b fl (client (opt_call (resetci cb) s))"
  "fsm (opt_call (retransmit cb) s) = fsm s" "timers (opt_call (retransmit cb) s) = timers s"
  "raised (client (opt_call (retransmit cb) s)) = raised (client s)"
  "\<not> raised (client s) \<Longrightarrow> J b fl (client s) \<Longrightarrow> J b fl (client (opt_call (retransmit cb) s))"
  using resetci_keeps [of s] retransmit_keeps [of s] by (auto simp: keeps_def)

lemma sconfreq_sel [simp]:
  "f_state (fsm (fsm_sconfreq cb r s)) = f_state (fsm s)"
  "timers (fsm_sconfreq cb r s) = Suc (timers s)"
  "raised (client (fsm_sconfreq cb r s)) = raised (client s)"
  "flags (fsm (fsm_sconfreq cb r s)) = flags (fsm s)"
  "\<not> raised (client s) \<Longrightarrow> J b fl (client s) \<Longrightarrow> J b fl (client (fsm_sconfreq cb r s))"
  "retransmits (fsm (fsm_sconfreq cb r s)) = (if r then retransmits (fsm s) else maxconfreqtransmits (fsm s)) - 1"
  "seen_ack (fsm (fsm_sconfreq cb r s)) = False"
  "plain (fsm_sconfreq cb r s) = plain s"
proof -
  define s1 where "s1 = (if f_state (fsm s) \<noteq> REQSENT \<and> f_state (fsm s) \<noteq> ACKRCVD \<and> f_state (fsm s) \<noteq> ACKSENT
       then upd (\<lambda>f. f\<lparr>nakloops := 0, rnakloops := 0\<rparr>) (opt_call (resetci cb) s) else s)"
  define s2 where "s2 = upd (seen_ack_update (\<lambda>_. False))
       (if \<not> r then next_id (upd (\<lambda>f. f\<lparr>retransmits := maxconfreqtransmits f\<rparr>) s1) else s1)"
  define p where "p = (case (cilen cb, addci cb) of
             (Some cl, Some ac) \<Rightarrow>
               (let n = cl s2; n = (if n > peer_mru s2 - int HEADERLEN then peer_mru s2 - int HEADERLEN else n) in ac n s2)
           | _ \<Rightarrow> ([], s2))"
  have k: "keeps raised J s2 (snd p)"
    using addci_keeps by (auto simp: p_def Let_def keeps_def split: option.split)
  have s2: "flags (fsm s2) = flags (fsm s)" "client s2 = client s \<or> client s2 = client (opt_call (resetci cb) s)"
    by (simp_all add: s1_def s2_def next_id_def)
  have e: "fsm_sconfreq cb r s = TIMEOUT (upd (\<lambda>f. f\<lparr>retransmits := retransmits f - 1\<rparr>)
      (fsm_sdata CONFREQ (reqid (fsm (snd p))) (fst p) (snd p)))"
    unfolding fsm_sconfreq_def p_def s2_def s1_def Let_def split_beta by (rule refl)
  show "\<not> raised (client s) \<Longrightarrow> J b fl (client s) \<Longrightarrow> J b fl (client (fsm_sconfreq cb r s))"
    using k s2 by (auto simp: e keeps_def)
  show "f_state (fsm (fsm_sconfreq cb r s)) = f_state (fsm s)"
    "timers (fsm_sconfreq cb r s) = Suc (timers s)"
    "raised (client (fsm_sconfreq cb r s)) = raised (client s)"
    "flags (fsm (fsm_sconfreq cb r s)) = flags (fsm s)"
    "retransmits (fsm (fsm_sconfreq cb r s)) = (if r then retransmits (fsm s) else maxconfreqtransmits (fsm s)) - 1"
    "seen_ack (fsm (fsm_sconfreq cb r s)) = False"
    "plain (fsm_sconfreq cb r s) = plain s"
    using k by (auto simp: e keeps_def s1_def s2_def next_id_def plain_def has_flag_def)
qed

lemma lowerup_inv: "fsm_inv raised J s \<Longrightarrow> J False (flags (fsm s)) (client s) \<Longrightarrow> fsm_inv raised J (fsm_lowerup cb s)"
  by (auto simp: inv_simps fsm_lowerup_def split: fsm_state.split)

lemma restart_inv: "fsm_inv raised J s \<Longrightarrow> J False (flags (fsm s)) (client s) \<Longrightarrow> fsm_inv raised J (restart cb s)"
  by (simp add: restart_def lowerup_inv lowerdown_inv lowerdown_J)

lemma open_inv: "fsm_inv raised J s \<Longrightarrow> fsm_inv raised J (fsm_open cb s)"
  using restart_inv [of "goto STOPPING s"] restart_inv [of s]
  by (auto simp: inv_simps fsm_open_def split: fsm_state.split)

lemma timer_inv: "fsm_inv raised J s \<Longrightarrow> fsm_inv raised J (timer_fires cb s)"
  by (auto simp: inv_simps timer_fires_def fsm_timeout_def term_timeout_def conf_timeout_def Let_def split: fsm_state.split)

text \<open>The second half of \<open>fsm_rconfreq\<close>, once the automaton is in one of the three negotiating states.\<close>

lemma rconfreq_answer_inv:
  assumes "fsm_inv raised J s" "f_state (fsm s) \<in> {REQSENT, ACKRCVD, ACKSENT}"
  shows "fsm_inv raised J (rconfreq_answer cb code s)"
proof -
  have "fsm_inv raised J (opt_call (up cb) (goto OPENED (UNTIMEOUT s)))"
    using assms by (intro up_consistent) (auto simp: inv_simps)
  then show ?thesis
    using assms by (auto simp: inv_simps rconfreq_answer_def Let_def)
qed

lemma rconfreq_restart_inv:
  assumes "fsm_inv raised J s" "f_state (fsm s) \<notin> {INITIAL, STARTING, CLOSED, CLOSING, STOPPING}"
  shows "fsm_inv raised J (rconfreq_restart cb s)" "f_state (fsm (rconfreq_restart cb s)) \<in> {REQSENT, ACKRCVD, ACKSENT}"
  using assms by (cases "f_state (fsm s)"; auto simp: rconfreq_restart_def inv_simps)+

lemma reqci_verdict_keeps: "keeps raised J s (snd (snd (reqci_verdict cb inp s)))"
  using reqci_keeps by (auto simp: reqci_verdict_def keeps_def split: option.split)

lemma rconfreq_inv:
  assumes "fsm_inv raised J s" "f_state (fsm s) \<notin> {INITIAL, STARTING}"
  shows "fsm_inv raised J (fsm_rconfreq cb pid inp s)"
proof (cases "f_state (fsm s) \<in> {CLOSED, CLOSING, STOPPING}")
  case False
  define s1 where "s1 = rconfreq_restart cb s"
  have s1: "fsm_inv raised J s1" "f_state (fsm s1) \<in> {REQSENT, ACKRCVD, ACKSENT}"
    using assms False rconfreq_restart_inv [of s] by (auto simp: s1_def)
  note k = reqci_verdict_keeps [of s1 inp]
  then show ?thesis
    using keeps_inv [OF s1(1) k] keepsD(1) [OF k] s1(2) False
    by (auto simp: fsm_rconfreq_def split_beta sdata_inv s1_def [symmetric] intro!: rconfreq_answer_inv)
qed (use assms in \<open>auto simp: fsm_rconfreq_def sdata_inv\<close>)

lemma rconfack_inv:
  assumes "fsm_inv raised J s"
  shows "fsm_inv raised J (fsm_rconfack cb pid inp s)"
proof -
  define p where "p = (case ackci cb of Some ac \<Rightarrow> ac inp s | None \<Rightarrow> (inp = [], s))"
  define s1 where "s1 = upd (\<lambda>f. f\<lparr>seen_ack := True, rnakloops := 0\<rparr>) (snd p)"
  have k: "keeps raised J s (snd p)"
    using ackci_keeps by (auto simp: p_def keeps_def split: option.split)
  note p_inv = keeps_inv [OF assms k]
  then have s1: "fsm_inv raised J s1"
    by (simp add: s1_def upd_inv)
  have "fsm_inv raised J (opt_call (up cb)
      (upd (\<lambda>f. f\<lparr>retransmits := maxconfreqtransmits f\<rparr>) (goto OPENED (UNTIMEOUT s1))))" if "f_state (fsm s1) = ACKSENT"
    using s1 that by (intro up_consistent) (auto simp: inv_simps)
  then show ?thesis
    using assms p_inv s1
    by (auto simp: fsm_rconfack_def s1_def p_def Let_def split_beta inv_simps split: fsm_state.split)
qed

lemma rconfnakrej_inv:
  assumes "fsm_inv raised J s"
  shows "fsm_inv raised J (fsm_rconfnakrej cb code pid inp s)"
proof -
  define p where "p = nakrej_verdict cb code inp s"
  have n: "fsm_inv raised J (snd (nc inp b (upd g s)))" if "nakci cb = Some nc" "\<And>f. f_state (g f) = f_state f" "\<And>f. flags (g f) = flags f" for nc b g
    using nakci_consistent [OF that(1) upd_inv [OF assms]] that(2,3) by blast
  have j: "fsm_inv raised J (snd (jc inp (upd g s)))" if "rejci cb = Some jc" "\<And>f. f_state (g f) = f_state f" "\<And>f. flags (g f) = flags f" for jc g
    using keeps_inv [OF upd_inv [OF assms] rejci_keeps [OF that(1)]] that(2,3) by blast
  have "fsm_inv raised J (snd p)"
    using assms n j by (auto simp: p_def nakrej_verdict_def Let_def split_beta upd_inv split: option.split)
  then show ?thesis
    using assms
    by (auto simp: fsm_rconfnakrej_def p_def [symmetric] Let_def split_beta inv_simps split: fsm_state.split option.split)
qed

lemma rtermreq_inv: "fsm_inv raised J s \<Longrightarrow> fsm_inv raised J (fsm_rtermreq cb pid inp s)"
  by (auto simp: fsm_rtermreq_def inv_simps Let_def split: fsm_state.split)

lemma rtermack_inv: "fsm_inv raised J s \<Longrightarrow> fsm_inv raised J (fsm_rtermack cb s)"
  by (auto simp: fsm_rtermack_def inv_simps split: fsm_state.split)

lemma rcoderej_inv: "fsm_inv raised J s \<Longrightarrow> fsm_inv raised J (fsm_rcoderej inp s)"
  by (auto simp: fsm_rcoderej_def inv_simps)

lemma extcode_inv:
  assumes "fsm_inv raised J s"
  shows "fsm_inv raised J (snd (case extcode cb of None \<Rightarrow> (False, s) | Some ec \<Rightarrow> ec code pid inp s))"
  using assms extcode_consistent [OF _ assms] by (auto split: option.split)

lemma input_inv: "fsm_inv raised J s \<Longrightarrow> fsm_inv raised J (fsm_input cb p s)"
  using extcode_inv [of s]
  by (auto simp: fsm_input_def Let_def split_beta rconfreq_inv rconfack_inv rconfnakrej_inv rtermreq_inv rtermack_inv
      rcoderej_inv sdata_inv upd_inv split: option.split)

lemma fsm_do_inv:
  "fsm_inv raised J s \<Longrightarrow> (e = Lowerup \<Longrightarrow> J False (flags (fsm s)) (client s)) \<Longrightarrow> fsm_inv raised J (fsm_do cb e s)"
  by (cases e) (simp_all add: lowerup_inv lowerdown_inv open_inv close_inv timer_inv input_inv protreject_inv)

end

text \<open>Left alone, the automaton retransmits a bounded number of times: the contract of a protocol gives the contract of a
  retransmitter, with the timer as the only event.\<close>

definition timer_step :: "'c fsm_callbacks \<Rightarrow> unit \<Rightarrow> 'c sys \<Rightarrow> 'c sys option" where
  "timer_step cb e s = (if timers s = 0 then None else Some (timer_fires cb s))"

definition timer_budget :: "'c sys \<Rightarrow> nat" where
  "timer_budget s = (if waiting (f_state (fsm s)) then Suc (nat (retransmits (fsm s))) else 0)"

sublocale fsm_layer \<subseteq> quiet_peer: retransmitter "timer_step cb" "\<lambda>_. True" timer_budget "fsm_inv raised J"
proof
  fix s s' e
  assume inv: "fsm_inv raised J s" and st: "timer_step cb e s = Some s'"
  then show "fsm_inv raised J s'"
    using timer_inv by (auto simp: timer_step_def split: if_splits)
  show "timer_budget s' < timer_budget s" if True
    using inv st
    by (auto simp: timer_step_def timer_budget_def inv_simps timer_fires_def fsm_timeout_def term_timeout_def
        conf_timeout_def Let_def split: if_splits fsm_state.splits)
qed simp

section \<open>The automaton of RFC 1661\<close>

text \<open>The specification: the state transition table of RFC 1661, section 4.1, with the events that can occur in a
  state (elsewhere the table has no entry and the state stays). \<open>RCN_stop\<close> is a Nak or Reject on which the
  protocol gives up, an extension of \<open>pppd\<close>.\<close>

datatype rfc_event = Up | Down | Opn | Cls | TO_plus | TO_minus | RCR_plus | RCR_minus | RCA | RCN | RCN_stop
  | RTR | RTA | RUC | RXJ_plus | RXJ_minus

fun rfc1661 :: "rfc_event \<Rightarrow> fsm_state \<Rightarrow> fsm_state" where
  "rfc1661 Up st = (case st of INITIAL \<Rightarrow> CLOSED | STARTING \<Rightarrow> REQSENT | _ \<Rightarrow> st)"
| "rfc1661 Down st = (case st of CLOSED \<Rightarrow> INITIAL | STOPPED \<Rightarrow> STARTING | CLOSING \<Rightarrow> INITIAL | INITIAL \<Rightarrow> INITIAL | _ \<Rightarrow> STARTING)"
| "rfc1661 Opn st = (case st of INITIAL \<Rightarrow> STARTING | CLOSED \<Rightarrow> REQSENT | CLOSING \<Rightarrow> STOPPING | _ \<Rightarrow> st)"
| "rfc1661 Cls st = (case st of INITIAL \<Rightarrow> INITIAL | STARTING \<Rightarrow> INITIAL | CLOSED \<Rightarrow> CLOSED | STOPPED \<Rightarrow> CLOSED | _ \<Rightarrow> CLOSING)"
| "rfc1661 TO_plus st = (case st of ACKRCVD \<Rightarrow> REQSENT | _ \<Rightarrow> st)"
| "rfc1661 TO_minus st = (case st of CLOSING \<Rightarrow> CLOSED | STOPPING \<Rightarrow> STOPPED | REQSENT \<Rightarrow> STOPPED | ACKRCVD \<Rightarrow> STOPPED
     | ACKSENT \<Rightarrow> STOPPED | _ \<Rightarrow> st)"
| "rfc1661 RCR_plus st = (case st of STOPPED \<Rightarrow> ACKSENT | REQSENT \<Rightarrow> ACKSENT | ACKRCVD \<Rightarrow> OPENED | OPENED \<Rightarrow> ACKSENT | _ \<Rightarrow> st)"
| "rfc1661 RCR_minus st = (case st of STOPPED \<Rightarrow> REQSENT | ACKSENT \<Rightarrow> REQSENT | OPENED \<Rightarrow> REQSENT | _ \<Rightarrow> st)"
| "rfc1661 RCA st = (case st of REQSENT \<Rightarrow> ACKRCVD | ACKRCVD \<Rightarrow> REQSENT | ACKSENT \<Rightarrow> OPENED | OPENED \<Rightarrow> REQSENT | _ \<Rightarrow> st)"
| "rfc1661 RCN st = (case st of ACKRCVD \<Rightarrow> REQSENT | OPENED \<Rightarrow> REQSENT | _ \<Rightarrow> st)"
| "rfc1661 RCN_stop st = (case st of REQSENT \<Rightarrow> STOPPED | ACKSENT \<Rightarrow> STOPPED | ACKRCVD \<Rightarrow> REQSENT | OPENED \<Rightarrow> REQSENT | _ \<Rightarrow> st)"
| "rfc1661 RTR st = (case st of ACKRCVD \<Rightarrow> REQSENT | ACKSENT \<Rightarrow> REQSENT | OPENED \<Rightarrow> STOPPING | _ \<Rightarrow> st)"
| "rfc1661 RTA st = (case st of CLOSING \<Rightarrow> CLOSED | STOPPING \<Rightarrow> STOPPED | ACKRCVD \<Rightarrow> REQSENT | OPENED \<Rightarrow> REQSENT | _ \<Rightarrow> st)"
| "rfc1661 RUC st = st"
| "rfc1661 RXJ_plus st = (case st of ACKRCVD \<Rightarrow> REQSENT | _ \<Rightarrow> st)"
| "rfc1661 RXJ_minus st = (case st of CLOSING \<Rightarrow> CLOSED | STOPPING \<Rightarrow> STOPPED | REQSENT \<Rightarrow> STOPPED | ACKRCVD \<Rightarrow> STOPPED
     | ACKSENT \<Rightarrow> STOPPED | OPENED \<Rightarrow> STOPPING | _ \<Rightarrow> st)"

text \<open>Which event of the table an event of the program is. Packets that are malformed, out of sequence or bad are
  none, like packets before the lower layer is up and callouts that are not pending.\<close>

definition ack_event :: "'c fsm_callbacks \<Rightarrow> u8 \<Rightarrow> bytes \<Rightarrow> 'c sys \<Rightarrow> rfc_event option" where
  "ack_event cb pid inp s =
     (if pid \<noteq> reqid (fsm s) \<or> seen_ack (fsm s) then None
      else if fst (case ackci cb of Some ac \<Rightarrow> ac inp s | None \<Rightarrow> (inp = [], s)) then Some RCA else None)"

definition nakrej_event :: "'c fsm_callbacks \<Rightarrow> u8 \<Rightarrow> u8 \<Rightarrow> bytes \<Rightarrow> 'c sys \<Rightarrow> rfc_event option" where
  "nakrej_event cb code pid inp s =
     (if pid \<noteq> reqid (fsm s) \<or> seen_ack (fsm s) then None
      else case fst (nakrej_verdict cb code inp s) of
        None \<Rightarrow> None
      | Some r \<Rightarrow> Some (if r < 0 then RCN_stop else RCN))"

definition packet_event :: "'c fsm_callbacks \<Rightarrow> bytes \<Rightarrow> 'c sys \<Rightarrow> rfc_event option" where
  "packet_event cb p s =
     (case parse_header p of
        None \<Rightarrow> None
      | Some (code, pid, inp) \<Rightarrow>
          if f_state (fsm s) = INITIAL \<or> f_state (fsm s) = STARTING then None
          else if code = CONFREQ then
            Some (if fst (reqci_verdict cb inp (rconfreq_restart cb s)) = CONFACK then RCR_plus else RCR_minus)
          else if code = CONFACK then ack_event cb pid inp s
          else if code = CONFNAK \<or> code = CONFREJ then nakrej_event cb code pid inp s
          else if code = TERMREQ then Some RTR
          else if code = TERMACK then Some RTA
          else if code = CODEREJ then (if length inp < HEADERLEN then None else Some RXJ_plus)
          else Some RUC)"

fun rfc_of :: "'c fsm_callbacks \<Rightarrow> fsm_event \<Rightarrow> 'c sys \<Rightarrow> rfc_event option" where
  "rfc_of cb Lowerup s = Some Up"
| "rfc_of cb Lowerdown s = Some Down"
| "rfc_of cb Open s = Some Opn"
| "rfc_of cb (Close r) s = Some Cls"
| "rfc_of cb Timer s =
     (if timers s = 0 then None else Some (if retransmits (fsm s) \<le> 0 then TO_minus else TO_plus))"
| "rfc_of cb (Input p) s = packet_event cb p s"
| "rfc_of cb Protreject s = Some RXJ_minus"

definition rfc_next :: "'c fsm_callbacks \<Rightarrow> fsm_event \<Rightarrow> 'c sys \<Rightarrow> fsm_state" where
  "rfc_next cb e s =
     (case rfc_of cb e s of None \<Rightarrow> f_state (fsm s) | Some ev \<Rightarrow> rfc1661 ev (f_state (fsm s)))"

text \<open>The state that a run has reached against the one of the table.\<close>

definition agrees :: "fsm_state \<Rightarrow> fsm_state \<Rightarrow> bool" where
  "agrees spec st \<longleftrightarrow> st = spec \<or> spec = OPENED \<and> st = rfc1661 Cls OPENED"

lemma agrees_refl [simp]: "agrees st st"
  by (simp add: agrees_def)

text \<open>The stronger promise of a protocol that calls back into the automaton from \<open>up\<close> only.\<close>

locale fsm_client = fsm_layer +
  assumes finished_keeps: "keeps raised J s (opt_call (finished cb) s)"
    and nakci_keeps: "nakci cb = Some nc \<Longrightarrow> keeps raised J s (snd (nc bs b s))"
    and extcode_keeps: "extcode cb = Some xc \<Longrightarrow> keeps raised J s (snd (xc c i bs s))"
    and J_any: "J b fl d \<Longrightarrow> J b' fl d"
begin

lemma client_do_inv: "fsm_inv raised J s \<Longrightarrow> fsm_inv raised J (fsm_do cb e s)"
  using J_any [of "low (f_state (fsm s))" "flags (fsm s)" "client s" False] by (intro fsm_do_inv) (auto simp: fsm_inv_def)

theorem reach_inv: "fsm_reach cb s t \<Longrightarrow> fsm_inv raised J s \<Longrightarrow> fsm_inv raised J t"
  by (induction rule: fsm_reach.induct) (auto intro: client_do_inv)

lemma finished_fsm [simp]: "fsm (opt_call (finished cb) s) = fsm s"
  using finished_keeps by (simp add: keeps_def)

lemma plain_opens: "plain s \<Longrightarrow> f_state (fsm (fsm_lowerup cb s)) = rfc1661 Up (f_state (fsm s))"
    "plain s \<Longrightarrow> f_state (fsm (fsm_open cb s)) = rfc1661 Opn (f_state (fsm s))"
  by (auto simp: plain_def fsm_lowerup_def fsm_open_def restart_def has_flag_def split: fsm_state.split)

lemma terminates_state:
  "plain s \<Longrightarrow> f_state (fsm (terminate_layer cb nextstate s)) = nextstate"
  by (auto simp: plain_def terminate_layer_def Let_def)

lemma plain_closes: "plain s \<Longrightarrow> f_state (fsm (fsm_close cb r s)) = rfc1661 Cls (f_state (fsm s))"
    "plain s \<Longrightarrow> f_state (fsm (fsm_protreject cb s)) = rfc1661 RXJ_minus (f_state (fsm s))"
    "f_state (fsm (fsm_lowerdown cb s)) = rfc1661 Down (f_state (fsm s))"
  using terminates_state [of "upd (term_reason_update (\<lambda>_. r)) s"] terminates_state [of s STOPPING]
  by (auto simp: plain_def has_flag_def fsm_close_def fsm_protreject_def fsm_lowerdown_def Let_def split: fsm_state.split)

lemma timer_state: "f_state (fsm (fsm_do cb Timer s)) = rfc_next cb Timer s"
  by (auto simp: rfc_next_def timer_fires_def fsm_timeout_def term_timeout_def conf_timeout_def Let_def split: fsm_state.split)

lemma plain_cong: "fsm t = fsm s \<Longrightarrow> plain t = plain s" "plain (upd g s) = (flags (g (fsm s)) AND OPT_SILENT = 0 \<and>
    flags (g (fsm s)) AND OPT_RESTART = 0 \<and> maxtermtransmits (g (fsm s)) \<noteq> 0)"
  by (simp_all add: plain_def has_flag_def)

lemma up_agrees:
  assumes "\<And>t. plain t \<Longrightarrow> f_state (fsm t) = OPENED \<Longrightarrow> f_state (fsm (opt_call (up cb) t)) \<in> {OPENED, CLOSING}"
    "plain s" "\<And>f. flags (g f) = flags f" "\<And>f. maxtermtransmits (g f) = maxtermtransmits f" "\<And>f. f_state (g f) = OPENED"
  shows "agrees OPENED (f_state (fsm (opt_call (up cb) (upd g s))))"
  using assms(1) [of "upd g s"] assms(2-) by (auto simp: agrees_def plain_cong plain_def has_flag_def)

lemma rconfreq_state:
  assumes "\<And>t. plain t \<Longrightarrow> f_state (fsm t) = OPENED \<Longrightarrow> f_state (fsm (opt_call (up cb) t)) \<in> {OPENED, CLOSING}"
    "plain s" "f_state (fsm s) \<notin> {INITIAL, STARTING}"
  shows "agrees (rfc1661 (if fst (reqci_verdict cb inp (rconfreq_restart cb s)) = CONFACK then RCR_plus else RCR_minus)
    (f_state (fsm s))) (f_state (fsm (fsm_rconfreq cb pid inp s)))"
proof -
  define p where "p = reqci_verdict cb inp (rconfreq_restart cb s)"
  have k: "fsm (snd (snd p)) = fsm (rconfreq_restart cb s)"
    using keepsD(1) [OF reqci_verdict_keeps [of "rconfreq_restart cb s" inp]] by (simp add: p_def)
  have st: "f_state (fsm (snd (snd p))) = (if f_state (fsm s) \<in> {OPENED, STOPPED} then REQSENT else f_state (fsm s))"
    using k by (auto simp: rconfreq_restart_def)
  have pl: "plain (UNTIMEOUT (fsm_sdata c pid bs (snd (snd p))))" if "f_state (fsm s) = ACKRCVD" for c bs
    using assms(2) k that by (simp add: plain_def has_flag_def rconfreq_restart_def)
  have "agrees OPENED (f_state (fsm (opt_call (up cb) (goto OPENED (UNTIMEOUT (fsm_sdata c pid bs (snd (snd p))))))))"
    if "f_state (fsm s) = ACKRCVD" for c bs
    unfolding goto_def by (rule up_agrees [OF assms(1) pl [OF that]]) simp_all
  then show ?thesis
    using assms(3) st
    by (cases "f_state (fsm s)") (auto simp: fsm_rconfreq_def p_def [symmetric] split_beta rconfreq_answer_def Let_def)
qed

lemma rconfack_state:
  assumes "\<And>t. plain t \<Longrightarrow> f_state (fsm t) = OPENED \<Longrightarrow> f_state (fsm (opt_call (up cb) t)) \<in> {OPENED, CLOSING}" "plain s"
  shows "agrees (case ack_event cb pid inp s of None \<Rightarrow> f_state (fsm s) | Some ev \<Rightarrow> rfc1661 ev (f_state (fsm s)))
    (f_state (fsm (fsm_rconfack cb pid inp s)))"
proof -
  define p where "p = (case ackci cb of Some ac \<Rightarrow> ac inp s | None \<Rightarrow> (inp = [], s))"
  have k: "fsm (snd p) = fsm s"
    using keepsD(1) [OF ackci_keeps] by (auto simp: p_def split: option.split)
  define s1 where "s1 = UNTIMEOUT (upd (\<lambda>f. f\<lparr>seen_ack := True, rnakloops := 0\<rparr>) (snd p))"
  have "plain s1"
    using assms(2) k by (simp add: s1_def plain_def has_flag_def)
  from up_agrees [OF assms(1) this, of "\<lambda>f. f\<lparr>f_state := OPENED, retransmits := maxconfreqtransmits f\<rparr>"]
  have "agrees OPENED (f_state (fsm (opt_call (up cb) (upd (\<lambda>f. f\<lparr>retransmits := maxconfreqtransmits f\<rparr>) (goto OPENED s1)))))"
    by (simp add: goto_def upd_def)
  then show ?thesis
    using k
    by (cases "f_state (fsm s)")
      (auto simp: fsm_rconfack_def ack_event_def p_def [symmetric] s1_def split_beta Let_def)
qed

lemma nakrej_verdict_state: "f_state (fsm (snd (nakrej_verdict cb code inp s))) = f_state (fsm s)"
  using keepsD(1) [OF nakci_keeps] keepsD(1) [OF rejci_keeps]
  by (auto simp: nakrej_verdict_def Let_def split_beta split: option.split)

lemma rconfnakrej_state:
  "f_state (fsm (fsm_rconfnakrej cb code pid inp s)) =
    (case nakrej_event cb code pid inp s of None \<Rightarrow> f_state (fsm s) | Some ev \<Rightarrow> rfc1661 ev (f_state (fsm s)))"
  using nakrej_verdict_state [of code inp s]
  by (cases "f_state (fsm s)") (auto simp: fsm_rconfnakrej_def nakrej_event_def split_beta Let_def split: option.split)

lemma term_packets_state:
  "f_state (fsm (fsm_rtermreq cb pid inp s)) = rfc1661 RTR (f_state (fsm s))"
  "f_state (fsm (fsm_rtermack cb s)) = rfc1661 RTA (f_state (fsm s))"
  by (auto simp: fsm_rtermreq_def fsm_rtermack_def Let_def split: fsm_state.split)

lemma extcode_state: "fsm (snd (case extcode cb of None \<Rightarrow> (False, s) | Some ec \<Rightarrow> ec code pid inp s)) = fsm s"
  using keepsD(1) [OF extcode_keeps] by (auto split: option.split)

lemma input_state:
  assumes "\<And>t. plain t \<Longrightarrow> f_state (fsm t) = OPENED \<Longrightarrow> f_state (fsm (opt_call (up cb) t)) \<in> {OPENED, CLOSING}" "plain s"
  shows "agrees (rfc_next cb (Input p) s) (f_state (fsm (fsm_input cb p s)))"
proof (cases "parse_header p")
  case None
  then show ?thesis by (simp add: fsm_input_def rfc_next_def packet_event_def)
next
  case (Some h)
  obtain code pid inp where h: "h = (code, pid, inp)" by (cases h)
  show ?thesis
    using rconfreq_state [OF assms, where pid = pid and inp = inp] rconfack_state [OF assms, where pid = pid and inp = inp]
      rconfnakrej_state [of code pid inp s] term_packets_state(1) [of pid inp s] term_packets_state(2) [of s] extcode_state [of s code pid inp]
    by (auto simp: fsm_input_def rfc_next_def packet_event_def Some h split_beta Let_def fsm_rcoderej_def
        split: option.splits fsm_state.split)
qed

text \<open>Every event takes the automaton to the state of the table, except that a protocol that cannot come up closes
  again at once.\<close>

theorem refines_rfc1661:
  assumes "\<And>t. plain t \<Longrightarrow> f_state (fsm t) = OPENED \<Longrightarrow> f_state (fsm (opt_call (up cb) t)) \<in> {OPENED, CLOSING}" "plain s"
  shows "agrees (rfc_next cb e s) (f_state (fsm (fsm_do cb e s)))"
proof (cases e)
  case Timer
  show ?thesis unfolding Timer by (simp add: timer_state del: fsm_do.simps)
next
  case (Input p)
  then show ?thesis using input_state [OF assms] by simp
qed (simp_all add: rfc_next_def plain_opens [OF assms(2)] plain_closes plain_closes(1,2) [OF assms(2)] del: rfc1661.simps)

end

end
