(* ===== verification/Ppp_Print.thy ===== *)
theory Ppp_Print
  imports Net_Prelude
begin

text \<open>
  The text that the packet printers of \<open>pppd\<close> produce: the conversions of \<open>vslprintf\<close> that they use and
  \<open>print_string\<close> of \<open>src/external/ppp/pppd/utils.c\<close>. A printer is the list of the strings it hands to
  \<open>printer\<close>; \<open>char\<close> is unsigned, as on the ARM target.
\<close>

definition digit :: "nat \<Rightarrow> char" where
  "digit n = ''0123456789abcdef'' ! (n mod 16)"

text \<open>\<open>%.2x\<close>, \<open>%x\<close>, \<open>%.3o\<close> and \<open>%d\<close>.\<close>

definition hex2 :: "u8 \<Rightarrow> string" where
  "hex2 b = [digit (unat b div 16), digit (unat b mod 16)]"

fun numeral_text :: "nat \<Rightarrow> nat \<Rightarrow> string" where
  "numeral_text b n = (if b < 2 \<or> n < b then [digit n] else numeral_text b (n div b) @ [digit (n mod b)])"

declare numeral_text.simps [simp del]

definition oct3 :: "u8 \<Rightarrow> string" where
  "oct3 b = [digit (unat b div 64), digit (unat b div 8 mod 8), digit (unat b mod 8)]"

definition dec :: "int \<Rightarrow> string" where
  "dec i = (if i < 0 then ''-'' @ numeral_text 10 (nat (- i)) else numeral_text 10 (nat i))"

definition chr :: "u8 \<Rightarrow> char" where
  "chr b = char_of (unat b)"

text \<open>\<open>print_string\<close>: the calls of \<open>printer\<close> for one character, and for the whole string.\<close>

definition print_char :: "u8 \<Rightarrow> string list" where
  "print_char c =
     (if 0x20 \<le> c \<and> c \<le> 0x7e then (if c = 0x5c \<or> c = 0x22 then [[CHR 0x5c]] else []) @ [[chr c]]
      else if c = 10 then [[CHR 0x5c, CHR ''n'']]
      else if c = 13 then [[CHR 0x5c, CHR ''r'']]
      else if c = 9 then [[CHR 0x5c, CHR ''t'']]
      else [CHR 0x5c # oct3 c])"

definition print_string :: "bytes \<Rightarrow> string list" where
  "print_string p = [[CHR 0x22]] @ concat (map print_char p) @ [[CHR 0x22]]"

text \<open>\<open>%.*v\<close> into a buffer of \<open>buflen\<close> bytes: at most \<open>prec\<close> bytes up to the first 0, each made visible.\<close>

definition vis_char :: "u8 \<Rightarrow> bytes" where
  "vis_char c =
     (let (pre, c) = (if 0x80 \<le> c then ([77, 45], c - 0x80) else ([], c))
      in pre @ (if c < 0x20 \<or> 0x7f \<le> c then if c = 9 then [c] else [94, c XOR 0x40] else [c]))"

definition vis_string :: "nat \<Rightarrow> nat \<Rightarrow> bytes \<Rightarrow> bytes" where
  "vis_string buflen prec p = take (buflen - 1) (concat (map vis_char (takeWhile (\<lambda>c. c \<noteq> 0) (take prec p))))"

definition printable :: "bytes \<Rightarrow> bool" where
  "printable p \<longleftrightarrow> list_all (\<lambda>c. 0x20 \<le> c \<and> c < 0x7f) p"

lemma vis_char_printable: "0x20 \<le> c \<Longrightarrow> c < 0x7f \<Longrightarrow> vis_char c = [c]"
  by (simp add: vis_char_def word_less_nat_alt word_le_nat_alt)

lemma vis_string_printable:
  assumes "printable p" "length p < buflen" "length p \<le> prec"
  shows "vis_string buflen prec p = p"
proof -
  have t: "takeWhile (\<lambda>c. c \<noteq> 0) p = p"
    using assms(1) by (auto simp: printable_def list_all_iff takeWhile_eq_all_conv word_le_nat_alt)
  have "concat (map vis_char p) = p"
    using assms(1) by (induction p) (auto simp: printable_def vis_char_printable)
  then show ?thesis using assms(2,3) unfolding vis_string_def by (simp add: t)
qed

text \<open>The loop with which the printers end: what they did not decode, in hex.\<close>

definition print_rest :: "bytes \<Rightarrow> string list" where
  "print_rest p = map (\<lambda>c. CHR 0x20 # hex2 c) p"

definition print_code :: "string list \<Rightarrow> u8 \<Rightarrow> u8 \<Rightarrow> string list" where
  "print_code names code pid =
     [if 1 \<le> code \<and> unat code \<le> length names then CHR 0x20 # names ! (unat code - 1)
      else '' code=0x'' @ numeral_text 16 (unat code),
      '' id=0x'' @ numeral_text 16 (unat pid)]"

lemma length_hex2 [simp]: "length (hex2 b) = 2"
  by (simp add: hex2_def)

text \<open>Reading a character of \<open>print_string\<close> back.\<close>

definition unchr :: "char \<Rightarrow> u8" where
  "unchr ch = of_nat (of_char ch)"

definition read_escape :: "string \<Rightarrow> (u8 \<times> string) option" where
  "read_escape r =
     (case r of
        x # q \<Rightarrow>
          if x = CHR ''n'' then Some (10, q) else if x = CHR ''r'' then Some (13, q) else if x = CHR ''t'' then Some (9, q)
          else if x = CHR 0x5c \<or> x = CHR 0x22 then Some (unchr x, q)
          else (case q of y # z # q \<Rightarrow> Some (64 * (unchr x - 48) + 8 * (unchr y - 48) + (unchr z - 48), q) | _ \<Rightarrow> None)
      | [] \<Rightarrow> None)"

definition read_char :: "string \<Rightarrow> (u8 \<times> string) option" where
  "read_char s =
     (case s of
        a # r \<Rightarrow> if a = CHR 0x22 then None else if a \<noteq> CHR 0x5c then Some (unchr a, r) else read_escape r
      | [] \<Rightarrow> None)"

lemma unchr_chr [simp]: "unchr (chr c) = c"
  by (simp add: unchr_def chr_def)

lemma unchr_marks [simp]: "unchr (CHR 0x5c) = 0x5c" "unchr (CHR 0x22) = 0x22"
  by (simp_all add: unchr_def)

lemma chr_marks: "chr 0x5c = CHR 0x5c" "chr 0x22 = CHR 0x22"
  by code_simp+

lemma digit_octal: "n < 8 \<Longrightarrow> unchr (digit n) = of_nat n + 48 \<and> digit n \<notin> {CHR ''n'', CHR ''r'', CHR ''t'', CHR 0x5c, CHR 0x22}"
proof -
  have "list_all (\<lambda>n. unchr (digit n) = of_nat n + 48 \<and> digit n \<notin> {CHR ''n'', CHR ''r'', CHR ''t'', CHR 0x5c, CHR 0x22}) [0..<8]"
    by code_simp
  then show "n < 8 \<Longrightarrow> ?thesis" by (simp add: list_all_iff)
qed

lemma octal_value: "64 * of_nat (unat c div 64) + 8 * of_nat (unat c div 8 mod 8) + of_nat (unat c mod 8) = (c :: u8)"
proof -
  have "64 * (unat c div 64) + 8 * (unat c div 8 mod 8) + unat c mod 8 = unat c"
  proof -
    have "unat c = 8 * (unat c div 8) + unat c mod 8" "unat c div 8 = 8 * (unat c div 8 div 8) + unat c div 8 mod 8"
      by (simp_all only: mult_div_mod_eq)
    moreover have "unat c div 8 div 8 = unat c div 64" by (simp only: div_mult2_eq [symmetric]) simp
    ultimately show ?thesis by linarith
  qed
  then have "(of_nat (64 * (unat c div 64) + 8 * (unat c div 8 mod 8) + unat c mod 8) :: u8) = c" by (simp del: of_nat_add of_nat_mult)
  then show ?thesis by simp
qed

lemma read_print_char: "read_char (concat (print_char c) @ r) = Some (c, r)"
proof -
  have m: "chr c \<noteq> CHR 0x5c" "chr c \<noteq> CHR 0x22" if "c \<noteq> 0x5c" "c \<noteq> 0x22"
    using that unchr_chr [of c] by (metis unchr_marks)+
  have "unat c < 256" by (rule unat_u8_less)
  then have d: "unat c div 64 < 8" by linarith
  have o: "read_escape (oct3 c @ r) = Some (c, r)"
    using digit_octal [OF d] digit_octal [of "unat c div 8 mod 8"] digit_octal [of "unat c mod 8"] octal_value [of c]
    by (simp add: read_escape_def oct3_def)
  show ?thesis
  proof (cases "0x20 \<le> c \<and> c \<le> 0x7e")
    case True
    then show ?thesis using m by (auto simp: print_char_def read_char_def read_escape_def chr_marks)
  next
    case False
    then have "print_char c = (if c = 10 then [[CHR 0x5c, CHR ''n'']] else if c = 13 then [[CHR 0x5c, CHR ''r'']]
        else if c = 9 then [[CHR 0x5c, CHR ''t'']] else [CHR 0x5c # oct3 c])"
      by (simp only: print_char_def if_False)
    moreover have "read_escape (CHR ''n'' # r) = Some (10, r)" "read_escape (CHR ''r'' # r) = Some (13, r)"
      "read_escape (CHR ''t'' # r) = Some (9, r)"
      by (simp_all add: read_escape_def)
    ultimately show ?thesis using o by (simp add: read_char_def)
  qed
qed

text \<open>The text from the first character on.\<close>

definition quoted :: "bytes \<Rightarrow> string" where
  "quoted p = concat (concat (map print_char p)) @ [CHR 0x22]"

lemma read_quoted: "read_char (quoted []) = None" "read_char (quoted (c # p)) = Some (c, quoted p)"
  using read_print_char [of c "quoted p"] by (simp_all add: quoted_def read_char_def [of "[_]"])

lemma quoted_inject: "quoted p = quoted q \<Longrightarrow> p = q"
proof (induction p arbitrary: q)
  case Nil
  then show ?case by (cases q) (metis read_quoted option.distinct(1))+
next
  case (Cons a p)
  then show ?case by (cases q) (metis read_quoted option.distinct(1), metis read_quoted(2) option.inject prod.inject)
qed

text \<open>The quoted text that \<open>print_string\<close> produces determines the bytes: two byte strings that print the same are equal.\<close>

theorem print_string_injective: "concat (print_string p) = concat (print_string q) \<longleftrightarrow> p = q"
  using quoted_inject [of p q] by (auto simp: print_string_def quoted_def)

end
