(* ===== verification/Ppp_Ipv6cp.thy ===== *)
theory Ppp_Ipv6cp
  imports Ppp_Fsm Ppp_Print
begin

text \<open>
  The IPv6 control protocol of \<open>pppd\<close>, \<open>src/external/ppp/pppd/ipv6cp.c\<close>, with the interface identifiers of
  \<open>eui64.c\<close> and \<open>eui64.h\<close>: the client of the automaton of \<^verbatim>\<open>Ppp_Fsm\<close> that negotiates one identifier for each
  end and brings IPv6 up on the link.

  The arrays indexed by unit have one element (\<open>NUM_PPP\<close> is 1), so the state holds the four option records once.
  \<open>IPV6CP_COMP\<close> is not defined in the build, so the \<open>#else\<close> branches are the code. What the protocol calls outside
  the file (the interface ioctls of \<open>sys-linux.c\<close>, the network-phase bookkeeping of \<open>auth.c\<close>, scripts, hooks and
  notifiers) is recorded in \<open>calls\<close>, in order; the result of a call that has one is a function of the calls so far.
  \<open>magic\<close> is the sequence of values of \<open>mrand48\<close>.
\<close>

section \<open>Interface identifiers\<close>

record eui64 =
  e32_0 :: u32
  e32_1 :: u32

definition eui64_iszero :: "eui64 \<Rightarrow> bool" where
  "eui64_iszero e = ((e32_0 e OR e32_1 e) = 0)"

definition eui64_equals :: "eui64 \<Rightarrow> eui64 \<Rightarrow> bool" where
  "eui64_equals e f = (e32_0 e = e32_0 f \<and> e32_1 e = e32_1 f)"

definition eui64_zero :: eui64 where
  "eui64_zero = \<lparr>e32_0 = 0, e32_1 = 0\<rparr>"

definition eui64_put :: "eui64 \<Rightarrow> bytes" where
  "eui64_put e = bytes32 (e32_0 e) @ bytes32 (e32_1 e)"

definition eui64_get :: "bytes \<Rightarrow> eui64" where
  "eui64_get p = \<lparr>e32_0 = get32 p, e32_1 = get32 (drop 4 p)\<rparr>"

definition eui64_setlo32 :: "u32 \<Rightarrow> eui64" where
  "eui64_setlo32 l = \<lparr>e32_0 = 0, e32_1 = htonl l\<rparr>"

text \<open>\<open>eui64_magic\<close>: two draws from position \<open>n\<close> on; \<open>e8[0] &= ~2\<close> clears a bit of the low byte of the first word.\<close>

definition eui64_magic :: "(nat \<Rightarrow> u32) \<Rightarrow> nat \<Rightarrow> eui64" where
  "eui64_magic mg n = \<lparr>e32_0 = mg n AND NOT 2, e32_1 = mg (n + 1)\<rparr>"

definition eui64_ntoa :: "eui64 \<Rightarrow> string" where
  "eui64_ntoa e = (let b = eui64_put e in
     hex2 (b ! 0) @ hex2 (b ! 1) @ '':'' @ hex2 (b ! 2) @ hex2 (b ! 3) @ '':'' @
     hex2 (b ! 4) @ hex2 (b ! 5) @ '':'' @ hex2 (b ! 6) @ hex2 (b ! 7))"

definition llv6_ntoa :: "eui64 \<Rightarrow> string" where
  "llv6_ntoa ifaceid = ''fe80::'' @ eui64_ntoa ifaceid"

section \<open>State\<close>

definition PPP_IPV6CP :: u16 where "PPP_IPV6CP = 0x8057"
definition CI_IFACEID :: u8 where "CI_IFACEID = 1"
definition CI_COMPRESSTYPE :: u8 where "CI_COMPRESSTYPE = 2"
definition CILEN_VOID :: nat where "CILEN_VOID = 2"
definition CILEN_COMPRESS :: nat where "CILEN_COMPRESS = 4"
definition CILEN_IFACEID :: nat where "CILEN_IFACEID = 10"

lemmas ci_consts [simp] = CI_IFACEID_def CI_COMPRESSTYPE_def CILEN_VOID_def CILEN_COMPRESS_def CILEN_IFACEID_def

record ipv6cp_options =
  neg_ifaceid :: bool
  req_ifaceid :: bool
  accept_local :: bool
  opt_local :: bool
  opt_remote :: bool
  use_ip :: bool
  use_persistent :: bool
  neg_vj :: bool
  vj_protocol :: u16
  ourid :: eui64
  hisid :: eui64

definition zero_options :: ipv6cp_options where
  "zero_options = \<lparr>neg_ifaceid = False, req_ifaceid = False, accept_local = False, opt_local = False, opt_remote = False,
     use_ip = False, use_persistent = False, neg_vj = False, vj_protocol = 0, ourid = eui64_zero, hisid = eui64_zero\<rparr>"

datatype script_state = s_down | s_up
datatype npmode = NPMODE_PASS | NPMODE_DROP | NPMODE_QUEUE

datatype ipv6_call =
    Sif6up
  | Sif6down
  | Sif6addr eui64 eui64
  | Cif6addr eui64 eui64
  | Sifnpmode npmode
  | Demand_rexmit
  | Np_up
  | Np_down
  | Np_finished
  | Update_link_stats
  | Script_setenv string string
  | Notify_up
  | Notify_down
  | Up_hook
  | Down_hook
  | Run_program "string list"

text \<open>\<open>hung\<close> marks a run in which a loop that draws identifiers until one is acceptable has not ended.\<close>

record ipv6cp =
  wantoptions :: ipv6cp_options
  gotoptions :: ipv6cp_options
  allowoptions :: ipv6cp_options
  hisoptions :: ipv6cp_options
  ipv6cp_is_up :: bool
  ipv6cp_script_state :: script_state
  ipv6cp_script_pid :: int
  draws :: nat
  hung :: bool
  calls :: "ipv6_call list"

text \<open>What the rest of the program and the system give: random numbers and how many draws a loop may take before it
  counts as endless, results of calls, command line options, and the byte that follows the options in the receive
  buffer.\<close>

record ipv6_env =
  magic :: "nat \<Rightarrow> u32"
  tries :: nat
  sif6up :: "ipv6_call list \<Rightarrow> bool"
  sif6addr :: "ipv6_call list \<Rightarrow> bool"
  sifnpmode :: "ipv6_call list \<Rightarrow> bool"
  run_program :: "ipv6_call list \<Rightarrow> int"
  demand :: bool
  no_ifaceid_neg :: bool
  ipv6_up_hook :: bool
  ipv6_down_hook :: bool
  past_end :: u8
  baud_rate :: int
  ifname :: string
  devnam :: string
  ipparam :: string

type_synonym ipv6_sys = "ipv6cp sys"

definition cl :: "('c \<Rightarrow> 'c) \<Rightarrow> 'c sys \<Rightarrow> 'c sys" where
  "cl g s = s\<lparr>client := g (client s)\<rparr>"

definition call :: "ipv6_call \<Rightarrow> ipv6_sys \<Rightarrow> ipv6_sys" where
  "call k = cl (\<lambda>c. c\<lparr>calls := calls c @ [k]\<rparr>)"

definition ascii :: "string \<Rightarrow> bytes" where
  "ascii = map of_char"

section \<open>Drawing identifiers\<close>

text \<open>\<open>do eui64_magic(e); while (bad e)\<close> with \<open>k\<close> draws left, and the two loops of the code: the one that starts
  with a draw and the one that starts with the test.\<close>

fun magic_until :: "(nat \<Rightarrow> u32) \<Rightarrow> (eui64 \<Rightarrow> bool) \<Rightarrow> nat \<Rightarrow> nat \<Rightarrow> (eui64 \<times> nat) option" where
  "magic_until mg bad 0 n = None"
| "magic_until mg bad (Suc k) n =
     (if bad (eui64_magic mg n) then magic_until mg bad k (n + 2) else Some (eui64_magic mg n, n + 2))"

definition magic_do :: "ipv6_env \<Rightarrow> (eui64 \<Rightarrow> bool) \<Rightarrow> ipv6cp \<Rightarrow> eui64 \<times> ipv6cp" where
  "magic_do env bad c =
     (case magic_until (magic env) bad (tries env) (draws c) of
        Some (e, n) \<Rightarrow> (e, c\<lparr>draws := n\<rparr>)
      | None \<Rightarrow> (eui64_zero, c\<lparr>hung := True\<rparr>))"

definition magic_while :: "ipv6_env \<Rightarrow> (eui64 \<Rightarrow> bool) \<Rightarrow> eui64 \<Rightarrow> ipv6cp \<Rightarrow> eui64 \<times> ipv6cp" where
  "magic_while env bad e c = (if bad e then magic_do env bad c else (e, c))"

definition clashes :: "eui64 \<Rightarrow> eui64 \<Rightarrow> bool" where
  "clashes other e = (eui64_iszero e \<or> eui64_equals e other)"

section \<open>Option callbacks\<close>

definition ipv6cp_resetci :: "ipv6_env \<Rightarrow> ipv6_sys \<Rightarrow> ipv6_sys" where
  "ipv6cp_resetci env = cl (\<lambda>c.
     let wo = wantoptions c;
         wo = wo\<lparr>req_ifaceid := neg_ifaceid wo \<and> neg_ifaceid (allowoptions c)\<rparr>;
         (i, c) = (if \<not> opt_local wo then magic_do env eui64_iszero c else (ourid wo, c));
         wo = wo\<lparr>ourid := i\<rparr>
     in c\<lparr>wantoptions := wo, gotoptions := wo\<lparr>hisid := eui64_zero\<rparr>\<rparr>)"

definition ipv6cp_cilen :: "ipv6_sys \<Rightarrow> int" where
  "ipv6cp_cilen s = (let go = gotoptions (client s) in
     (if neg_ifaceid go then int CILEN_IFACEID else 0) + (if neg_vj go then int CILEN_COMPRESS else 0))"

text \<open>\<open>ADDCIIFACEID\<close> and \<open>ADDCIVJ\<close>: the bytes put, the length left and the new value of the flag.\<close>

definition ADDCI :: "bool \<Rightarrow> bytes \<Rightarrow> int \<Rightarrow> bytes \<times> int \<times> bool" where
  "ADDCI neg ci len =
     (if neg then if len \<ge> int (length ci) then (ci, len - int (length ci), True) else ([], len, False)
      else ([], len, False))"

definition ci_ifaceid :: "eui64 \<Rightarrow> bytes" where
  "ci_ifaceid e = [CI_IFACEID, of_nat CILEN_IFACEID] @ eui64_put e"

definition ci_vj :: "u16 \<Rightarrow> bytes" where
  "ci_vj v = [CI_COMPRESSTYPE, of_nat CILEN_COMPRESS] @ be16 (unat v)"

definition ipv6cp_addci :: "int \<Rightarrow> ipv6_sys \<Rightarrow> bytes \<times> ipv6_sys" where
  "ipv6cp_addci len s =
     (let go = gotoptions (client s);
          (b1, len, n1) = ADDCI (neg_ifaceid go) (ci_ifaceid (ourid go)) len;
          (b2, len, n2) = ADDCI (neg_vj go) (ci_vj (vj_protocol go)) len
      in (b1 @ b2, cl (gotoptions_update (\<lambda>_. go\<lparr>neg_ifaceid := n1, neg_vj := n2\<rparr>)) s))"

text \<open>\<open>ACKCIIFACEID\<close> and \<open>ACKCIVJ\<close>: the bytes that follow, \<open>None\<close> for \<open>goto bad\<close>.\<close>

definition ACKCI :: "bool \<Rightarrow> nat \<Rightarrow> u8 \<Rightarrow> (bytes \<Rightarrow> bool) \<Rightarrow> bytes \<Rightarrow> bytes option" where
  "ACKCI neg clen opt same p =
     (if \<not> neg then Some p
      else if length p < clen then None
      else if p ! 1 \<noteq> of_nat clen \<or> p ! 0 \<noteq> opt then None
      else if \<not> same (drop 2 p) then None
      else Some (drop clen p))"

definition get_be16 :: "bytes \<Rightarrow> nat" where
  "get_be16 p = unat (p ! 0) * 256 + unat (p ! 1)"

definition ipv6cp_ackci :: "bytes \<Rightarrow> ipv6_sys \<Rightarrow> bool \<times> ipv6_sys" where
  "ipv6cp_ackci p s =
     (let go = gotoptions (client s) in
      case ACKCI (neg_ifaceid go) CILEN_IFACEID CI_IFACEID (\<lambda>q. eui64_equals (ourid go) (eui64_get q)) p of
        None \<Rightarrow> (False, s)
      | Some p \<Rightarrow>
         (case ACKCI (neg_vj go) CILEN_COMPRESS CI_COMPRESSTYPE (\<lambda>q. get_be16 q = unat (vj_protocol go)) p of
            None \<Rightarrow> (False, s)
          | Some p \<Rightarrow> (p = [], s)))"

text \<open>\<open>NAKCIIFACEID\<close> with its code, and \<open>NAKCIVJ\<close>: what is left of the packet, whether the option was
  there, and the options to tr. \<open>NAKCIVJ\<close> looks at \<open>p[1]\<close> and \<open>p[0]\<close> before it knows that they are in the packet.\<close>

definition byte_at :: "ipv6_env \<Rightarrow> bytes \<Rightarrow> nat \<Rightarrow> u8" where
  "byte_at env p i = (if i < length p then p ! i else past_end env)"

definition choose_ourid :: "ipv6_env \<Rightarrow> ipv6cp_options \<Rightarrow> bytes \<Rightarrow> ipv6cp_options \<Rightarrow> ipv6cp \<Rightarrow> ipv6cp_options \<times> ipv6cp" where
  "choose_ourid env go q tr c =
     (if accept_local go
      then let (i, c) = magic_while env (clashes (hisid go)) (eui64_get q) c in (tr\<lparr>ourid := i\<rparr>, c)
      else (tr, c))"

definition NAKCIIFACEID :: "ipv6_env \<Rightarrow> bool \<Rightarrow> ipv6cp_options \<Rightarrow> bytes \<Rightarrow> ipv6cp_options \<Rightarrow> ipv6cp
    \<Rightarrow> bytes \<times> bool \<times> ipv6cp_options \<times> ipv6cp" where
  "NAKCIIFACEID env treat_as_reject go p tr c =
     (if neg_ifaceid go \<and> length p \<ge> CILEN_IFACEID \<and> p ! 1 = of_nat CILEN_IFACEID \<and> p ! 0 = CI_IFACEID
      then let (tr, c) = (if treat_as_reject then (tr\<lparr>neg_ifaceid := False\<rparr>, c)
                           else choose_ourid env go (drop 2 p) tr c)
           in (drop CILEN_IFACEID p, True, tr, c)
      else (p, False, tr, c))"

definition NAKCIVJ :: "ipv6_env \<Rightarrow> ipv6cp_options \<Rightarrow> bytes \<Rightarrow> ipv6cp_options \<Rightarrow> bytes \<times> bool \<times> ipv6cp_options" where
  "NAKCIVJ env go p tr =
     (if neg_vj go \<and> byte_at env p 1 = of_nat CILEN_COMPRESS \<and> length p \<ge> CILEN_COMPRESS \<and> byte_at env p 0 = CI_COMPRESSTYPE
      then (drop CILEN_COMPRESS p, True, tr\<lparr>neg_vj := False\<rparr>)
      else (p, False, tr))"

text \<open>The loop over the options that were not asked for; the first result is \<open>False\<close> for \<open>goto bad\<close>.\<close>

function nakci_more :: "ipv6_env \<Rightarrow> ipv6cp_options \<Rightarrow> bytes \<Rightarrow> bool \<Rightarrow> bool \<Rightarrow> ipv6cp_options \<Rightarrow> ipv6cp
    \<Rightarrow> bool \<times> ipv6cp_options \<times> ipv6cp" where
  "nakci_more env go p no_ifaceid no_vj tr c =
     (if length p < CILEN_VOID then (p = [], tr, c)
      else let citype = p ! 0; clen = unat (p ! 1); nxt = drop clen p in
        if clen < CILEN_VOID \<or> length p < clen then (False, tr, c)
        else if citype = CI_COMPRESSTYPE then
          if neg_vj go \<or> no_vj \<or> clen \<noteq> CILEN_COMPRESS then (False, tr, c)
          else nakci_more env go nxt no_ifaceid True tr c
        else if citype = CI_IFACEID then
          if neg_ifaceid go \<or> no_ifaceid \<or> clen \<noteq> CILEN_IFACEID then (False, tr, c)
          else let (tr, c) = choose_ourid env go (drop 2 p) (tr\<lparr>neg_ifaceid := True\<rparr>) c
               in nakci_more env go nxt True no_vj tr c
        else nakci_more env go nxt no_ifaceid no_vj tr c)"
  by pat_completeness auto
termination by (relation "measure (\<lambda>(env, go, p, _). length p)") auto

declare nakci_more.simps [simp del]

definition ipv6cp_nakci :: "ipv6_env \<Rightarrow> bytes \<Rightarrow> bool \<Rightarrow> ipv6_sys \<Rightarrow> int \<times> ipv6_sys" where
  "ipv6cp_nakci env p treat_as_reject s =
     (let go = gotoptions (client s);
          (p, no_ifaceid, tr, c) = NAKCIIFACEID env treat_as_reject go p go (client s);
          (p, no_vj, tr) = NAKCIVJ env go p tr;
          (ok, tr, c) = nakci_more env go p no_ifaceid no_vj tr c
      in if \<not> ok then (0, s\<lparr>client := c\<rparr>)
         else (1, s\<lparr>client := if f_state (fsm s) \<noteq> OPENED then c\<lparr>gotoptions := tr\<rparr> else c\<rparr>))"

text \<open>\<open>REJCIIFACEID\<close> and \<open>REJCIVJ\<close>: what is left and whether the option was rejected; \<open>None\<close> for \<open>goto bad\<close>.\<close>

definition REJCIIFACEID :: "ipv6cp_options \<Rightarrow> bytes \<Rightarrow> (bytes \<times> bool) option" where
  "REJCIIFACEID go p =
     (if neg_ifaceid go \<and> length p \<ge> CILEN_IFACEID \<and> p ! 1 = of_nat CILEN_IFACEID \<and> p ! 0 = CI_IFACEID
      then if \<not> eui64_equals (eui64_get (drop 2 p)) (ourid go) then None else Some (drop CILEN_IFACEID p, True)
      else Some (p, False))"

definition REJCIVJ :: "ipv6_env \<Rightarrow> ipv6cp_options \<Rightarrow> bytes \<Rightarrow> (bytes \<times> bool) option" where
  "REJCIVJ env go p =
     (if neg_vj go \<and> byte_at env p 1 = of_nat CILEN_COMPRESS \<and> length p \<ge> CILEN_COMPRESS \<and> byte_at env p 0 = CI_COMPRESSTYPE
      then if get_be16 (drop 2 p) \<noteq> unat (vj_protocol go) then None else Some (drop CILEN_COMPRESS p, True)
      else Some (p, False))"

definition ipv6cp_rejci :: "ipv6_env \<Rightarrow> bytes \<Rightarrow> ipv6_sys \<Rightarrow> int \<times> ipv6_sys" where
  "ipv6cp_rejci env p s =
     (let go = gotoptions (client s) in
      case REJCIIFACEID go p of
        None \<Rightarrow> (0, s)
      | Some (p, r1) \<Rightarrow>
         (case REJCIVJ env go p of
            None \<Rightarrow> (0, s)
          | Some (p, r2) \<Rightarrow>
              if p \<noteq> [] then (0, s)
              else if f_state (fsm s) \<noteq> OPENED
              then (1, cl (gotoptions_update (\<lambda>_. go\<lparr>neg_ifaceid := neg_ifaceid go \<and> \<not> r1, neg_vj := neg_vj go \<and> \<not> r2\<rparr>)) s)
              else (1, s)))"

section \<open>The peer's request\<close>

text \<open>\<open>ipv6cp_reqci\<close> edits the packet in place: it overwrites an identifier that it wants changed, and moves the options
  that go into the answer to the front, at \<open>ucp\<close>. \<open>packet\<close> is the packet in the receive buffer; the record also has
  the local variables that the loop changes.\<close>

record reqci_vars =
  packet :: bytes
  ucp :: nat
  rc :: u8
  ho :: ipv6cp_options
  r_go :: ipv6cp_options
  r_cl :: ipv6cp

definition put_at :: "nat \<Rightarrow> bytes \<Rightarrow> bytes \<Rightarrow> bytes" where
  "put_at i src dst = take i dst @ src @ drop (i + length src) dst"

text \<open>The \<open>switch\<close> for one option \<open>ci\<close>: the verdict and the option as it is left in the packet.\<close>

definition reqci_ifaceid :: "ipv6_env \<Rightarrow> ipv6cp_options \<Rightarrow> ipv6cp_options \<Rightarrow> bytes
    \<Rightarrow> ipv6cp_options \<times> ipv6cp_options \<times> ipv6cp \<Rightarrow> u8 \<times> bytes \<times> ipv6cp_options \<times> ipv6cp_options \<times> ipv6cp" where
  "reqci_ifaceid env wo ao ci st =
     (let (ho, go, c) = st; i = eui64_get (drop 2 ci) in
      if \<not> neg_ifaceid ao \<or> length ci \<noteq> CILEN_IFACEID then (CONFREJ, ci, ho, go, c)
      else if eui64_iszero i \<and> eui64_iszero (ourid go) then (CONFREJ, ci, ho, go, c)
      else if \<not> eui64_iszero (hisid wo) \<and> \<not> eui64_equals i (hisid wo) \<and> eui64_iszero (hisid go) then
        (let i = hisid wo
         in (CONFNAK, take 2 ci @ eui64_put i, ho\<lparr>neg_ifaceid := True, hisid := i\<rparr>, go\<lparr>hisid := i\<rparr>, c))
      else if eui64_iszero i \<or> eui64_equals i (ourid go) then
        (let i = (if eui64_iszero (hisid go) then hisid wo else i);
             (i, c) = magic_while env (clashes (ourid go)) i c
         in (CONFNAK, take 2 ci @ eui64_put i, ho\<lparr>neg_ifaceid := True, hisid := i\<rparr>, go\<lparr>hisid := i\<rparr>, c))
      else (CONFACK, ci, ho\<lparr>neg_ifaceid := True, hisid := i\<rparr>, go, c))"

definition reqci_option :: "ipv6_env \<Rightarrow> ipv6cp_options \<Rightarrow> ipv6cp_options \<Rightarrow> bytes
    \<Rightarrow> ipv6cp_options \<times> ipv6cp_options \<times> ipv6cp \<Rightarrow> u8 \<times> bytes \<times> ipv6cp_options \<times> ipv6cp_options \<times> ipv6cp" where
  "reqci_option env wo ao ci st =
     (if ci ! 0 = CI_IFACEID then reqci_ifaceid env wo ao ci st
      else let (ho, go, c) = st in (CONFREJ, ci, ho, go, c))"

text \<open>From \<open>endswitch\<close> on: merge the verdict \<open>orc\<close> on the option of \<open>clen\<close> bytes at \<open>cip\<close> into the answer.\<close>

definition reqci_keep :: "nat \<Rightarrow> nat \<Rightarrow> reqci_vars \<Rightarrow> reqci_vars" where
  "reqci_keep cip clen v =
     (let v = (if ucp v \<noteq> cip then v\<lparr>packet := put_at (ucp v) (take clen (drop cip (packet v))) (packet v)\<rparr> else v)
      in v\<lparr>ucp := ucp v + clen\<rparr>)"

definition reqci_merge :: "bool \<Rightarrow> u8 \<Rightarrow> nat \<Rightarrow> nat \<Rightarrow> reqci_vars \<Rightarrow> reqci_vars" where
  "reqci_merge reject_if_disagree orc cip clen v =
     (if orc = CONFACK \<and> rc v \<noteq> CONFACK then v
      else if orc = CONFNAK \<and> \<not> reject_if_disagree \<and> rc v = CONFREJ then v
      else let orc = (if orc = CONFNAK \<and> reject_if_disagree then CONFREJ else orc);
               v = (if orc = CONFNAK \<and> rc v = CONFACK then v\<lparr>rc := CONFNAK, ucp := 0\<rparr> else v);
               v = (if orc = CONFREJ \<and> rc v \<noteq> CONFREJ then v\<lparr>rc := CONFREJ, ucp := 0\<rparr> else v)
           in reqci_keep cip clen v)"

function reqci_loop :: "ipv6_env \<Rightarrow> ipv6cp_options \<Rightarrow> ipv6cp_options \<Rightarrow> bool \<Rightarrow> nat \<Rightarrow> nat \<Rightarrow> reqci_vars \<Rightarrow> reqci_vars" where
  "reqci_loop env wo ao rej l nxt v =
     (if l = 0 then v
      else if l < 2 \<or> unat (packet v ! (nxt + 1)) < 2 \<or> unat (packet v ! (nxt + 1)) > l
      then reqci_merge rej CONFREJ nxt l v
      else let clen = unat (packet v ! (nxt + 1));
               (orc, ci, h, g, c) = reqci_option env wo ao (take clen (drop nxt (packet v))) (ho v, r_go v, r_cl v);
               v = v\<lparr>packet := put_at nxt ci (packet v), ho := h, r_go := g, r_cl := c\<rparr>
           in reqci_loop env wo ao rej (l - clen) (nxt + clen) (reqci_merge rej orc nxt clen v))"
  by pat_completeness auto
termination by (relation "measure (\<lambda>(env, wo, ao, rej, l, _). l)") auto

declare reqci_loop.simps [simp del]

text \<open>After the loop: ask for an identifier when the peer has not given one.\<close>

definition reqci_ask :: "bool \<Rightarrow> ipv6cp_options \<Rightarrow> reqci_vars \<Rightarrow> ipv6cp_options \<times> reqci_vars" where
  "reqci_ask rej wo v =
     (if rc v \<noteq> CONFREJ \<and> \<not> neg_ifaceid (ho v) \<and> req_ifaceid wo \<and> \<not> rej
      then let (wo', v) = (if rc v = CONFACK then (wo\<lparr>req_ifaceid := False\<rparr>, v\<lparr>rc := CONFNAK, ucp := 0\<rparr>) else (wo, v))
           in (wo', v\<lparr>packet := put_at (ucp v) (ci_ifaceid (hisid wo)) (packet v), ucp := ucp v + CILEN_IFACEID\<rparr>)
      else (wo, v))"

definition ipv6cp_reqci :: "ipv6_env \<Rightarrow> bytes \<Rightarrow> bool \<Rightarrow> ipv6_sys \<Rightarrow> u8 \<times> bytes \<times> ipv6_sys" where
  "ipv6cp_reqci env inp reject_if_disagree s =
     (let c = client s; wo = wantoptions c; ao = allowoptions c;
          v = reqci_loop env wo ao reject_if_disagree (length inp) 0
                \<lparr>packet = inp, ucp = 0, rc = CONFACK, ho = zero_options, r_go = gotoptions c, r_cl = c\<rparr>;
          (wo, v) = reqci_ask reject_if_disagree wo v
      in (rc v, take (ucp v) (packet v),
          s\<lparr>client := (r_cl v)\<lparr>wantoptions := wo, gotoptions := r_go v, hisoptions := ho v\<rparr>\<rparr>))"

section \<open>Layer callbacks\<close>

definition ipv6cp_script :: "ipv6_env \<Rightarrow> string \<Rightarrow> ipv6_sys \<Rightarrow> ipv6_sys" where
  "ipv6cp_script env script s =
     (let strlocal = llv6_ntoa (ourid (gotoptions (client s)));
          strremote = llv6_ntoa (hisid (hisoptions (client s)));
          argv = [script, ifname env, devnam env, dec (baud_rate env), strlocal, strremote, ipparam env];
          pid = run_program env (calls (client s))
      in cl (ipv6cp_script_pid_update (\<lambda>_. pid)) (call (Run_program argv) s))"

definition PATH_IPV6UP :: string where "PATH_IPV6UP = ''/etc/ppp/ipv6-up''"
definition PATH_IPV6DOWN :: string where "PATH_IPV6DOWN = ''/etc/ppp/ipv6-down''"

definition set_script :: "ipv6_env \<Rightarrow> script_state \<Rightarrow> string \<Rightarrow> ipv6_sys \<Rightarrow> ipv6_sys" where
  "set_script env st script s = ipv6cp_script env script (cl (ipv6cp_script_state_update (\<lambda>_. st)) s)"

definition ipv6cp_script_done :: "ipv6_env \<Rightarrow> ipv6_sys \<Rightarrow> ipv6_sys" where
  "ipv6cp_script_done env s =
     (let s = cl (ipv6cp_script_pid_update (\<lambda>_. 0)) s in
      case ipv6cp_script_state (client s) of
        s_up \<Rightarrow> if f_state (fsm s) \<noteq> OPENED then set_script env s_down PATH_IPV6DOWN s else s
      | s_down \<Rightarrow> if f_state (fsm s) = OPENED then set_script env s_up PATH_IPV6UP s else s)"

definition ipv6cp_clear_addrs :: "eui64 \<Rightarrow> eui64 \<Rightarrow> ipv6_sys \<Rightarrow> ipv6_sys" where
  "ipv6cp_clear_addrs our his = call (Cif6addr our his)"

text \<open>\<open>ipv6cp_down\<close>, on Linux.\<close>

definition take_interface_down :: "ipv6_env \<Rightarrow> ipv6_sys \<Rightarrow> ipv6_sys" where
  "take_interface_down env s =
     (if demand env then call (Sifnpmode NPMODE_QUEUE) s
      else let s = call (Sifnpmode NPMODE_DROP) s;
               s = ipv6cp_clear_addrs (ourid (gotoptions (client s))) (hisid (hisoptions (client s))) s
           in call Sif6down s)"

definition ipv6cp_down :: "ipv6_env \<Rightarrow> ipv6_sys \<Rightarrow> ipv6_sys" where
  "ipv6cp_down env s =
     (let s = call Notify_down (call Update_link_stats s);
          s = (if ipv6_down_hook env then call Down_hook s else s);
          s = (if ipv6cp_is_up (client s) then call Np_down (cl (ipv6cp_is_up_update (\<lambda>_. False)) s) else s);
          s = take_interface_down env s
      in if ipv6cp_script_state (client s) = s_up \<and> ipv6cp_script_pid (client s) = 0
         then set_script env s_down PATH_IPV6DOWN s else s)"

definition ipv6cp_finished :: "ipv6_sys \<Rightarrow> ipv6_sys" where
  "ipv6cp_finished = call Np_finished"

text \<open>The callbacks. \<open>ipv6cp_up\<close> may close the protocol, and \<open>fsm_close\<close> does not use the \<open>up\<close> callback (lemma
  \<open>fsm_close_ignores_up\<close>), so the table is built in two steps.\<close>

definition callbacks_but_up :: "ipv6_env \<Rightarrow> ipv6cp fsm_callbacks" where
  "callbacks_but_up env =
     \<lparr>resetci = Some (ipv6cp_resetci env), cilen = Some ipv6cp_cilen, addci = Some ipv6cp_addci, ackci = Some ipv6cp_ackci,
      nakci = Some (ipv6cp_nakci env), rejci = Some (ipv6cp_rejci env), reqci = Some (ipv6cp_reqci env), up = None,
      down = Some (ipv6cp_down env), starting = None, finished = Some ipv6cp_finished, retransmit = None, extcode = None\<rparr>"

definition ipv6cp_close :: "ipv6_env \<Rightarrow> string \<Rightarrow> ipv6_sys \<Rightarrow> ipv6_sys" where
  "ipv6cp_close env reason = fsm_close (callbacks_but_up env) (ascii reason)"

text \<open>\<open>ipv6cp_up\<close>: the checks on the identifiers (the reason to close, if one fails), the configuration of the
  interface in the two modes, and the end.\<close>

definition up_refused :: "ipv6_env \<Rightarrow> ipv6cp \<Rightarrow> string option" where
  "up_refused env c =
     (let go = gotoptions c; h = hisoptions c in
      if no_ifaceid_neg env then None
      else if eui64_iszero (hisid h) then Some ''Could not determine remote LL address''
      else if eui64_iszero (ourid go) then Some ''Could not determine local LL address''
      else if eui64_equals (ourid go) (hisid h) then Some ''local and remote LL addresses are equal''
      else None)"

definition up_demand :: "ipv6_env \<Rightarrow> ipv6_sys \<Rightarrow> bool \<times> ipv6_sys" where
  "up_demand env s =
     (let go = gotoptions (client s); h = hisoptions (client s); wo = wantoptions (client s);
          (ok, s) = (if \<not> eui64_equals (ourid go) (ourid wo) \<or> \<not> eui64_equals (hisid h) (hisid wo)
             then let s = ipv6cp_clear_addrs (ourid go) (hisid h) s
                  in (sif6addr env (calls (client s)), call (Sif6addr (ourid go) (hisid h)) s)
             else (True, s))
      in if \<not> ok then (False, s) else (True, call (Sifnpmode NPMODE_PASS) (call Demand_rexmit s)))"

definition up_direct :: "ipv6_env \<Rightarrow> ipv6_sys \<Rightarrow> bool \<times> ipv6_sys" where
  "up_direct env s =
     (let ok = sif6up env (calls (client s)); s = call Sif6up s in
      if \<not> ok then (False, s)
      else let ok = sif6addr env (calls (client s));
               s = call (Sif6addr (ourid (gotoptions (client s))) (hisid (hisoptions (client s)))) s
           in if \<not> ok then (False, s) else (True, call (Sifnpmode NPMODE_PASS) s))"

definition up_done :: "ipv6_env \<Rightarrow> ipv6_sys \<Rightarrow> ipv6_sys" where
  "up_done env s =
     (let s = cl (ipv6cp_is_up_update (\<lambda>_. True)) (call Np_up s);
          s = call Notify_up s;
          s = (if ipv6_up_hook env then call Up_hook s else s)
      in if ipv6cp_script_state (client s) = s_down \<and> ipv6cp_script_pid (client s) = 0
         then set_script env s_up PATH_IPV6UP s else s)"

definition his_default :: "ipv6cp \<Rightarrow> ipv6cp" where
  "his_default c =
     (if \<not> neg_ifaceid (hisoptions c) then c\<lparr>hisoptions := (hisoptions c)\<lparr>hisid := hisid (wantoptions c)\<rparr>\<rparr> else c)"

definition ipv6cp_up :: "ipv6_env \<Rightarrow> ipv6_sys \<Rightarrow> ipv6_sys" where
  "ipv6cp_up env s =
     (let s = cl his_default s in
      case up_refused env (client s) of
        Some reason \<Rightarrow> ipv6cp_close env reason s
      | None \<Rightarrow>
         (let s = call (Script_setenv ''LLLOCAL'' (llv6_ntoa (ourid (gotoptions (client s))))) s;
              s = call (Script_setenv ''LLREMOTE'' (llv6_ntoa (hisid (hisoptions (client s))))) s;
              (ok, s) = (if demand env then up_demand env s else up_direct env s)
          in if \<not> ok then ipv6cp_close env ''Interface configuration failed'' s else up_done env s))"

definition ipv6cp_callbacks :: "ipv6_env \<Rightarrow> ipv6cp fsm_callbacks" where
  "ipv6cp_callbacks env = (callbacks_but_up env)\<lparr>up := Some (ipv6cp_up env)\<rparr>"

section \<open>Configuration\<close>

text \<open>\<open>setifaceid\<close> parses the argument \<open>local,remote\<close> of the option \<open>ipv6\<close>. \<open>pton\<close> is \<open>inet_pton(AF_INET6, \<dots>)\<close>, with
  \<open>None\<close> for the result 0. \<open>override_value\<close> of \<open>options.c\<close> is applied to the entry of \<open>+ipv6\<close>, which it finds and which
  has the flag \<open>OPT_PRIO\<close> and not \<open>OPT_PRIOSUB\<close>; its source field is left out.\<close>

record ifaceid_state =
  i_want :: ipv6cp_options
  prio_local :: int
  prio_remote :: int
  enabled_flag :: bool
  enabled_priority :: int

definition VALIDID :: "bytes \<Rightarrow> bool" where
  "VALIDID a = (take 8 a = replicate 8 0 \<and> take 8 (drop 8 a) \<noteq> replicate 8 0)"

definition read_id :: "(string \<Rightarrow> bytes option) \<Rightarrow> string \<Rightarrow> eui64 option" where
  "read_id pton arg =
     (case pton arg of None \<Rightarrow> None | Some a \<Rightarrow> if VALIDID a then Some (eui64_get (drop 8 a)) else None)"

definition override_value :: "int \<Rightarrow> ifaceid_state \<Rightarrow> bool \<times> ifaceid_state" where
  "override_value pr st =
     (if pr < enabled_priority st then (False, st) else (True, st\<lparr>enabled_priority := pr\<rparr>))"

definition set_local :: "int \<Rightarrow> eui64 \<Rightarrow> ifaceid_state \<Rightarrow> ifaceid_state" where
  "set_local pr i st =
     (if pr \<ge> prio_local st then st\<lparr>i_want := (i_want st)\<lparr>ourid := i, opt_local := True\<rparr>, prio_local := pr\<rparr> else st)"

definition set_remote :: "int \<Rightarrow> eui64 \<Rightarrow> ifaceid_state \<Rightarrow> ifaceid_state" where
  "set_remote pr i st =
     (if pr \<ge> prio_remote st then st\<lparr>i_want := (i_want st)\<lparr>hisid := i, opt_remote := True\<rparr>, prio_remote := pr\<rparr> else st)"

definition setifaceid :: "(string \<Rightarrow> bytes option) \<Rightarrow> int \<Rightarrow> string \<Rightarrow> ifaceid_state \<Rightarrow> bool \<times> ifaceid_state" where
  "setifaceid pton pr arg st =
     (let loc = takeWhile (\<lambda>ch. ch \<noteq> CHR 0x2c) arg;
          rem = drop (length loc + 1) arg;
          first = (if loc = [] then Some st else map_option (\<lambda>i. set_local pr i st) (read_id pton loc))
      in case first of
           None \<Rightarrow> (False, st)
         | Some st \<Rightarrow>
            (case (if rem = [] then Some st else map_option (\<lambda>i. set_remote pr i st) (read_id pton rem)) of
               None \<Rightarrow> (False, st)
             | Some st \<Rightarrow> (let (ov, st) = override_value pr st
                           in (True, if ov then st\<lparr>enabled_flag := True\<rparr> else st))))"

definition printifaceid :: "ipv6cp_options \<Rightarrow> string list" where
  "printifaceid wo =
     (if opt_local wo then [llv6_ntoa (ourid wo)] else []) @ ['',''] @ (if opt_remote wo then [llv6_ntoa (hisid wo)] else [])"

text \<open>\<open>ipv6_check_options\<close>; \<open>ether\<close> is the result of \<open>ether_to_eui64\<close>, the addresses are those of \<open>ipcp_wantoptions\<close>, and
  \<open>None\<close> is the exit with \<open>EXIT_OPTION_ERROR\<close>.\<close>

definition want_persistent :: "eui64 option \<Rightarrow> ipv6cp_options \<Rightarrow> ipv6cp_options" where
  "want_persistent ether wo =
     (if use_persistent wo \<and> \<not> opt_local wo \<and> \<not> opt_remote wo
      then case ether of Some e \<Rightarrow> wo\<lparr>ourid := e, opt_local := True\<rparr> | None \<Rightarrow> wo
      else wo)"

definition want_local :: "ipv6_env \<Rightarrow> u32 \<Rightarrow> ipv6cp_options \<Rightarrow> ipv6cp \<Rightarrow> ipv6cp_options \<times> ipv6cp" where
  "want_local env ouraddr wo c =
     (if opt_local wo then (wo, c)
      else let wo = (if use_ip wo \<and> eui64_iszero (ourid wo)
                     then let i = eui64_setlo32 (ntohl ouraddr) in
                          wo\<lparr>ourid := i, opt_local := \<not> eui64_iszero i\<rparr>
                     else wo);
               (i, c) = magic_while env eui64_iszero (ourid wo) c
           in (wo\<lparr>ourid := i\<rparr>, c))"

definition want_remote :: "u32 \<Rightarrow> ipv6cp_options \<Rightarrow> ipv6cp_options" where
  "want_remote hisaddr wo =
     (if \<not> opt_remote wo \<and> use_ip wo \<and> eui64_iszero (hisid wo)
      then let i = eui64_setlo32 (ntohl hisaddr) in wo\<lparr>hisid := i, opt_remote := \<not> eui64_iszero i\<rparr>
      else wo)"

definition ipv6_check_options :: "ipv6_env \<Rightarrow> bool \<Rightarrow> eui64 option \<Rightarrow> u32 \<Rightarrow> u32 \<Rightarrow> ipv6cp \<Rightarrow> ipv6cp option" where
  "ipv6_check_options env enabled ether ouraddr hisaddr c =
     (if \<not> enabled then Some c
      else let (wo, c) = want_local env ouraddr (want_persistent ether (wantoptions c)) c;
               wo = want_remote hisaddr wo;
               c = c\<lparr>wantoptions := wo\<rparr>
           in if demand env \<and> (eui64_iszero (ourid wo) \<or> eui64_iszero (hisid wo)) then None else Some c)"

definition ipv6_demand_conf :: "ipv6_env \<Rightarrow> ipv6_sys \<Rightarrow> bool \<times> ipv6_sys" where
  "ipv6_demand_conf env s =
     (let ok = sif6up env (calls (client s)); s = call Sif6up s in
      if \<not> ok then (False, s)
      else let wo = wantoptions (client s); ok = sif6addr env (calls (client s)); s = call (Sif6addr (ourid wo) (hisid wo)) s in
        if \<not> ok then (False, s)
        else (sifnpmode env (calls (client s)), call (Sifnpmode NPMODE_QUEUE) s))"

section \<open>Packets as text and as traffic\<close>

definition ipv6cp_codenames :: "string list" where
  "ipv6cp_codenames = [''ConfReq'', ''ConfAck'', ''ConfNak'', ''ConfRej'', ''TermReq'', ''TermAck'', ''CodeRej'']"

text \<open>One option, and the loop over the options with the bytes at which it stops.\<close>

definition print_option :: "bytes \<Rightarrow> string list" where
  "print_option ci =
     (if ci ! 0 = CI_COMPRESSTYPE \<and> length ci \<ge> CILEN_COMPRESS
      then [''compress '', ''0x'' @ numeral_text 16 (get_be16 (drop 2 ci))] @ print_rest (drop 4 ci)
      else if ci ! 0 = CI_IFACEID \<and> length ci = CILEN_IFACEID
      then [''addr '' @ llv6_ntoa (eui64_get (drop 2 ci))]
      else print_rest ci)"

function print_cis :: "bytes \<Rightarrow> string list \<times> bytes" where
  "print_cis p =
     (if length p < 2 then ([], p)
      else let olen = unat (p ! 1) in
        if olen < 2 \<or> olen > length p then ([], p)
        else let (out, rest) = print_cis (drop olen p)
             in ([CHR 0x20 # ''<''] @ print_option (take olen p) @ [''>''] @ out, rest))"
  by pat_completeness auto
termination by (relation "measure length") auto

declare print_cis.simps [simp del]

definition ipv6cp_printpkt :: "bytes \<Rightarrow> nat \<times> string list" where
  "ipv6cp_printpkt p =
     (case parse_header p of
        None \<Rightarrow> (0, [])
      | Some (code, pid, inp) \<Rightarrow>
         (let (out, rest) =
            (if code \<in> {CONFREQ, CONFACK, CONFNAK, CONFREJ} then print_cis inp
             else if code \<in> {TERMACK, TERMREQ} \<and> inp \<noteq> [] \<and> hd inp \<ge> 0x20 \<and> hd inp < 0x7f
             then ([CHR 0x20] # print_string inp, [])
             else ([], inp))
          in (HEADERLEN + (length inp - length rest) + length rest,
              print_code ipv6cp_codenames code pid @ out @ print_rest rest)))"

definition PPP_HDRLEN :: nat where "PPP_HDRLEN = 4"
definition IP6_HDRLEN :: nat where "IP6_HDRLEN = 40"
definition TCP_HDRLEN :: nat where "TCP_HDRLEN = 20"
definition IP6_NHDR_FRAG :: u8 where "IP6_NHDR_FRAG = 44"
definition IPPROTO_TCP :: u8 where "IPPROTO_TCP = 6"
definition TH_FIN :: u8 where "TH_FIN = 1"

definition ipv6_active_pkt :: "bytes \<Rightarrow> bool" where
  "ipv6_active_pkt p =
     (let pkt = drop PPP_HDRLEN p; tcp = drop IP6_HDRLEN pkt in
      if length pkt < IP6_HDRLEN then False
      else if pkt ! 6 = IP6_NHDR_FRAG then False
      else if pkt ! 6 \<noteq> IPPROTO_TCP then True
      else if length pkt < IP6_HDRLEN + TCP_HDRLEN then False
      else if tcp ! 13 AND TH_FIN \<noteq> 0 \<and> length pkt = IP6_HDRLEN + unat (drop_bit 4 (tcp ! 12)) * 4 then False
      else True)"

section \<open>Entry points\<close>

definition ipv6cp_init :: "ipv6_sys \<Rightarrow> ipv6_sys" where
  "ipv6cp_init s =
     (let s = fsm_init (upd (\<lambda>f. f\<lparr>unit := 0, protocol := PPP_IPV6CP\<rparr>) s)
      in cl (\<lambda>c. c\<lparr>wantoptions := zero_options\<lparr>accept_local := True, neg_ifaceid := True\<rparr>,
                    allowoptions := zero_options\<lparr>neg_ifaceid := True\<rparr>\<rparr>) s)"

text \<open>The functions of \<open>ipv6cp_protent\<close>, the timer and the end of a script; \<open>ipv6cp_protrej\<close> takes the lower layer
  down.\<close>

datatype ipv6cp_event = Do fsm_event | Protrej | Script_done

fun ipv6cp_do :: "ipv6_env \<Rightarrow> ipv6cp_event \<Rightarrow> ipv6_sys \<Rightarrow> ipv6_sys" where
  "ipv6cp_do env (Do e) s = fsm_do (ipv6cp_callbacks env) e s"
| "ipv6cp_do env Protrej s = fsm_lowerdown (ipv6cp_callbacks env) s"
| "ipv6cp_do env Script_done s = ipv6cp_script_done env s"

inductive ipv6cp_reach :: "ipv6_env \<Rightarrow> ipv6_sys \<Rightarrow> ipv6_sys \<Rightarrow> bool" for env s where
  start: "ipv6cp_reach env s s"
| step: "ipv6cp_reach env s t \<Longrightarrow> ipv6cp_reach env s (ipv6cp_do env e t)"

inductive_cases ipv6cp_reachE: "ipv6cp_reach env s t"

end
