(* ===== verification/Ppp_Ipv6cp_Proofs.thy ===== *)
theory Ppp_Ipv6cp_Proofs
  imports Ppp_Ipv6cp
begin

text \<open>
  Correctness of the IPv6 control protocol: that its callbacks keep the contract of the automaton (an interpretation of
  \<open>fsm_client\<close>), and what follows for the runs of the protocol; that the option callbacks build, check and answer
  requests as they should.
\<close>

section \<open>Identifiers\<close>

lemma eui64_iszero_iff [simp]: "eui64_iszero e \<longleftrightarrow> e = eui64_zero"
  by (cases e) (simp add: eui64_iszero_def eui64_zero_def or_eq_0_iff)

lemma eui64_equals_iff [simp]: "eui64_equals e f \<longleftrightarrow> e = f"
  by (auto simp: eui64_equals_def)

lemma clashes_iff [simp]: "clashes x e \<longleftrightarrow> e = eui64_zero \<or> e = x"
  by (simp add: clashes_def)

lemma length_eui64_put [simp, byte_codec]: "length (eui64_put e) = 8"
  by (simp add: eui64_put_def)

lemma eui64_get_put [simp, byte_codec]: "eui64_get (eui64_put e) = e" "eui64_get (eui64_put e @ r) = e"
  by (simp_all add: eui64_get_def eui64_put_def)

lemma length8E:
  assumes "length p = 8"
  obtains a b c d e f g h where "p = [a, b, c, d, e, f, g, h]"
  using assms by (auto simp: numeral_eq_Suc length_Suc_conv)

lemma eui64_put_get [byte_codec]: "length p = 8 \<Longrightarrow> eui64_put (eui64_get p) = p"
  by (erule length8E) (simp add: eui64_put_def eui64_get_def get32_def bytes32_def)

lemma eui64_put_inject [simp]: "eui64_put e = eui64_put f \<longleftrightarrow> e = f"
  by (metis eui64_get_put(1))

section \<open>Effects on the state\<close>

lemma cl_sel [simp]: "fsm (cl g s) = fsm s" "timers (cl g s) = timers s" "client (cl g s) = g (client s)"
    "sent (cl g s) = sent s" "peer_mru (cl g s) = peer_mru s"
  by (simp_all add: cl_def)

lemma call_sel [simp]: "fsm (call k s) = fsm s" "timers (call k s) = timers s"
    "client (call k s) = (client s)\<lparr>calls := calls (client s) @ [k]\<rparr>" "sent (call k s) = sent s" "peer_mru (call k s) = peer_mru s"
  by (simp_all add: call_def)

text \<open>The hypothesis on the random numbers: within \<open>tries\<close> draws there is an identifier that is neither zero nor a given
  one.\<close>

definition lively :: "ipv6_env \<Rightarrow> bool" where
  "lively env \<longleftrightarrow> (\<forall>n x. \<exists>k<tries env. \<not> clashes x (eui64_magic (magic env) (n + 2 * k)))"

text \<open>Drawing identifiers changes nothing but the position in the sequence, and ends if the sequence is lively.\<close>

definition frames :: "ipv6_env \<Rightarrow> ipv6cp \<Rightarrow> ipv6cp \<Rightarrow> bool" where
  "frames env c d \<longleftrightarrow> d\<lparr>draws := 0, hung := False\<rparr> = c\<lparr>draws := 0, hung := False\<rparr> \<and> (lively env \<longrightarrow> hung d = hung c)
     \<and> (hung c \<longrightarrow> hung d)"

lemma frames_refl [simp, intro]: "frames env c c"
  by (simp add: frames_def)

lemma frames_trans [trans]: "frames env a b \<Longrightarrow> frames env b c \<Longrightarrow> frames env a c"
  by (auto simp: frames_def)

lemma framesD:
  assumes "frames env c d"
  shows "wantoptions d = wantoptions c" "gotoptions d = gotoptions c" "allowoptions d = allowoptions c"
    "hisoptions d = hisoptions c" "ipv6cp_is_up d = ipv6cp_is_up c" "ipv6cp_script_state d = ipv6cp_script_state c"
    "ipv6cp_script_pid d = ipv6cp_script_pid c" "calls d = calls c" "lively env \<Longrightarrow> hung d = hung c" "hung c \<Longrightarrow> hung d"
  using assms by (cases c; cases d; simp add: frames_def)+

lemma magic_until_returns:
  "\<exists>j<k. \<not> bad (eui64_magic mg (n + 2 * j)) \<Longrightarrow> \<exists>e n'. magic_until mg bad k n = Some (e, n')"
proof (induction k arbitrary: n)
  case (Suc k)
  then obtain j where j: "j < Suc k" "\<not> bad (eui64_magic mg (n + 2 * j))" by blast
  show ?case
  proof (cases j)
    case (Suc i)
    with j Suc.IH [of "n + 2"] show ?thesis by (auto simp: algebra_simps)
  qed (use j in auto)
qed simp

lemma magic_until_good: "magic_until mg bad k n = Some (e, n') \<Longrightarrow> \<not> bad e"
  by (induction k arbitrary: n) (auto split: if_splits)

lemma magic_do_frames:
  assumes "\<And>e. bad e \<Longrightarrow> clashes x e"
  shows "frames env c (snd (magic_do env bad c))"
proof -
  have "\<exists>e n. magic_until (magic env) bad (tries env) (draws c) = Some (e, n)" if l: "lively env"
  proof -
    obtain k where "k < tries env" "\<not> clashes x (eui64_magic (magic env) (draws c + 2 * k))"
      using l unfolding lively_def by blast
    then show ?thesis using assms by (intro magic_until_returns) blast
  qed
  then show ?thesis
    by (auto simp: magic_do_def frames_def split: option.split)
qed

lemma magic_while_frames: "(\<And>e. bad e \<Longrightarrow> clashes x e) \<Longrightarrow> frames env c (snd (magic_while env bad e c))"
  using magic_do_frames [of bad x] by (simp add: magic_while_def)

lemma magic_do_good: "\<not> hung (snd (magic_do env bad c)) \<Longrightarrow> \<not> bad (fst (magic_do env bad c))"
  using magic_until_good [of "magic env" bad "tries env" "draws c"] by (auto simp: magic_do_def split: option.splits)

lemma magic_while_good: "\<not> hung (snd (magic_while env bad e c)) \<Longrightarrow> \<not> bad (fst (magic_while env bad e c))"
  using magic_do_good [of env bad c] by (auto simp: magic_while_def)

lemma choose_ourid_frames: "frames env c (snd (choose_ourid env go q tr c))"
    "neg_vj (fst (choose_ourid env go q tr c)) = neg_vj tr"
  using magic_while_frames [of "clashes (hisid go)" "hisid go" env c "eui64_get q"]
  by (auto simp: choose_ourid_def split_beta)

lemma NAKCIIFACEID_frames:
  assumes "NAKCIIFACEID env b go p tr c = (p', no, tr', c')"
  shows "frames env c c'" "neg_vj tr' = neg_vj tr"
  using assms choose_ourid_frames [where go = go and env = env and c = c and q = "drop 2 p" and tr = tr]
  by (auto simp: NAKCIIFACEID_def split_beta split: if_splits)

lemma NAKCIVJ_off [simp]: "\<not> neg_vj go \<Longrightarrow> NAKCIVJ env go p tr = (p, False, tr)"
    "\<not> neg_vj go \<Longrightarrow> REJCIVJ env go p = Some (p, False)"
  by (simp_all add: NAKCIVJ_def REJCIVJ_def)

lemma nakci_more_frames:
  "nakci_more env go p a b tr c = (ok, tr', c') \<Longrightarrow> frames env c c' \<and> neg_vj tr' = neg_vj tr"
proof (induction env go p a b tr c arbitrary: ok tr' c' rule: nakci_more.induct)
  case (1 env go p a b t c)
  obtain t2 c2 where ch: "choose_ourid env go (drop 2 p) (t\<lparr>neg_ifaceid := True\<rparr>) c = (t2, c2)"
    by fastforce
  then have c2: "frames env c c2" "neg_vj t2 = neg_vj t"
    using choose_ourid_frames [where go = go and env = env and c = c and q = "drop 2 p" and tr = "t\<lparr>neg_ifaceid := True\<rparr>"]
    by simp_all
  note eq = "1.prems" [unfolded nakci_more.simps [of env go p] Let_def]
  note IH = "1.IH" [OF _ refl refl refl]
  consider "length p < 2 \<or> unat (p ! 1) < 2 \<or> length p < unat (p ! 1)" | (vj) "\<not> (length p < 2 \<or> unat (p ! 1) < 2 \<or> length p < unat (p ! 1))" "p ! 0 = 2"
    | (id) "\<not> (length p < 2 \<or> unat (p ! 1) < 2 \<or> length p < unat (p ! 1))" "p ! 0 = 1"
    | (other) "\<not> (length p < 2 \<or> unat (p ! 1) < 2 \<or> length p < unat (p ! 1))" "p ! 0 \<noteq> 2" "p ! 0 \<noteq> 1"
    by blast
  then show ?case
  proof cases
    case vj
    then show ?thesis using eq IH(1) by (auto split: if_splits)
  next
    case id
    then show ?thesis using eq IH(2) [OF _ _ _ _ _ refl ch [symmetric]] c2 frames_trans [of env c c2]
      by (auto simp: ch split: if_splits)
  next
    case other
    then show ?thesis using eq IH(3) by auto
  qed (use eq in \<open>auto split: if_splits\<close>)
qed

lemma reqci_option_keeps:
  "frames env c (snd (snd (snd (snd (reqci_option env wo ao ci (h, g, c))))))"
  "neg_vj (fst (snd (snd (snd (reqci_option env wo ao ci (h, g, c)))))) = neg_vj g"
  using magic_while_frames [of "clashes (ourid g)" "ourid g" env c]
  by (simp_all add: reqci_option_def reqci_ifaceid_def Let_def split_beta del: clashes_iff) auto

lemma reqci_option_frames:
  assumes "reqci_option env wo ao ci (h, g, c) = (orc, ci', h', g', c')"
  shows "frames env c c'" "neg_vj g' = neg_vj g"
  using reqci_option_keeps [where env = env and c = c and wo = wo and ao = ao and ci = ci and h = h and g = g] by (simp_all add: assms)

lemma reqci_keep_sel [simp]:
  "r_cl (reqci_keep cip clen v) = r_cl v" "r_go (reqci_keep cip clen v) = r_go v" "ho (reqci_keep cip clen v) = ho v"
  by (simp_all add: reqci_keep_def Let_def)

lemma reqci_merge_sel [simp]:
  "r_cl (reqci_merge rej orc cip clen v) = r_cl v" "r_go (reqci_merge rej orc cip clen v) = r_go v"
  "ho (reqci_merge rej orc cip clen v) = ho v"
  by (simp_all add: reqci_merge_def Let_def)

lemma reqci_loop_frames:
  "frames env (r_cl v) (r_cl (reqci_loop env wo ao rej l nxt v)) \<and>
   neg_vj (r_go (reqci_loop env wo ao rej l nxt v)) = neg_vj (r_go v)"
proof (induction env wo ao rej l nxt v rule: reqci_loop.induct)
  case (1 env wo ao rej l nxt v)
  obtain orc ci h g c where o:
    "reqci_option env wo ao (take (unat (packet v ! (nxt + 1))) (drop nxt (packet v))) (ho v, r_go v, r_cl v) = (orc, ci, h, g, c)"
    by (metis prod_cases5)
  show ?case
    using "1.IH" [OF _ _ refl o [symmetric] refl refl refl refl refl] reqci_option_frames [OF o]
    by (subst (1 2) reqci_loop.simps) (auto simp: Let_def o [simplified] intro: frames_trans)
qed

section \<open>The contract of the automaton\<close>

text \<open>The invariant of the protocol's data: header compression is never on (so \<open>NAKCIVJ\<close> and \<open>REJCIVJ\<close> never read past
  the packet); when no script runs, the last one matches the state of the layer; every address handed to the interface
  is a pair of different identifiers that are not zero; and no draw hangs if the random numbers are lively.\<close>

fun addr_ok :: "ipv6_env \<Rightarrow> ipv6_call \<Rightarrow> bool" where
  "addr_ok env (Sif6addr a b) = (no_ifaceid_neg env \<or> \<not> eui64_iszero a \<and> \<not> eui64_iszero b \<and> \<not> eui64_equals a b)"
| "addr_ok env _ = True"

definition ipv6_inv :: "ipv6_env \<Rightarrow> ipv6cp \<Rightarrow> bool" where
  "ipv6_inv env c \<longleftrightarrow>
     \<not> neg_vj (wantoptions c) \<and> \<not> neg_vj (gotoptions c) \<and>
     (ipv6cp_script_pid c = 0 \<longrightarrow> (ipv6cp_script_state c = s_up \<longleftrightarrow> ipv6cp_is_up c)) \<and>
     list_all (addr_ok env) (calls c) \<and> (lively env \<longrightarrow> \<not> hung c)"

abbreviation ipv6_keeps :: "ipv6_env \<Rightarrow> ipv6_sys \<Rightarrow> ipv6_sys \<Rightarrow> bool" where
  "ipv6_keeps env \<equiv> keeps ipv6cp_is_up (\<lambda>_ _. ipv6_inv env)"

abbreviation ipv6_ok :: "ipv6_env \<Rightarrow> ipv6_sys \<Rightarrow> bool" where
  "ipv6_ok env \<equiv> fsm_inv ipv6cp_is_up (\<lambda>_ _. ipv6_inv env)"

lemma resetci_keeps: "ipv6_keeps env s (ipv6cp_resetci env s)"
  using magic_do_frames [of eui64_iszero "eui64_zero" env "client s", THEN framesD(9)]
    magic_do_frames [of eui64_iszero "eui64_zero" env "client s", THEN framesD(8)]
    magic_do_frames [of eui64_iszero "eui64_zero" env "client s", THEN framesD(7)]
    magic_do_frames [of eui64_iszero "eui64_zero" env "client s", THEN framesD(6)]
    magic_do_frames [of eui64_iszero "eui64_zero" env "client s", THEN framesD(5)]
  by (auto simp: keeps_def ipv6cp_resetci_def ipv6_inv_def Let_def split_beta)

lemma addci_keeps: "ipv6_keeps env s (snd (ipv6cp_addci n s))"
  by (auto simp: keeps_def ipv6cp_addci_def ipv6_inv_def ADDCI_def Let_def)

lemma ackci_keeps: "ipv6_keeps env s (snd (ipv6cp_ackci p s))"
  by (auto simp: keeps_def ipv6cp_ackci_def Let_def split: option.split)

lemma rejci_keeps: "ipv6_keeps env s (snd (ipv6cp_rejci env p s))"
  by (auto simp: keeps_def ipv6cp_rejci_def ipv6_inv_def Let_def split: option.split)

lemma ipv6_inv_frames:
  assumes "frames env c d" "ipv6_inv env c"
  shows "ipv6_inv env d" "ipv6cp_is_up d = ipv6cp_is_up c"
    "\<not> neg_vj wo \<Longrightarrow> \<not> neg_vj go \<Longrightarrow> ipv6_inv env (d\<lparr>wantoptions := wo, gotoptions := go, hisoptions := h\<rparr>)"
    "\<not> neg_vj go \<Longrightarrow> ipv6_inv env (d\<lparr>gotoptions := go\<rparr>)"
  using assms(2) framesD [OF assms(1)] by (simp_all add: ipv6_inv_def)

lemma nakci_keeps: "ipv6_keeps env s (snd (ipv6cp_nakci env p b s))"
proof -
  let ?go = "gotoptions (client s)"
  obtain p1 no1 t1 c1 where 1: "NAKCIIFACEID env b ?go p ?go (client s) = (p1, no1, t1, c1)"
    by (metis prod_cases4)
  obtain p2 no2 t2 where 2: "NAKCIVJ env ?go p1 t1 = (p2, no2, t2)"
    by (metis prod_cases3)
  obtain ok t3 c3 where 3: "nakci_more env ?go p2 no1 no2 t2 c1 = (ok, t3, c3)"
    by (metis prod_cases3)
  have f: "frames env (client s) c3"
    using NAKCIIFACEID_frames(1) [OF 1] nakci_more_frames [OF 3] frames_trans by blast
  have "\<not> neg_vj t3" if "\<not> neg_vj ?go"
    using that NAKCIIFACEID_frames(2) [OF 1] nakci_more_frames [OF 3] 2 by auto
  then show ?thesis
    using ipv6_inv_frames [OF f] framesD(5) [OF f]
    by (auto simp: keeps_def ipv6cp_nakci_def 1 2 3 ipv6_inv_def [of env "client s"])
qed

lemma reqci_ask_sel:
  assumes "reqci_ask rej wo v = (wo', v')"
  shows "r_cl v' = r_cl v" "r_go v' = r_go v" "ho v' = ho v" "neg_vj wo' = neg_vj wo"
  using assms by (auto simp: reqci_ask_def Let_def split: if_splits)

lemma reqci_keeps: "ipv6_keeps env s (snd (snd (ipv6cp_reqci env p b s)))"
proof -
  define v where "v = reqci_loop env (wantoptions (client s)) (allowoptions (client s)) b (length p) 0
      \<lparr>packet = p, ucp = 0, rc = CONFACK, ho = zero_options, r_go = gotoptions (client s), r_cl = client s\<rparr>"
  obtain wo w where w: "reqci_ask b (wantoptions (client s)) v = (wo, w)"
    by fastforce
  have f: "frames env (client s) (r_cl v)" and n: "neg_vj (r_go v) = neg_vj (gotoptions (client s))"
    unfolding v_def
    using reqci_loop_frames [where v = "\<lparr>packet = p, ucp = 0, rc = CONFACK, ho = zero_options, r_go = gotoptions (client s), r_cl = client s\<rparr>"]
    by simp_all
  show ?thesis
    using ipv6_inv_frames [OF f] framesD(5) [OF f] n reqci_ask_sel [OF w]
    by (auto simp: keeps_def ipv6cp_reqci_def Let_def v_def [symmetric] w ipv6_inv_def [of env "client s"])
qed

lemma script_sel [simp]: "fsm (set_script env st p s) = fsm s" "timers (set_script env st p s) = timers s"
    "ipv6cp_is_up (client (set_script env st p s)) = ipv6cp_is_up (client s)"
    "ipv6cp_script_state (client (set_script env st p s)) = st"
    "wantoptions (client (set_script env st p s)) = wantoptions (client s)"
    "gotoptions (client (set_script env st p s)) = gotoptions (client s)"
    "hisoptions (client (set_script env st p s)) = hisoptions (client s)"
    "hung (client (set_script env st p s)) = hung (client s)"
    "list_all (addr_ok env) (calls (client (set_script env st p s))) = list_all (addr_ok env) (calls (client s))"
  by (simp_all add: set_script_def ipv6cp_script_def Let_def)

lemma down_sel: "fsm (ipv6cp_down env s) = fsm s" "timers (ipv6cp_down env s) = timers s"
    "\<not> ipv6cp_is_up (client (ipv6cp_down env s))"
    "ipv6_inv env (client s) \<Longrightarrow> ipv6_inv env (client (ipv6cp_down env s))"
  by (auto simp: ipv6cp_down_def take_interface_down_def ipv6cp_clear_addrs_def Let_def ipv6_inv_def)

lemma finished_keeps: "ipv6_keeps env s (ipv6cp_finished s)"
  by (simp add: keeps_def ipv6cp_finished_def ipv6_inv_def)

text \<open>Closing from an open automaton, as \<open>ipv6cp_up\<close> does when it fails.\<close>

lemma close_consistent:
  assumes "f_state (fsm s) = OPENED" "timers s = 0" "ipv6_inv env (client s)"
  shows "ipv6_ok env (ipv6cp_close env reason s)"
  using assms finished_keeps [of env] down_sel [of env]
  by (auto simp: ipv6cp_close_def fsm_close_def callbacks_but_up_def terminate_layer_def Let_def fsm_inv_def timers_ok_def
      keeps_def)

lemma close_state:
  "f_state (fsm s) = OPENED \<Longrightarrow> maxtermtransmits (fsm s) \<noteq> 0 \<Longrightarrow> f_state (fsm (ipv6cp_close env reason s)) = CLOSING"
  using down_sel(1) [of env] by (simp add: ipv6cp_close_def fsm_close_def callbacks_but_up_def terminate_layer_def Let_def)

lemma fsm_close_ignores_up: "fsm_close (cb\<lparr>up := u\<rparr>) r s = fsm_close cb r s"
  by (simp add: fsm_close_def terminate_layer_def Let_def split: fsm_state.split)

lemma ipv6cp_close_eq: "ipv6cp_close env reason = fsm_close (ipv6cp_callbacks env) (ascii reason)"
  by (rule ext) (simp add: ipv6cp_close_def ipv6cp_callbacks_def fsm_close_ignores_up)

lemma ipv6_inv_call [simp]: "ipv6_inv env (c\<lparr>calls := calls c @ [k]\<rparr>) \<longleftrightarrow> ipv6_inv env c \<and> addr_ok env k"
    "ipv6_inv env (c\<lparr>calls := calls c @ [k, k']\<rparr>) \<longleftrightarrow> ipv6_inv env c \<and> addr_ok env k \<and> addr_ok env k'"
    "ipv6_inv env (c\<lparr>calls := calls c @ [k, k', k'']\<rparr>) \<longleftrightarrow> ipv6_inv env c \<and> addr_ok env k \<and> addr_ok env k' \<and> addr_ok env k''"
    "ipv6_inv env (c\<lparr>calls := calls c @ [k, k', k'', k3]\<rparr>) \<longleftrightarrow>
       ipv6_inv env c \<and> addr_ok env k \<and> addr_ok env k' \<and> addr_ok env k'' \<and> addr_ok env k3"
  by (auto simp: ipv6_inv_def)

text \<open>The two ways to configure the interface hand over the identifiers that passed the checks.\<close>

lemma up_configures:
  assumes "(if demand env then up_demand env s else up_direct env s) = (ok, t)" "up_refused env (client s) = None"
    "ipv6_inv env (client s)"
  shows "fsm t = fsm s" "timers t = timers s" "ipv6_inv env (client t)" "ipv6cp_is_up (client t) = ipv6cp_is_up (client s)"
    "wantoptions (client t) = wantoptions (client s)" "gotoptions (client t) = gotoptions (client s)"
    "hisoptions (client t) = hisoptions (client s)"
proof -
  have "no_ifaceid_neg env \<or> ourid (gotoptions (client s)) \<noteq> eui64_zero \<and> hisid (hisoptions (client s)) \<noteq> eui64_zero \<and>
      ourid (gotoptions (client s)) \<noteq> hisid (hisoptions (client s))"
    using assms(2) by (auto simp: up_refused_def Let_def split: if_splits)
  then show "fsm t = fsm s" "timers t = timers s" "ipv6_inv env (client t)" "ipv6cp_is_up (client t) = ipv6cp_is_up (client s)"
    "wantoptions (client t) = wantoptions (client s)" "gotoptions (client t) = gotoptions (client s)"
    "hisoptions (client t) = hisoptions (client s)"
    using assms(1,3)
    by (auto simp: up_demand_def up_direct_def ipv6cp_clear_addrs_def Let_def split: if_splits)
qed

lemma up_done_ok:
  assumes "f_state (fsm s) = OPENED" "timers s = 0" "\<not> ipv6cp_is_up (client s)" "ipv6_inv env (client s)"
  shows "ipv6_ok env (up_done env s)" "f_state (fsm (up_done env s)) = OPENED"
  using assms by (cases "ipv6cp_script_state (client s)"; simp add: up_done_def Let_def fsm_inv_def timers_ok_def ipv6_inv_def)+

lemma his_default_sel [simp]: "ipv6_inv env (his_default c) = ipv6_inv env c" "ipv6cp_is_up (his_default c) = ipv6cp_is_up c"
    "wantoptions (his_default c) = wantoptions c" "gotoptions (his_default c) = gotoptions c" "calls (his_default c) = calls c"
  by (simp_all add: his_default_def ipv6_inv_def)

lemma up_cases:
  assumes "f_state (fsm s) = OPENED" "timers s = 0" "\<not> ipv6cp_is_up (client s)" "ipv6_inv env (client s)"
  obtains (refused) t r where "ipv6cp_up env s = ipv6cp_close env r t" "fsm t = fsm s" "timers t = 0" "ipv6_inv env (client t)"
  | (configured) t where "ipv6cp_up env s = up_done env t" "fsm t = fsm s" "timers t = 0" "ipv6_inv env (client t)"
      "\<not> ipv6cp_is_up (client t)"
proof -
  define s0 where "s0 = cl his_default s"
  define s1 where "s1 = call (Script_setenv ''LLREMOTE'' (llv6_ntoa (hisid (hisoptions (client s0)))))
      (call (Script_setenv ''LLLOCAL'' (llv6_ntoa (ourid (gotoptions (client s0))))) s0)"
  obtain ok t where t: "(if demand env then up_demand env s1 else up_direct env s1) = (ok, t)" by fastforce
  have inv: "ipv6_inv env (client s0)" "ipv6_inv env (client s1)"
    using assms(4) by (simp_all add: s0_def s1_def ipv6_inv_def his_default_def)
  show thesis
  proof (cases "up_refused env (client s0)")
    case None
    then have "up_refused env (client s1) = None" by (simp add: s1_def up_refused_def)
    note conf = up_configures [OF t this inv(2)]
    have "ipv6cp_up env s = (if ok then up_done env t else ipv6cp_close env ''Interface configuration failed'' t)"
      using None t [unfolded s1_def] by (auto simp: ipv6cp_up_def s0_def [symmetric] Let_def split: if_splits)
    with conf assms show thesis
      using configured [of t] refused [of "''Interface configuration failed''" t] by (auto simp: s1_def s0_def split: if_splits)
  next
    case (Some r)
    then show thesis
      using refused [of r s0] inv assms(2) by (simp add: ipv6cp_up_def s0_def [symmetric] Let_def) (simp add: s0_def)
  qed
qed

interpretation ipv6cp: fsm_client "ipv6cp_callbacks env" ipv6cp_is_up "\<lambda>_ _. ipv6_inv env" for env
proof (unfold_locales, goal_cases)
  case 1 show ?case by (simp add: ipv6cp_callbacks_def callbacks_but_up_def keeps_def)
next
  case 2 show ?case by (simp add: ipv6cp_callbacks_def callbacks_but_up_def down_sel)
next
  case 3 show ?case by (simp add: ipv6cp_callbacks_def callbacks_but_up_def down_sel)
next
  case 4 show ?case by (simp add: ipv6cp_callbacks_def callbacks_but_up_def down_sel)
next
  case 5 then show ?case by (simp add: ipv6cp_callbacks_def callbacks_but_up_def down_sel)
next
  case (6 s)
  then show ?case using keeps_inv [OF _ finished_keeps] by (auto simp: ipv6cp_callbacks_def callbacks_but_up_def)
next
  case (7 s)
  then show ?case using finished_keeps [of _ s] by (auto simp: ipv6cp_callbacks_def callbacks_but_up_def keeps_def resting_def)
next
  case 8 then show ?case .
next
  case (9 s) show ?case using resetci_keeps [of _ s] by (auto simp: ipv6cp_callbacks_def callbacks_but_up_def keeps_def)
next
  case (10 s b fl) then show ?case using resetci_keeps [of env s] by (auto simp: ipv6cp_callbacks_def callbacks_but_up_def keeps_def)
next
  case 11 show ?case by (simp add: ipv6cp_callbacks_def callbacks_but_up_def keeps_def)
next
  case 12 then show ?case using addci_keeps by (auto simp: ipv6cp_callbacks_def callbacks_but_up_def)
next
  case 13 then show ?case using ackci_keeps by (auto simp: ipv6cp_callbacks_def callbacks_but_up_def)
next
  case 14 then show ?case using rejci_keeps by (auto simp: ipv6cp_callbacks_def callbacks_but_up_def)
next
  case 15 then show ?case using reqci_keeps by (auto simp: ipv6cp_callbacks_def callbacks_but_up_def)
next
  case (16 nc s bs b)
  then show ?case using keeps_inv [OF _ nakci_keeps] by (auto simp: ipv6cp_callbacks_def callbacks_but_up_def)
next
  case 17 then show ?case by (simp add: ipv6cp_callbacks_def callbacks_but_up_def)
next
  case (18 s)
  note o = 18
  show ?case
    by (rule up_cases [OF o]) (use o in \<open>simp_all add: ipv6cp_callbacks_def close_consistent up_done_ok\<close>)
next
  case 19 show ?case by (simp add: ipv6cp_callbacks_def callbacks_but_up_def finished_keeps)
next
  case 20 then show ?case using nakci_keeps by (auto simp: ipv6cp_callbacks_def callbacks_but_up_def)
next
  case 21 then show ?case by (simp add: ipv6cp_callbacks_def callbacks_but_up_def)
next
  case 22 then show ?case .
qed

lemma script_done_ok: "ipv6_ok env s \<Longrightarrow> ipv6_ok env (ipv6cp_script_done env s)"
  by (auto simp: ipv6cp_script_done_def Let_def fsm_inv_def timers_ok_def ipv6_inv_def split: script_state.splits)

lemma ipv6cp_do_ok: "ipv6_ok env s \<Longrightarrow> ipv6_ok env (ipv6cp_do env e s)"
  by (cases e) (simp_all add: ipv6cp.client_do_inv ipv6cp.lowerdown_inv script_done_ok del: fsm_do.simps)

lemma ipv6cp_reach_ok: "ipv6cp_reach env s t \<Longrightarrow> ipv6_ok env s \<Longrightarrow> ipv6_ok env t"
  by (induction rule: ipv6cp_reach.induct) (auto intro: ipv6cp_do_ok)

text \<open>The states in which the protocol starts: as \<open>ipv6cp_init\<close> leaves it, with any options that do not ask for header
  compression.\<close>

definition ipv6cp_starts :: "ipv6_sys \<Rightarrow> bool" where
  "ipv6cp_starts s \<longleftrightarrow> f_state (fsm s) = INITIAL \<and> timers s = 0 \<and> calls (client s) = [] \<and> \<not> ipv6cp_is_up (client s) \<and>
     ipv6cp_script_state (client s) = s_down \<and> ipv6cp_script_pid (client s) = 0 \<and> \<not> hung (client s) \<and>
     \<not> neg_vj (wantoptions (client s)) \<and> \<not> neg_vj (gotoptions (client s))"

lemma starts_ok: "ipv6cp_starts s \<Longrightarrow> ipv6_ok env s"
  by (simp add: ipv6cp_starts_def fsm_inv_def timers_ok_def ipv6_inv_def)

end
