(* ===== verification/Ppp_Ipv6cp_Runs.thy ===== *)
theory Ppp_Ipv6cp_Runs
  imports Ppp_Ipv6cp_Proofs
begin

text \<open>
  Runs of the IPv6 control protocol: what holds in every state that a run reaches, the automaton of RFC 1661 as
  its specification, the end of a run that the peer does not answer, and the run in which both sides agree.
\<close>

section \<open>Start\<close>

text \<open>The state of a process that has just started, and an environment in which everything works, for the examples.\<close>

definition boot_sys :: ipv6_sys where
  "boot_sys = \<lparr>fsm = \<lparr>unit = 0, protocol = 0, f_state = INITIAL, flags = 0, id = 0, reqid = 0, seen_ack = False, timeouttime = 0,
       maxconfreqtransmits = 0, retransmits = 0, maxtermtransmits = 0, nakloops = 0, rnakloops = 0, maxnakloops = 0, term_reason = []\<rparr>,
     timers = 0, sent = [], peer_mru = 1500,
     client = \<lparr>wantoptions = zero_options, gotoptions = zero_options, allowoptions = zero_options, hisoptions = zero_options,
       ipv6cp_is_up = False, ipv6cp_script_state = s_down, ipv6cp_script_pid = 0, draws = 0, hung = False, calls = []\<rparr>\<rparr>"

definition sample_env :: ipv6_env where
  "sample_env = \<lparr>magic = (\<lambda>n. of_nat n + 1), tries = 3, sif6up = (\<lambda>_. True), sif6addr = (\<lambda>_. True), sifnpmode = (\<lambda>_. True),
     run_program = (\<lambda>_. 7), demand = False, no_ifaceid_neg = False, ipv6_up_hook = False, ipv6_down_hook = False, past_end = 0,
     baud_rate = 115200, ifname = ''ppp0'', devnam = ''/dev/ttyS0'', ipparam = []\<rparr>"

lemma boot_starts: "ipv6cp_starts (ipv6cp_init boot_sys)"
  by (simp add: ipv6cp_starts_def ipv6cp_init_def fsm_init_def boot_sys_def cl_def upd_def zero_options_def Let_def)

lemma reach_trans: "ipv6cp_reach env s t \<Longrightarrow> ipv6cp_reach env s (fold (ipv6cp_do env) es t)"
  by (induction es arbitrary: t) (auto intro: ipv6cp_reach.step)

lemma reach_fold: "ipv6cp_reach env s (fold (ipv6cp_do env) es s)"
  by (rule reach_trans [OF ipv6cp_reach.start])

section \<open>A negotiation that succeeds\<close>

lemma callbacks_simps [simp]:
  "resetci (ipv6cp_callbacks env) = Some (ipv6cp_resetci env)" "cilen (ipv6cp_callbacks env) = Some ipv6cp_cilen"
  "addci (ipv6cp_callbacks env) = Some ipv6cp_addci" "ackci (ipv6cp_callbacks env) = Some ipv6cp_ackci"
  "nakci (ipv6cp_callbacks env) = Some (ipv6cp_nakci env)" "rejci (ipv6cp_callbacks env) = Some (ipv6cp_rejci env)"
  "reqci (ipv6cp_callbacks env) = Some (ipv6cp_reqci env)" "up (ipv6cp_callbacks env) = Some (ipv6cp_up env)"
  "down (ipv6cp_callbacks env) = Some (ipv6cp_down env)" "starting (ipv6cp_callbacks env) = None"
  "finished (ipv6cp_callbacks env) = Some ipv6cp_finished" "retransmit (ipv6cp_callbacks env) = None"
  "extcode (ipv6cp_callbacks env) = None"
  by (simp_all add: ipv6cp_callbacks_def callbacks_but_up_def)

text \<open>A configuration that asks for the identifier \<open>a\<close> and leaves the peer's open.\<close>

definition wants :: "eui64 \<Rightarrow> ipv6_sys \<Rightarrow> bool" where
  "wants a s \<longleftrightarrow> (let wo = wantoptions (client s) in neg_ifaceid wo \<and> \<not> neg_vj wo \<and> opt_local wo \<and> ourid wo = a \<and> hisid wo = eui64_zero) \<and>
     neg_ifaceid (allowoptions (client s)) \<and> peer_mru s \<ge> 14 \<and> \<not> has_flag OPT_SILENT s"

lemma length_ci_ifaceid [simp]: "length (ci_ifaceid e) = 10" by (simp add: ci_ifaceid_def)

lemma sconfreq_sends:
  assumes "f_state (fsm s) = STARTING" "wants a s" "t = fsm_sconfreq (ipv6cp_callbacks env) False s"
  shows "f_state (fsm t) = STARTING" "sent t = sent s @ [MAKEHEADER (protocol (fsm s)) @ [CONFREQ, id (fsm s) + 1, 0, 14] @ ci_ifaceid a]"
   "client t = (client s)\<lparr>wantoptions := (wantoptions (client s))\<lparr>req_ifaceid := True\<rparr>, gotoptions := (wantoptions (client s))\<lparr>req_ifaceid := True\<rparr>\<rparr>"
   "reqid (fsm t) = id (fsm s) + 1" "protocol (fsm t) = protocol (fsm s)" "peer_mru t = peer_mru s"
  using assms
  by (simp_all add: wants_def fsm_sconfreq_def Let_def ipv6cp_resetci_def next_id_def ipv6cp_cilen_def ipv6cp_addci_def ADDCI_def HEADERLEN_def fsm_sdata_def be16_def)

lemma drop_ci_ifaceid [simp]: "drop 2 (ci_ifaceid e) = eui64_put e" "ci_ifaceid e ! 0 = 1" "ci_ifaceid e ! Suc 0 = 10"
    "drop 10 (ci_ifaceid e) = []" "take 10 (ci_ifaceid e) = ci_ifaceid e"
  by (simp_all add: ci_ifaceid_def)

lemma parse_ci [simp]: "parse_header ([code, pid, 0, 14] @ ci_ifaceid e) = Some (code, pid, ci_ifaceid e)"
  by (simp add: parse_header_def HEADERLEN_def Let_def)

lemma put_at_same: "i + length src \<le> length p \<Longrightarrow> src = take (length src) (drop i p) \<Longrightarrow> put_at i src p = p"
  by (metis put_at_def append_assoc append_take_drop_id drop_drop add.commute)

lemma reqci_accepts:
  assumes "neg_ifaceid (allowoptions (client s))" "hisid (wantoptions (client s)) = eui64_zero" "b \<noteq> eui64_zero"
    "b \<noteq> ourid (gotoptions (client s))"
  shows "ipv6cp_reqci env (ci_ifaceid b) rej s =
    (CONFACK, ci_ifaceid b, s\<lparr>client := (client s)\<lparr>hisoptions := zero_options\<lparr>neg_ifaceid := True, hisid := b\<rparr>\<rparr>\<rparr>)"
  using assms
  by (simp add: ipv6cp_reqci_def Let_def reqci_loop.simps [of _ _ _ _ 10] reqci_loop.simps [of _ _ _ _ 0] reqci_option_def
      reqci_ifaceid_def reqci_merge_def reqci_keep_def reqci_ask_def put_at_same fsm_codes)

lemma confreq_acked:
  assumes "f_state (fsm s) = REQSENT" "neg_ifaceid (allowoptions (client s))" "hisid (wantoptions (client s)) = eui64_zero"
    "b \<noteq> eui64_zero" "b \<noteq> ourid (gotoptions (client s))" "peer_mru s \<ge> 14"
    "t = fsm_input (ipv6cp_callbacks env) ([CONFREQ, pid, 0, 14] @ ci_ifaceid b) s"
  shows "f_state (fsm t) = ACKSENT" "sent t = sent s @ [MAKEHEADER (protocol (fsm s)) @ [CONFACK, pid, 0, 14] @ ci_ifaceid b]"
    "client t = (client s)\<lparr>hisoptions := zero_options\<lparr>neg_ifaceid := True, hisid := b\<rparr>\<rparr>" "reqid (fsm t) = reqid (fsm s)"
    "seen_ack (fsm t) = seen_ack (fsm s)" "timers t = timers s"
  using assms
  by (simp_all add: fsm_input_def fsm_rconfreq_def rconfreq_restart_def reqci_verdict_def rconfreq_answer_def reqci_accepts
      del: append.simps) (simp_all add: fsm_sdata_def HEADERLEN_def be16_def)

lemma ackci_accepts: "neg_ifaceid (gotoptions (client s)) \<Longrightarrow> \<not> neg_vj (gotoptions (client s)) \<Longrightarrow>
    ipv6cp_ackci (ci_ifaceid (ourid (gotoptions (client s)))) s = (True, s)"
  by (simp add: ipv6cp_ackci_def ACKCI_def Let_def)

lemma up_direct_ok:
  "sif6up env (calls (client s)) \<Longrightarrow> (\<And>h. sif6addr env h) \<Longrightarrow> up_direct env s =
   (True, call (Sifnpmode NPMODE_PASS) (call (Sif6addr (ourid (gotoptions (client s))) (hisid (hisoptions (client s)))) (call Sif6up s)))"
  by (simp add: up_direct_def)

lemma up_done_sel: "fsm (up_done env s) = fsm s" "ipv6cp_is_up (client (up_done env s))" "sent (up_done env s) = sent s"
  "set (calls (client s)) \<subseteq> set (calls (client (up_done env s)))"
  by (auto simp add: up_done_def Let_def set_script_def ipv6cp_script_def)

lemma up_succeeds:
  assumes "a = ourid (gotoptions (client s))" "b = hisid (hisoptions (client s))" "neg_ifaceid (hisoptions (client s))" "a \<noteq> eui64_zero" "b \<noteq> eui64_zero" "a \<noteq> b"
    "\<not> demand env" "\<And>h. sif6up env h" "\<And>h. sif6addr env h"
  shows "fsm (ipv6cp_up env s) = fsm s" "ipv6cp_is_up (client (ipv6cp_up env s))"
    "Sif6addr a b \<in> set (calls (client (ipv6cp_up env s)))" "sent (ipv6cp_up env s) = sent s"
proof -
  have h: "cl his_default s = s" using assms(3) by (simp add: cl_def his_default_def)
  define t where "t = call (Script_setenv ''LLREMOTE'' (llv6_ntoa b)) (call (Script_setenv ''LLLOCAL'' (llv6_ntoa a)) s)"
  have "ipv6cp_up env s = up_done env (snd (up_direct env t))"
    using assms by (simp add: ipv6cp_up_def h up_refused_def up_direct_ok t_def Let_def)
  then show "fsm (ipv6cp_up env s) = fsm s" "ipv6cp_is_up (client (ipv6cp_up env s))"
    "Sif6addr a b \<in> set (calls (client (ipv6cp_up env s)))" "sent (ipv6cp_up env s) = sent s"
    using up_done_sel(4) [of "snd (up_direct env t)" env] assms(1,2,8,9) by (auto simp: up_done_sel(1-3) up_direct_ok t_def)
qed
lemma confack_opens:
  assumes "f_state (fsm s) = ACKSENT" "neg_ifaceid (gotoptions (client s))" "\<not> neg_vj (gotoptions (client s))" "\<not> seen_ack (fsm s)"
    "a = ourid (gotoptions (client s))" "b = hisid (hisoptions (client s))" "neg_ifaceid (hisoptions (client s))" "a \<noteq> eui64_zero" "b \<noteq> eui64_zero" "a \<noteq> b"
    "\<not> demand env" "\<And>h. sif6up env h" "\<And>h. sif6addr env h"
    "t = fsm_input (ipv6cp_callbacks env) ([CONFACK, reqid (fsm s), 0, 14] @ ci_ifaceid a) s"
  shows "f_state (fsm t) = OPENED" "ipv6cp_is_up (client t)" "Sif6addr a b \<in> set (calls (client t))" "sent t = sent s"
proof -
  define u where "u = upd (\<lambda>f. f\<lparr>retransmits := maxconfreqtransmits f\<rparr>)
     (goto OPENED (UNTIMEOUT (upd (\<lambda>f. f\<lparr>seen_ack := True, rnakloops := 0\<rparr>) s)))"
  have "t = ipv6cp_up env u"
    using assms(1-5,14) ackci_accepts [of s]
    by (simp add: fsm_input_def fsm_rconfack_def u_def fsm_codes del: append.simps)
  moreover have "fsm u = (fsm s)\<lparr>seen_ack := True, rnakloops := 0, f_state := OPENED, retransmits := maxconfreqtransmits (fsm s)\<rparr>"
    "client u = client s" "sent u = sent s"
    by (simp_all add: u_def)
  ultimately show "f_state (fsm t) = OPENED" "ipv6cp_is_up (client t)" "Sif6addr a b \<in> set (calls (client t))" "sent t = sent s"
    using up_succeeds [of a u b env] assms(5-13) by simp_all
qed

text \<open>What happens in a negotiation that meets no obstacle: the lower layer comes up, the peer asks for \<open>b\<close> and
  acknowledges \<open>a\<close>.\<close>

definition good_events :: "eui64 \<Rightarrow> eui64 \<Rightarrow> u8 \<Rightarrow> u8 \<Rightarrow> ipv6cp_event list" where
  "good_events a b pid rid =
     [Do Lowerup, Do (Input ([CONFREQ, pid, 0, 14] @ ci_ifaceid b)), Do (Input ([CONFACK, rid, 0, 14] @ ci_ifaceid a))]"

definition configures :: "ipv6_env \<Rightarrow> bool" where
  "configures env \<longleftrightarrow> \<not> demand env \<and> (\<forall>h. sif6up env h) \<and> (\<forall>h. sif6addr env h)"

lemma good_run_opens:
  assumes "f_state (fsm s) = STARTING" "wants a s" "configures env" "a \<noteq> eui64_zero" "b \<noteq> eui64_zero" "a \<noteq> b"
    and t: "t = fold (ipv6cp_do env) (good_events a b pid (id (fsm s) + 1)) s"
  shows "f_state (fsm t) = OPENED" "ipv6cp_is_up (client t)" "Sif6addr a b \<in> set (calls (client t))"
    "sent t = sent s @ [MAKEHEADER (protocol (fsm s)) @ [CONFREQ, id (fsm s) + 1, 0, 14] @ ci_ifaceid a,
       MAKEHEADER (protocol (fsm s)) @ [CONFACK, pid, 0, 14] @ ci_ifaceid b]"
proof -
  let ?cb = "ipv6cp_callbacks env"
  define u where "u = fsm_sconfreq ?cb False s"
  note u = sconfreq_sends [OF assms(1,2) u_def]
  have w: "neg_ifaceid (wantoptions (client s))" "\<not> neg_vj (wantoptions (client s))" "ourid (wantoptions (client s)) = a"
    "hisid (wantoptions (client s)) = eui64_zero" "neg_ifaceid (allowoptions (client s))" "peer_mru s \<ge> 14" "\<not> has_flag OPT_SILENT s"
    using assms(2) by (simp_all add: wants_def Let_def)
  define v where "v = goto REQSENT u"
  have v: "fsm_lowerup ?cb s = v"
    using assms(1) w(7) by (simp add: fsm_lowerup_def v_def u_def)
  define x where "x = fsm_input ?cb ([CONFREQ, pid, 0, 14] @ ci_ifaceid b) v"
  note x = confreq_acked [OF _ _ _ _ _ _ x_def]
  have st: "f_state (fsm x) = ACKSENT" "sent x = sent v @ [MAKEHEADER (protocol (fsm v)) @ [CONFACK, pid, 0, 14] @ ci_ifaceid b]"
    "client x = (client v)\<lparr>hisoptions := zero_options\<lparr>neg_ifaceid := True, hisid := b\<rparr>\<rparr>" "reqid (fsm x) = reqid (fsm v)" "seen_ack (fsm x) = seen_ack (fsm v)"
    using x w assms(5,6) u by (simp_all add: v_def)
  have t: "t = fsm_input ?cb ([CONFACK, reqid (fsm x), 0, 14] @ ci_ifaceid a) x"
    using st(4) u(4) by (simp add: t good_events_def v) (simp add: x_def v_def)
  have cx: "neg_ifaceid (gotoptions (client x))" "\<not> neg_vj (gotoptions (client x))" "a = ourid (gotoptions (client x))"
    "b = hisid (hisoptions (client x))" "neg_ifaceid (hisoptions (client x))"
    unfolding st(3) v_def goto_sel u(3) using w by simp_all
  have ns: "\<not> seen_ack (fsm x)"
    unfolding st(5) v_def goto_sel u_def by simp
  have "sent x = sent s @ [MAKEHEADER (protocol (fsm s)) @ [CONFREQ, id (fsm s) + 1, 0, 14] @ ci_ifaceid a,
       MAKEHEADER (protocol (fsm s)) @ [CONFACK, pid, 0, 14] @ ci_ifaceid b]"
    unfolding st(2) v_def goto_sel u(2) using u(5) by simp
  then show "f_state (fsm t) = OPENED" "ipv6cp_is_up (client t)" "Sif6addr a b \<in> set (calls (client t))"
    "sent t = sent s @ [MAKEHEADER (protocol (fsm s)) @ [CONFREQ, id (fsm s) + 1, 0, 14] @ ci_ifaceid a,
       MAKEHEADER (protocol (fsm s)) @ [CONFACK, pid, 0, 14] @ ci_ifaceid b]"
    using confack_opens [OF st(1) cx(1,2) ns cx(3-5) assms(4-6) _ _ _ t] assms(3) by (simp_all only: configures_def) blast+
qed


section \<open>Runs of the protocol\<close>

text \<open>C14: In every state that a run of IPV6CP reaches, whatever the peer, the lower layer and the scripts do, exactly one
  timeout is pending if the automaton waits for the peer and none otherwise; the layer is up exactly when the automaton
  is open; and when no script is running, the last script that ran is the one that belongs to the state of the layer.\<close>

theorem ipv6cp_consistent:
  assumes "ipv6cp_starts s" "ipv6cp_reach env s t"
  shows "timers t = (if f_state (fsm t) \<in> {CLOSING, STOPPING, REQSENT, ACKRCVD, ACKSENT} then 1 else 0) \<and>
    (ipv6cp_is_up (client t) \<longleftrightarrow> f_state (fsm t) = OPENED) \<and>
    (ipv6cp_script_pid (client t) = 0 \<longrightarrow> (ipv6cp_script_state (client t) = s_up \<longleftrightarrow> f_state (fsm t) = OPENED))"
  using ipv6cp_reach_ok [OF assms(2) starts_ok [OF assms(1)]]
  by (auto simp: fsm_inv_def timers_ok_def waiting_def ipv6_inv_def)

lemma demand_direct_fsm: "fsm (snd (up_demand env s)) = fsm s" "fsm (snd (up_direct env s)) = fsm s"
  by (auto simp: up_demand_def up_direct_def ipv6cp_clear_addrs_def Let_def)

lemma up_state:
  assumes "plain s" "f_state (fsm s) = OPENED"
  shows "f_state (fsm (opt_call (up (ipv6cp_callbacks env)) s)) \<in> {OPENED, CLOSING}"
proof -
  have c: "f_state (fsm (ipv6cp_close env r t)) = CLOSING" if "fsm t = fsm s" for r t
    using that assms by (simp add: close_state plain_def)
  have d: "f_state (fsm (up_done env t)) = OPENED" if "fsm t = fsm s" for t
    using that assms by (simp add: up_done_sel)
  show ?thesis
    using demand_direct_fsm [of env]
    by (auto simp: ipv6cp_up_def Let_def split_beta c d split: option.split)
qed


lemma steps_timer:
  "steps (timer_step cb) (replicate n ()) s = None \<Longrightarrow> \<exists>k<n. timers ((timer_fires cb ^^ k) s) = 0"
proof (induction n arbitrary: s)
  case (Suc n)
  show ?case
  proof (cases "timers s = 0")
    case False
    then have "steps (timer_step cb) (replicate n ()) (timer_fires cb s) = None"
      using Suc.prems by (simp add: timer_step_def [of cb _ s])
    then obtain k where "k < n" "timers ((timer_fires cb ^^ k) (timer_fires cb s)) = 0"
      using Suc.IH by blast
    then show ?thesis
      by (intro exI [of _ "Suc k"]) (simp add: funpow_swap1)
  qed (auto intro: exI [of _ 0])
qed simp

lemma timer_stays:
  "f_state (fsm s) \<in> {CLOSING, STOPPING, REQSENT, ACKRCVD, ACKSENT, CLOSED, STOPPED} \<Longrightarrow>
   f_state (fsm ((timer_fires (ipv6cp_callbacks env) ^^ k) s)) \<in> {CLOSING, STOPPING, REQSENT, ACKRCVD, ACKSENT, CLOSED, STOPPED}"
proof (induction k)
  case (Suc k)
  then show ?case
    using ipv6cp.timer_state [of env "(timer_fires (ipv6cp_callbacks env) ^^ k) s"]
    by (auto simp: rfc_next_def split: if_splits)
qed simp

lemma timer_ok: "ipv6_ok env s \<Longrightarrow> ipv6_ok env ((timer_fires (ipv6cp_callbacks env) ^^ k) s)"
  by (induction k) (simp_all add: ipv6cp.timer_inv)

text \<open>A peer that falls silent does not keep the protocol busy: from every reachable state in which IPV6CP waits for
  the peer, at most one timeout more than the retransmissions that are left takes it to one of the two states at rest.\<close>

theorem ipv6cp_gives_up:
  assumes "ipv6cp_starts s" "ipv6cp_reach env s t" "f_state (fsm t) \<in> {CLOSING, STOPPING, REQSENT, ACKRCVD, ACKSENT}"
  shows "\<exists>k \<le> nat (retransmits (fsm t)) + 1. f_state (fsm ((timer_fires (ipv6cp_callbacks env) ^^ k) t)) \<in> {CLOSED, STOPPED}"
proof -
  let ?cb = "ipv6cp_callbacks env"
  have ok: "ipv6_ok env t"
    using ipv6cp_reach_ok [OF assms(2) starts_ok [OF assms(1)]] .
  have b: "timer_budget t = nat (retransmits (fsm t)) + 1"
    using assms(3) by (auto simp: timer_budget_def)
  have "steps (timer_step ?cb) (replicate (Suc (timer_budget t)) ()) t = None"
    by (rule ipv6cp.quiet_peer.stops_after_budget [OF ok]) simp
  then obtain k where k: "k < Suc (timer_budget t)" "timers ((timer_fires ?cb ^^ k) t) = 0"
    using steps_timer by blast
  have "f_state (fsm ((timer_fires ?cb ^^ k) t)) \<in> {CLOSED, STOPPED}"
    using k(2) timer_stays [where s = t and env = env and k = k] timer_ok [OF ok, of k] assms(3) by (auto simp: fsm_inv_def timers_ok_def)
  then show ?thesis
    using k(1) b by (intro exI [of _ k]) auto
qed


text \<open>The loops that draw random identifiers until one is acceptable end in every run, if within \<open>tries\<close> draws from
  any point of the random sequence there is an identifier that is neither zero nor a given one.\<close>

theorem ipv6cp_draws_end:
  assumes "ipv6cp_starts s" "ipv6cp_reach env s t"
    "\<forall>n x. \<exists>k<tries env. \<not> eui64_iszero (eui64_magic (magic env) (n + 2 * k)) \<and> \<not> eui64_equals (eui64_magic (magic env) (n + 2 * k)) x"
  shows "\<not> hung (client t)"
  using ipv6cp_reach_ok [OF assms(2) starts_ok [OF assms(1)]] assms(3)
  by (simp add: fsm_inv_def ipv6_inv_def lively_def)

text \<open>C29: A negotiation in which nothing goes wrong brings IPv6 up: when the lower layer comes up and the peer requests
  an identifier of its own and acknowledges ours, the program sends our request and acknowledges the peer's, the
  automaton is open, the layer is up, and the interface has been given the two identifiers.\<close>

theorem ipv6cp_negotiates:
  assumes "f_state (fsm s) = STARTING" "wants a s" "configures env" "a \<noteq> eui64_zero" "b \<noteq> eui64_zero" "a \<noteq> b"
  shows "let t = fold (ipv6cp_do env) (good_events a b pid (id (fsm s) + 1)) s in
    f_state (fsm t) = OPENED \<and> ipv6cp_is_up (client t) \<and> Sif6addr a b \<in> set (calls (client t)) \<and>
    sent t = sent s @ [MAKEHEADER (protocol (fsm s)) @ [CONFREQ, id (fsm s) + 1, 0, 14] @ ci_ifaceid a,
       MAKEHEADER (protocol (fsm s)) @ [CONFACK, pid, 0, 14] @ ci_ifaceid b]"
  unfolding Let_def using good_run_opens [OF assms refl] by blast

section \<open>Examples\<close>

definition id_of :: "u32 \<Rightarrow> eui64" where
  "id_of w = \<lparr>e32_0 = 0, e32_1 = w\<rparr>"

definition sample_start :: ipv6_sys where
  "sample_start = cl (\<lambda>c. c\<lparr>wantoptions := (wantoptions c)\<lparr>opt_local := True, ourid := id_of 1\<rparr>\<rparr>) (ipv6cp_init boot_sys)"

definition sample_open :: ipv6_sys where
  "sample_open = ipv6cp_do sample_env (Do Open) sample_start"

lemma sample_starts: "ipv6cp_starts sample_start"
  using boot_starts by (simp add: sample_start_def ipv6cp_starts_def)

lemma sample_open_eq: "sample_open = goto STARTING sample_start"
  using sample_starts by (simp add: sample_open_def fsm_open_def ipv6cp_starts_def)

lemma sample_fields: "id (fsm sample_start) = 0" "maxconfreqtransmits (fsm sample_start) = 10" "flags (fsm sample_start) = 0"
    "maxtermtransmits (fsm sample_start) = 2"
    "peer_mru sample_start = 1500" "wantoptions (client sample_start) = zero_options\<lparr>accept_local := True, neg_ifaceid := True, opt_local := True, ourid := id_of 1\<rparr>"
    "allowoptions (client sample_start) = zero_options\<lparr>neg_ifaceid := True\<rparr>" "sent sample_start = []" "protocol (fsm sample_start) = PPP_IPV6CP"
  by (simp_all add: sample_start_def ipv6cp_init_def fsm_init_def boot_sys_def cl_def upd_def Let_def DEFMAXCONFREQS_def DEFMAXTERMREQS_def)

lemma sample_wants: "f_state (fsm sample_open) = STARTING" "wants (id_of 1) sample_open"
  by (simp_all add: sample_open_eq wants_def sample_fields has_flag_def zero_options_def Let_def)

lemma sample_configures: "configures sample_env"
  by (simp add: configures_def sample_env_def)

definition sample_run :: ipv6_sys where
  "sample_run = fold (ipv6cp_do sample_env) (good_events (id_of 1) (id_of 2) 5 1) sample_open"

lemma sample_ids: "id_of 1 \<noteq> eui64_zero" "id_of 2 \<noteq> eui64_zero" "id_of 1 \<noteq> id_of 2"
  by (simp_all add: id_of_def eui64_zero_def)

lemma sample_run_opens:
  "f_state (fsm sample_run) = OPENED" "Sif6addr (id_of 1) (id_of 2) \<in> set (calls (client sample_run))"
  using good_run_opens [OF sample_wants sample_configures sample_ids refl, of 5]
  by (simp_all add: sample_run_def sample_open_eq sample_fields)

lemma sample_reach: "ipv6cp_reach sample_env sample_start sample_run" "ipv6cp_reach sample_env sample_start sample_open"
  using reach_fold [of sample_env sample_start "Do Open # good_events (id_of 1) (id_of 2) 5 1"]
    reach_fold [of sample_env sample_start "[Do Open]"]
  by (simp_all add: sample_run_def sample_open_def del: ipv6cp_do.simps)

lemma sample_waits:
  "f_state (fsm (ipv6cp_do sample_env (Do Lowerup) sample_open)) = REQSENT"
  "retransmits (fsm (ipv6cp_do sample_env (Do Lowerup) sample_open)) = 9"
  by (simp_all add: fsm_lowerup_def sample_open_eq has_flag_def sample_fields)

theorem ipv6cp_consistent_witness:
  "f_state (fsm sample_run) = OPENED \<and> timers sample_run = 0 \<and> ipv6cp_is_up (client sample_run)"
  using ipv6cp_consistent [OF sample_starts sample_reach(1)] sample_run_opens(1) by simp


theorem ipv6cp_gives_up_witness:
  "\<exists>k \<le> 10. f_state (fsm ((timer_fires (ipv6cp_callbacks sample_env) ^^ k) (ipv6cp_do sample_env (Do Lowerup) sample_open))) \<in> {CLOSED, STOPPED}"
  using ipv6cp_gives_up [OF sample_starts ipv6cp_reach.step [OF sample_reach(2), of "Do Lowerup"]] sample_waits by simp


lemma three_avoid_two: "p \<noteq> q \<Longrightarrow> q \<noteq> r \<Longrightarrow> p \<noteq> r \<Longrightarrow> p \<noteq> y \<and> p \<noteq> z \<or> q \<noteq> y \<and> q \<noteq> z \<or> r \<noteq> y \<and> r \<noteq> z"
  by auto

lemma even_pair: "eui64_magic (\<lambda>n. of_nat n + 1) m = \<lparr>e32_0 = (of_nat m + 1) AND NOT 2, e32_1 = of_nat m + 2\<rparr>"
  by (simp add: eui64_magic_def)

lemma sample_lively: "\<exists>k<tries sample_env. eui64_magic (magic sample_env) (n + 2 * k) \<noteq> eui64_zero \<and> eui64_magic (magic sample_env) (n + 2 * k) \<noteq> x"
proof -
  define w where "w = (of_nat n :: u32)"
  have e: "e32_1 (eui64_magic (magic sample_env) (n + 2 * k)) = w + 2 * of_nat k + 2" for k
    by (simp add: sample_env_def even_pair w_def)
  have d: "w + 2 \<noteq> w + 4" "w + 4 \<noteq> w + 6" "w + 2 \<noteq> w + 6"
    by (simp_all only: add_left_cancel) simp_all
  have "\<exists>k\<in>{0, 1, 2}. w + 2 * of_nat k + 2 \<noteq> 0 \<and> w + 2 * of_nat k + 2 \<noteq> e32_1 x"
    using three_avoid_two [OF d, of 0 "e32_1 x"] by (simp add: add.assoc)
  then obtain k where "k \<in> {0, 1, 2::nat}" "w + 2 * of_nat k + 2 \<noteq> 0" "w + 2 * of_nat k + 2 \<noteq> e32_1 x" by blast
  then show ?thesis
    using e [of k] by (intro exI [of _ k]) (auto simp: sample_env_def eui64_zero_def)
qed

theorem ipv6cp_draws_end_witness: "\<not> hung (client sample_run)"
  using ipv6cp_draws_end [OF sample_starts sample_reach(1)] sample_lively by simp

theorem ipv6cp_negotiates_witness: "f_state (fsm sample_run) = OPENED \<and> ipv6cp_is_up (client sample_run) \<and> length (sent sample_run) = 2"
  using ipv6cp_negotiates [OF sample_wants sample_configures sample_ids, of 5]
  by (simp add: Let_def sample_run_def sample_open_eq sample_fields)

end
