(* ===== verification/Ppp_Ipv6cp_Options.thy ===== *)
theory Ppp_Ipv6cp_Options
  imports Ppp_Ipv6cp_Runs
begin

text \<open>
  The option callbacks of the IPv6 control protocol: our request and its acknowledgement, and the answer to the
  peer's request, which the code builds in place, against a specification that gives each option a verdict.
  Then the configuration of the identifiers and the text of packets.
\<close>

section \<open>Our request\<close>

lemma get_be16_be16 [simp]: "n < 65536 \<Longrightarrow> get_be16 (be16 n @ r) = n" "n < 65536 \<Longrightarrow> get_be16 (be16 n) = n"
  by (simp_all add: get_be16_def be16_def unat_of_nat take_bit_eq_mod)

lemma word_256_u8: "a * (256 :: u8) = 0"
proof -
  have "(256 :: u8) = 0" by code_simp
  then show ?thesis by (simp only: mult_zero_right)
qed

lemma be16_get_be16: "be16 (get_be16 (a # b # r)) = [a, b]"
proof -
  have "unat a * 256 + unat b = 256 * unat a + unat b" "unat b < 256" by simp_all
  then have "(unat a * 256 + unat b) div 256 = unat a" "(unat a * 256 + unat b) mod 256 = unat b"
    by simp_all
  moreover have "(of_nat (unat a * 256 + unat b) :: u8) = b"
    using word_256_u8 by simp
  ultimately show ?thesis by (simp add: get_be16_def be16_def)
qed

lemma ACKCI_ifaceid:
  "ACKCI True 10 1 (\<lambda>q. eui64_equals e (eui64_get q)) p = Some r \<longleftrightarrow> p = ci_ifaceid e @ r"
proof
  assume a: "ACKCI True 10 1 (\<lambda>q. eui64_equals e (eui64_get q)) p = Some r"
  then have h: "length p \<ge> 10" "p ! 0 = 1" "p ! 1 = 10" "e = eui64_get (drop 2 p)" "r = drop 10 p"
    by (auto simp: ACKCI_def split: if_splits)
  obtain x y q where p: "p = x # y # q" using h(1) by (cases p; cases "tl p") auto
  have g: "eui64_get q = eui64_get (take 8 q)"
    using h(1) by (simp add: p eui64_get_def get32_def numeral_eq_Suc split: list.split)
  have "eui64_put e = take 8 q"
    using h eui64_put_get [of "take 8 q"] by (simp add: p g)
  then show "p = ci_ifaceid e @ r"
    using h by (simp add: p ci_ifaceid_def)
next
  assume "p = ci_ifaceid e @ r"
  then show "ACKCI True 10 1 (\<lambda>q. eui64_equals e (eui64_get q)) p = Some r"
    by (simp add: ACKCI_def ci_ifaceid_def)
qed

lemma ci_vj_parts [simp]: "length (ci_vj v) = 4" "(ci_vj v @ r) ! 0 = 2" "(ci_vj v @ r) ! Suc 0 = 4" "drop 2 (ci_vj v) = be16 (unat v)"
  by (simp_all add: ci_vj_def be16_def)

lemma ACKCI_vj:
  "ACKCI True 4 2 (\<lambda>q. get_be16 q = unat v) p = Some r \<longleftrightarrow> p = ci_vj v @ r"
proof
  assume a: "ACKCI True 4 2 (\<lambda>q. get_be16 q = unat v) p = Some r"
  then have h: "length p \<ge> 4" "p ! 0 = 2" "p ! 1 = 4" "get_be16 (drop 2 p) = unat v" "r = drop 4 p"
    by (auto simp: ACKCI_def split: if_splits)
  obtain x y a b q where p: "p = x # y # a # b # q" using h(1)
    by (auto simp: numeral_eq_Suc Suc_le_length_iff)
  show "p = ci_vj v @ r"
    using h be16_get_be16 [of a b q] by (simp add: p ci_vj_def)
next
  assume "p = ci_vj v @ r"
  then show "ACKCI True 4 2 (\<lambda>q. get_be16 q = unat v) p = Some r"
    by (simp add: ACKCI_def)
qed

text \<open>C31: The acknowledgement check accepts exactly the request that was sent: after \<open>ipv6cp_addci\<close> has written the options
  into a packet with room for \<open>n\<close> bytes, \<open>ipv6cp_ackci\<close> accepts a list of options if and only if it is the one written.\<close>

theorem ipv6cp_request_acknowledged:
  "fst (ipv6cp_ackci p (snd (ipv6cp_addci n s))) \<longleftrightarrow> p = fst (ipv6cp_addci n s)"
proof -
  have off: "ACKCI False k t f q = Some q" for k t f q by (simp add: ACKCI_def)
  let ?go = "gotoptions (client (snd (ipv6cp_addci n s)))"
  have id: "ourid ?go = ourid (gotoptions (client s))" "vj_protocol ?go = vj_protocol (gotoptions (client s))"
    by (simp_all add: ipv6cp_addci_def Let_def split_beta)
  have bs: "fst (ipv6cp_addci n s) = (if neg_ifaceid ?go then ci_ifaceid (ourid ?go) else []) @ (if neg_vj ?go then ci_vj (vj_protocol ?go) else [])"
    by (simp add: ipv6cp_addci_def ADDCI_def Let_def)
  define w where "w = ACKCI (neg_ifaceid ?go) 10 1 (\<lambda>q. eui64_equals (ourid ?go) (eui64_get q)) p"
  have w: "w = Some r \<longleftrightarrow> p = (if neg_ifaceid ?go then ci_ifaceid (ourid ?go) else []) @ r" for r
    using ACKCI_ifaceid [of "ourid ?go" p r] by (auto simp: w_def off)
  have v: "ACKCI (neg_vj ?go) 4 2 (\<lambda>q. get_be16 q = unat (vj_protocol ?go)) q = Some r \<longleftrightarrow> q = (if neg_vj ?go then ci_vj (vj_protocol ?go) else []) @ r" for q r
    using ACKCI_vj [of "vj_protocol ?go" q r] by (auto simp: off)
  have "fst (ipv6cp_ackci p (snd (ipv6cp_addci n s))) \<longleftrightarrow>
    (\<exists>q. w = Some q \<and> ACKCI (neg_vj ?go) 4 2 (\<lambda>q. get_be16 q = unat (vj_protocol ?go)) q = Some [])"
    by (auto simp: ipv6cp_ackci_def Let_def w_def split: option.split)
  then show ?thesis by (simp add: w v bs)
qed

section \<open>The answer to the peer's request\<close>

text \<open>The specification: each option gets a verdict, in order; the answer has the worst verdict, and consists of the
  options that got it. With \<open>rej\<close>, what would be a Nak is a Reject.\<close>

function verdicts :: "ipv6_env \<Rightarrow> ipv6cp_options \<Rightarrow> ipv6cp_options \<Rightarrow> bool \<Rightarrow> bytes \<Rightarrow> ipv6cp_options \<times> ipv6cp_options \<times> ipv6cp
    \<Rightarrow> (u8 \<times> bytes) list \<times> ipv6cp_options \<times> ipv6cp_options \<times> ipv6cp" where
  "verdicts env wo ao rej p st =
     (if p = [] then ([], st)
      else if length p < 2 \<or> unat (p ! 1) < 2 \<or> unat (p ! 1) > length p then ([(CONFREJ, p)], st)
      else let (orc, ci, st) = reqci_option env wo ao (take (unat (p ! 1)) p) st;
               (vs, st) = verdicts env wo ao rej (drop (unat (p ! 1)) p) st
           in ((if orc = CONFNAK \<and> rej then CONFREJ else orc, ci) # vs, st))"
  by pat_completeness auto
termination by (relation "measure (\<lambda>(env, wo, ao, rej, p, _). length p)") auto

declare verdicts.simps [simp del]

definition worst :: "(u8 \<times> bytes) list \<Rightarrow> u8" where
  "worst vs = (if CONFREJ \<in> fst ` set vs then CONFREJ else if CONFNAK \<in> fst ` set vs then CONFNAK else CONFACK)"

definition answer :: "(u8 \<times> bytes) list \<Rightarrow> bytes" where
  "answer vs = concat (map snd (filter (\<lambda>v. fst v = worst vs) vs))"

lemma worst_snoc:
  "worst (vs @ [(CONFREJ, ci)]) = CONFREJ" "worst (vs @ [(CONFNAK, ci)]) = (if worst vs = CONFREJ then CONFREJ else CONFNAK)"
  "worst (vs @ [(CONFACK, ci)]) = worst vs"
  by (auto simp: worst_def fsm_codes)

lemma answer_snoc:
  assumes "orc \<in> {CONFACK, CONFNAK, CONFREJ}"
  shows "answer (vs @ [(orc, ci)]) =
    (if orc \<noteq> worst (vs @ [(orc, ci)]) then answer vs
     else if worst vs = worst (vs @ [(orc, ci)]) then answer vs @ ci else ci)"
  using assms by (auto simp: answer_def worst_def fsm_codes image_iff)

lemma reqci_keep_spec:
  assumes "ucp v \<le> cip" "cip + clen \<le> length (packet v)" "w = reqci_keep cip clen v"
  shows "take (ucp w) (packet w) = take (ucp v) (packet v) @ take clen (drop cip (packet v))" "ucp w = ucp v + clen"
    "drop (cip + clen) (packet w) = drop (cip + clen) (packet v)" "length (packet w) = length (packet v)" "rc w = rc v"
  using assms by (auto simp: reqci_keep_def Let_def put_at_def take_add)

lemma reqci_merge_cases:
  assumes o: "orc \<in> {CONFACK, CONFNAK, CONFREJ}" and r: "rc v \<in> {CONFACK, CONFNAK, CONFREJ}"
  shows "reqci_merge rej orc cip clen v =
     (let orc = (if orc = CONFNAK \<and> rej then CONFREJ else orc) in
      if orc = CONFACK \<and> rc v \<noteq> CONFACK \<or> orc = CONFNAK \<and> rc v = CONFREJ then v
      else reqci_keep cip clen (if orc = rc v then v else v\<lparr>rc := orc, ucp := 0\<rparr>))"
proof -
  consider "orc = CONFACK" | "orc = CONFNAK" | "orc = CONFREJ" using o by blast
  then show ?thesis
  proof cases
    case 1 then show ?thesis using r by (elim insertE) (simp_all add: reqci_merge_def fsm_codes)
  next
    case 2 then show ?thesis using r by (cases rej; elim insertE) (simp_all add: reqci_merge_def fsm_codes)
  next
    case 3 then show ?thesis using r by (elim insertE) (simp_all add: reqci_merge_def fsm_codes)
  qed
qed

lemma codes_distinct: "CONFACK \<noteq> CONFNAK" "CONFACK \<noteq> CONFREJ" "CONFNAK \<noteq> CONFREJ" "CONFNAK \<noteq> CONFACK" "CONFREJ \<noteq> CONFACK"
    "CONFREJ \<noteq> CONFNAK"
  by (simp_all add: fsm_codes)

lemma worst_code: "worst vs \<in> {CONFACK, CONFNAK, CONFREJ}"
  by (simp add: worst_def)

lemma reqci_merge_spec:
  assumes "rc v = worst vs" "take (ucp v) (packet v) = answer vs" "ucp v \<le> cip" "cip + clen \<le> length (packet v)"
    "orc \<in> {CONFACK, CONFNAK, CONFREJ}"
    and w: "w = reqci_merge rej orc cip clen v"
    and ws: "ws = vs @ [(if orc = CONFNAK \<and> rej then CONFREJ else orc, take clen (drop cip (packet v)))]"
  shows "rc w = worst ws" "take (ucp w) (packet w) = answer ws" "ucp w \<le> cip + clen"
    "drop (cip + clen) (packet w) = drop (cip + clen) (packet v)" "length (packet w) = length (packet v)"
proof -
  define o' where "o' = (if orc = CONFNAK \<and> rej then CONFREJ else orc)"
  define u where "u = (if o' = rc v then v else v\<lparr>rc := o', ucp := 0\<rparr>)"
  have o': "o' \<in> {CONFACK, CONFNAK, CONFREJ}" using assms(5) by (auto simp: o'_def)
  have we: "w = (if o' = CONFACK \<and> rc v \<noteq> CONFACK \<or> o' = CONFNAK \<and> rc v = CONFREJ then v else reqci_keep cip clen u)"
    unfolding w reqci_merge_cases [OF assms(5) worst_code [of vs, folded assms(1)]] Let_def o'_def u_def by (rule refl)
  have k: "ucp u \<le> cip" "packet u = packet v" using assms(3) by (simp_all add: u_def)
  note kk = reqci_keep_spec [of u cip clen "reqci_keep cip clen u", OF k(1) _ refl]
  have ws': "ws = vs @ [(o', take clen (drop cip (packet v)))]" by (simp add: ws o'_def)
  have wst: "worst ws = (if o' = CONFACK \<and> rc v \<noteq> CONFACK \<or> o' = CONFNAK \<and> rc v = CONFREJ then rc v else o')"
    using o' by (elim insertE) (simp_all add: ws' assms(1) worst_snoc codes_distinct)
  have ans: "answer ws = (if o' = CONFACK \<and> rc v \<noteq> CONFACK \<or> o' = CONFNAK \<and> rc v = CONFREJ then answer vs
      else (if o' = rc v then answer vs else []) @ take clen (drop cip (packet v)))"
  proof (cases "o' = CONFACK \<and> rc v \<noteq> CONFACK \<or> o' = CONFNAK \<and> rc v = CONFREJ")
    case True
    then have "worst ws \<noteq> o'" using wst codes_distinct by auto
    with True answer_snoc [OF o', of vs] show ?thesis by (simp add: ws')
  next
    case False
    then have "worst ws = o'" using wst by (simp only: if_False)
    then have "answer ws = (if o' = rc v then answer vs else []) @ take clen (drop cip (packet v))"
      using answer_snoc [OF o', of vs "take clen (drop cip (packet v))"] by (auto simp: ws' assms(1))
    with False show ?thesis by (simp only: if_False)
  qed
  have "rc w = worst ws \<and> take (ucp w) (packet w) = answer ws \<and> ucp w \<le> cip + clen \<and>
      drop (cip + clen) (packet w) = drop (cip + clen) (packet v) \<and> length (packet w) = length (packet v)"
  proof (cases "o' = CONFACK \<and> rc v \<noteq> CONFACK \<or> o' = CONFNAK \<and> rc v = CONFREJ")
    case True
    then have "w = v" "worst ws = rc v" "answer ws = answer vs" using we wst ans by simp_all
    then show ?thesis
      using assms(2,3) by simp
  next
    case False
    then have w: "w = reqci_keep cip clen u" and r: "worst ws = o'"
      and an: "answer ws = (if o' = rc v then answer vs else []) @ take clen (drop cip (packet v))"
      using we wst ans by (simp_all only: if_False)
    have u: "rc u = o'" "take (ucp u) (packet u) = (if o' = rc v then answer vs else [])"
      using assms(2) by (simp_all add: u_def)
    show ?thesis
      unfolding w r an using kk k assms(4) u by simp
  qed
  then show "rc w = worst ws" "take (ucp w) (packet w) = answer ws" "ucp w \<le> cip + clen"
    "drop (cip + clen) (packet w) = drop (cip + clen) (packet v)" "length (packet w) = length (packet v)"
    by blast+
qed

lemma reqci_option_shape:
  assumes "reqci_option env wo ao ci st = (orc, ci', st')"
  shows "length ci' = length ci" "orc \<in> {CONFACK, CONFNAK, CONFREJ}"
proof -
  obtain h g c where st: "st = (h, g, c)" by (metis prod_cases3)
  show "length ci' = length ci" "orc \<in> {CONFACK, CONFNAK, CONFREJ}"
    using assms by (auto simp: st reqci_option_def reqci_ifaceid_def Let_def split_beta split: if_splits)
qed

lemma put_at_sel:
  assumes "i + length src \<le> length p"
  shows "length (put_at i src p) = length p" "take (length src) (drop i (put_at i src p)) = src"
    "drop (i + length src) (put_at i src p) = drop (i + length src) p" "u \<le> i \<Longrightarrow> take u (put_at i src p) = take u p"
  using assms by (simp_all add: put_at_def)

lemma reqci_loop_spec:
  assumes "rc v = worst vs" "take (ucp v) (packet v) = answer vs" "ucp v \<le> nxt" "length (packet v) = nxt + l"
    "verdicts env wo ao rej (drop nxt (packet v)) (ho v, r_go v, r_cl v) = (ws, h, g, c)"
  shows "rc (reqci_loop env wo ao rej l nxt v) = worst (vs @ ws) \<and>
    take (ucp (reqci_loop env wo ao rej l nxt v)) (packet (reqci_loop env wo ao rej l nxt v)) = answer (vs @ ws) \<and>
    ucp (reqci_loop env wo ao rej l nxt v) \<le> nxt + l \<and> length (packet (reqci_loop env wo ao rej l nxt v)) = nxt + l \<and>
    (ho (reqci_loop env wo ao rej l nxt v), r_go (reqci_loop env wo ao rej l nxt v), r_cl (reqci_loop env wo ao rej l nxt v)) = (h, g, c)"
  using assms
proof (induction env wo ao rej l nxt v arbitrary: vs ws rule: reqci_loop.induct)
  case (1 env wo ao rej l nxt v)
  let ?p = "drop nxt (packet v)" and ?n = "unat (packet v ! (nxt + 1))"
  have lp: "length ?p = l" using "1.prems"(4) by simp
  consider "l = 0" | (bad) "l \<noteq> 0" "l < 2 \<or> ?n < 2 \<or> ?n > l" | (ok) "l \<ge> 2" "?n \<ge> 2" "?n \<le> l" by linarith
  then show ?case
  proof cases
    case 1
    then show ?thesis
      using "1.prems" lp by (simp add: verdicts.simps [of _ _ _ _ "[]"] reqci_loop.simps [of _ _ _ _ 0])
  next
    case bad
    then have "?p \<noteq> []" "length ?p < 2 \<or> unat (?p ! 1) < 2 \<or> unat (?p ! 1) > length ?p"
      using lp by auto
    then have ws: "ws = [(CONFREJ, ?p)]" "(h, g, c) = (ho v, r_go v, r_cl v)"
      using "1.prems"(5) by (simp_all add: verdicts.simps [of env wo ao rej ?p])
    have e: "reqci_loop env wo ao rej l nxt v = reqci_merge rej CONFREJ nxt l v"
      using bad by (simp add: reqci_loop.simps [of env wo ao rej l])
    have "vs @ ws = vs @ [(if CONFREJ = CONFNAK \<and> rej then CONFREJ else CONFREJ, take l ?p)]"
      using ws lp by simp
    from reqci_merge_spec [OF "1.prems"(1-3) _ _ refl this] show ?thesis
      using "1.prems"(4) ws(2) by (simp add: e)
  next
    case ok
    obtain orc ci h1 g1 c1 where o: "reqci_option env wo ao (take ?n ?p) (ho v, r_go v, r_cl v) = (orc, ci, h1, g1, c1)"
      by (metis prod_cases5)
    note sh = reqci_option_shape [OF o]
    have lc: "length ci = ?n" using sh(1) ok lp by simp
    define v1 where "v1 = v\<lparr>packet := put_at nxt ci (packet v), ho := h1, r_go := g1, r_cl := c1\<rparr>"
    define v2 where "v2 = reqci_merge rej orc nxt ?n v1"
    have e: "reqci_loop env wo ao rej l nxt v = reqci_loop env wo ao rej (l - ?n) (nxt + ?n) v2"
      using ok o by (simp add: reqci_loop.simps [of env wo ao rej l] v1_def v2_def Let_def)
    have "nxt + length ci \<le> length (packet v)" using "1.prems"(4) ok lc by simp
    note pa = put_at_sel [OF this, unfolded lc]
    obtain ws' where ws: "ws = (if orc = CONFNAK \<and> rej then CONFREJ else orc, ci) # ws'"
      and vd: "verdicts env wo ao rej (drop ?n ?p) (h1, g1, c1) = (ws', h, g, c)"
      using "1.prems"(5) ok lp o by (auto simp: verdicts.simps [of env wo ao rej ?p] Let_def split: prod.splits if_splits)
    have m: "rc v2 = worst (vs @ [hd ws])" "take (ucp v2) (packet v2) = answer (vs @ [hd ws])" "ucp v2 \<le> nxt + ?n"
      "drop (nxt + ?n) (packet v2) = drop (nxt + ?n) (packet v1)" "length (packet v2) = length (packet v1)"
      using reqci_merge_spec [of v1 vs nxt ?n orc v2 rej "vs @ [hd ws]"] "1.prems"(1-4) sh(2) pa ok
      by (simp_all add: v2_def v1_def ws)
    have st: "ho v2 = h1" "r_go v2 = g1" "r_cl v2 = c1" by (simp_all add: v2_def v1_def)
    have dr: "drop (nxt + ?n) (packet v2) = drop ?n ?p"
      using m(4) pa(3) by (simp add: v1_def add.commute)
    have ln: "length (packet v2) = nxt + ?n + (l - ?n)"
      using m(5) pa(1) "1.prems"(4) ok by (simp add: v1_def)
    have "l \<noteq> 0" "\<not> (l < 2 \<or> ?n < 2 \<or> ?n > l)" using ok by auto
    note IH = "1.IH" [OF this refl o [symmetric] refl refl refl refl refl, folded v1_def, folded v2_def, folded e]
    have "verdicts env wo ao rej (drop (nxt + ?n) (packet v2)) (ho v2, r_go v2, r_cl v2) = (ws', h, g, c)"
      unfolding dr st by (rule vd)
    from IH [OF m(1-3) ln this] show ?thesis
      using ok(3) by (simp only: ws append_assoc append_Cons append_Nil list.sel add.assoc le_add_diff_inverse)
  qed
qed

text \<open>The answer as the specification has it: when the peer has given no identifier and is to be asked for one, that is
  added to a Nak.\<close>

definition reqci_spec :: "ipv6_env \<Rightarrow> bytes \<Rightarrow> bool \<Rightarrow> ipv6_sys \<Rightarrow> u8 \<times> bytes \<times> ipv6_sys" where
  "reqci_spec env inp rej s =
     (let wo = wantoptions (client s);
          (vs, h, g, c) = verdicts env wo (allowoptions (client s)) rej inp (zero_options, gotoptions (client s), client s);
          t = s\<lparr>client := c\<lparr>wantoptions := wo, gotoptions := g, hisoptions := h\<rparr>\<rparr>
      in if worst vs \<noteq> CONFREJ \<and> \<not> neg_ifaceid h \<and> req_ifaceid wo \<and> \<not> rej
         then if worst vs = CONFACK
              then (CONFNAK, ci_ifaceid (hisid wo), cl (wantoptions_update (\<lambda>_. wo\<lparr>req_ifaceid := False\<rparr>)) t)
              else (CONFNAK, answer vs @ ci_ifaceid (hisid wo), t)
         else (worst vs, answer vs, t))"

lemma take_put_at: "i \<le> length p \<Longrightarrow> take (i + length src) (put_at i src p) = take i p @ src"
  by (simp add: put_at_def)

lemma reqci_ask_spec:
  assumes "rc v = worst vs" "take (ucp v) (packet v) = answer vs" "ucp v \<le> length (packet v)"
  shows "reqci_ask rej wo v = (wo', w) \<Longrightarrow> (rc w, take (ucp w) (packet w), wo') =
    (if worst vs \<noteq> CONFREJ \<and> \<not> neg_ifaceid (ho v) \<and> req_ifaceid wo \<and> \<not> rej
     then if worst vs = CONFACK then (CONFNAK, ci_ifaceid (hisid wo), wo\<lparr>req_ifaceid := False\<rparr>)
          else (CONFNAK, answer vs @ ci_ifaceid (hisid wo), wo)
     else (worst vs, answer vs, wo))"
  using assms worst_code [of vs] take_put_at [of 0 "packet v" "ci_ifaceid (hisid wo)"] take_put_at [of "ucp v" "packet v" "ci_ifaceid (hisid wo)"]
  by (auto simp: reqci_ask_def codes_distinct split: if_splits)

lemma reqci_equals_spec: "ipv6cp_reqci env inp rej s = reqci_spec env inp rej s"
proof -
  let ?wo = "wantoptions (client s)" and ?ao = "allowoptions (client s)"
  define v where "v = \<lparr>packet = inp, ucp = 0, rc = CONFACK, ho = zero_options, r_go = gotoptions (client s), r_cl = client s\<rparr>"
  define w where "w = reqci_loop env ?wo ?ao rej (length inp) 0 v"
  obtain vs h g c where vs: "verdicts env ?wo ?ao rej inp (zero_options, gotoptions (client s), client s) = (vs, h, g, c)"
    by (metis prod_cases4)
  have w: "rc w = worst vs" "take (ucp w) (packet w) = answer vs" "ucp w \<le> length (packet w)" "ho w = h" "r_go w = g" "r_cl w = c"
    using reqci_loop_spec [of v "[]" 0 "length inp" env ?wo ?ao rej vs h g c] vs
    by (simp_all add: w_def v_def worst_def answer_def)
  obtain wo' x where x: "reqci_ask rej ?wo w = (wo', x)" by fastforce
  have "ipv6cp_reqci env inp rej s =
      (rc x, take (ucp x) (packet x), s\<lparr>client := c\<lparr>wantoptions := wo', gotoptions := g, hisoptions := h\<rparr>\<rparr>)"
    using reqci_ask_sel [OF x] w(4-6) x by (simp add: ipv6cp_reqci_def v_def [symmetric] w_def [symmetric] Let_def)
  then show ?thesis
    using reqci_ask_spec [OF w(1-3) x] w(4) by (auto simp: reqci_spec_def vs cl_def Let_def split: if_splits)
qed


lemma reqci_option_ids:
  assumes "reqci_option env wo ao ci (h, g, c) = (orc, ci', h', g', c')"
  shows "ourid g' = ourid g" "orc \<noteq> CONFREJ \<Longrightarrow> neg_ifaceid h'"
    "orc = CONFACK \<Longrightarrow> ci' = ci \<and> hisid h' \<noteq> eui64_zero \<and> hisid h' \<noteq> ourid g"
proof -
  have "ourid g' = ourid g \<and> (orc \<noteq> CONFREJ \<longrightarrow> neg_ifaceid h') \<and>
      (orc = CONFACK \<longrightarrow> ci' = ci \<and> hisid h' \<noteq> eui64_zero \<and> hisid h' \<noteq> ourid g)"
    using assms codes_distinct by (auto simp: reqci_option_def reqci_ifaceid_def Let_def split_beta split: if_splits)
  then show "ourid g' = ourid g" "orc \<noteq> CONFREJ \<Longrightarrow> neg_ifaceid h'"
    "orc = CONFACK \<Longrightarrow> ci' = ci \<and> hisid h' \<noteq> eui64_zero \<and> hisid h' \<noteq> ourid g"
    by blast+
qed

lemma worst_Cons: "worst ((k, ci) # ws) = CONFACK \<Longrightarrow> k \<in> {CONFACK, CONFNAK, CONFREJ} \<Longrightarrow> k = CONFACK \<and> worst ws = CONFACK"
    "worst ((k, ci) # ws) \<noteq> CONFREJ \<Longrightarrow> k \<noteq> CONFREJ \<and> worst ws \<noteq> CONFREJ"
  using codes_distinct by (auto simp: worst_def split: if_splits)

text \<open>What the verdicts leave: the bytes of the request up to the identifiers they change, and the peer's options.\<close>

lemma verdicts_props:
  assumes "verdicts env wo ao rej p (h, g, c) = (vs, h', g', c')"
  shows "sum_list (map (length \<circ> snd) vs) = length p \<and> ourid g' = ourid g \<and>
    (worst vs = CONFACK \<longrightarrow> concat (map snd vs) = p) \<and>
    (worst vs = CONFACK \<longrightarrow> (neg_ifaceid h \<longrightarrow> hisid h \<noteq> eui64_zero \<and> hisid h \<noteq> ourid g) \<longrightarrow>
       neg_ifaceid h' \<longrightarrow> hisid h' \<noteq> eui64_zero \<and> hisid h' \<noteq> ourid g) \<and>
    (worst vs \<noteq> CONFREJ \<longrightarrow> p \<noteq> [] \<or> neg_ifaceid h \<longrightarrow> neg_ifaceid h')"
  using assms
proof (induction env wo ao rej p "(h, g, c)" arbitrary: h g c vs h' g' c' rule: verdicts.induct)
  case (1 env wo ao rej p h g c)
  let ?n = "unat (p ! 1)"
  consider "p = []" | (bad) "p \<noteq> []" "length p < 2 \<or> ?n < 2 \<or> ?n > length p" | (ok) "p \<noteq> []" "\<not> (length p < 2 \<or> ?n < 2 \<or> ?n > length p)"
    by blast
  then show ?case
  proof cases
    case 1
    then show ?thesis using "1.prems" by (auto simp: verdicts.simps [of _ _ _ _ "[]"])
  next
    case bad
    then have "vs = [(CONFREJ, p)]" "g' = g" using "1.prems" by (auto simp: verdicts.simps [of env wo ao rej p])
    then show ?thesis by (simp add: worst_def codes_distinct)
  next
    case ok
    obtain orc ci h1 g1 c1 where o: "reqci_option env wo ao (take ?n p) (h, g, c) = (orc, ci, h1, g1, c1)"
      by (metis prod_cases5)
    obtain ws h2 g2 c2 where ws: "verdicts env wo ao rej (drop ?n p) (h1, g1, c1) = (ws, h2, g2, c2)"
      by (metis prod_cases4)
    have vs: "vs = (if orc = CONFNAK \<and> rej then CONFREJ else orc, ci) # ws" "h' = h2" "g' = g2"
      using "1.prems" ok o ws by (simp_all add: verdicts.simps [of env wo ao rej p] Let_def)
    have IH: "sum_list (map (length \<circ> snd) ws) = length (drop ?n p) \<and> ourid g2 = ourid g1 \<and>
      (worst ws = CONFACK \<longrightarrow> concat (map snd ws) = drop ?n p) \<and>
      (worst ws = CONFACK \<longrightarrow> (neg_ifaceid h1 \<longrightarrow> hisid h1 \<noteq> eui64_zero \<and> hisid h1 \<noteq> ourid g1) \<longrightarrow>
         neg_ifaceid h2 \<longrightarrow> hisid h2 \<noteq> eui64_zero \<and> hisid h2 \<noteq> ourid g1) \<and>
      (worst ws \<noteq> CONFREJ \<longrightarrow> drop ?n p \<noteq> [] \<or> neg_ifaceid h1 \<longrightarrow> neg_ifaceid h2)"
      using "1.hyps" [OF ok o [symmetric] refl refl ws] by blast
    note ids = reqci_option_ids [OF o] and sh = reqci_option_shape [OF o]
    have n: "?n \<le> length p" using ok by simp
    have ack: "orc = CONFACK \<and> worst ws = CONFACK" if "worst vs = CONFACK"
      using worst_Cons(1) [OF that [unfolded vs(1)]] sh(2) codes_distinct by (cases rej; cases "orc = CONFNAK") auto
    have nrej: "orc \<noteq> CONFREJ \<and> worst ws \<noteq> CONFREJ" if "worst vs \<noteq> CONFREJ"
      using worst_Cons(2) [OF that [unfolded vs(1)]] by (auto split: if_splits)
    show ?thesis
    proof (intro conjI impI)
      show "sum_list (map (length \<circ> snd) vs) = length p" using IH sh(1) n by (simp add: vs(1))
      show "ourid g' = ourid g" using IH ids(1) vs(3) by simp
      show "concat (map snd vs) = p" if "worst vs = CONFACK"
        using ack [OF that] ids(3) IH by (simp add: vs(1))
      show "hisid h' \<noteq> eui64_zero" "hisid h' \<noteq> ourid g" if "worst vs = CONFACK" "neg_ifaceid h'"
        using ack [OF that(1)] ids(1,3) IH that(2) vs(2) by auto
      show "neg_ifaceid h'" if "worst vs \<noteq> CONFREJ"
        using nrej [OF that] ids(2) IH vs(2) by blast
    qed
  qed
qed

lemma length_answer: "length (answer vs) \<le> sum_list (map (length \<circ> snd) vs)"
proof -
  have "length (concat (map snd (filter P vs))) \<le> sum_list (map (length \<circ> snd) vs)" for P :: "u8 \<times> bytes \<Rightarrow> bool"
    by (induction vs) auto
  then show ?thesis by (simp add: answer_def)
qed

lemma answer_ack:
  assumes "worst vs = CONFACK" "\<And>v. v \<in> set vs \<Longrightarrow> fst v \<in> {CONFACK, CONFNAK, CONFREJ}"
  shows "answer vs = concat (map snd vs)"
proof -
  have "CONFREJ \<notin> fst ` set vs" "CONFNAK \<notin> fst ` set vs"
    using assms(1) codes_distinct by (auto simp: worst_def split: if_splits)
  then have "fst v = CONFACK" if "v \<in> set vs" for v
    using assms(2) [OF that] that by (metis empty_iff image_eqI insert_iff)
  then show ?thesis by (simp add: answer_def assms(1))
qed

lemma verdicts_codes:
  "verdicts env wo ao rej p st = (vs, st') \<Longrightarrow> v \<in> set vs \<Longrightarrow> fst v \<in> {CONFACK, CONFNAK, CONFREJ}"
proof (induction env wo ao rej p st arbitrary: vs st' rule: verdicts.induct)
  case (1 env wo ao rej p st)
  obtain orc ci st1 where o: "reqci_option env wo ao (take (unat (p ! 1)) p) st = (orc, ci, st1)" by (metis prod_cases3)
  obtain ws st2 where w: "verdicts env wo ao rej (drop (unat (p ! 1)) p) st1 = (ws, st2)" by (metis surj_pair)
  note IH = "1.IH" [OF _ _ refl o [symmetric] refl w]
  show ?case
    using "1.prems" IH reqci_option_shape(2) [OF o]
    by (auto simp: verdicts.simps [of env wo ao rej p] o [simplified] w [simplified] Let_def split: if_splits)
qed

text \<open>An acknowledgement of the peer's options is sound: it repeats the request byte for byte, and if the request gave
  an identifier then the one recorded for the peer is neither zero nor our own.\<close>

theorem ipv6cp_acknowledges_good_id:
  assumes "ipv6cp_reqci env inp rej s = (CONFACK, bs, t)"
  shows "bs = inp \<and> (inp \<noteq> [] \<longrightarrow> neg_ifaceid (hisoptions (client t)) \<and> \<not> eui64_iszero (hisid (hisoptions (client t))) \<and>
    \<not> eui64_equals (hisid (hisoptions (client t))) (ourid (gotoptions (client t))))"
proof -
  obtain vs h g c where vs: "verdicts env (wantoptions (client s)) (allowoptions (client s)) rej inp
      (zero_options, gotoptions (client s), client s) = (vs, h, g, c)"
    by (metis prod_cases4)
  note p = verdicts_props [OF vs]
  have a: "worst vs = CONFACK" "bs = answer vs" "hisoptions (client t) = h" "gotoptions (client t) = g"
    using assms vs codes_distinct by (auto simp: reqci_equals_spec reqci_spec_def Let_def split: if_splits)
  moreover have "answer vs = inp"
    using answer_ack [OF a(1)] verdicts_codes [OF vs] p a(1) by auto
  ultimately show ?thesis
    using p codes_distinct by (auto simp: zero_options_def)
qed

theorem ipv6cp_acknowledges_good_id_witness:
  "fst (ipv6cp_reqci sample_env (ci_ifaceid (id_of 2)) False (cl (gotoptions_update (\<lambda>_. zero_options)) sample_start)) = CONFACK \<and>
   fst (snd (ipv6cp_reqci sample_env (ci_ifaceid (id_of 2)) False (cl (gotoptions_update (\<lambda>_. zero_options)) sample_start))) = ci_ifaceid (id_of 2)"
proof -
  let ?s = "cl (gotoptions_update (\<lambda>_. zero_options)) sample_start"
  have "ipv6cp_reqci sample_env (ci_ifaceid (id_of 2)) False ?s =
    (CONFACK, ci_ifaceid (id_of 2), snd (snd (ipv6cp_reqci sample_env (ci_ifaceid (id_of 2)) False ?s)))"
    using reqci_accepts [of ?s "id_of 2" sample_env False] sample_ids(2) by (simp add: sample_fields zero_options_def)
  from ipv6cp_acknowledges_good_id [OF this] this show ?thesis by (metis fst_conv snd_conv)
qed

text \<open>The answer to a request never outgrows the packet: it has at most as many bytes as the request, or the ten of one
  interface identifier.\<close>

theorem ipv6cp_answer_fits: "length (fst (snd (ipv6cp_reqci env inp rej s))) \<le> max (length inp) CILEN_IFACEID"
proof -
  obtain vs h g c where vs: "verdicts env (wantoptions (client s)) (allowoptions (client s)) rej inp
      (zero_options, gotoptions (client s), client s) = (vs, h, g, c)"
    by (metis prod_cases4)
  have "length (answer vs) \<le> length inp" and "worst vs \<noteq> CONFREJ \<Longrightarrow> \<not> neg_ifaceid h \<Longrightarrow> inp = []"
    using verdicts_props [OF vs] length_answer [of vs] by auto
  then show ?thesis
    using vs by (auto simp: reqci_equals_spec reqci_spec_def Let_def split: if_splits)
qed

text \<open>C32: A peer that does not give way gets a Reject that it cannot accept: when the limit of Naks is reached, a request for
  an identifier \<open>a\<close> other than the one configured for the peer is answered by a Configure-Reject that carries the
  configured identifier instead of \<open>a\<close>, and \<open>ipv6cp_rejci\<close> of the requesting side refuses such a Reject.\<close>

theorem ipv6cp_reject_altered:
  assumes "neg_ifaceid (allowoptions (client s))" "hisid (wantoptions (client s)) = b" "b \<noteq> eui64_zero" "a \<noteq> b"
    "hisid (gotoptions (client s)) = eui64_zero" "ourid (gotoptions (client s)) \<noteq> eui64_zero"
    "neg_ifaceid (gotoptions (client r))" "ourid (gotoptions (client r)) = a"
  shows "fst (ipv6cp_reqci env (ci_ifaceid a) True s) = CONFREJ \<and>
    fst (snd (ipv6cp_reqci env (ci_ifaceid a) True s)) = ci_ifaceid b \<and> fst (ipv6cp_rejci env' (ci_ifaceid b) r) = 0"
proof -
  have "verdicts env (wantoptions (client s)) (allowoptions (client s)) True (ci_ifaceid a) (zero_options, gotoptions (client s), client s)
    = ([(CONFREJ, ci_ifaceid b)], zero_options\<lparr>neg_ifaceid := True, hisid := b\<rparr>, (gotoptions (client s))\<lparr>hisid := b\<rparr>, client s)"
    using assms(1-6)
    by (simp add: verdicts.simps [of _ _ _ _ "ci_ifaceid a"] verdicts.simps [of _ _ _ _ "[]"] reqci_option_def reqci_ifaceid_def Let_def)
      (simp add: ci_ifaceid_def)
  then show ?thesis
    using assms(4,7,8)
    by (simp add: reqci_equals_spec reqci_spec_def Let_def worst_def answer_def ipv6cp_rejci_def REJCIIFACEID_def)
qed

definition alter_server :: ipv6_sys where
  "alter_server = cl (\<lambda>c. c\<lparr>wantoptions := (wantoptions c)\<lparr>hisid := id_of 5\<rparr>, gotoptions := (gotoptions c)\<lparr>ourid := id_of 1\<rparr>\<rparr>) sample_start"

definition alter_client :: ipv6_sys where
  "alter_client = cl (\<lambda>c. c\<lparr>gotoptions := (gotoptions c)\<lparr>neg_ifaceid := True, ourid := id_of 7\<rparr>\<rparr>) sample_start"

theorem ipv6cp_reject_altered_witness:
  "fst (snd (ipv6cp_reqci sample_env (ci_ifaceid (id_of 7)) True alter_server)) = ci_ifaceid (id_of 5) \<and>
   fst (ipv6cp_rejci sample_env (ci_ifaceid (id_of 5)) alter_client) = 0"
proof -
  have "gotoptions (client sample_start) = zero_options"
    by (simp add: sample_start_def ipv6cp_init_def fsm_init_def boot_sys_def cl_def upd_def Let_def)
  then show ?thesis
    using ipv6cp_reject_altered [of alter_server "id_of 5" "id_of 7" alter_client sample_env sample_env]
    by (simp add: alter_server_def alter_client_def sample_fields zero_options_def id_of_def eui64_zero_def)
qed

section \<open>Configuration\<close>

definition ids_ok :: "ifaceid_state \<Rightarrow> bool" where
  "ids_ok st \<longleftrightarrow> (opt_local (i_want st) \<longrightarrow> \<not> eui64_iszero (ourid (i_want st))) \<and> (opt_remote (i_want st) \<longrightarrow> \<not> eui64_iszero (hisid (i_want st)))"

lemma read_id_nonzero:
  assumes "read_id pton arg = Some i" "\<And>x a. pton x = Some a \<Longrightarrow> length a = 16"
  shows "i \<noteq> eui64_zero"
proof
  assume z: "i = eui64_zero"
  obtain a where a: "pton arg = Some a" "VALIDID a" "i = eui64_get (drop 8 a)"
    using assms(1) by (auto simp: read_id_def split: option.splits if_splits)
  have "length (drop 8 a) = 8" using assms(2) [OF a(1)] by simp
  then have "drop 8 a = eui64_put eui64_zero" using z a(3) eui64_put_get by metis
  then show False
    using a(2) by (simp add: VALIDID_def eui64_put_def eui64_zero_def bytes32_def numeral_eq_Suc)
qed

text \<open>C33: The \<open>ipv6\<close> option only ever configures usable identifiers, also when it is refused half way: an identifier that is
  marked as configured is not zero. \<open>inet_pton\<close> is assumed to give 16 bytes.\<close>

theorem setifaceid_keeps_ids:
  assumes "\<And>x a. pton x = Some a \<Longrightarrow> length a = 16" "ids_ok st"
  shows "ids_ok (snd (setifaceid pton pr arg st))"
proof -
  have l: "ids_ok (set_local pr i t)" if "read_id pton x = Some i" "ids_ok t" for x i t
    using that read_id_nonzero [OF that(1) assms(1)] by (auto simp: set_local_def ids_ok_def)
  have r: "ids_ok (set_remote pr i t)" if "read_id pton x = Some i" "ids_ok t" for x i t
    using that read_id_nonzero [OF that(1) assms(1)] by (auto simp: set_remote_def ids_ok_def)
  have ov: "ids_ok (snd (override_value pr t))" "ids_ok (snd (override_value pr t)\<lparr>enabled_flag := True\<rparr>)" if "ids_ok t" for t
    using that by (simp_all add: override_value_def ids_ok_def)
  show ?thesis
    using assms(2) l r ov by (auto simp: setifaceid_def Let_def split_beta split: option.splits if_splits)
qed

definition sample_pton :: "string \<Rightarrow> bytes option" where
  "sample_pton x = (if x = ''::5'' then Some (replicate 15 0 @ [5]) else None)"

lemma setlo32_zero: "eui64_setlo32 (ntohl w) = eui64_zero \<longleftrightarrow> w = 0"
  by (simp add: eui64_setlo32_def eui64_zero_def)

lemma want_local_nonzero:
  assumes "lively env" "\<not> hung c" "opt_local wo \<Longrightarrow> ourid wo \<noteq> eui64_zero"
  shows "ourid (fst (want_local env oa wo c)) \<noteq> eui64_zero" "hisid (fst (want_local env oa wo c)) = hisid wo"
    "opt_remote (fst (want_local env oa wo c)) = opt_remote wo" "use_ip (fst (want_local env oa wo c)) = use_ip wo"
proof -
  have "fst (magic_while env eui64_iszero e c) \<noteq> eui64_zero" for e
  proof -
    have "frames env c (snd (magic_while env eui64_iszero e c))"
      by (rule magic_while_frames [of _ eui64_zero]) simp
    then have "\<not> hung (snd (magic_while env eui64_iszero e c))"
      using framesD(9) assms(1,2) by blast
    from magic_while_good [OF this] show ?thesis by simp
  qed
  then show "ourid (fst (want_local env oa wo c)) \<noteq> eui64_zero" "hisid (fst (want_local env oa wo c)) = hisid wo"
    "opt_remote (fst (want_local env oa wo c)) = opt_remote wo" "use_ip (fst (want_local env oa wo c)) = use_ip wo"
    using assms(3) by (simp_all add: want_local_def Let_def split_beta)
qed

text \<open>With IPv6 enabled and a good random sequence, \<open>ipv6_check_options\<close> makes \<open>pppd\<close> exit exactly when dial on demand
  is asked for and no identifier of the peer is known: none was given, and the peer's IPv4 address is not to be used for it, or is zero.\<close>

theorem check_options_exits:
  assumes "\<forall>n x. \<exists>k<tries env. \<not> eui64_iszero (eui64_magic (magic env) (n + 2 * k)) \<and> \<not> eui64_equals (eui64_magic (magic env) (n + 2 * k)) x"
    "\<not> hung c" "opt_local (wantoptions c) \<Longrightarrow> \<not> eui64_iszero (ourid (wantoptions c))" "ether \<noteq> Some eui64_zero"
  shows "ipv6_check_options env True ether ouraddr hisaddr c = None \<longleftrightarrow>
    demand env \<and> eui64_iszero (hisid (wantoptions c)) \<and> (opt_remote (wantoptions c) \<or> \<not> use_ip (wantoptions c) \<or> hisaddr = 0)"
proof -
  define wo where "wo = want_persistent ether (wantoptions c)"
  have p: "opt_local wo \<Longrightarrow> ourid wo \<noteq> eui64_zero" "hisid wo = hisid (wantoptions c)" "opt_remote wo = opt_remote (wantoptions c)"
    "use_ip wo = use_ip (wantoptions c)"
    using assms(3,4) by (auto simp: wo_def want_persistent_def split: option.splits if_splits)
  have l: "lively env" using assms(1) by (simp add: lively_def)
  note w = want_local_nonzero [OF l assms(2) p(1), of ouraddr]
  have "ourid (want_remote hisaddr (fst (want_local env ouraddr wo c))) = ourid (fst (want_local env ouraddr wo c))"
    by (simp add: want_remote_def Let_def)
  moreover have "hisid (want_remote hisaddr (fst (want_local env ouraddr wo c))) = eui64_zero \<longleftrightarrow>
      hisid wo = eui64_zero \<and> (opt_remote wo \<or> \<not> use_ip wo \<or> hisaddr = 0)"
    using w setlo32_zero [of hisaddr] by (auto simp: want_remote_def Let_def)
  ultimately show ?thesis
    using w(1) p by (simp add: ipv6_check_options_def Let_def split_beta wo_def [symmetric])
qed

theorem check_options_exits_witness:
  "ipv6_check_options (sample_env\<lparr>demand := True\<rparr>) True None 0 0 (client sample_start) = None"
proof -
  have l: "\<exists>k<tries (sample_env\<lparr>demand := True\<rparr>). eui64_magic (magic (sample_env\<lparr>demand := True\<rparr>)) (n + 2 * k) \<noteq> eui64_zero \<and>
      eui64_magic (magic (sample_env\<lparr>demand := True\<rparr>)) (n + 2 * k) \<noteq> x" for n x
    using sample_lively [of n x] by simp
  have "\<not> hung (client sample_start)" using sample_starts by (simp add: ipv6cp_starts_def)
  then show ?thesis
    using check_options_exits [of "sample_env\<lparr>demand := True\<rparr>" "client sample_start" None 0 0] l sample_ids
    by (simp add: sample_fields zero_options_def)
qed

definition sample_ifaceid :: ifaceid_state where
  "sample_ifaceid = \<lparr>i_want = zero_options, prio_local = 0, prio_remote = 0, enabled_flag = False, enabled_priority = 0\<rparr>"

lemma sample_ifaceid_local: "opt_local (i_want (snd (setifaceid sample_pton 1 ''::5'' sample_ifaceid)))"
  by code_simp

theorem setifaceid_keeps_ids_witness:
  "ids_ok (snd (setifaceid sample_pton 1 ''::5'' sample_ifaceid)) \<and> opt_local (i_want (snd (setifaceid sample_pton 1 ''::5'' sample_ifaceid)))"
proof -
  have "length a = 16" if "sample_pton x = Some a" for x a
    using that by (auto simp: sample_pton_def split: if_splits)
  moreover have "ids_ok sample_ifaceid"
    by (simp add: ids_ok_def sample_ifaceid_def zero_options_def)
  ultimately show ?thesis
    using setifaceid_keeps_ids [of sample_pton sample_ifaceid 1 "''::5''"] sample_ifaceid_local by blast
qed

section \<open>Packets as text\<close>

lemma print_cis_rest: "print_cis p = (out, rest) \<Longrightarrow> length rest \<le> length p"
proof (induction p arbitrary: out rest rule: print_cis.induct)
  case (1 p)
  show ?case
    using "1.prems" "1.IH" by (subst (asm) print_cis.simps) (fastforce simp: Let_def split: if_splits prod.splits)
qed

text \<open>The packet printer accounts for every byte of a packet it accepts: it returns the length that the header of the
  packet gives, and 0 for a packet whose header is short or lies about the length.\<close>

theorem ipv6cp_printpkt_length:
  "fst (ipv6cp_printpkt p) =
     (if length p < HEADERLEN \<or> get_be16 (drop 2 p) < HEADERLEN \<or> get_be16 (drop 2 p) > length p then 0 else get_be16 (drop 2 p))"
proof (cases "parse_header p")
  case None
  then show ?thesis by (auto simp: ipv6cp_printpkt_def parse_header_def get_be16_def Let_def HEADERLEN_def split: if_splits)
next
  case (Some h)
  obtain code pid inp where h: "h = (code, pid, inp)" by (cases h)
  have l: "\<not> (length p < HEADERLEN \<or> get_be16 (drop 2 p) < HEADERLEN \<or> get_be16 (drop 2 p) > length p)" "HEADERLEN + length inp = get_be16 (drop 2 p)"
    using Some by (auto simp: h parse_header_def get_be16_def Let_def HEADERLEN_def split: if_splits)
  obtain out rest where pc: "print_cis inp = (out, rest)" by fastforce
  show ?thesis
    using print_cis_rest [OF pc] l by (simp add: ipv6cp_printpkt_def Some h pc Let_def)
qed

end
