(* ===== verification/Ppp_Timer.thy ===== *)
theory Ppp_Timer
  imports Ppp_Fsm
begin

text \<open>
  The callouts of \<open>pppd\<close>: \<open>timeout\<close>, \<open>untimeout\<close>, \<open>calltimeout\<close> and \<open>timeleft\<close> of \<open>src/external/ppp/pppd/main.c\<close>,
  a list of pending calls in the order of their times, and the interface that the protocols rely on when they
  count their pending timeouts. A callout names a function and its argument; the pair is its key. The clock is the
  sequence of values that \<open>gettimeofday\<close> returns, read one after the other; seconds do not overflow.
\<close>

section \<open>Times\<close>

datatype timeval = Timeval (tv_sec: int) (tv_usec: int)

text \<open>The comparison of the code, seconds first.\<close>

instantiation timeval :: linorder
begin

definition less_timeval :: "timeval \<Rightarrow> timeval \<Rightarrow> bool" where
  "less_timeval a b \<longleftrightarrow> tv_sec a < tv_sec b \<or> tv_sec a = tv_sec b \<and> tv_usec a < tv_usec b"

definition less_eq_timeval :: "timeval \<Rightarrow> timeval \<Rightarrow> bool" where
  "less_eq_timeval a b \<longleftrightarrow> tv_sec a < tv_sec b \<or> tv_sec a = tv_sec b \<and> tv_usec a \<le> tv_usec b"

instance
  by standard (auto simp: less_timeval_def less_eq_timeval_def intro: timeval.expand)

end

definition normalised :: "timeval \<Rightarrow> bool" where
  "normalised t \<longleftrightarrow> 0 \<le> tv_usec t \<and> tv_usec t < 1000000"

definition after :: "timeval \<Rightarrow> int \<Rightarrow> int \<Rightarrow> timeval" where
  "after now secs usecs =
     (let s = tv_sec now + secs; u = tv_usec now + usecs
      in if u \<ge> 1000000 then Timeval (s + u div 1000000) (u mod 1000000) else Timeval s u)"

section \<open>The list of callouts\<close>

record 'k callout =
  c_time :: timeval
  c_key :: 'k

record 'k callouts =
  callout :: "'k callout list"
  reads :: nat

definition gettimeofday :: "(nat \<Rightarrow> timeval) \<Rightarrow> 'k callouts \<Rightarrow> timeval \<times> 'k callouts" where
  "gettimeofday clock q = (clock (reads q), q\<lparr>reads := reads q + 1\<rparr>)"

primrec insert_callout :: "'k callout \<Rightarrow> 'k callout list \<Rightarrow> 'k callout list" where
  "insert_callout newp [] = [newp]"
| "insert_callout newp (p # ps) = (if c_time newp < c_time p then newp # p # ps else p # insert_callout newp ps)"

definition timeout :: "(nat \<Rightarrow> timeval) \<Rightarrow> 'k \<Rightarrow> int \<Rightarrow> int \<Rightarrow> 'k callouts \<Rightarrow> 'k callouts" where
  "timeout clock key secs usecs q =
     (let (now, q) = gettimeofday clock q
      in q\<lparr>callout := insert_callout \<lparr>c_time = after now secs usecs, c_key = key\<rparr> (callout q)\<rparr>)"

primrec remove_callout :: "'k \<Rightarrow> 'k callout list \<Rightarrow> 'k callout list" where
  "remove_callout key [] = []"
| "remove_callout key (p # ps) = (if c_key p = key then ps else p # remove_callout key ps)"

definition untimeout :: "'k \<Rightarrow> 'k callouts \<Rightarrow> 'k callouts" where
  "untimeout key q = q\<lparr>callout := remove_callout key (callout q)\<rparr>"

text \<open>\<open>calltimeout\<close> runs the functions that are due; \<open>run\<close> is the call of a function, which may set and cancel callouts.
  The loop ends when nothing is due; it has \<open>fuel\<close> rounds, and \<open>None\<close> is a run that needs more.\<close>

fun calltimeout :: "(nat \<Rightarrow> timeval) \<Rightarrow> ('k \<Rightarrow> 'k callouts \<times> 's \<Rightarrow> 'k callouts \<times> 's) \<Rightarrow> nat \<Rightarrow> 'k callouts \<times> 's
    \<Rightarrow> ('k callouts \<times> 's) option" where
  "calltimeout clock run 0 (q, s) = (if callout q = [] then Some (q, s) else None)"
| "calltimeout clock run (Suc fuel) (q, s) =
     (case callout q of
        [] \<Rightarrow> Some (q, s)
      | p # ps \<Rightarrow>
         (let (now, q) = gettimeofday clock q in
          if \<not> c_time p \<le> now then Some (q, s)
          else calltimeout clock run fuel (run (c_key p) (q\<lparr>callout := ps\<rparr>, s))))"

definition timeleft :: "(nat \<Rightarrow> timeval) \<Rightarrow> 'k callouts \<Rightarrow> timeval option \<times> 'k callouts" where
  "timeleft clock q =
     (case callout q of
        [] \<Rightarrow> (None, q)
      | p # ps \<Rightarrow>
         (let (now, q) = gettimeofday clock q;
              s = tv_sec (c_time p) - tv_sec now;
              u = tv_usec (c_time p) - tv_usec now;
              (s, u) = (if u < 0 then (s - 1, u + 1000000) else (s, u))
          in (Some (if s < 0 then Timeval 0 0 else Timeval s u), q)))"

section \<open>The interface of the protocols\<close>

text \<open>A sequence of requests, and what it does to the numbers of pending calls.\<close>

datatype 'k timer_op = Arm 'k int | Cancel 'k

primrec count_op :: "'k timer_op \<Rightarrow> ('k \<Rightarrow> nat) \<Rightarrow> 'k \<Rightarrow> nat" where
  "count_op (Arm k secs) n = n(k := n k + 1)"
| "count_op (Cancel k) n = n(k := n k - 1)"

text \<open>What a protocol relies on: setting a timeout adds one pending call, cancelling takes one away if there is one,
  and nothing else changes.\<close>

locale timer_service =
  fixes arm :: "'k \<Rightarrow> int \<Rightarrow> 's \<Rightarrow> 's"
    and cancel :: "'k \<Rightarrow> 's \<Rightarrow> 's"
    and pending :: "'s \<Rightarrow> 'k \<Rightarrow> nat"
    and ok :: "'s \<Rightarrow> bool"
  assumes pending_arm: "pending (arm k secs s) j = (if j = k then pending s j + 1 else pending s j)"
    and pending_cancel: "pending (cancel k s) j = (if j = k then pending s j - 1 else pending s j)"
    and ok_arm: "ok s \<Longrightarrow> ok (arm k secs s)"
    and ok_cancel: "ok s \<Longrightarrow> ok (cancel k s)"
begin

definition perform :: "'k timer_op \<Rightarrow> 's \<Rightarrow> 's" where
  "perform r = (case r of Arm k secs \<Rightarrow> arm k secs | Cancel k \<Rightarrow> cancel k)"

lemma pending_perform: "pending (fold perform rs s) = fold count_op rs (pending s)"
proof (induction rs arbitrary: s)
  case (Cons r rs)
  have "pending (perform r s) = count_op r (pending s)"
    by (cases r) (auto simp: perform_def pending_arm pending_cancel)
  then show ?case using Cons by simp
qed simp

lemma rearm: "pending s k = 1 \<Longrightarrow> pending (arm k secs (cancel k s)) k = 1"
  by (simp add: pending_arm pending_cancel)

lemma cancel_idle: "pending s k = 0 \<Longrightarrow> pending (cancel k s) = pending s"
  by (rule ext) (simp add: pending_cancel)

lemma arm_cancel: "pending (cancel k (arm k secs s)) = pending s"
  by (rule ext) (simp add: pending_arm pending_cancel)

end

definition pending_of :: "'k callouts \<Rightarrow> 'k \<Rightarrow> nat" where
  "pending_of q k = length (filter (\<lambda>p. c_key p = k) (callout q))"

definition in_order :: "'k callouts \<Rightarrow> bool" where
  "in_order q \<longleftrightarrow> sorted (map c_time (callout q))"

lemma set_insert_callout [simp]: "set (insert_callout c q) = insert c (set q)"
  by (induction q) auto

lemma sorted_insert_callout: "sorted (map c_time q) \<Longrightarrow> sorted (map c_time (insert_callout c q))"
  by (induction q) (auto simp: less_le_not_le dest: less_imp_le)

lemma count_insert_callout:
  "length (filter (\<lambda>p. c_key p = k) (insert_callout c q)) =
   length (filter (\<lambda>p. c_key p = k) q) + (if c_key c = k then 1 else 0)"
  by (induction q) auto

lemma set_remove_callout: "set (remove_callout k q) \<subseteq> set q"
  by (induction q) auto

lemma sorted_remove_callout: "sorted (map c_time q) \<Longrightarrow> sorted (map c_time (remove_callout k q))"
  by (induction q) (auto dest: subsetD [OF set_remove_callout])

lemma count_remove_callout:
  "length (filter (\<lambda>p. c_key p = j) (remove_callout k q)) =
   length (filter (\<lambda>p. c_key p = j) q) - (if j = k then 1 else 0)"
  by (induction q) auto

interpretation callouts: timer_service "\<lambda>k secs. timeout clock k secs 0" untimeout pending_of in_order for clock
  by unfold_locales
    (simp_all add: timeout_def untimeout_def gettimeofday_def pending_of_def in_order_def count_insert_callout
      count_remove_callout sorted_insert_callout sorted_remove_callout)

text \<open>The automaton counts the pending calls of \<open>fsm_timeout\<close> for its own argument, one key.\<close>

interpretation fsm_timer: timer_service "\<lambda>(k :: unit) secs. TIMEOUT" "\<lambda>k. UNTIMEOUT" "\<lambda>s k. timers s" "\<lambda>s :: 'c sys. True"
  by unfold_locales simp_all

section \<open>Running what is due\<close>

text \<open>The callouts that can become due while the clock has not passed \<open>T\<close>.\<close>

definition due_count :: "timeval \<Rightarrow> 'k callouts \<Rightarrow> nat" where
  "due_count T q = length (filter (\<lambda>p. c_time p \<le> T) (callout q))"


text \<open>An example: a function that is called every three seconds and records its calls.\<close>

definition every3 :: "unit \<Rightarrow> unit callouts \<times> nat \<Rightarrow> unit callouts \<times> nat" where
  "every3 k st = (timeout (\<lambda>n. Timeval 10 5) () 3 0 (fst st), snd st + 1)"

lemma every3_ok: "in_order q \<Longrightarrow> in_order (fst (every3 k (q, s)))"
    "due_count (Timeval 10 5) (fst (every3 k (q, s))) \<le> due_count (Timeval 10 5) q"
proof -
  have d: "length (filter (\<lambda>p. c_time p \<le> T) (insert_callout c ps)) = length (filter (\<lambda>p. c_time p \<le> T) ps)" if "T < c_time c" for T c ps
    using that by (induction ps) (auto simp: not_le)
  show "in_order q \<Longrightarrow> in_order (fst (every3 k (q, s)))"
    by (simp add: every3_def callouts.ok_arm)
  show "due_count (Timeval 10 5) (fst (every3 k (q, s))) \<le> due_count (Timeval 10 5) q"
    by (simp add: every3_def timeout_def gettimeofday_def due_count_def d after_def less_timeval_def)
qed


text \<open>\<open>timeleft\<close> gives the exact time to wait: it is never negative and is normalised, and waiting that long from the
  time read reaches the time of the first callout, or stays at the time read if the callout is overdue.\<close>

theorem timeleft_exact:
  assumes "callout q = p # ps" "normalised (c_time p)" "normalised (clock (reads q))"
  shows "\<exists>t. timeleft clock q = (Some t, q\<lparr>reads := reads q + 1\<rparr>) \<and> Timeval 0 0 \<le> t \<and> normalised t \<and>
    after (clock (reads q)) (tv_sec t) (tv_usec t) = max (clock (reads q)) (c_time p)"
proof -
  obtain s u where p: "c_time p = Timeval s u" by (cases "c_time p")
  obtain s' u' where c: "clock (reads q) = Timeval s' u'" by (cases "clock (reads q)")
  have b: "0 \<le> u" "u < 1000000" "0 \<le> u'" "u' < 1000000" using assms(2,3) by (simp_all add: p c normalised_def)
  show ?thesis
  proof (cases "u - u' < 0")
    case True
    then show ?thesis
      using b by (auto simp: timeleft_def assms(1) gettimeofday_def p c after_def less_eq_timeval_def normalised_def max_def Let_def)
  next
    case False
    then show ?thesis
      using b by (auto simp: timeleft_def assms(1) gettimeofday_def p c after_def less_eq_timeval_def normalised_def max_def Let_def)
  qed
qed

theorem timeleft_exact_witness:
  "\<exists>t. timeleft (\<lambda>n. Timeval 10 5) \<lparr>callout = [\<lparr>c_time = Timeval 12 3, c_key = ()\<rparr>], reads = 0\<rparr> =
     (Some t, \<lparr>callout = [\<lparr>c_time = Timeval 12 3, c_key = ()\<rparr>], reads = 1\<rparr>) \<and> after (Timeval 10 5) (tv_sec t) (tv_usec t) = Timeval 12 3"
  using timeleft_exact [of "\<lparr>callout = [\<lparr>c_time = Timeval 12 3, c_key = ()\<rparr>], reads = 0\<rparr>" "\<lparr>c_time = Timeval 12 3, c_key = ()\<rparr>" "[]" "\<lambda>n. Timeval 10 5"]
  by (auto simp: normalised_def less_eq_timeval_def max_def)

end
