(* ===== verification/Ppp_Auth.thy ===== *)
theory Ppp_Auth
  imports Ppp_Timer Ppp_Print
begin

text \<open>
  What the two authentication protocols of \<open>pppd\<close> share: the results they report to \<open>auth.c\<close>, the two functions of
  \<open>src/external/ppp/pppd/auth.c\<close> that decide for them in the Android build, and the contract of an authenticator, in
  which a success that is reported has a cause among the events of the run.
\<close>

definition PPP_PAP :: u16 where "PPP_PAP = 0xc023"
definition PPP_CHAP :: u16 where "PPP_CHAP = 0xc223"

text \<open>Calls of \<open>auth_peer_success\<close>, \<open>auth_peer_fail\<close>, \<open>auth_withpeer_success\<close> and \<open>auth_withpeer_fail\<close>; the first with the
  name of the peer.\<close>

datatype auth_report = Peer_success bytes | Peer_fail | Withpeer_success | Withpeer_fail

section \<open>Decisions of auth.c\<close>

definition UPAP_AUTHREQ :: u8 where "UPAP_AUTHREQ = 1"
definition UPAP_AUTHACK :: u8 where "UPAP_AUTHACK = 2"
definition UPAP_AUTHNAK :: u8 where "UPAP_AUTHNAK = 3"

text \<open>\<open>check_passwd\<close> gives the code of the answer and the message that it stores through its last argument; \<open>None\<close>
  is a message pointer that it leaves as it was. In the Android build it does nothing else than refuse.\<close>

definition check_passwd_android :: "bytes \<Rightarrow> bytes \<Rightarrow> u8 \<times> bytes option" where
  "check_passwd_android auser apasswd = (UPAP_AUTHNAK, None)"

text \<open>\<open>strncasecmp(w, number, l) == 0\<close> on C strings without their final 0, and \<open>auth_number\<close>. A word of length 0 makes the
  code read the byte before it; the result is then not determined, \<open>None\<close>.\<close>

definition lower :: "u8 \<Rightarrow> u8" where
  "lower b = (if 65 \<le> b \<and> b \<le> 90 then b + 32 else b)"

definition same_prefix :: "nat \<Rightarrow> bytes \<Rightarrow> bytes \<Rightarrow> bool" where
  "same_prefix l a b = (map lower (take l a) = map lower (take l b))"

primrec number_matches :: "bytes list \<Rightarrow> bytes \<Rightarrow> bool option" where
  "number_matches [] num = Some False"
| "number_matches (w # ws) num =
     (if w = [] then None
      else if same_prefix (if last w = 0x2a then length w - 1 else length w) w num then Some True
      else number_matches ws num)"

definition auth_number :: "bytes list \<Rightarrow> bytes \<Rightarrow> bool option" where
  "auth_number permitted num = (if permitted = [] then Some True else number_matches permitted num)"

text \<open>\<open>get_secret\<close>: the secret that the client \<open>cname\<close> uses with the server \<open>sname\<close>. A client has the password of the options first and that of a
  plugin second; otherwise the secrets file is scanned, whose answer is \<open>None\<close> if it cannot be read or has no entry. At
  most \<open>MAXSECRETLEN\<close> bytes of a secret are used. The address list of the entry goes to the checks of IPCP and is left out.\<close>

definition MAXNAMELEN :: nat where "MAXNAMELEN = 256"
definition MAXSECRETLEN :: nat where "MAXSECRETLEN = 256"

record secrets =
  opt_passwd :: bytes
  chap_passwd_hook :: "(bytes \<Rightarrow> bytes option) option"
  scan_authfile :: "bytes \<Rightarrow> bytes \<Rightarrow> bytes option"

definition get_secret :: "secrets \<Rightarrow> bytes \<Rightarrow> bytes \<Rightarrow> bool \<Rightarrow> bytes option" where
  "get_secret sec cname sname am_server =
     (let secbuf = (if \<not> am_server \<and> opt_passwd sec \<noteq> [] then Some (opt_passwd sec)
                    else if \<not> am_server \<and> chap_passwd_hook sec \<noteq> None then the (chap_passwd_hook sec) cname
                    else scan_authfile sec cname sname)
      in map_option (take MAXSECRETLEN) secbuf)"

section \<open>Packets\<close>

lemma be16_bytes: "n < 65536 \<Longrightarrow> unat (of_nat (n div 256) :: u8) * 256 + unat (of_nat n :: u8) = n"
  by (simp add: unat_of_nat take_bit_eq_mod)

lemma parse_packet:
  "length body + 4 < 65536 \<Longrightarrow> parse_header ([code, pid] @ be16 (4 + length body) @ body) = Some (code, pid, body)"
  using be16_bytes [of "4 + length body"] by (simp add: parse_header_def be16_def HEADERLEN_def Let_def)

lemma length_MAKEHEADER [simp]: "length (MAKEHEADER t) = 4"
  by (simp add: MAKEHEADER_def be16_def)

section \<open>Authenticators\<close>

text \<open>Every success that a step reports is one that \<open>cause\<close> explains by the event and the state before it.\<close>

locale authenticator =
  fixes act :: "'e \<Rightarrow> 's \<Rightarrow> 's"
    and reported :: "'s \<Rightarrow> auth_report list"
    and cause :: "'s \<Rightarrow> 'e \<Rightarrow> bytes \<Rightarrow> bool"
  assumes success_caused:
    "Peer_success n \<in> set (reported (act e s)) \<Longrightarrow> Peer_success n \<in> set (reported s) \<or> cause s e n"
begin

theorem success_has_cause:
  assumes "Peer_success n \<in> set (reported (fold act es s))" "Peer_success n \<notin> set (reported s)"
  shows "\<exists>before e rest. es = before @ e # rest \<and> cause (fold act before s) e n"
  using assms
proof (induction es rule: rev_induct)
  case (snoc e es)
  show ?case
  proof (cases "Peer_success n \<in> set (reported (fold act es s))")
    case True
    then obtain before e' rest where "es = before @ e' # rest" "cause (fold act before s) e' n"
      using snoc by blast
    then show ?thesis
      by (intro exI [of _ before] exI [of _ e'] exI [of _ "rest @ [e]"]) simp
  next
    case False
    then have "cause (fold act es s) e n"
      using success_caused snoc.prems(1) by auto
    then show ?thesis by (intro exI [of _ es] exI [of _ e] exI [of _ "[]"]) simp
  qed
qed simp

end

end
