(* ===== verification/Ppp_Upap.thy ===== *)
theory Ppp_Upap
  imports Ppp_Auth
begin

text \<open>
  The password authentication protocol of \<open>pppd\<close>, \<open>src/external/ppp/pppd/upap.c\<close> and \<open>upap.h\<close>, both the client that
  sends its name and password and the server that checks them.

  The state of a run is the \<open>upap_state\<close> of the one unit, the numbers of pending calls of \<open>upap_timeout\<close> and
  \<open>upap_reqtimeout\<close>, the packets sent, and the results reported to \<open>auth.c\<close>. \<open>fault\<close> is set where the code would read
  through a pointer that was never set; nothing that follows is then determined. Log output is left out.

  A failure that is reported closes LCP. When LCP is open, as it is while a peer is authenticated, \<open>lcp_close\<close> takes the
  layers above it down before it returns, so that \<open>upap_lowerdown\<close> runs inside \<open>auth_peer_fail\<close> and \<open>auth_withpeer_fail\<close>.
\<close>

section \<open>Data\<close>

definition UPAP_HEADERLEN :: nat where "UPAP_HEADERLEN = 4"
definition UPAP_DEFTIMEOUT :: int where "UPAP_DEFTIMEOUT = 3"
definition UPAP_DEFREQTIME :: int where "UPAP_DEFREQTIME = 30"

datatype upap_cs = UPAPCS_INITIAL | UPAPCS_CLOSED | UPAPCS_PENDING | UPAPCS_AUTHREQ | UPAPCS_OPEN | UPAPCS_BADAUTH
datatype upap_ss = UPAPSS_INITIAL | UPAPSS_CLOSED | UPAPSS_PENDING | UPAPSS_LISTEN | UPAPSS_OPEN | UPAPSS_BADAUTH

record upap_state =
  us_unit :: int
  us_user :: bytes
  us_passwd :: bytes
  us_clientstate :: upap_cs
  us_serverstate :: upap_ss
  us_id :: u8
  us_timeouttime :: int
  us_transmits :: int
  us_maxtransmits :: int
  us_reqtimeout :: int

record upap_sys =
  upap :: upap_state
  timeouts :: nat
  reqtimeouts :: nat
  out :: "bytes list"
  reports :: "auth_report list"
  fault :: bool

text \<open>\<open>check_passwd\<close> as in \<^verbatim>\<open>Ppp_Auth\<close>, and the result of \<open>auth_number\<close>.\<close>

record upap_env =
  check_passwd :: "bytes \<Rightarrow> bytes \<Rightarrow> u8 \<times> bytes option"
  number_ok :: bool
  hide_password :: bool
  lcp_opened :: bool

definition us :: "(upap_state \<Rightarrow> upap_state) \<Rightarrow> upap_sys \<Rightarrow> upap_sys" where
  "us g s = s\<lparr>upap := g (upap s)\<rparr>"

definition client_to :: "upap_cs \<Rightarrow> upap_sys \<Rightarrow> upap_sys" where
  "client_to st = us (us_clientstate_update (\<lambda>_. st))"

definition server_to :: "upap_ss \<Rightarrow> upap_sys \<Rightarrow> upap_sys" where
  "server_to st = us (us_serverstate_update (\<lambda>_. st))"

definition report :: "auth_report \<Rightarrow> upap_sys \<Rightarrow> upap_sys" where
  "report r s = s\<lparr>reports := reports s @ [r]\<rparr>"

section \<open>Sending\<close>

definition upap_init :: "upap_sys \<Rightarrow> upap_sys" where
  "upap_init = us (\<lambda>u. u\<lparr>us_unit := 0, us_user := [], us_passwd := [], us_clientstate := UPAPCS_INITIAL,
     us_serverstate := UPAPSS_INITIAL, us_id := 0, us_timeouttime := UPAP_DEFTIMEOUT, us_maxtransmits := 10,
     us_reqtimeout := UPAP_DEFREQTIME\<rparr>)"

text \<open>The lengths go out as one byte each (\<open>PUTCHAR\<close>), the length of the packet as two.\<close>

definition authreq_packet :: "u8 \<Rightarrow> bytes \<Rightarrow> bytes \<Rightarrow> bytes" where
  "authreq_packet pid user passwd =
     (let outlen = UPAP_HEADERLEN + 2 + length user + length passwd
      in [UPAP_AUTHREQ, pid] @ be16 outlen @ [of_nat (length user)] @ user @ [of_nat (length passwd)] @ passwd)"

definition upap_sauthreq :: "upap_sys \<Rightarrow> upap_sys" where
  "upap_sauthreq s =
     (let s = us (\<lambda>u. u\<lparr>us_id := us_id u + 1\<rparr>) s;
          u = upap s;
          s = s\<lparr>out := out s @ [MAKEHEADER PPP_PAP @ authreq_packet (us_id u) (us_user u) (us_passwd u)]\<rparr>;
          s = s\<lparr>timeouts := timeouts s + 1\<rparr>
      in us (\<lambda>u. u\<lparr>us_transmits := us_transmits u + 1, us_clientstate := UPAPCS_AUTHREQ\<rparr>) s)"

definition resp_packet :: "u8 \<Rightarrow> u8 \<Rightarrow> bytes \<Rightarrow> bytes" where
  "resp_packet code pid msg =
     (let outlen = UPAP_HEADERLEN + 1 + length msg
      in [code, pid] @ be16 outlen @ [of_nat (length msg)] @ msg)"

definition upap_sresp :: "u8 \<Rightarrow> u8 \<Rightarrow> bytes \<Rightarrow> upap_sys \<Rightarrow> upap_sys" where
  "upap_sresp code pid msg s = s\<lparr>out := out s @ [MAKEHEADER PPP_PAP @ resp_packet code pid msg]\<rparr>"

section \<open>Events\<close>

definition upap_authwithpeer :: "bytes \<Rightarrow> bytes \<Rightarrow> upap_sys \<Rightarrow> upap_sys" where
  "upap_authwithpeer user password s =
     (let s = us (\<lambda>u. u\<lparr>us_user := user, us_passwd := password, us_transmits := 0\<rparr>) s in
      if us_clientstate (upap s) = UPAPCS_INITIAL \<or> us_clientstate (upap s) = UPAPCS_PENDING
      then client_to UPAPCS_PENDING s
      else upap_sauthreq s)"

definition upap_listen :: "upap_sys \<Rightarrow> upap_sys" where
  "upap_listen s =
     (let s = server_to UPAPSS_LISTEN s
      in if us_reqtimeout (upap s) > 0 then s\<lparr>reqtimeouts := reqtimeouts s + 1\<rparr> else s)"

definition upap_authpeer :: "upap_sys \<Rightarrow> upap_sys" where
  "upap_authpeer s =
     (if us_serverstate (upap s) = UPAPSS_INITIAL \<or> us_serverstate (upap s) = UPAPSS_PENDING
      then server_to UPAPSS_PENDING s
      else upap_listen s)"

definition upap_lowerdown :: "upap_sys \<Rightarrow> upap_sys" where
  "upap_lowerdown s =
     (let s = (if us_clientstate (upap s) = UPAPCS_AUTHREQ then s\<lparr>timeouts := timeouts s - 1\<rparr> else s);
          s = (if us_serverstate (upap s) = UPAPSS_LISTEN \<and> us_reqtimeout (upap s) > 0
               then s\<lparr>reqtimeouts := reqtimeouts s - 1\<rparr> else s)
      in server_to UPAPSS_INITIAL (client_to UPAPCS_INITIAL s))"

definition auth_fail :: "upap_env \<Rightarrow> auth_report \<Rightarrow> upap_sys \<Rightarrow> upap_sys" where
  "auth_fail env r s = (if lcp_opened env then upap_lowerdown (report r s) else report r s)"

definition upap_timeout :: "upap_env \<Rightarrow> upap_sys \<Rightarrow> upap_sys" where
  "upap_timeout env s =
     (if us_clientstate (upap s) \<noteq> UPAPCS_AUTHREQ then s
      else if us_transmits (upap s) \<ge> us_maxtransmits (upap s)
      then auth_fail env Withpeer_fail (client_to UPAPCS_BADAUTH s)
      else upap_sauthreq s)"

definition upap_reqtimeout :: "upap_env \<Rightarrow> upap_sys \<Rightarrow> upap_sys" where
  "upap_reqtimeout env s =
     (if us_serverstate (upap s) \<noteq> UPAPSS_LISTEN then s
      else server_to UPAPSS_BADAUTH (auth_fail env Peer_fail s))"

definition upap_lowerup :: "upap_sys \<Rightarrow> upap_sys" where
  "upap_lowerup s =
     (let s = (if us_clientstate (upap s) = UPAPCS_INITIAL then client_to UPAPCS_CLOSED s
               else if us_clientstate (upap s) = UPAPCS_PENDING then upap_sauthreq s
               else s)
      in if us_serverstate (upap s) = UPAPSS_INITIAL then server_to UPAPSS_CLOSED s
         else if us_serverstate (upap s) = UPAPSS_PENDING then upap_listen s
         else s)"

definition upap_protrej :: "upap_env \<Rightarrow> upap_sys \<Rightarrow> upap_sys" where
  "upap_protrej env s =
     (let s = (if us_clientstate (upap s) = UPAPCS_AUTHREQ then auth_fail env Withpeer_fail s else s);
          s = (if us_serverstate (upap s) = UPAPSS_LISTEN then auth_fail env Peer_fail s else s)
      in upap_lowerdown s)"

text \<open>The name and password of a request, \<open>None\<close> for a packet that is too short.\<close>

definition authreq_fields :: "bytes \<Rightarrow> (bytes \<times> bytes) option" where
  "authreq_fields inp =
     (if length inp < 1 then None
      else let ruserlen = unat (inp ! 0) in
        if length inp < 1 + ruserlen + 1 then None
        else let rpasswdlen = unat (inp ! (1 + ruserlen)) in
          if length inp - (1 + ruserlen + 1) < rpasswdlen then None
          else Some (take ruserlen (drop 1 inp), take rpasswdlen (drop (1 + ruserlen + 1) inp)))"

definition rauthreq_verdict :: "upap_env \<Rightarrow> bytes \<Rightarrow> bytes \<Rightarrow> u8 \<times> bytes option" where
  "rauthreq_verdict env ruser rpasswd =
     (let (retcode, msg) = check_passwd env ruser rpasswd
      in (if retcode = UPAP_AUTHACK \<and> \<not> number_ok env then UPAP_AUTHNAK else retcode, msg))"

definition rauthreq_answer :: "upap_env \<Rightarrow> u8 \<Rightarrow> u8 \<Rightarrow> bytes \<Rightarrow> bytes \<Rightarrow> upap_sys \<Rightarrow> upap_sys" where
  "rauthreq_answer env retcode pid msg ruser s =
     (let s = upap_sresp retcode pid (take 255 msg) s;
          s = (if retcode = UPAP_AUTHACK then report (Peer_success ruser) (server_to UPAPSS_OPEN s)
               else auth_fail env Peer_fail (server_to UPAPSS_BADAUTH s))
      in if us_reqtimeout (upap s) > 0 then s\<lparr>reqtimeouts := reqtimeouts s - 1\<rparr> else s)"

definition upap_rauthreq :: "upap_env \<Rightarrow> u8 \<Rightarrow> bytes \<Rightarrow> upap_sys \<Rightarrow> upap_sys" where
  "upap_rauthreq env pid inp s =
     (let st = us_serverstate (upap s) in
      if st = UPAPSS_INITIAL \<or> st = UPAPSS_CLOSED \<or> st = UPAPSS_PENDING then s
      else if st = UPAPSS_OPEN then upap_sresp UPAP_AUTHACK pid [] s
      else if st = UPAPSS_BADAUTH then upap_sresp UPAP_AUTHNAK pid [] s
      else case authreq_fields inp of
        None \<Rightarrow> s
      | Some (ruser, rpasswd) \<Rightarrow>
         (let (retcode, msg) = rauthreq_verdict env ruser rpasswd in
          case msg of
            None \<Rightarrow> s\<lparr>fault := True\<rparr>
          | Some m \<Rightarrow> rauthreq_answer env retcode pid m ruser s))"

text \<open>An answer whose message is cut short is dropped; one without a message length is not.\<close>

definition status_ok :: "bytes \<Rightarrow> bool" where
  "status_ok inp = (if length inp < 1 then True else unat (inp ! 0) = 0 \<or> length inp - 1 \<ge> unat (inp ! 0))"

definition upap_rauthack :: "bytes \<Rightarrow> upap_sys \<Rightarrow> upap_sys" where
  "upap_rauthack inp s =
     (if us_clientstate (upap s) \<noteq> UPAPCS_AUTHREQ then s
      else if \<not> status_ok inp then s
      else report Withpeer_success (client_to UPAPCS_OPEN s))"

definition upap_rauthnak :: "upap_env \<Rightarrow> bytes \<Rightarrow> upap_sys \<Rightarrow> upap_sys" where
  "upap_rauthnak env inp s =
     (if us_clientstate (upap s) \<noteq> UPAPCS_AUTHREQ then s
      else if \<not> status_ok inp then s
      else auth_fail env Withpeer_fail (client_to UPAPCS_BADAUTH s))"

definition upap_input :: "upap_env \<Rightarrow> bytes \<Rightarrow> upap_sys \<Rightarrow> upap_sys" where
  "upap_input env inpacket s =
     (if length inpacket < UPAP_HEADERLEN then s
      else let len = unat (inpacket ! 2) * 256 + unat (inpacket ! 3) in
        if len < UPAP_HEADERLEN then s
        else if len > length inpacket then s
        else let code = inpacket ! 0; pid = inpacket ! 1; inp = take (len - UPAP_HEADERLEN) (drop UPAP_HEADERLEN inpacket) in
          if code = UPAP_AUTHREQ then upap_rauthreq env pid inp s
          else if code = UPAP_AUTHACK then upap_rauthack inp s
          else if code = UPAP_AUTHNAK then upap_rauthnak env inp s
          else s)"

section \<open>Packets as text\<close>

definition upap_codenames :: "string list" where
  "upap_codenames = [''AuthReq'', ''AuthAck'', ''AuthNak'']"

text \<open>What is printed of the contents, and the bytes that are left for the hex dump.\<close>

definition print_authreq :: "bool \<Rightarrow> bytes \<Rightarrow> string list \<times> bytes" where
  "print_authreq hide p =
     (case authreq_fields p of
        None \<Rightarrow> ([], p)
      | Some (user, pwd) \<Rightarrow>
          ([CHR 0x20 # ''user=''] @ print_string user @ [CHR 0x20 # ''password=''] @ (if hide then [''<hidden>''] else print_string pwd),
           drop (length user + length pwd + 2) p))"

definition print_status :: "bytes \<Rightarrow> string list \<times> bytes" where
  "print_status p =
     (if length p < 1 then ([], p)
      else let mlen = unat (p ! 0) in
        if length p < mlen + 1 then ([], p)
        else ([[CHR 0x20]] @ print_string (take mlen (drop 1 p)), drop (mlen + 1) p))"

definition upap_printpkt :: "bool \<Rightarrow> bytes \<Rightarrow> nat \<times> string list" where
  "upap_printpkt hide p =
     (if length p < UPAP_HEADERLEN then (0, [])
      else let code = p ! 0; pid = p ! 1; len = unat (p ! 2) * 256 + unat (p ! 3) in
        if len < UPAP_HEADERLEN \<or> len > length p then (0, [])
        else let inp = take (len - UPAP_HEADERLEN) (drop UPAP_HEADERLEN p);
                 (txt, rest) = (if code = UPAP_AUTHREQ then print_authreq hide inp
                                else if code = UPAP_AUTHACK \<or> code = UPAP_AUTHNAK then print_status inp
                                else ([], inp))
             in (UPAP_HEADERLEN + (length inp - length rest) + length rest,
                 print_code upap_codenames code pid @ txt @ print_rest rest))"

section \<open>Steps\<close>

text \<open>The entry points; a timeout runs only when one is pending, and is then no longer pending.\<close>

datatype upap_event = Pap_authwithpeer bytes bytes | Pap_authpeer | Pap_lowerup | Pap_lowerdown | Pap_protrej
  | Pap_input bytes | Pap_timeout | Pap_reqtimeout

fun upap_do :: "upap_env \<Rightarrow> upap_event \<Rightarrow> upap_sys \<Rightarrow> upap_sys" where
  "upap_do env (Pap_authwithpeer user password) s = upap_authwithpeer user password s"
| "upap_do env Pap_authpeer s = upap_authpeer s"
| "upap_do env Pap_lowerup s = upap_lowerup s"
| "upap_do env Pap_lowerdown s = upap_lowerdown s"
| "upap_do env Pap_protrej s = upap_protrej env s"
| "upap_do env (Pap_input p) s = upap_input env p s"
| "upap_do env Pap_timeout s = (if timeouts s = 0 then s else upap_timeout env (s\<lparr>timeouts := timeouts s - 1\<rparr>))"
| "upap_do env Pap_reqtimeout s = (if reqtimeouts s = 0 then s else upap_reqtimeout env (s\<lparr>reqtimeouts := reqtimeouts s - 1\<rparr>))"

section \<open>Effects\<close>

lemma us_sel [simp]: "upap (us g s) = g (upap s)" "timeouts (us g s) = timeouts s" "reqtimeouts (us g s) = reqtimeouts s"
    "out (us g s) = out s" "reports (us g s) = reports s" "fault (us g s) = fault s"
  by (simp_all add: us_def)

lemma to_sel [simp]: "upap (client_to c s) = (upap s)\<lparr>us_clientstate := c\<rparr>" "upap (server_to v s) = (upap s)\<lparr>us_serverstate := v\<rparr>"
    "timeouts (client_to c s) = timeouts s" "timeouts (server_to v s) = timeouts s" "reqtimeouts (client_to c s) = reqtimeouts s"
    "reqtimeouts (server_to v s) = reqtimeouts s" "out (client_to c s) = out s" "out (server_to v s) = out s"
    "reports (client_to c s) = reports s" "reports (server_to v s) = reports s" "fault (client_to c s) = fault s" "fault (server_to v s) = fault s"
  by (simp_all add: client_to_def server_to_def)

lemma report_sel [simp]: "upap (report r s) = upap s" "timeouts (report r s) = timeouts s" "reqtimeouts (report r s) = reqtimeouts s"
    "out (report r s) = out s" "reports (report r s) = reports s @ [r]" "fault (report r s) = fault s"
  by (simp_all add: report_def)

lemma sresp_sel [simp]: "upap (upap_sresp c i m s) = upap s" "timeouts (upap_sresp c i m s) = timeouts s" "reqtimeouts (upap_sresp c i m s) = reqtimeouts s"
    "out (upap_sresp c i m s) = out s @ [MAKEHEADER PPP_PAP @ resp_packet c i m]" "reports (upap_sresp c i m s) = reports s" "fault (upap_sresp c i m s) = fault s"
  by (simp_all add: upap_sresp_def)

lemma sauthreq_sel [simp]:
  "upap (upap_sauthreq s) = (upap s)\<lparr>us_id := us_id (upap s) + 1, us_transmits := us_transmits (upap s) + 1, us_clientstate := UPAPCS_AUTHREQ\<rparr>"
  "timeouts (upap_sauthreq s) = timeouts s + 1" "reqtimeouts (upap_sauthreq s) = reqtimeouts s" "reports (upap_sauthreq s) = reports s"
  "fault (upap_sauthreq s) = fault s"
  "out (upap_sauthreq s) = out s @ [MAKEHEADER PPP_PAP @ authreq_packet (us_id (upap s) + 1) (us_user (upap s)) (us_passwd (upap s))]"
  by (simp_all add: upap_sauthreq_def Let_def)

lemma listen_sel [simp]:
  "upap (upap_listen s) = (upap s)\<lparr>us_serverstate := UPAPSS_LISTEN\<rparr>" "timeouts (upap_listen s) = timeouts s" "reports (upap_listen s) = reports s"
  "reqtimeouts (upap_listen s) = (if us_reqtimeout (upap s) > 0 then reqtimeouts s + 1 else reqtimeouts s)"
  by (simp_all add: upap_listen_def Let_def)

lemma lowerdown_sel [simp]:
  "upap (upap_lowerdown s) = (upap s)\<lparr>us_clientstate := UPAPCS_INITIAL, us_serverstate := UPAPSS_INITIAL\<rparr>" "out (upap_lowerdown s) = out s"
  "reports (upap_lowerdown s) = reports s" "fault (upap_lowerdown s) = fault s"
  "timeouts (upap_lowerdown s) = (if us_clientstate (upap s) = UPAPCS_AUTHREQ then timeouts s - 1 else timeouts s)"
  "reqtimeouts (upap_lowerdown s) =
     (if us_serverstate (upap s) = UPAPSS_LISTEN \<and> us_reqtimeout (upap s) > 0 then reqtimeouts s - 1 else reqtimeouts s)"
  by (auto simp: upap_lowerdown_def Let_def)

lemma auth_fail_sel [simp]:
  "upap (auth_fail env r s) = (if lcp_opened env then (upap s)\<lparr>us_clientstate := UPAPCS_INITIAL, us_serverstate := UPAPSS_INITIAL\<rparr> else upap s)"
  "out (auth_fail env r s) = out s" "reports (auth_fail env r s) = reports s @ [r]" "fault (auth_fail env r s) = fault s"
  "timeouts (auth_fail env r s) = (if lcp_opened env \<and> us_clientstate (upap s) = UPAPCS_AUTHREQ then timeouts s - 1 else timeouts s)"
  "reqtimeouts (auth_fail env r s) =
     (if lcp_opened env \<and> us_serverstate (upap s) = UPAPSS_LISTEN \<and> us_reqtimeout (upap s) > 0 then reqtimeouts s - 1 else reqtimeouts s)"
  by (simp_all add: auth_fail_def)

text \<open>The packet as \<open>parse_header\<close> of the automaton sees it: the two protocols have the same header.\<close>

lemma upap_input_parsed:
  "upap_input env p s =
     (case parse_header p of
        None \<Rightarrow> s
      | Some (code, pid, inp) \<Rightarrow>
          if code = UPAP_AUTHREQ then upap_rauthreq env pid inp s
          else if code = UPAP_AUTHACK then upap_rauthack inp s
          else if code = UPAP_AUTHNAK then upap_rauthnak env inp s
          else s)"
  by (simp add: upap_input_def parse_header_def UPAP_HEADERLEN_def HEADERLEN_def Let_def)

section \<open>Success is checked\<close>

text \<open>The name and password that a packet asks to be authenticated with.\<close>

definition pap_request :: "bytes \<Rightarrow> (bytes \<times> bytes) option" where
  "pap_request p =
     (case parse_header p of
        None \<Rightarrow> None
      | Some (code, pid, inp) \<Rightarrow> if code = UPAP_AUTHREQ then authreq_fields inp else None)"

definition pap_cause :: "upap_env \<Rightarrow> upap_sys \<Rightarrow> upap_event \<Rightarrow> bytes \<Rightarrow> bool" where
  "pap_cause env s e n \<longleftrightarrow>
     (\<exists>p pw. e = Pap_input p \<and> us_serverstate (upap s) = UPAPSS_LISTEN \<and> pap_request p = Some (n, pw) \<and>
        fst (check_passwd env n pw) = UPAP_AUTHACK \<and> number_ok env)"

lemma rauthreq_reports:
  assumes "Peer_success n \<in> set (reports (upap_rauthreq env pid inp s))" "Peer_success n \<notin> set (reports s)"
  shows "us_serverstate (upap s) = UPAPSS_LISTEN \<and> (\<exists>pw. authreq_fields inp = Some (n, pw) \<and> fst (check_passwd env n pw) = UPAP_AUTHACK) \<and> number_ok env"
  using assms
  by (cases "us_serverstate (upap s)")
    (auto simp: upap_rauthreq_def rauthreq_answer_def rauthreq_verdict_def Let_def UPAP_AUTHACK_def UPAP_AUTHNAK_def split_beta
      split: option.splits if_splits)

interpretation pap: authenticator "upap_do env" reports "pap_cause env" for env
proof
  fix n e s
  assume a: "Peer_success n \<in> set (reports (upap_do env e s))"
  show "Peer_success n \<in> set (reports s) \<or> pap_cause env s e n"
  proof (cases e)
    case (Pap_input p)
    then show ?thesis
      using a rauthreq_reports
      by (fastforce simp: upap_input_parsed upap_rauthack_def upap_rauthnak_def pap_cause_def pap_request_def split: option.splits if_splits)
  qed (use a in \<open>auto simp: upap_authwithpeer_def upap_authpeer_def upap_lowerup_def upap_lowerdown_def upap_protrej_def upap_timeout_def
      upap_reqtimeout_def Let_def split: if_splits\<close>)
qed

text \<open>The server reports a peer as authenticated only for cause: whenever a run of PAP, in whatever order its events
  come, has reported success for a name, one of its events was a request that carried this name and a password that
  \<open>check_passwd\<close> accepted, received while the server was listening, from a calling number that is allowed.\<close>

theorem pap_success_checked:
  assumes "Peer_success n \<in> set (reports (fold (upap_do env) es s))" "reports s = []"
  shows "\<exists>before p rest pw. es = before @ Pap_input p # rest \<and> us_serverstate (upap (fold (upap_do env) before s)) = UPAPSS_LISTEN \<and>
    pap_request p = Some (n, pw) \<and> fst (check_passwd env n pw) = UPAP_AUTHACK \<and> number_ok env"
  using pap.success_has_cause [OF assms(1)] assms(2) by (fastforce simp: pap_cause_def)

section \<open>Client and server\<close>

lemma authreq_fields_packet:
  "length u < 256 \<Longrightarrow> length p < 256 \<Longrightarrow> authreq_fields ([of_nat (length u)] @ u @ [of_nat (length p)] @ p) = Some (u, p)"
  by (simp add: authreq_fields_def Let_def unat_of_nat take_bit_eq_mod nth_append)

lemma parse_authreq:
  assumes "length u < 256" "length p < 256"
  shows "parse_header (authreq_packet pid u p) = Some (UPAP_AUTHREQ, pid, [of_nat (length u)] @ u @ [of_nat (length p)] @ p)"
  using parse_packet [of "[of_nat (length u)] @ u @ [of_nat (length p)] @ p" UPAP_AUTHREQ pid] assms
  by (simp add: authreq_packet_def UPAP_HEADERLEN_def Let_def add.commute add.left_commute)

lemma parse_resp:
  assumes "length m < 256"
  shows "parse_header (resp_packet code pid m) = Some (code, pid, of_nat (length m) # m)"
  using parse_packet [of "of_nat (length m) # m" code pid] assms
  by (simp add: resp_packet_def UPAP_HEADERLEN_def Let_def)

lemma status_ok_packet: "length m < 256 \<Longrightarrow> status_ok (of_nat (length m) # m)"
  by (simp add: status_ok_def unat_of_nat take_bit_eq_mod)

lemma upap_codes: "UPAP_AUTHREQ \<noteq> UPAP_AUTHACK" "UPAP_AUTHREQ \<noteq> UPAP_AUTHNAK" "UPAP_AUTHACK \<noteq> UPAP_AUTHNAK"
  by (simp_all add: UPAP_AUTHREQ_def UPAP_AUTHACK_def UPAP_AUTHNAK_def)

lemma server_answers:
  assumes "us_serverstate (upap s) = UPAPSS_LISTEN" "pap_request p = Some (u, w)" "rauthreq_verdict env u w = (code, Some m)"
  shows "\<exists>pid. upap_input env p s = rauthreq_answer env code pid m u s"
  using assms by (auto simp: upap_input_parsed pap_request_def upap_rauthreq_def split: option.splits if_splits)

lemma client_informed:
  assumes "us_clientstate (upap c) = UPAPCS_AUTHREQ" "length m < 256" "code \<in> {UPAP_AUTHACK, UPAP_AUTHNAK}"
  shows "upap_input env (resp_packet code pid m) c =
    (if code = UPAP_AUTHACK then report Withpeer_success (client_to UPAPCS_OPEN c) else auth_fail env Withpeer_fail (client_to UPAPCS_BADAUTH c))"
  using assms upap_codes
  by (auto simp: upap_input_parsed parse_resp upap_rauthack_def upap_rauthnak_def status_ok_packet)


text \<open>C38: In the Android build a server that is asked to authenticate goes wrong on every well-formed request:
  \<open>check_passwd\<close> refuses without setting the message, and \<open>upap_rauthreq\<close> then takes the length of a message through a
  pointer that was never set.\<close>

theorem pap_android_fault:
  assumes "us_serverstate (upap s) = UPAPSS_LISTEN" "pap_request p = Some (user, passwd)" "check_passwd env = check_passwd_android"
  shows "fault (upap_input env p s)"
  using assms
  by (auto simp: upap_input_parsed pap_request_def upap_rauthreq_def rauthreq_verdict_def check_passwd_android_def
      split: option.splits if_splits)

section \<open>Retransmission\<close>

text \<open>A client that waits for an answer always has a timeout pending, and so has a server with a time limit.\<close>

definition upap_waits :: "upap_sys \<Rightarrow> bool" where
  "upap_waits s \<longleftrightarrow> (us_clientstate (upap s) = UPAPCS_AUTHREQ \<longrightarrow> timeouts s > 0) \<and>
     (us_serverstate (upap s) = UPAPSS_LISTEN \<and> us_reqtimeout (upap s) > 0 \<longrightarrow> reqtimeouts s > 0)"

lemma upap_do_waits: "upap_waits s \<Longrightarrow> upap_waits (upap_do env e s)"
proof (cases e)
  case (Pap_input p)
  assume "upap_waits s"
  then show ?thesis
    unfolding Pap_input upap_do.simps upap_input_parsed
    by (cases "us_serverstate (upap s)")
      (auto simp: upap_waits_def upap_rauthack_def upap_rauthnak_def upap_rauthreq_def rauthreq_answer_def Let_def split_beta
        split: option.split)
qed (auto simp: upap_waits_def upap_authwithpeer_def upap_authpeer_def upap_lowerup_def upap_lowerdown_def upap_protrej_def
    upap_timeout_def upap_reqtimeout_def Let_def)

text \<open>The timeouts of a client that gets no answer.\<close>

definition pap_timer_step :: "upap_env \<Rightarrow> unit \<Rightarrow> upap_sys \<Rightarrow> upap_sys option" where
  "pap_timer_step env e s = (if timeouts s = 0 then None else Some (upap_timeout env (s\<lparr>timeouts := timeouts s - 1\<rparr>)))"

definition pap_budget :: "upap_sys \<Rightarrow> nat" where
  "pap_budget s = nat (us_maxtransmits (upap s) - us_transmits (upap s)) + timeouts s"

interpretation pap_client: retransmitter "pap_timer_step env" "\<lambda>_. True" pap_budget upap_waits for env
proof
  fix s s' and e :: unit
  assume "upap_waits s" "pap_timer_step env e s = Some s'"
  then show "upap_waits s'"
    using upap_do_waits [of s env Pap_timeout] by (auto simp: pap_timer_step_def split: if_splits)
  show "pap_budget s' < pap_budget s" if True
    using \<open>pap_timer_step env e s = Some s'\<close>
    by (auto simp: pap_timer_step_def pap_budget_def upap_timeout_def split: if_splits)
qed simp

text \<open>Without an answer the client stops waiting: after more firings than the budget, none is pending any more.\<close>

lemma pap_client_gives_up:
  "upap_waits s \<Longrightarrow> pap_budget s < length es \<Longrightarrow> steps (pap_timer_step env) es s = None"
  by (rule pap_client.stops_after_budget) simp_all

section \<open>Examples\<close>

definition demo_pap_env :: upap_env where
  "demo_pap_env = \<lparr>check_passwd = (\<lambda>u w. if u = [117] \<and> w = [112] then (UPAP_AUTHACK, Some [79, 75]) else (UPAP_AUTHNAK, Some [])),
     number_ok = True, hide_password = True, lcp_opened = True\<rparr>"

definition pap_start :: upap_sys where
  "pap_start = \<lparr>upap = \<lparr>us_unit = 0, us_user = [117], us_passwd = [112], us_clientstate = UPAPCS_CLOSED, us_serverstate = UPAPSS_LISTEN,
     us_id = 0, us_timeouttime = 3, us_transmits = 0, us_maxtransmits = 10, us_reqtimeout = 0\<rparr>,
     timeouts = 0, reqtimeouts = 0, out = [], reports = [], fault = False\<rparr>"

lemma demo_request: "pap_request (authreq_packet 1 [117] [112]) = Some ([117], [112])"
  using authreq_fields_packet [of "[117]" "[112]"] by (simp add: pap_request_def parse_authreq)

theorem pap_success_checked_witness:
  "\<exists>p pw. pap_request p = Some ([117], pw) \<and> fst (check_passwd demo_pap_env [117] pw) = UPAP_AUTHACK"
proof -
  have v: "rauthreq_verdict demo_pap_env [117] [112] = (UPAP_AUTHACK, Some [79, 75])"
    by (simp add: rauthreq_verdict_def demo_pap_env_def)
  have "Peer_success [117] \<in> set (reports (fold (upap_do demo_pap_env) [Pap_input (authreq_packet 1 [117] [112])] pap_start))"
    using server_answers [OF _ demo_request v, of pap_start] by (auto simp: pap_start_def rauthreq_answer_def Let_def)
  from pap_success_checked [OF this] show ?thesis by (auto simp: pap_start_def)
qed


theorem pap_android_fault_witness:
  "fault (upap_input (demo_pap_env\<lparr>check_passwd := check_passwd_android\<rparr>) (authreq_packet 1 [117] [112]) pap_start)"
  using pap_android_fault [OF _ demo_request, of pap_start "demo_pap_env\<lparr>check_passwd := check_passwd_android\<rparr>"]
  by (simp add: pap_start_def)

end
