(* ===== verification/Ppp_Magic.thy ===== *)
theory Ppp_Magic
  imports Net_Prelude
begin

text \<open>
  The random numbers of \<open>pppd\<close>, \<open>src/external/ppp/pppd/magic.c\<close>, on the generator of the C library that it uses:
  \<open>srand48\<close>, \<open>mrand48\<close> and \<open>drand48\<close> share a state of 48 bits. \<open>(int)(drand48() * n)\<close> is computed for powers of
  two \<open>n\<close> only, where the product of doubles is exact.
\<close>

type_synonym rand48 = "48 word"

definition next48 :: "rand48 \<Rightarrow> rand48" where
  "next48 x = 0x5DEECE66D * x + 0xB"

definition srand48 :: "u32 \<Rightarrow> rand48" where
  "srand48 seed = push_bit 16 (ucast seed) OR 0x330E"

definition mrand48 :: "rand48 \<Rightarrow> u32 \<times> rand48" where
  "mrand48 x = (ucast (drop_bit 16 (next48 x)), next48 x)"

definition drand48_times :: "nat \<Rightarrow> rand48 \<Rightarrow> nat \<times> rand48" where
  "drand48_times n x = (unat (next48 x) * n div 2 ^ 48, next48 x)"

definition magic_init :: "u32 \<Rightarrow> u32 \<Rightarrow> u32 \<Rightarrow> u32 \<Rightarrow> rand48" where
  "magic_init host_seed sec usec pid = srand48 (host_seed XOR sec XOR usec XOR pid)"

definition magic :: "rand48 \<Rightarrow> u32 \<times> rand48" where
  "magic x = mrand48 x"

fun random_bytes :: "nat \<Rightarrow> rand48 \<Rightarrow> bytes \<times> rand48" where
  "random_bytes 0 x = ([], x)"
| "random_bytes (Suc len) x =
     (let (m, x) = mrand48 x; (buf, x) = random_bytes len x in (ucast (drop_bit 24 m) # buf, x))"

lemma length_random_bytes [simp]: "length (fst (random_bytes len x)) = len"
  by (induction len arbitrary: x) (auto simp: Let_def split_beta)

lemma drand48_times_less: "0 < n \<Longrightarrow> fst (drand48_times n x) < n"
proof -
  assume "0 < n"
  moreover have "unat (next48 x) < 2 ^ 48" using unsigned_less [of "next48 x"] by simp
  ultimately show ?thesis by (simp add: drand48_times_def less_mult_imp_div_less mult.commute)
qed

text \<open>The byte of a draw is the high byte of the state.\<close>

lemma random_byte: "fst (random_bytes 1 x) = [ucast (drop_bit 40 (next48 x))]"
  by (simp add: mrand48_def Let_def) (rule bit_word_eqI, auto simp: bit_simps)

end
