(* ===== verification/Ppp_Md5.thy ===== *)
theory Ppp_Md5
  imports Net_Prelude
begin

text \<open>
  The message digest of \<open>pppd\<close>, \<open>src/external/ppp/pppd/md5.c\<close> and \<open>md5.h\<close>: \<open>MD5_Init\<close>, \<open>MD5_Update\<close>, \<open>MD5_Final\<close> and
  \<open>Transform\<close>, with the theorem that the digest of a message does not depend on how it is cut into pieces and is that
  of RFC 1321: the message is padded, cut into blocks of 64 bytes, and the blocks are folded into the four words of state.
\<close>

section \<open>Transform\<close>

definition F_fn :: "u32 \<Rightarrow> u32 \<Rightarrow> u32 \<Rightarrow> u32" where "F_fn x y z = (x AND y) OR (NOT x AND z)"
definition G_fn :: "u32 \<Rightarrow> u32 \<Rightarrow> u32 \<Rightarrow> u32" where "G_fn x y z = (x AND z) OR (y AND NOT z)"
definition H_fn :: "u32 \<Rightarrow> u32 \<Rightarrow> u32 \<Rightarrow> u32" where "H_fn x y z = x XOR y XOR z"
definition I_fn :: "u32 \<Rightarrow> u32 \<Rightarrow> u32 \<Rightarrow> u32" where "I_fn x y z = y XOR (x OR NOT z)"

definition ROTATE_LEFT :: "u32 \<Rightarrow> nat \<Rightarrow> u32" where
  "ROTATE_LEFT x n = push_bit n x OR drop_bit (32 - n) x"

type_synonym md5_words = "u32 \<times> u32 \<times> u32 \<times> u32"

text \<open>One line of \<open>Transform\<close>, the macros \<open>FF\<close>, \<open>GG\<close>, \<open>HH\<close> and \<open>II\<close>: the first variable gets a new value, and the next line
  has the variables in the order that is rotated by one place.\<close>

definition round_op :: "(u32 \<Rightarrow> u32 \<Rightarrow> u32 \<Rightarrow> u32) \<Rightarrow> u32 list \<Rightarrow> nat \<times> nat \<times> u32 \<Rightarrow> md5_words \<Rightarrow> md5_words" where
  "round_op f inp op w =
     (let (k, s, ac) = op; (a, b, c, d) = w;
          a = a + (f b c d + inp ! k + ac);
          a = ROTATE_LEFT a s;
          a = a + b
      in (d, a, b, c))"

definition round1 :: "(nat \<times> nat \<times> u32) list" where
  "round1 =
    [(0, 7, 3614090360), (1, 12, 3905402710), (2, 17, 606105819), (3, 22, 3250441966),
     (4, 7, 4118548399), (5, 12, 1200080426), (6, 17, 2821735955), (7, 22, 4249261313),
     (8, 7, 1770035416), (9, 12, 2336552879), (10, 17, 4294925233), (11, 22, 2304563134),
     (12, 7, 1804603682), (13, 12, 4254626195), (14, 17, 2792965006), (15, 22, 1236535329)]"

definition round2 :: "(nat \<times> nat \<times> u32) list" where
  "round2 =
    [(1, 5, 4129170786), (6, 9, 3225465664), (11, 14, 643717713), (0, 20, 3921069994),
     (5, 5, 3593408605), (10, 9, 38016083), (15, 14, 3634488961), (4, 20, 3889429448),
     (9, 5, 568446438), (14, 9, 3275163606), (3, 14, 4107603335), (8, 20, 1163531501),
     (13, 5, 2850285829), (2, 9, 4243563512), (7, 14, 1735328473), (12, 20, 2368359562)]"

definition round3 :: "(nat \<times> nat \<times> u32) list" where
  "round3 =
    [(5, 4, 4294588738), (8, 11, 2272392833), (11, 16, 1839030562), (14, 23, 4259657740),
     (1, 4, 2763975236), (4, 11, 1272893353), (7, 16, 4139469664), (10, 23, 3200236656),
     (13, 4, 681279174), (0, 11, 3936430074), (3, 16, 3572445317), (6, 23, 76029189),
     (9, 4, 3654602809), (12, 11, 3873151461), (15, 16, 530742520), (2, 23, 3299628645)]"

definition round4 :: "(nat \<times> nat \<times> u32) list" where
  "round4 =
    [(0, 6, 4096336452), (7, 10, 1126891415), (14, 15, 2878612391), (5, 21, 4237533241),
     (12, 6, 1700485571), (3, 10, 2399980690), (10, 15, 4293915773), (1, 21, 2240044497),
     (8, 6, 1873313359), (15, 10, 4264355552), (6, 15, 2734768916), (13, 21, 1309151649),
     (4, 6, 4149444226), (11, 10, 3174756917), (2, 15, 718787259), (9, 21, 3951481745)]"

definition Transform :: "u32 list \<Rightarrow> md5_words \<Rightarrow> md5_words" where
  "Transform inp buf =
     (let w = fold (round_op F_fn inp) round1 buf;
          w = fold (round_op G_fn inp) round2 w;
          w = fold (round_op H_fn inp) round3 w;
          (a, b, c, d) = fold (round_op I_fn inp) round4 w;
          (b0, b1, b2, b3) = buf
      in (b0 + a, b1 + b, b2 + c, b3 + d))"

section \<open>Contexts\<close>

record MD5_CTX =
  ctx_i0 :: u32
  ctx_i1 :: u32
  ctx_buf :: md5_words
  ctx_in :: bytes

definition PADDING :: bytes where
  "PADDING = 0x80 # replicate 63 0"

text \<open>The rest of a context that \<open>MD5_Init\<close> does not set stays as it was.\<close>

definition MD5_Init :: "MD5_CTX \<Rightarrow> MD5_CTX" where
  "MD5_Init ctx = ctx\<lparr>ctx_i0 := 0, ctx_i1 := 0, ctx_buf := (0x67452301, 0xefcdab89, 0x98badcfe, 0x10325476)\<rparr>"

text \<open>\<open>n\<close> words of a buffer, low byte first.\<close>

definition word_at :: "bytes \<Rightarrow> nat \<Rightarrow> u32" where
  "word_at p ii = push_bit 24 (ucast (p ! (ii + 3))) OR push_bit 16 (ucast (p ! (ii + 2))) OR push_bit 8 (ucast (p ! (ii + 1))) OR ucast (p ! ii)"

definition words_of :: "nat \<Rightarrow> bytes \<Rightarrow> u32 list" where
  "words_of n p = map (\<lambda>i. word_at p (4 * i)) [0..<n]"

definition ctx_mdi :: "MD5_CTX \<Rightarrow> nat" where
  "ctx_mdi ctx = unat (drop_bit 3 (ctx_i0 ctx) AND 0x3F)"

definition count_bits :: "u32 \<Rightarrow> MD5_CTX \<Rightarrow> MD5_CTX" where
  "count_bits inLen ctx =
     (let ctx = (if ctx_i0 ctx + push_bit 3 inLen < ctx_i0 ctx then ctx\<lparr>ctx_i1 := ctx_i1 ctx + 1\<rparr> else ctx);
          ctx = ctx\<lparr>ctx_i0 := ctx_i0 ctx + push_bit 3 inLen\<rparr>
      in ctx\<lparr>ctx_i1 := ctx_i1 ctx + drop_bit 29 inLen\<rparr>)"

primrec absorb :: "bytes \<Rightarrow> nat \<Rightarrow> MD5_CTX \<Rightarrow> MD5_CTX" where
  "absorb [] mdi ctx = ctx"
| "absorb (b # bs) mdi ctx =
     (let ctx = ctx\<lparr>ctx_in := (ctx_in ctx)[mdi := b]\<rparr>; mdi = mdi + 1 in
      if mdi = 0x40 then absorb bs 0 (ctx\<lparr>ctx_buf := Transform (words_of 16 (ctx_in ctx)) (ctx_buf ctx)\<rparr>)
      else absorb bs mdi ctx)"

definition MD5_Update :: "bytes \<Rightarrow> MD5_CTX \<Rightarrow> MD5_CTX" where
  "MD5_Update inBuf ctx = absorb inBuf (ctx_mdi ctx) (count_bits (of_nat (length inBuf)) ctx)"

definition word_bytes :: "u32 \<Rightarrow> bytes" where
  "word_bytes w = [ucast w, ucast (drop_bit 8 w), ucast (drop_bit 16 w), ucast (drop_bit 24 w)]"

definition digest_bytes :: "md5_words \<Rightarrow> bytes" where
  "digest_bytes w = (case w of (a, b, c, d) \<Rightarrow> word_bytes a @ word_bytes b @ word_bytes c @ word_bytes d)"

definition MD5_Final :: "MD5_CTX \<Rightarrow> bytes" where
  "MD5_Final ctx =
     (let i0 = ctx_i0 ctx; i1 = ctx_i1 ctx; mdi = ctx_mdi ctx;
          padLen = (if mdi < 56 then 56 - mdi else 120 - mdi);
          ctx = MD5_Update (take padLen PADDING) ctx
      in digest_bytes (Transform (words_of 14 (ctx_in ctx) @ [i0, i1]) (ctx_buf ctx)))"

section \<open>The digest of RFC 1321\<close>

definition md5_pad :: "bytes \<Rightarrow> bytes" where
  "md5_pad m = m @ [0x80] @ replicate ((119 - length m mod 64) mod 64) 0 @ map (\<lambda>i. ucast (drop_bit (8 * i) (of_nat (8 * length m) :: u64))) [0..<8]"

definition md5_blocks :: "bytes \<Rightarrow> u32 list list" where
  "md5_blocks m = map (\<lambda>k. words_of 16 (take 64 (drop (64 * k) m))) [0..<length m div 64]"

definition md5_fold :: "bytes \<Rightarrow> md5_words" where
  "md5_fold m = fold Transform (md5_blocks m) (0x67452301, 0xefcdab89, 0x98badcfe, 0x10325476)"

definition md5 :: "bytes \<Rightarrow> bytes" where
  "md5 m = digest_bytes (md5_fold (md5_pad m))"

section \<open>The pieces of a message\<close>

lemma length_md5 [simp]: "length (md5 m) = 16"
  by (simp add: md5_def digest_bytes_def word_bytes_def split_beta)

text \<open>What a context holds of the message read so far.\<close>

definition holds :: "MD5_CTX \<Rightarrow> bytes \<Rightarrow> bool" where
  "holds ctx m \<longleftrightarrow> length (ctx_in ctx) = 64 \<and> take (length m mod 64) (ctx_in ctx) = drop (64 * (length m div 64)) m \<and>
     ctx_buf ctx = md5_fold m"

definition counts :: "MD5_CTX \<Rightarrow> nat \<Rightarrow> bool" where
  "counts ctx n \<longleftrightarrow> ctx_i0 ctx = of_nat (8 * n) \<and> ctx_i1 ctx = of_nat (8 * n div 2 ^ 32)"

lemma count_bits_sel [simp]: "ctx_in (count_bits k ctx) = ctx_in ctx" "ctx_buf (count_bits k ctx) = ctx_buf ctx"
  by (simp_all add: count_bits_def Let_def)

lemma add_mod_less: "a < N \<Longrightarrow> b < N \<Longrightarrow> (a + b) mod N < a \<longleftrightarrow> N \<le> a + b" for a b N :: nat
  by (cases "a + b < N") (auto simp: le_mod_geq)

lemma add_div_carry: "a < N \<Longrightarrow> b < N \<Longrightarrow> (a + b) div N = (if N \<le> a + b then 1 else 0)" for a b N :: nat
  by (auto simp: le_div_geq)

lemma carry: "(of_nat x + of_nat y :: u32) < of_nat x \<longleftrightarrow> 2 ^ 32 \<le> x mod 2 ^ 32 + y mod 2 ^ 32"
proof -
  have "unat (of_nat x + of_nat y :: u32) = (x mod 2 ^ 32 + y mod 2 ^ 32) mod 2 ^ 32"
    by (simp add: unat_of_nat take_bit_eq_mod mod_add_eq flip: of_nat_add)
  then show ?thesis
    using add_mod_less [of "x mod 2 ^ 32" "2 ^ 32" "y mod 2 ^ 32"] by (simp add: word_less_nat_alt unat_of_nat take_bit_eq_mod)
qed

lemma counts_update:
  assumes "counts ctx n" "L < 2 ^ 32"
  shows "counts (count_bits (of_nat L) ctx) (n + L)"
proof -
  have lo: "push_bit 3 (of_nat L :: u32) = of_nat (8 * L)" by (simp add: push_bit_eq_mult)
  have hi: "drop_bit 29 (of_nat L :: u32) = of_nat (8 * L div 2 ^ 32)"
  proof -
    have "unat (drop_bit 29 (of_nat L :: u32)) = L div 2 ^ 29"
      using assms(2) unfolding unsigned_drop_bit_eq by (simp add: drop_bit_eq_div unat_of_nat take_bit_eq_mod)
    moreover have "8 * L div 2 ^ 32 = L div 2 ^ 29" by simp
    moreover have "of_nat (unat w) = w" for w :: u32 by simp
    ultimately show ?thesis by metis
  qed
  have "8 * (n + L) div 2 ^ 32 = 8 * n div 2 ^ 32 + 8 * L div 2 ^ 32 + (if 2 ^ 32 \<le> 8 * n mod 2 ^ 32 + 8 * L mod 2 ^ 32 then 1 else 0)"
    using div_add1_eq [of "8 * n" "8 * L" "2 ^ 32"] add_div_carry [of "8 * n mod 2 ^ 32" "2 ^ 32" "8 * L mod 2 ^ 32"]
    by (simp add: distrib_left)
  then show ?thesis
    using assms(1) carry [of "8 * n" "8 * L"] by (simp add: counts_def count_bits_def Let_def lo hi)
qed

lemma counts_mdi: "counts ctx n \<Longrightarrow> ctx_mdi ctx = n mod 64"
proof -
  assume c: "counts ctx n"
  have "(0x3F :: u32) = mask 6" by (simp add: mask_eq_exp_minus_1)
  then have "ctx_mdi ctx = take_bit 6 (drop_bit 3 (unat (of_nat (8 * n) :: u32)))"
    using c unfolding ctx_mdi_def counts_def
    by (simp only: take_bit_eq_mask [symmetric] unsigned_take_bit_eq unsigned_drop_bit_eq) (simp add: take_bit_eq_mod drop_bit_eq_div unat_of_nat)
  also have "\<dots> = 8 * n mod 2 ^ 32 div 8 mod 64"
    unfolding unat_of_nat by (simp add: take_bit_eq_mod drop_bit_eq_div unat_of_nat)
  also have "8 * n mod 2 ^ 32 = 8 * (n mod 2 ^ 29)"
    using mod_mult_mult1 [of 8 n "2 ^ 29"] by simp
  also have "8 * (n mod 2 ^ 29) div 8 mod 64 = n mod 64"
    by (simp add: mod_mod_cancel)
  finally show ?thesis .
qed

lemma block_bound: "k < q \<Longrightarrow> 64 * q \<le> l \<Longrightarrow> 64 * k + 64 \<le> l" for k q l :: nat
  by simp

lemma blocks_snoc:
  "md5_blocks (m @ [b]) =
     (if length m mod 64 = 63 then md5_blocks m @ [words_of 16 (drop (64 * (length m div 64)) m @ [b])] else md5_blocks m)"
proof -
  have old: "map (\<lambda>k. words_of 16 (take 64 (drop (64 * k) (m @ [b])))) [0..<length m div 64] = md5_blocks m"
  proof -
    have "take 64 (drop (64 * k) (m @ [b])) = take 64 (drop (64 * k) m)" if "k < length m div 64" for k
    proof -
      have "64 * k + 64 \<le> length m" by (rule block_bound [OF that]) simp
      then show ?thesis by simp
    qed
    then show ?thesis by (simp add: md5_blocks_def)
  qed
  show ?thesis
  proof (cases "length m mod 64 = 63")
    case True
    then have "Suc (length m) div 64 = Suc (length m div 64)" by (simp add: div_Suc mod_Suc)
    moreover have "length (drop (64 * (length m div 64)) m) = 63" using True by (simp add: minus_mult_div_eq_mod)
    ultimately show ?thesis using True old by (simp add: md5_blocks_def [of "m @ [b]"])
  next
    case False
    then have "Suc (length m) div 64 = length m div 64" by (simp add: div_Suc mod_Suc)
    then show ?thesis using False old by (simp add: md5_blocks_def [of "m @ [b]"])
  qed
qed

lemma holds_byte:
  assumes "holds ctx m" "ctx' = ctx\<lparr>ctx_in := (ctx_in ctx)[length m mod 64 := b]\<rparr>"
  shows "holds (if length m mod 64 = 63 then ctx'\<lparr>ctx_buf := Transform (words_of 16 (ctx_in ctx')) (ctx_buf ctx')\<rparr> else ctx') (m @ [b])"
proof -
  let ?k = "length m mod 64"
  have l: "length (ctx_in ctx) = 64" and t: "take ?k (ctx_in ctx) = drop (64 * (length m div 64)) m" and f: "ctx_buf ctx = md5_fold m"
    using assms(1) by (simp_all add: holds_def)
  have k: "?k < 64" by simp
  have t': "take (Suc ?k) (ctx_in ctx') = drop (64 * (length m div 64)) m @ [b]"
    using k l t by (simp add: assms(2) take_Suc_conv_app_nth)
  show ?thesis
  proof (cases "?k = 63")
    case True
    then have "ctx_in ctx' = drop (64 * (length m div 64)) m @ [b]" using t' l by (simp add: assms(2))
    moreover have "Suc (length m) mod 64 = 0" "Suc (length m) div 64 = Suc (length m div 64)" using True by (simp_all add: mod_Suc div_Suc)
    moreover have "64 * Suc (length m div 64) = Suc (length m)"
      using True mult_div_mod_eq [of 64 "length m"] by simp
    ultimately show ?thesis
      using True l f by (simp add: holds_def md5_fold_def blocks_snoc) (simp add: assms(2))
  next
    case False
    then have "Suc (length m) mod 64 = Suc ?k" "Suc (length m) div 64 = length m div 64" by (simp_all add: mod_Suc div_Suc)
    moreover have "64 * (length m div 64) \<le> length m" by simp
    ultimately show ?thesis
      using False l f t' by (simp add: holds_def md5_fold_def blocks_snoc) (simp add: assms(2))
  qed
qed

lemma absorb_holds: "holds ctx m \<Longrightarrow> holds (absorb xs (length m mod 64) ctx) (m @ xs)"
proof (induction xs arbitrary: ctx m)
  case (Cons b xs)
  define ctx' where "ctx' = ctx\<lparr>ctx_in := (ctx_in ctx)[length m mod 64 := b]\<rparr>"
  have h: "holds (if length m mod 64 = 63 then ctx'\<lparr>ctx_buf := Transform (words_of 16 (ctx_in ctx')) (ctx_buf ctx')\<rparr> else ctx') (m @ [b])"
    by (rule holds_byte [OF Cons.prems ctx'_def])
  have "length (m @ [b]) mod 64 = (if length m mod 64 = 63 then 0 else Suc (length m mod 64))" by (simp add: mod_Suc)
  then show ?case
    using Cons.IH [OF h] by (simp add: ctx'_def Let_def split: if_splits)
qed simp

lemma absorb_counts [simp]: "ctx_i0 (absorb xs mdi ctx) = ctx_i0 ctx" "ctx_i1 (absorb xs mdi ctx) = ctx_i1 ctx"
  by (induction xs arbitrary: mdi ctx) (simp_all add: Let_def)

text \<open>\<open>MD5_Update\<close> extends the message.\<close>

definition reading :: "MD5_CTX \<Rightarrow> bytes \<Rightarrow> bool" where
  "reading ctx m \<longleftrightarrow> holds ctx m \<and> counts ctx (length m)"

lemma reading_init: "length (ctx_in ctx) = 64 \<Longrightarrow> reading (MD5_Init ctx) []"
  by (simp add: reading_def holds_def counts_def MD5_Init_def md5_fold_def md5_blocks_def)

lemma reading_update:
  assumes "reading ctx m" "length xs < 2 ^ 32"
  shows "reading (MD5_Update xs ctx) (m @ xs)"
proof -
  have "counts (count_bits (of_nat (length xs)) ctx) (length (m @ xs))"
    using counts_update assms by (simp add: reading_def)
  moreover have "holds (count_bits (of_nat (length xs)) ctx) m" using assms(1) by (simp add: reading_def holds_def)
  ultimately show ?thesis
    using absorb_holds counts_mdi assms(1) by (simp add: reading_def MD5_Update_def counts_def)
qed

lemma reading_updates:
  "reading ctx m \<Longrightarrow> list_all (\<lambda>p. length p < 2 ^ 32) pieces \<Longrightarrow> reading (fold MD5_Update pieces ctx) (m @ concat pieces)"
proof (induction pieces arbitrary: ctx m)
  case (Cons p ps)
  then have "reading (MD5_Update p ctx) (m @ p)" by (simp add: reading_update)
  from Cons.IH [OF this] Cons.prems(2) show ?case by simp
qed simp

section \<open>The end of a message\<close>

lemma take_PADDING: "0 < n \<Longrightarrow> n \<le> 64 \<Longrightarrow> take n PADDING = 0x80 # replicate (n - 1) 0"
  by (cases n) (simp_all add: PADDING_def)

text \<open>The length in bits, as the code has it in two words and as eight bytes.\<close>

lemma word_at_cong: "ii + 3 < length p \<Longrightarrow> word_at (p @ q) ii = word_at p ii"
  by (simp add: word_at_def nth_append)

lemma assemble:
  "push_bit 24 (ucast (ucast (drop_bit 24 x) :: u8)) OR push_bit 16 (ucast (ucast (drop_bit 16 x) :: u8)) OR
   push_bit 8 (ucast (ucast (drop_bit 8 x) :: u8)) OR ucast (ucast x :: u8) = (ucast x :: u32)" for x :: u64
proof (rule bit_word_eqI, goal_cases)
  case (1 n)
  then consider "n < 8" | "8 \<le> n" "n < 16" | "16 \<le> n" "n < 24" | "24 \<le> n" "n < 32" by fastforce
  then show ?case by cases (auto simp: bit_simps less_diff_conv2)
qed

lemma ucast_of_nat_div: "ucast (of_nat n :: u64) = (of_nat n :: u32)" "ucast (drop_bit 32 (of_nat n :: u64)) = (of_nat (n div 2 ^ 32) :: u32)"
proof -
  show "ucast (of_nat n :: u64) = (of_nat n :: u32)"
    by (rule bit_word_eqI) (simp add: bit_simps)
  have "bit (n div 2 ^ 32) k \<longleftrightarrow> bit n (32 + k)" for k
    by (simp only: drop_bit_eq_div [symmetric] bit_drop_bit_eq comp_def)
  then show "ucast (drop_bit 32 (of_nat n :: u64)) = (of_nat (n div 2 ^ 32) :: u32)"
    by (intro bit_word_eqI) (simp add: bit_simps)
qed

lemma word_at_length_bytes:
  fixes n :: nat
  defines "bs \<equiv> map (\<lambda>i. ucast (drop_bit (8 * i) (of_nat n :: u64))) [0..<8] :: bytes"
  shows "word_at bs 0 = of_nat n" "word_at bs 4 = of_nat (n div 2 ^ 32)"
proof -
  show "word_at bs 0 = of_nat n"
    using assemble [of "of_nat n"] by (simp add: bs_def word_at_def ucast_of_nat_div)
  have "word_at bs 4 = ucast (drop_bit 32 (of_nat n :: u64))"
    unfolding assemble [symmetric] by (simp add: bs_def word_at_def)
  then show "word_at bs 4 = of_nat (n div 2 ^ 32)"
    by (simp only: ucast_of_nat_div)
qed

lemma words_of_last: "length t = 56 \<Longrightarrow> words_of 16 (t @ bs) = words_of 14 (t @ r) @ [word_at bs 0, word_at bs 4]"
proof -
  assume l: "length t = 56"
  have u: "[0..<16] = [0..<14] @ [14, 15]" by (simp add: upt_rec)
  have "word_at (t @ bs) (4 * i) = word_at (t @ r) (4 * i)" if "i < 14" for i
    using that l by (simp add: word_at_cong)
  then have "map (\<lambda>i. word_at (t @ bs) (4 * i)) [0..<14] = words_of 14 (t @ r)" by (simp add: words_of_def)
  moreover have "word_at (t @ bs) 56 = word_at bs 0" "word_at (t @ bs) 60 = word_at bs 4"
    using l by (simp_all add: word_at_def nth_append numeral_2_eq_2)
  ultimately show ?thesis unfolding words_of_def [of 16] u by simp
qed

lemma blocks_last:
  assumes "length m = 64 * q + 56" "length bs = 8"
  shows "md5_blocks (m @ bs) = md5_blocks m @ [words_of 16 (drop (64 * q) m @ bs)]"
proof -
  have "take 64 (drop (64 * k) (m @ bs)) = take 64 (drop (64 * k) m)" if "k < q" for k
    using that assms(1) by simp
  moreover have "length m div 64 = q" "length (m @ bs) div 64 = Suc q" using assms by simp_all
  ultimately show ?thesis using assms by (simp add: md5_blocks_def)
qed

lemma reading_final:
  assumes "reading ctx m"
  shows "MD5_Final ctx = md5 m"
proof -
  define r where "r = length m mod 64"
  define padLen where "padLen = (if r < 56 then 56 - r else 120 - r)"
  define m' where "m' = m @ take padLen PADDING"
  define ctx' where "ctx' = MD5_Update (take padLen PADDING) ctx"
  define bs :: bytes where "bs = map (\<lambda>i. ucast (drop_bit (8 * i) (of_nat (8 * length m) :: u64))) [0..<8]"
  have r: "r < 64" by (simp add: r_def)
  then have pl: "0 < padLen" "padLen \<le> 64" "padLen - 1 = (119 - r) mod 64"
    by (auto simp: padLen_def mod_if)
  have mdi: "ctx_mdi ctx = r" using assms counts_mdi by (simp add: reading_def r_def)
  have len: "length m' = 64 * (length m' div 64) + 56"
  proof -
    have "length m' = 64 * (length m div 64) + r + padLen"
      using pl by (simp add: m'_def r_def PADDING_def)
    then obtain q where "length m' = 64 * q + 56"
      using r by (cases "r < 56") (simp_all add: padLen_def, metis add.commute mult_Suc_right add_Suc_right)
    then show ?thesis by simp
  qed
  have h: "reading ctx' m'" unfolding ctx'_def m'_def
    by (rule reading_update [OF assms]) (simp add: PADDING_def)
  define t where "t = drop (64 * (length m' div 64)) m'"
  have lt: "length t = 56" using len by (simp add: t_def)
  have inb: "ctx_in ctx' = t @ drop 56 (ctx_in ctx')"
  proof -
    have "length m' mod 64 = 56" by (subst len) simp
    then show ?thesis using h append_take_drop_id [of 56 "ctx_in ctx'"] by (simp add: reading_def holds_def t_def)
  qed
  have "md5_pad m = m' @ bs"
    using take_PADDING [OF pl(1,2)] pl(3) by (simp add: md5_pad_def m'_def bs_def r_def)
  then have "md5_fold (md5_pad m) = Transform (words_of 16 (t @ bs)) (md5_fold m')"
    using blocks_last [OF len, of bs] by (simp add: md5_fold_def t_def bs_def)
  moreover have "words_of 16 (t @ bs) = words_of 14 (ctx_in ctx') @ [ctx_i0 ctx, ctx_i1 ctx]"
    using words_of_last [OF lt, of bs "drop 56 (ctx_in ctx')"] inb word_at_length_bytes [of "8 * length m"] assms
    by (simp add: reading_def counts_def bs_def)
  ultimately show ?thesis
    using h by (simp add: md5_def MD5_Final_def Let_def mdi padLen_def [symmetric] ctx'_def [symmetric] reading_def holds_def)
qed


text \<open>The digest of \<open>abc\<close> in two pieces, evaluated; the context holds something else before.\<close>

definition demo_ctx :: MD5_CTX where
  "demo_ctx = \<lparr>ctx_i0 = 1, ctx_i1 = 2, ctx_buf = (0, 0, 0, 0), ctx_in = replicate 64 7\<rparr>"

lemma md5_abc_pieces:
  "MD5_Final (fold MD5_Update [[97], [98, 99]] (MD5_Init demo_ctx)) =
   [0x90, 0x01, 0x50, 0x98, 0x3c, 0xd2, 0x4f, 0xb0, 0xd6, 0x96, 0x3f, 0x7d, 0x28, 0xe1, 0x7f, 0x72]"
  by code_simp


end
