(* ===== verification/Ppp_Chap.thy ===== *)
theory Ppp_Chap
  imports Ppp_Auth Ppp_Magic Ppp_Md5
begin

text \<open>
  The challenge handshake authentication protocol of \<open>pppd\<close>: \<open>chap-new.c\<close> and \<open>chap-new.h\<close> of \<open>src/external/ppp/pppd\<close>,
  with the digest of \<open>chap-md5.c\<close>.

  A digest is a record of functions as in the code, found by its code in the list of registered ones. The functions of the
  Microsoft digests (\<open>chap_ms.c\<close>) are parameters. The state of a run is the two static
  structures, the registered digests, the number of pending calls of \<open>chap_timeout\<close>, the state of the random numbers, the
  packets sent and the results reported. \<open>null_deref\<close> is set where the code would follow a digest pointer that is not set,
  \<open>died\<close> by \<open>fatal\<close>, which ends the program. C strings are their bytes without the final 0. Log output is left out, and with
  it \<open>handle_failure\<close>, which only logs. As in \<^verbatim>\<open>Ppp_Upap\<close>, a failure that is reported while LCP is open takes CHAP down
  (\<open>chap_lowerdown\<close>) before \<open>auth_peer_fail\<close> or \<open>auth_withpeer_fail\<close> returns.
\<close>

section \<open>Data\<close>

definition PPP_HDRLEN :: nat where "PPP_HDRLEN = 4"
definition CHAP_HDRLEN :: nat where "CHAP_HDRLEN = 4"
definition CHAP_CHALLENGE :: u8 where "CHAP_CHALLENGE = 1"
definition CHAP_RESPONSE :: u8 where "CHAP_RESPONSE = 2"
definition CHAP_SUCCESS :: u8 where "CHAP_SUCCESS = 3"
definition CHAP_FAILURE :: u8 where "CHAP_FAILURE = 4"
definition CHAP_MD5 :: int where "CHAP_MD5 = 5"
definition MAX_CHALLENGE_LEN :: nat where "MAX_CHALLENGE_LEN = 64"

definition CHAL_MAX_PKTLEN :: nat where
  "CHAL_MAX_PKTLEN = PPP_HDRLEN + CHAP_HDRLEN + 4 + MAX_CHALLENGE_LEN + MAXNAMELEN"

definition LOWERUP :: u32 where "LOWERUP = 1"
definition AUTH_STARTED :: u32 where "AUTH_STARTED = 2"
definition AUTH_DONE :: u32 where "AUTH_DONE = 4"
definition AUTH_FAILED :: u32 where "AUTH_FAILED = 8"
definition TIMEOUT_PENDING :: u32 where "TIMEOUT_PENDING = 0x10"
definition CHALLENGE_VALID :: u32 where "CHALLENGE_VALID = 0x20"

text \<open>A challenge or a response is its length byte with the bytes that follow. \<open>verify_response\<close> takes the message buffer and
  its size, and gives the verdict and the message; \<open>make_response\<close> gives the response and the new private data.\<close>

record chap_digest_type =
  digest_code :: int
  generate_challenge :: "rand48 \<Rightarrow> bytes \<times> rand48"
  verify_response :: "u8 \<Rightarrow> bytes \<Rightarrow> bytes \<Rightarrow> bytes \<Rightarrow> bytes \<Rightarrow> bytes \<Rightarrow> nat \<Rightarrow> bool \<times> bytes"
  make_response :: "u8 \<Rightarrow> bytes \<Rightarrow> bytes \<Rightarrow> bytes \<Rightarrow> bytes \<Rightarrow> bytes \<times> bytes"
  check_success :: "(u8 \<Rightarrow> bytes \<Rightarrow> bool) option"

record chap_client_state =
  cs_flags :: u32
  cs_name :: bytes
  cs_digest :: "chap_digest_type option"
  cs_priv :: bytes

record chap_server_state =
  ss_flags :: u32
  ss_id :: int
  ss_name :: bytes
  ss_digest :: "chap_digest_type option"
  challenge_xmits :: int
  challenge_pktlen :: nat
  ss_challenge :: bytes
  ss_message :: bytes

record chap_sys =
  cl :: chap_client_state
  sv :: chap_server_state
  chap_digests :: "chap_digest_type list"
  chap_timers :: nat
  rnd :: rand48
  chap_out :: "bytes list"
  chap_reports :: "auth_report list"
  null_deref :: bool
  died :: bool

record chap_env =
  secret_source :: secrets
  number_allowed :: bool
  explicit_remote :: bool
  remote_name :: bytes
  chap_verify_hook :: "(bytes \<Rightarrow> bytes \<Rightarrow> u8 \<Rightarrow> chap_digest_type \<Rightarrow> bytes \<Rightarrow> bytes \<Rightarrow> bytes \<Rightarrow> nat \<Rightarrow> bool \<times> bytes) option"
  session_mgmt :: bool
  session_check :: "bytes \<Rightarrow> bool"
  chap_max_transmits :: int
  chap_rechallenge_time :: int
  chap_lcp_opened :: bool

definition on_cl :: "(chap_client_state \<Rightarrow> chap_client_state) \<Rightarrow> chap_sys \<Rightarrow> chap_sys" where
  "on_cl g s = s\<lparr>cl := g (cl s)\<rparr>"

definition on_sv :: "(chap_server_state \<Rightarrow> chap_server_state) \<Rightarrow> chap_sys \<Rightarrow> chap_sys" where
  "on_sv g s = s\<lparr>sv := g (sv s)\<rparr>"

definition cs_set :: "u32 \<Rightarrow> chap_sys \<Rightarrow> chap_sys" where
  "cs_set f = on_cl (cs_flags_update (\<lambda>x. x OR f))"

definition cs_clear :: "u32 \<Rightarrow> chap_sys \<Rightarrow> chap_sys" where
  "cs_clear f = on_cl (cs_flags_update (\<lambda>x. x AND NOT f))"

definition ss_set :: "u32 \<Rightarrow> chap_sys \<Rightarrow> chap_sys" where
  "ss_set f = on_sv (ss_flags_update (\<lambda>x. x OR f))"

definition ss_clear :: "u32 \<Rightarrow> chap_sys \<Rightarrow> chap_sys" where
  "ss_clear f = on_sv (ss_flags_update (\<lambda>x. x AND NOT f))"

definition cs_has :: "chap_sys \<Rightarrow> u32 \<Rightarrow> bool" where
  "cs_has s f = (cs_flags (cl s) AND f \<noteq> 0)"

definition ss_has :: "chap_sys \<Rightarrow> u32 \<Rightarrow> bool" where
  "ss_has s f = (ss_flags (sv s) AND f \<noteq> 0)"

definition chap_report :: "auth_report \<Rightarrow> chap_sys \<Rightarrow> chap_sys" where
  "chap_report r s = s\<lparr>chap_reports := chap_reports s @ [r]\<rparr>"

definition chap_output :: "bytes \<Rightarrow> chap_sys \<Rightarrow> chap_sys" where
  "chap_output p s = s\<lparr>chap_out := chap_out s @ [p]\<rparr>"

definition chap_TIMEOUT :: "chap_sys \<Rightarrow> chap_sys" where
  "chap_TIMEOUT s = s\<lparr>chap_timers := chap_timers s + 1\<rparr>"

definition chap_UNTIMEOUT :: "chap_sys \<Rightarrow> chap_sys" where
  "chap_UNTIMEOUT s = s\<lparr>chap_timers := chap_timers s - 1\<rparr>"

definition chap_lowerdown :: "chap_sys \<Rightarrow> chap_sys" where
  "chap_lowerdown s =
     (let s = on_cl (\<lambda>cs. cs\<lparr>cs_flags := 0\<rparr>) s;
          s = (if ss_has s TIMEOUT_PENDING then chap_UNTIMEOUT s else s)
      in on_sv (\<lambda>ss. ss\<lparr>ss_flags := 0\<rparr>) s)"

definition chap_fail :: "chap_env \<Rightarrow> auth_report \<Rightarrow> chap_sys \<Rightarrow> chap_sys" where
  "chap_fail env r s = (if chap_lcp_opened env then chap_lowerdown (chap_report r s) else chap_report r s)"

section \<open>The MD5 digest\<close>

definition MD5_HASH_SIZE :: nat where "MD5_HASH_SIZE = 16"
definition MD5_MIN_CHALLENGE :: nat where "MD5_MIN_CHALLENGE = 16"
definition MD5_MAX_CHALLENGE :: nat where "MD5_MAX_CHALLENGE = 24"

definition text_bytes :: "string \<Rightarrow> bytes" where
  "text_bytes t = map unchr t"

definition chap_md5_generate_challenge :: "rand48 \<Rightarrow> bytes \<times> rand48" where
  "chap_md5_generate_challenge x =
     (let (d, x) = drand48_times (MD5_MAX_CHALLENGE - MD5_MIN_CHALLENGE) x;
          clen = d + MD5_MIN_CHALLENGE;
          (cp, x) = random_bytes clen x
      in (of_nat clen # cp, x))"

text \<open>The hash of the identifier, the secret and the challenge without its length byte. The context is a local variable;
  what it holds before \<open>MD5_Init\<close> has no effect (\<open>md5_pieces\<close>), here it is 0.\<close>

definition stack_ctx :: MD5_CTX where
  "stack_ctx = \<lparr>ctx_i0 = 0, ctx_i1 = 0, ctx_buf = (0, 0, 0, 0), ctx_in = replicate 64 0\<rparr>"

definition md5_of :: "u8 \<Rightarrow> bytes \<Rightarrow> bytes \<Rightarrow> bytes" where
  "md5_of idbyte secret chal =
     (let ctx = MD5_Init stack_ctx;
          ctx = MD5_Update [idbyte] ctx;
          ctx = MD5_Update secret ctx;
          ctx = MD5_Update (take (unat (hd chal)) (tl chal)) ctx
      in MD5_Final ctx)"

definition chap_md5_verify_response :: "u8 \<Rightarrow> bytes \<Rightarrow> bytes \<Rightarrow> bytes \<Rightarrow> bytes \<Rightarrow> bytes \<Rightarrow> nat \<Rightarrow> bool \<times> bytes" where
  "chap_md5_verify_response pid name secret chal response msg message_space =
     (if unat (hd response) = MD5_HASH_SIZE \<and> md5_of pid secret chal = take MD5_HASH_SIZE (tl response)
      then (True, take (message_space - 1) (text_bytes ''Access granted''))
      else (False, take (message_space - 1) (text_bytes ''Access denied'')))"

definition chap_md5_make_response :: "u8 \<Rightarrow> bytes \<Rightarrow> bytes \<Rightarrow> bytes \<Rightarrow> bytes \<Rightarrow> bytes \<times> bytes" where
  "chap_md5_make_response pid our_name chal secret priv = (of_nat MD5_HASH_SIZE # md5_of pid secret chal, priv)"

definition md5_digest :: chap_digest_type where
  "md5_digest = \<lparr>digest_code = CHAP_MD5, generate_challenge = chap_md5_generate_challenge,
     verify_response = chap_md5_verify_response, make_response = chap_md5_make_response, check_success = None\<rparr>"

section \<open>Registration\<close>

definition chap_register_digest :: "chap_digest_type \<Rightarrow> chap_sys \<Rightarrow> chap_sys" where
  "chap_register_digest dp s = s\<lparr>chap_digests := dp # chap_digests s\<rparr>"

definition chap_md5_init :: "chap_sys \<Rightarrow> chap_sys" where
  "chap_md5_init = chap_register_digest md5_digest"

text \<open>\<open>ms_digests\<close> are those that \<open>chapms_init\<close> registers.\<close>

definition chap_init :: "chap_digest_type list \<Rightarrow> chap_sys \<Rightarrow> chap_sys" where
  "chap_init ms_digests s =
     (let s = s\<lparr>cl := \<lparr>cs_flags = 0, cs_name = [], cs_digest = None, cs_priv = replicate 64 0\<rparr>,
                sv := \<lparr>ss_flags = 0, ss_id = 0, ss_name = [], ss_digest = None, challenge_xmits = 0, challenge_pktlen = 0,
                       ss_challenge = replicate CHAL_MAX_PKTLEN 0, ss_message = []\<rparr>\<rparr>
      in fold chap_register_digest ms_digests (chap_md5_init s))"

definition find_digest :: "int \<Rightarrow> chap_sys \<Rightarrow> chap_digest_type option" where
  "find_digest code s = find (\<lambda>dp. digest_code dp = code) (chap_digests s)"

section \<open>Challenges\<close>

definition overwrite :: "bytes \<Rightarrow> bytes \<Rightarrow> bytes" where
  "overwrite p buf = p @ drop (length p) buf"

text \<open>The packet in \<open>challenge\<close>: the digest writes the challenge with its length, the name follows.\<close>

definition challenge_packet :: "u8 \<Rightarrow> bytes \<Rightarrow> bytes \<Rightarrow> bytes" where
  "challenge_packet pid chal name =
     (let clen = unat (hd chal);
          len = CHAP_HDRLEN + 1 + clen + length name
      in MAKEHEADER PPP_CHAP @ [CHAP_CHALLENGE, pid] @ be16 len @ take (1 + clen) chal @ name)"

definition chap_generate_challenge :: "chap_sys \<Rightarrow> chap_sys" where
  "chap_generate_challenge s =
     (case ss_digest (sv s) of
        None \<Rightarrow> s\<lparr>null_deref := True\<rparr>
      | Some d \<Rightarrow>
         (let (chal, x) = generate_challenge d (rnd s);
              newid = ss_id (sv s) + 1;
              p = challenge_packet (of_int newid) chal (ss_name (sv s))
          in on_sv (\<lambda>ss. ss\<lparr>ss_id := newid, challenge_pktlen := length p, ss_challenge := overwrite p (ss_challenge ss)\<rparr>)
               (s\<lparr>rnd := x\<rparr>)))"

definition chap_send_challenge :: "chap_sys \<Rightarrow> chap_sys" where
  "chap_send_challenge s =
     (let s = chap_output (take (challenge_pktlen (sv s)) (ss_challenge (sv s))) s;
          s = on_sv (\<lambda>ss. ss\<lparr>challenge_xmits := challenge_xmits ss + 1\<rparr>) s
      in chap_TIMEOUT (ss_set TIMEOUT_PENDING s))"

definition chap_timeout :: "chap_env \<Rightarrow> chap_sys \<Rightarrow> chap_sys" where
  "chap_timeout env s =
     (let s = ss_clear TIMEOUT_PENDING s in
      if \<not> ss_has s CHALLENGE_VALID
      then let s = chap_generate_challenge (on_sv (\<lambda>ss. ss\<lparr>challenge_xmits := 0\<rparr>) s)
           in chap_send_challenge (ss_set CHALLENGE_VALID s)
      else if challenge_xmits (sv s) \<ge> chap_max_transmits env
      then chap_fail env Peer_fail (ss_set (AUTH_DONE OR AUTH_FAILED) (ss_clear CHALLENGE_VALID s))
      else chap_send_challenge s)"

section \<open>Starting and stopping\<close>

definition chap_lowerup :: "chap_env \<Rightarrow> chap_sys \<Rightarrow> chap_sys" where
  "chap_lowerup env s =
     (let s = ss_set LOWERUP (cs_set LOWERUP s)
      in if ss_has s AUTH_STARTED then chap_timeout env s else s)"

definition chap_auth_peer :: "chap_env \<Rightarrow> bytes \<Rightarrow> int \<Rightarrow> chap_sys \<Rightarrow> chap_sys" where
  "chap_auth_peer env our_name code s =
     (if ss_has s AUTH_STARTED then s
      else case find_digest code s of
        None \<Rightarrow> s\<lparr>died := True\<rparr>
      | Some dp \<Rightarrow>
         (let (r, x) = drand48_times 256 (rnd s);
              s = on_sv (\<lambda>ss. ss\<lparr>ss_digest := Some dp, ss_name := our_name, ss_id := uint (of_nat r :: u8)\<rparr>) (s\<lparr>rnd := x\<rparr>);
              s = ss_set AUTH_STARTED s
          in if ss_has s LOWERUP then chap_timeout env s else s))"

definition chap_auth_with_peer :: "bytes \<Rightarrow> int \<Rightarrow> chap_sys \<Rightarrow> chap_sys" where
  "chap_auth_with_peer our_name code s =
     (if cs_has s AUTH_STARTED then s
      else case find_digest code s of
        None \<Rightarrow> s\<lparr>died := True\<rparr>
      | Some dp \<Rightarrow> cs_set AUTH_STARTED (on_cl (\<lambda>cs. cs\<lparr>cs_digest := Some dp, cs_name := our_name\<rparr>) s))"

definition chap_protrej :: "chap_env \<Rightarrow> chap_sys \<Rightarrow> chap_sys" where
  "chap_protrej env s =
     (let s = (if ss_has s TIMEOUT_PENDING then chap_UNTIMEOUT (ss_clear TIMEOUT_PENDING s) else s);
          s = (if ss_has s AUTH_STARTED then chap_fail env Peer_fail (on_sv (\<lambda>ss. ss\<lparr>ss_flags := 0\<rparr>) s) else s)
      in if cs_flags (cl s) AND (AUTH_STARTED OR AUTH_DONE) = AUTH_STARTED
         then chap_fail env Withpeer_fail (cs_clear AUTH_STARTED s) else s)"

section \<open>The server and a response\<close>

definition chap_verify_response ::
    "chap_env \<Rightarrow> bytes \<Rightarrow> bytes \<Rightarrow> u8 \<Rightarrow> chap_digest_type \<Rightarrow> bytes \<Rightarrow> bytes \<Rightarrow> bytes \<Rightarrow> nat \<Rightarrow> bool \<times> bytes" where
  "chap_verify_response env name ourname pid digest chal response msg message_space =
     (case get_secret (secret_source env) name ourname True of
        None \<Rightarrow> (False, msg)
      | Some secret \<Rightarrow> verify_response digest pid name secret chal response msg message_space)"

text \<open>The name of the peer, and the call of the verifier.\<close>

definition response_name :: "chap_env \<Rightarrow> bytes \<Rightarrow> bytes" where
  "response_name env pkt =
     (if explicit_remote env then remote_name env
      else vis_string (MAXNAMELEN + 1) (length pkt - (unat (hd pkt) + 1)) (drop (unat (hd pkt) + 1) pkt))"

definition run_verifier :: "chap_env \<Rightarrow> chap_sys \<Rightarrow> chap_digest_type \<Rightarrow> u8 \<Rightarrow> bytes \<Rightarrow> bool \<times> bytes" where
  "run_verifier env s digest pid pkt =
     (case chap_verify_hook env of Some hook \<Rightarrow> hook | None \<Rightarrow> chap_verify_response env)
       (response_name env pkt) (ss_name (sv s)) pid digest
       (drop (PPP_HDRLEN + CHAP_HDRLEN) (ss_challenge (sv s))) pkt (ss_message (sv s)) 256"

text \<open>The first part of \<open>chap_handle_response\<close>, for a valid challenge: the timer is stopped and the response is judged.\<close>

definition judge_response :: "chap_env \<Rightarrow> u8 \<Rightarrow> bytes \<Rightarrow> chap_digest_type \<Rightarrow> chap_sys \<Rightarrow> chap_sys" where
  "judge_response env pid pkt digest s =
     (let s = (if ss_has s TIMEOUT_PENDING then chap_UNTIMEOUT (ss_clear TIMEOUT_PENDING s) else s);
          (ok, msg) = run_verifier env s digest pid pkt;
          s = on_sv (\<lambda>ss. ss\<lparr>ss_message := msg\<rparr>) s
      in if \<not> ok \<or> \<not> number_allowed env then ss_set AUTH_FAILED s else s)"

text \<open>The second: the status goes out.\<close>

definition status_packet :: "u8 \<Rightarrow> u8 \<Rightarrow> bytes \<Rightarrow> bytes" where
  "status_packet code pid msg = MAKEHEADER PPP_CHAP @ [code, pid] @ be16 (CHAP_HDRLEN + length msg) @ msg"

definition send_status :: "u8 \<Rightarrow> chap_sys \<Rightarrow> chap_sys" where
  "send_status pid s =
     chap_output (status_packet (if ss_has s AUTH_FAILED then CHAP_FAILURE else CHAP_SUCCESS) pid (ss_message (sv s))) s"

text \<open>The third, for a valid challenge: the session is checked and the result is reported.\<close>

definition conclude :: "chap_env \<Rightarrow> bytes \<Rightarrow> chap_sys \<Rightarrow> chap_sys" where
  "conclude env name s =
     (let s = ss_clear CHALLENGE_VALID s;
          s = (if \<not> ss_has s AUTH_DONE \<and> \<not> ss_has s AUTH_FAILED \<and> session_mgmt env \<and> \<not> session_check env name
               then ss_set AUTH_FAILED s else s);
          s = (if ss_has s AUTH_FAILED then chap_fail env Peer_fail s
               else let s = (if \<not> ss_has s AUTH_DONE then chap_report (Peer_success name) s else s)
                    in if chap_rechallenge_time env \<noteq> 0 then chap_TIMEOUT (ss_set TIMEOUT_PENDING s) else s)
      in ss_set AUTH_DONE s)"

definition chap_handle_response :: "chap_env \<Rightarrow> u8 \<Rightarrow> bytes \<Rightarrow> chap_sys \<Rightarrow> chap_sys" where
  "chap_handle_response env pid pkt s =
     (if \<not> ss_has s LOWERUP then s
      else if pid \<noteq> ss_challenge (sv s) ! (PPP_HDRLEN + 1) \<or> length pkt < 2 then s
      else if ss_has s CHALLENGE_VALID
      then if length pkt < unat (hd pkt) + 1 then s
           else case ss_digest (sv s) of
             None \<Rightarrow> s\<lparr>null_deref := True\<rparr>
           | Some d \<Rightarrow> conclude env (response_name env pkt) (send_status pid (judge_response env pid pkt d s))
      else if \<not> ss_has s AUTH_DONE then s
      else send_status pid s)"

section \<open>The client\<close>

definition respond_name :: "chap_env \<Rightarrow> bytes \<Rightarrow> bytes" where
  "respond_name env pkt =
     (let rname = vis_string (MAXNAMELEN + 1) (length pkt - (unat (hd pkt) + 1)) (drop (unat (hd pkt) + 1) pkt)
      in if explicit_remote env \<or> remote_name env \<noteq> [] \<and> rname = [] then take MAXNAMELEN (remote_name env) else rname)"

definition response_packet :: "u8 \<Rightarrow> bytes \<Rightarrow> bytes \<Rightarrow> bytes" where
  "response_packet pid response name =
     (let clen = unat (hd response);
          len = CHAP_HDRLEN + clen + 1 + length name
      in MAKEHEADER PPP_CHAP @ [CHAP_RESPONSE, pid] @ be16 len @ take (1 + clen) response @ name)"

definition chap_respond :: "chap_env \<Rightarrow> u8 \<Rightarrow> bytes \<Rightarrow> chap_sys \<Rightarrow> chap_sys" where
  "chap_respond env pid pkt s =
     (if cs_flags (cl s) AND (LOWERUP OR AUTH_STARTED) \<noteq> LOWERUP OR AUTH_STARTED then s
      else if length pkt < 2 \<or> length pkt < unat (hd pkt) + 1 then s
      else let secret = (case get_secret (secret_source env) (cs_name (cl s)) (respond_name env pkt) False of
                           None \<Rightarrow> [] | Some sec \<Rightarrow> sec)
           in case cs_digest (cl s) of
                None \<Rightarrow> s\<lparr>null_deref := True\<rparr>
              | Some d \<Rightarrow>
                 (let (response, priv) = make_response d pid (cs_name (cl s)) pkt secret (cs_priv (cl s))
                  in chap_output (response_packet pid response (cs_name (cl s))) (on_cl (\<lambda>cs. cs\<lparr>cs_priv := priv\<rparr>) s)))"

definition chap_handle_status :: "chap_env \<Rightarrow> u8 \<Rightarrow> u8 \<Rightarrow> bytes \<Rightarrow> chap_sys \<Rightarrow> chap_sys" where
  "chap_handle_status env code pid pkt s =
     (if cs_flags (cl s) AND (AUTH_DONE OR AUTH_STARTED OR LOWERUP) \<noteq> AUTH_STARTED OR LOWERUP then s
      else let s = cs_set AUTH_DONE s in
        case cs_digest (cl s) of
          None \<Rightarrow> s\<lparr>null_deref := True\<rparr>
        | Some d \<Rightarrow>
           (if code = CHAP_SUCCESS \<and> (case check_success d of None \<Rightarrow> True | Some chk \<Rightarrow> chk pid pkt)
            then chap_report Withpeer_success s
            else chap_fail env Withpeer_fail (cs_set AUTH_FAILED s)))"

section \<open>Input\<close>

definition chap_input :: "chap_env \<Rightarrow> bytes \<Rightarrow> chap_sys \<Rightarrow> chap_sys" where
  "chap_input env pkt s =
     (if length pkt < CHAP_HDRLEN then s
      else let code = pkt ! 0; pid = pkt ! 1; len = unat (pkt ! 2) * 256 + unat (pkt ! 3) in
        if len < CHAP_HDRLEN \<or> len > length pkt then s
        else let body = take (len - CHAP_HDRLEN) (drop CHAP_HDRLEN pkt) in
          if code = CHAP_CHALLENGE then chap_respond env pid body s
          else if code = CHAP_RESPONSE then chap_handle_response env pid body s
          else if code = CHAP_FAILURE \<or> code = CHAP_SUCCESS then chap_handle_status env code pid body s
          else s)"

definition chap_code_names :: "string list" where
  "chap_code_names = [''Challenge'', ''Response'', ''Success'', ''Failure'']"

definition chap_print_value :: "bytes \<Rightarrow> string list" where
  "chap_print_value p =
     (if length p < 1 then []
      else let clen = unat (p ! 0) in
        if length p < clen + 1 then []
        else [CHR 0x20 # ''<''] @ map hex2 (take clen (drop 1 p)) @ [''>, name = ''] @ print_string (drop (clen + 1) p))"

definition chap_print_pkt :: "bytes \<Rightarrow> nat \<times> string list" where
  "chap_print_pkt p =
     (if length p < CHAP_HDRLEN then (0, [])
      else let code = p ! 0; pid = p ! 1; len = unat (p ! 2) * 256 + unat (p ! 3) in
        if len < CHAP_HDRLEN \<or> len > length p then (0, [])
        else let body = take (len - CHAP_HDRLEN) (drop CHAP_HDRLEN p)
             in (length body + CHAP_HDRLEN,
                 print_code chap_code_names code pid @
                   (if code = CHAP_CHALLENGE \<or> code = CHAP_RESPONSE then chap_print_value body
                    else if code = CHAP_FAILURE \<or> code = CHAP_SUCCESS then [CHR 0x20] # print_string body
                    else print_rest body)))"

section \<open>Steps\<close>

datatype chap_event = Chap_auth_peer bytes int | Chap_auth_with_peer bytes int | Chap_lowerup | Chap_lowerdown | Chap_protrej
  | Chap_input bytes | Chap_timeout

fun chap_do :: "chap_env \<Rightarrow> chap_event \<Rightarrow> chap_sys \<Rightarrow> chap_sys" where
  "chap_do env (Chap_auth_peer name code) s = chap_auth_peer env name code s"
| "chap_do env (Chap_auth_with_peer name code) s = chap_auth_with_peer name code s"
| "chap_do env Chap_lowerup s = chap_lowerup env s"
| "chap_do env Chap_lowerdown s = chap_lowerdown s"
| "chap_do env Chap_protrej s = chap_protrej env s"
| "chap_do env (Chap_input p) s = chap_input env p s"
| "chap_do env Chap_timeout s = (if chap_timers s = 0 then s else chap_timeout env (s\<lparr>chap_timers := chap_timers s - 1\<rparr>))"

text \<open>A run of the program: it starts with \<open>chap_init\<close>; the link comes up only when it was down, and nothing happens after
  \<open>fatal\<close>.\<close>

inductive chap_reach :: "chap_digest_type list \<Rightarrow> chap_env \<Rightarrow> chap_sys \<Rightarrow> bool"
    for ms_digests env where
  reach_init: "chap_timers s = 0 \<Longrightarrow> chap_reports s = [] \<Longrightarrow> \<not> null_deref s \<Longrightarrow> chap_reach ms_digests env (chap_init ms_digests s)"
| reach_step: "chap_reach ms_digests env s \<Longrightarrow> \<not> died s \<Longrightarrow> (e = Chap_lowerup \<Longrightarrow> \<not> ss_has s LOWERUP) \<Longrightarrow>
    chap_reach ms_digests env (chap_do env e s)"

end
