(* ===== verification/Ppp_Chap_Proofs.thy ===== *)
theory Ppp_Chap_Proofs
  imports Ppp_Chap
begin

text \<open>
  What the operations of CHAP do to the flags and fields, the invariant of its runs, the reasons for which a success is
  reported, and the end of the retransmission of a challenge. The flags are read through their bits.
\<close>

section \<open>Flags\<close>

named_theorems chap_simps \<open>flags and fields after the updates of CHAP\<close>

lemma flag_bits:
  "bit LOWERUP n \<longleftrightarrow> n = 0" "bit AUTH_STARTED n \<longleftrightarrow> n = 1" "bit AUTH_DONE n \<longleftrightarrow> n = 2" "bit AUTH_FAILED n \<longleftrightarrow> n = 3"
  "bit TIMEOUT_PENDING n \<longleftrightarrow> n = 4" "bit CHALLENGE_VALID n \<longleftrightarrow> n = 5"
proof -
  have e: "AUTH_STARTED = 2 ^ 1" "AUTH_DONE = 2 ^ 2" "AUTH_FAILED = 2 ^ 3" "TIMEOUT_PENDING = 2 ^ 4" "CHALLENGE_VALID = 2 ^ 5"
    by (simp_all add: AUTH_STARTED_def AUTH_DONE_def AUTH_FAILED_def TIMEOUT_PENDING_def CHALLENGE_VALID_def)
  show "bit LOWERUP n \<longleftrightarrow> n = 0" by (auto simp: LOWERUP_def bit_1_iff)
  show "bit AUTH_STARTED n \<longleftrightarrow> n = 1" "bit AUTH_DONE n \<longleftrightarrow> n = 2" "bit AUTH_FAILED n \<longleftrightarrow> n = 3"
    "bit TIMEOUT_PENDING n \<longleftrightarrow> n = 4" "bit CHALLENGE_VALID n \<longleftrightarrow> n = 5"
    unfolding e bit_exp_iff by auto
qed

lemma low_bits: "\<forall>n<32. P n \<Longrightarrow> P 0 \<and> P (Suc 0) \<and> P 2 \<and> P 3 \<and> P 4 \<and> P (5 :: nat)"
  by simp

lemma flag_unset: "x AND LOWERUP = 0 \<longleftrightarrow> \<not> bit x 0" "x AND AUTH_STARTED = 0 \<longleftrightarrow> \<not> bit x 1" "x AND AUTH_DONE = 0 \<longleftrightarrow> \<not> bit x 2"
    "x AND AUTH_FAILED = 0 \<longleftrightarrow> \<not> bit x 3" "x AND TIMEOUT_PENDING = 0 \<longleftrightarrow> \<not> bit x 4" "x AND CHALLENGE_VALID = 0 \<longleftrightarrow> \<not> bit x 5"
  by (auto simp: bit_eq_iff [where 'a = u32] bit_and_iff flag_bits intro!: gr0I dest!: low_bits)

lemma mask_iff: "x AND m = v \<longleftrightarrow> (\<forall>n. (bit x n \<and> bit m n) = bit v n)" for x :: u32
  by (rule iffI) (force simp: bit_and_iff, rule bit_word_eqI, simp add: bit_and_iff)

lemma flag_masks:
  "x AND (LOWERUP OR AUTH_STARTED) = LOWERUP OR AUTH_STARTED \<longleftrightarrow> bit x 0 \<and> bit x 1"
  "x AND (AUTH_DONE OR AUTH_STARTED OR LOWERUP) = AUTH_STARTED OR LOWERUP \<longleftrightarrow> bit x 0 \<and> bit x 1 \<and> \<not> bit x 2"
  "x AND (AUTH_STARTED OR AUTH_DONE) = AUTH_STARTED \<longleftrightarrow> bit x 1 \<and> \<not> bit x 2"
  unfolding mask_iff bit_or_iff flag_bits by (metis one_neq_zero zero_neq_numeral numeral_One numeral_eq_iff semiring_norm(85))+

lemma ss_has_bits [chap_simps]:
  "ss_has s LOWERUP \<longleftrightarrow> bit (ss_flags (sv s)) 0" "ss_has s AUTH_STARTED \<longleftrightarrow> bit (ss_flags (sv s)) 1" "ss_has s AUTH_DONE \<longleftrightarrow> bit (ss_flags (sv s)) 2"
  "ss_has s AUTH_FAILED \<longleftrightarrow> bit (ss_flags (sv s)) 3" "ss_has s TIMEOUT_PENDING \<longleftrightarrow> bit (ss_flags (sv s)) 4"
  "ss_has s CHALLENGE_VALID \<longleftrightarrow> bit (ss_flags (sv s)) 5"
  by (simp_all add: ss_has_def flag_unset)

lemma cs_has_bits [chap_simps]:
  "cs_has s LOWERUP \<longleftrightarrow> bit (cs_flags (cl s)) 0" "cs_has s AUTH_STARTED \<longleftrightarrow> bit (cs_flags (cl s)) 1" "cs_has s AUTH_DONE \<longleftrightarrow> bit (cs_flags (cl s)) 2"
  by (simp_all add: cs_has_def flag_unset)

lemma flag_updates [chap_simps]:
  "bit (x OR LOWERUP) n \<longleftrightarrow> bit x n \<or> n = 0" "bit (x OR AUTH_STARTED) n \<longleftrightarrow> bit x n \<or> n = 1" "bit (x OR AUTH_DONE) n \<longleftrightarrow> bit x n \<or> n = 2"
  "bit (x OR AUTH_FAILED) n \<longleftrightarrow> bit x n \<or> n = 3" "bit (x OR TIMEOUT_PENDING) n \<longleftrightarrow> bit x n \<or> n = 4" "bit (x OR CHALLENGE_VALID) n \<longleftrightarrow> bit x n \<or> n = 5"
  "bit (x OR (AUTH_DONE OR AUTH_FAILED)) n \<longleftrightarrow> bit x n \<or> n = 2 \<or> n = 3"
  "bit (x AND NOT TIMEOUT_PENDING) n \<longleftrightarrow> bit x n \<and> n \<noteq> 4" "bit (x AND NOT CHALLENGE_VALID) n \<longleftrightarrow> bit x n \<and> n \<noteq> 5"
  "bit (x AND NOT AUTH_STARTED) n \<longleftrightarrow> bit x n \<and> n \<noteq> 1"
  by (auto simp: bit_or_iff bit_and_iff bit_not_iff flag_bits dest: bit_imp_possible_bit)

lemma chap_sel [chap_simps]:
  "sv (on_sv g s) = g (sv s)" "cl (on_sv g s) = cl s" "cl (on_cl h s) = h (cl s)" "sv (on_cl h s) = sv s"
  "chap_digests (on_sv g s) = chap_digests s" "chap_digests (on_cl h s) = chap_digests s"
  "chap_timers (on_sv g s) = chap_timers s" "chap_timers (on_cl h s) = chap_timers s" "rnd (on_sv g s) = rnd s" "rnd (on_cl h s) = rnd s"
  "chap_out (on_sv g s) = chap_out s" "chap_out (on_cl h s) = chap_out s" "chap_reports (on_sv g s) = chap_reports s"
  "chap_reports (on_cl h s) = chap_reports s" "null_deref (on_sv g s) = null_deref s" "null_deref (on_cl h s) = null_deref s"
  "died (on_sv g s) = died s" "died (on_cl h s) = died s"
  by (simp_all add: on_sv_def on_cl_def)

lemmas chap_ops = cs_set_def cs_clear_def ss_set_def ss_clear_def chap_report_def chap_output_def chap_TIMEOUT_def chap_UNTIMEOUT_def

declare chap_ops [chap_simps]

lemma chap_fail_sel [chap_simps]:
  "cl (chap_fail env r s) = (if chap_lcp_opened env then (cl s)\<lparr>cs_flags := 0\<rparr> else cl s)"
  "sv (chap_fail env r s) = (if chap_lcp_opened env then (sv s)\<lparr>ss_flags := 0\<rparr> else sv s)"
  "chap_timers (chap_fail env r s) = (if chap_lcp_opened env \<and> bit (ss_flags (sv s)) 4 then chap_timers s - 1 else chap_timers s)"
  "chap_out (chap_fail env r s) = chap_out s" "chap_reports (chap_fail env r s) = chap_reports s @ [r]"
  "null_deref (chap_fail env r s) = null_deref s" "died (chap_fail env r s) = died s" "rnd (chap_fail env r s) = rnd s"
  "chap_digests (chap_fail env r s) = chap_digests s"
  by (simp_all add: chap_fail_def chap_lowerdown_def Let_def chap_simps)

text \<open>The packet as \<open>parse_header\<close> of the automaton sees it.\<close>

lemma chap_input_parsed:
  "chap_input env p s =
     (case parse_header p of
        None \<Rightarrow> s
      | Some (code, pid, body) \<Rightarrow>
          if code = CHAP_CHALLENGE then chap_respond env pid body s
          else if code = CHAP_RESPONSE then chap_handle_response env pid body s
          else if code = CHAP_FAILURE \<or> code = CHAP_SUCCESS then chap_handle_status env code pid body s
          else s)"
  by (simp add: chap_input_def parse_header_def CHAP_HDRLEN_def HEADERLEN_def Let_def)

section \<open>Invariant\<close>

text \<open>\<open>TIMEOUT_PENDING\<close> tells whether a call of \<open>chap_timeout\<close> is pending, of which there is never more than one; the
  digest pointers are set whenever they are followed; a challenge and a timeout need a server that is up and started.\<close>

definition chap_ok :: "chap_sys \<Rightarrow> bool" where
  "chap_ok s \<longleftrightarrow> chap_timers s = (if ss_has s TIMEOUT_PENDING then 1 else 0) \<and>
     (ss_has s TIMEOUT_PENDING \<longrightarrow> ss_has s LOWERUP \<and> ss_has s AUTH_STARTED) \<and>
     (ss_has s CHALLENGE_VALID \<longrightarrow> ss_has s LOWERUP \<and> ss_has s AUTH_STARTED) \<and>
     (ss_has s AUTH_STARTED \<longrightarrow> ss_digest (sv s) \<noteq> None) \<and> (cs_has s AUTH_STARTED \<longrightarrow> cs_digest (cl s) \<noteq> None) \<and>
     \<not> null_deref s"

lemma chap_ok_bits:
  "chap_ok s \<longleftrightarrow> chap_timers s = (if bit (ss_flags (sv s)) 4 then 1 else 0) \<and>
     (bit (ss_flags (sv s)) 4 \<or> bit (ss_flags (sv s)) 5 \<longrightarrow> bit (ss_flags (sv s)) 0 \<and> bit (ss_flags (sv s)) 1) \<and>
     (bit (ss_flags (sv s)) 1 \<longrightarrow> ss_digest (sv s) \<noteq> None) \<and> (bit (cs_flags (cl s)) 1 \<longrightarrow> cs_digest (cl s) \<noteq> None) \<and> \<not> null_deref s"
  by (auto simp: chap_ok_def chap_simps)

text \<open>\<open>chap_timeout\<close> on a server that is up and started, none pending.\<close>

definition chap_idle :: "chap_sys \<Rightarrow> bool" where
  "chap_idle s \<longleftrightarrow> chap_timers s = 0 \<and> bit (ss_flags (sv s)) 0 \<and> bit (ss_flags (sv s)) 1 \<and>
     ss_digest (sv s) \<noteq> None \<and> (bit (cs_flags (cl s)) 1 \<longrightarrow> cs_digest (cl s) \<noteq> None) \<and> \<not> null_deref s"

lemma chap_timeout_ok: "chap_idle s \<Longrightarrow> chap_ok (chap_timeout env s)"
  by (auto simp: chap_idle_def chap_ok_bits chap_timeout_def chap_send_challenge_def chap_generate_challenge_def Let_def chap_simps split_beta)

lemma chap_send_status_sel [chap_simps]:
  "sv (send_status pid s) = sv s" "cl (send_status pid s) = cl s" "chap_timers (send_status pid s) = chap_timers s"
  "chap_reports (send_status pid s) = chap_reports s" "null_deref (send_status pid s) = null_deref s"
  by (simp_all add: send_status_def chap_simps)

lemma judge_ok: "chap_ok s \<Longrightarrow> chap_ok (judge_response env pid pkt d s)"
  by (auto simp: judge_response_def Let_def split_beta chap_ok_bits chap_simps)

lemma judge_sel [chap_simps]: 
  "bit (ss_flags (sv (judge_response env pid pkt d s))) n \<longleftrightarrow> 
     bit (ss_flags (sv s)) n \<and> n \<noteq> 4 \<or> n = 3 \<and> (\<not> fst (run_verifier env s d pid pkt) \<or> \<not> number_allowed env)"
  "chap_reports (judge_response env pid pkt d s) = chap_reports s"
  by (auto simp: judge_response_def Let_def split_beta chap_simps run_verifier_def)

lemma conclude_ok: "chap_ok s \<Longrightarrow> bit (ss_flags (sv s)) 5 \<Longrightarrow> \<not> bit (ss_flags (sv s)) 4 \<Longrightarrow> chap_ok (conclude env name s)"
  by (auto simp: conclude_def Let_def chap_ok_bits chap_simps)

lemma handle_response_ok: "chap_ok s \<Longrightarrow> chap_ok (chap_handle_response env pid pkt s)"
proof (cases "ss_digest (sv s)")
  case (Some d)
  assume o: "chap_ok s"
  then have "chap_ok (send_status pid (judge_response env pid pkt d s))"
    using judge_ok [of s env pid pkt d] by (simp add: chap_ok_bits chap_simps)
  then have "bit (ss_flags (sv s)) 5 \<Longrightarrow> chap_ok (conclude env (response_name env pkt) (send_status pid (judge_response env pid pkt d s)))"
    by (rule conclude_ok) (simp_all add: chap_simps)
  with o show ?thesis 
    by (auto simp: chap_handle_response_def Some chap_ok_bits chap_simps)
next
  case None
  assume "chap_ok s"
  with None show ?thesis by (auto simp: chap_handle_response_def chap_ok_bits chap_simps)
qed

lemma client_ok: "chap_ok s \<Longrightarrow> chap_ok (chap_respond env pid pkt s)" "chap_ok s \<Longrightarrow> chap_ok (chap_handle_status env code pid pkt s)"
  by (auto simp: chap_respond_def chap_handle_status_def chap_ok_bits flag_masks Let_def split_beta chap_simps split: option.split)

lemma chap_do_ok:
  assumes "chap_ok s" "e = Chap_lowerup \<Longrightarrow> \<not> ss_has s LOWERUP"
  shows "chap_ok (chap_do env e s)"
proof (cases e)
  case (Chap_auth_peer name code)
  show ?thesis
    using assms(1) unfolding Chap_auth_peer chap_do.simps chap_auth_peer_def
    by (auto simp: Let_def split_beta split: option.split intro!: chap_timeout_ok) (auto simp: chap_ok_bits chap_idle_def chap_simps)
next
  case Chap_lowerup
  show ?thesis
    using assms unfolding Chap_lowerup chap_do.simps chap_lowerup_def
    by (auto simp: Let_def intro!: chap_timeout_ok) (auto simp: chap_ok_bits chap_idle_def chap_simps)
next
  case (Chap_input p)
  then show ?thesis
    using assms(1) by (auto simp: chap_input_parsed handle_response_ok client_ok split: option.split)
next
  case Chap_timeout
  have "chap_idle (s\<lparr>chap_timers := chap_timers s - 1\<rparr>)" if "chap_timers s \<noteq> 0"
    using assms(1) that by (auto simp: chap_ok_bits chap_idle_def split: if_splits)
  with Chap_timeout show ?thesis using assms(1) chap_timeout_ok by simp
qed (use assms(1) in \<open>auto simp: chap_auth_with_peer_def chap_lowerdown_def chap_protrej_def chap_ok_bits flag_masks Let_def chap_simps split: option.split\<close>)

lemma fold_register_sel [simp]:
  "sv (fold chap_register_digest ds s) = sv s" "cl (fold chap_register_digest ds s) = cl s" "chap_timers (fold chap_register_digest ds s) = chap_timers s"
  "null_deref (fold chap_register_digest ds s) = null_deref s" "chap_reports (fold chap_register_digest ds s) = chap_reports s"
  by (induction ds arbitrary: s) (simp_all add: chap_register_digest_def)

lemma chap_reach_ok: "chap_reach ms_digests env s \<Longrightarrow> chap_ok s"
proof (induction rule: chap_reach.induct)
  case (reach_init s)
  then show ?case by (simp add: chap_ok_bits chap_init_def chap_md5_init_def chap_register_digest_def)
qed (simp add: chap_do_ok)

section \<open>Success is verified\<close>

definition chap_cause :: "chap_env \<Rightarrow> chap_sys \<Rightarrow> chap_event \<Rightarrow> bytes \<Rightarrow> bool" where
  "chap_cause env s e n \<longleftrightarrow>
     (\<exists>p pid pkt d. e = Chap_input p \<and> parse_header p = Some (CHAP_RESPONSE, pid, pkt) \<and> ss_has s LOWERUP \<and> ss_has s CHALLENGE_VALID \<and>
        pid = ss_challenge (sv s) ! 5 \<and> ss_digest (sv s) = Some d \<and> n = response_name env pkt \<and>
        fst (run_verifier env s d pid pkt) \<and> number_allowed env \<and> (session_mgmt env \<longrightarrow> session_check env n))"

lemma timeout_reports: "Peer_success n \<in> set (chap_reports (chap_timeout env s)) \<Longrightarrow> Peer_success n \<in> set (chap_reports s)"
  by (auto simp: chap_timeout_def chap_send_challenge_def chap_generate_challenge_def Let_def split_beta chap_simps split: if_splits option.splits)

lemma client_reports:
  "Peer_success n \<in> set (chap_reports (chap_respond env pid pkt s)) \<Longrightarrow> Peer_success n \<in> set (chap_reports s)"
  "Peer_success n \<in> set (chap_reports (chap_handle_status env code pid pkt s)) \<Longrightarrow> Peer_success n \<in> set (chap_reports s)"
  by (auto simp: chap_respond_def chap_handle_status_def Let_def split_beta chap_simps split: if_splits option.splits)

lemma conclude_reports:
  "Peer_success n \<in> set (chap_reports (conclude env name s)) \<Longrightarrow>
   Peer_success n \<in> set (chap_reports s) \<or> n = name \<and> \<not> bit (ss_flags (sv s)) 2 \<and> \<not> bit (ss_flags (sv s)) 3 \<and> (session_mgmt env \<longrightarrow> session_check env name)"
  by (auto simp: conclude_def Let_def chap_simps split: if_splits)

lemma handle_response_reports:
  assumes "Peer_success n \<in> set (chap_reports (chap_handle_response env pid pkt s))" "Peer_success n \<notin> set (chap_reports s)"
  shows "ss_has s LOWERUP \<and> ss_has s CHALLENGE_VALID \<and> pid = ss_challenge (sv s) ! 5 \<and>
    (\<exists>d. ss_digest (sv s) = Some d \<and> fst (run_verifier env s d pid pkt)) \<and> n = response_name env pkt \<and> number_allowed env \<and>
    (session_mgmt env \<longrightarrow> session_check env n)"
proof -
  have g: "ss_has s LOWERUP" "pid = ss_challenge (sv s) ! 5" "ss_has s CHALLENGE_VALID"
    using assms by (auto simp: chap_handle_response_def chap_simps PPP_HDRLEN_def split: if_splits)
  then obtain d where d: "ss_digest (sv s) = Some d"
      "Peer_success n \<in> set (chap_reports (conclude env (response_name env pkt) (send_status pid (judge_response env pid pkt d s))))"
    using assms by (auto simp: chap_handle_response_def PPP_HDRLEN_def split: if_splits option.splits)
  from conclude_reports [OF this(2)] assms(2) have "n = response_name env pkt" "session_mgmt env \<longrightarrow> session_check env n"
      "\<not> bit (ss_flags (sv (judge_response env pid pkt d s))) 3"
    by (auto simp: chap_simps)
  with g d(1) show ?thesis by (auto simp: judge_sel)
qed

lemma input_reports:
  "Peer_success n \<in> set (chap_reports (chap_input env p s)) \<Longrightarrow> Peer_success n \<notin> set (chap_reports s) \<Longrightarrow>
   \<exists>pid pkt. parse_header p = Some (CHAP_RESPONSE, pid, pkt) \<and> Peer_success n \<in> set (chap_reports (chap_handle_response env pid pkt s))"
  by (auto simp: chap_input_parsed dest: client_reports split: option.splits if_splits)

interpretation chap: authenticator "chap_do env" chap_reports "chap_cause env" for env
proof
  fix n e s
  assume a: "Peer_success n \<in> set (chap_reports (chap_do env e s))"
  show "Peer_success n \<in> set (chap_reports s) \<or> chap_cause env s e n"
  proof (cases e)
    case (Chap_input p)
    show ?thesis
    proof (rule disjCI)
      assume f: "\<not> chap_cause env s e n"
      show "Peer_success n \<in> set (chap_reports s)"
      proof (rule ccontr)
        assume new: "Peer_success n \<notin> set (chap_reports s)"
        then obtain pid pkt where r: "parse_header p = Some (CHAP_RESPONSE, pid, pkt)"
            "Peer_success n \<in> set (chap_reports (chap_handle_response env pid pkt s))"
          using a input_reports [of n env p s] by (auto simp: Chap_input)
        from handle_response_reports [OF r(2) new] r(1) f show False by (auto simp: Chap_input chap_cause_def)
      qed
    qed
  qed (use a in \<open>auto simp: chap_auth_peer_def chap_auth_with_peer_def chap_lowerup_def chap_lowerdown_def chap_protrej_def Let_def split_beta
      chap_simps dest!: timeout_reports split: if_splits option.splits\<close>)
qed

section \<open>Retransmission\<close>

definition chap_timer_step :: "chap_env \<Rightarrow> unit \<Rightarrow> chap_sys \<Rightarrow> chap_sys option" where
  "chap_timer_step env e s = (if chap_timers s = 0 then None else Some (chap_do env Chap_timeout s))"

definition chap_budget :: "chap_env \<Rightarrow> chap_sys \<Rightarrow> nat" where
  "chap_budget env s =
     (if chap_timers s = 0 then 0
      else if ss_has s CHALLENGE_VALID then nat (chap_max_transmits env - challenge_xmits (sv s)) + 1
      else nat (chap_max_transmits env) + 2)"

interpretation chap_server: retransmitter "chap_timer_step env" "\<lambda>_. True" "chap_budget env" chap_ok for env
proof
  fix s s' and e :: unit
  assume o: "chap_ok s" and st: "chap_timer_step env e s = Some s'"
  then show "chap_ok s'"
    using chap_do_ok [of s Chap_timeout env] by (auto simp: chap_timer_step_def split: if_splits)
  have t: "chap_timers s = 1" "s' = chap_timeout env (s\<lparr>chap_timers := 0\<rparr>)"
    using o st by (auto simp: chap_timer_step_def chap_ok_bits split: if_splits)
  then show "chap_budget env s' < chap_budget env s" if True
    by (cases "ss_digest (sv s)")
      (auto simp: chap_budget_def chap_timeout_def chap_send_challenge_def chap_generate_challenge_def Let_def split_beta chap_simps)
qed simp

text \<open>A server that gets no response stops: after more firings than the budget, no timeout is pending any more.\<close>

lemma chap_server_gives_up:
  "chap_ok s \<Longrightarrow> chap_budget env s < length es \<Longrightarrow> steps (chap_timer_step env) es s = None"
  by (rule chap_server.stops_after_budget) simp_all

text \<open>The number of pending timeouts is a timer service with one key.\<close>

interpretation chap_timer: timer_service "\<lambda>(k :: unit) secs. chap_TIMEOUT" "\<lambda>k. chap_UNTIMEOUT" "\<lambda>s k. chap_timers s" "\<lambda>s. True"
  by unfold_locales (simp_all add: chap_TIMEOUT_def chap_UNTIMEOUT_def)

end
