(* ===== verification/Ppp_Chap_Runs.thy ===== *)
theory Ppp_Chap_Runs
  imports Ppp_Chap_Proofs
begin

text \<open>
  Client and server of CHAP together: what a started server sends, what an honest client answers, what the server concludes
  and what the client learns; and the challenges that a server sends to a peer that is silent.
\<close>

section \<open>Packets\<close>

definition framed :: "bytes \<Rightarrow> bool" where
  "framed v \<longleftrightarrow> v \<noteq> [] \<and> length v = 1 + unat (hd v)"

lemma hd_framed [simp]: "framed v \<Longrightarrow> hd (v @ r) = hd v" "framed v \<Longrightarrow> v \<noteq> []" "framed v \<Longrightarrow> length v = Suc (unat (hd v))"
  by (auto simp: framed_def)

lemma challenge_packet_framed:
  "framed chal \<Longrightarrow> challenge_packet pid chal name = MAKEHEADER PPP_CHAP @ [CHAP_CHALLENGE, pid] @ be16 (4 + length (chal @ name)) @ chal @ name"
  by (simp add: challenge_packet_def CHAP_HDRLEN_def add.assoc)

lemma response_packet_framed:
  "framed v \<Longrightarrow> response_packet pid v name = MAKEHEADER PPP_CHAP @ [CHAP_RESPONSE, pid] @ be16 (4 + length (v @ name)) @ v @ name"
  by (simp add: response_packet_def CHAP_HDRLEN_def add.assoc)

lemma byte_bound: "unat (b :: u8) < 256"
  using unsigned_less [of b] by simp

lemma framed_length: "framed v \<Longrightarrow> length v \<le> 256"
proof -
  assume "framed v"
  moreover have "unat (hd v) < 256" by (rule byte_bound)
  ultimately show ?thesis unfolding framed_def by linarith
qed

lemma parse_framed:
  assumes "framed v" "length name \<le> MAXNAMELEN"
  shows "parse_header (drop 4 (MAKEHEADER t @ [code, pid] @ be16 (4 + length (v @ name)) @ v @ name)) = Some (code, pid, v @ name)"
  using parse_packet [of "v @ name" code pid] framed_length [OF assms(1)] assms(2) by (simp add: MAXNAMELEN_def)

lemma parse_status:
  "length msg \<le> 256 \<Longrightarrow> parse_header (drop 4 (status_packet code pid msg)) = Some (code, pid, msg)"
  using parse_packet [of msg code pid] by (simp add: status_packet_def CHAP_HDRLEN_def)

text \<open>The challenge in the buffer of the server.\<close>

lemma challenge_buffer:
  assumes "framed chal"
  shows "overwrite (challenge_packet pid chal name) buf ! 5 = pid"
    "drop 8 (overwrite (challenge_packet pid chal name) buf) = chal @ name @ drop (length (challenge_packet pid chal name)) buf"
proof -
  have p: "challenge_packet pid chal name = [255, 3, 0xc2, 0x23, CHAP_CHALLENGE, pid] @ be16 (4 + length (chal @ name)) @ chal @ name"
    using assms by (simp add: challenge_packet_framed MAKEHEADER_def be16_def PPP_CHAP_def)
  show "overwrite (challenge_packet pid chal name) buf ! 5 = pid"
    by (simp add: overwrite_def p)
  have "drop 8 (p @ r) = drop 8 p @ r" if "8 \<le> length p" for p r :: bytes using that by simp
  then show "drop 8 (overwrite (challenge_packet pid chal name) buf) = chal @ name @ drop (length (challenge_packet pid chal name)) buf"
    by (simp add: overwrite_def p be16_def)
qed

section \<open>The server\<close>

lemma auth_peer_starts:
  assumes "ss_flags (sv v0) = LOWERUP" "find_digest code v0 = Some d" "v = chap_do env (Chap_auth_peer name code) v0"
    and "\<And>x. framed (fst (generate_challenge d x))"
  obtains pid chal where "framed chal" "chap_out v = chap_out v0 @ [challenge_packet pid chal name]"
    "ss_challenge (sv v) = overwrite (challenge_packet pid chal name) (ss_challenge (sv v0))"
    "ss_flags (sv v) = LOWERUP OR AUTH_STARTED OR CHALLENGE_VALID OR TIMEOUT_PENDING" "ss_digest (sv v) = Some d" "ss_name (sv v) = name"
    "chap_reports v = chap_reports v0" "challenge_xmits (sv v) = 1" "chap_timers v = chap_timers v0 + 1"
    "challenge_pktlen (sv v) = length (challenge_packet pid chal name)"
proof -
  have f: "((LOWERUP OR AUTH_STARTED) AND NOT TIMEOUT_PENDING OR CHALLENGE_VALID) OR TIMEOUT_PENDING = LOWERUP OR AUTH_STARTED OR CHALLENGE_VALID OR TIMEOUT_PENDING"
    by (simp add: LOWERUP_def AUTH_STARTED_def TIMEOUT_PENDING_def CHALLENGE_VALID_def)
  have b: "bit (LOWERUP OR AUTH_STARTED) 0" "\<not> bit (LOWERUP OR AUTH_STARTED) 5" "\<not> bit LOWERUP (Suc 0)" "bit LOWERUP 0" "\<not> bit LOWERUP 5"
    by (simp_all add: chap_simps flag_bits)
  define chal where "chal = fst (generate_challenge d (snd (drand48_times 256 (rnd v0))))"
  show ?thesis
    by (rule that [of chal "of_int (uint (of_nat (fst (drand48_times 256 (rnd v0))) :: u8) + 1)"])
      (simp_all add: assms chal_def chap_auth_peer_def chap_timeout_def chap_generate_challenge_def chap_send_challenge_def
        Let_def split_beta chap_simps b f overwrite_def)
qed

lemma server_concludes:
  assumes "parse_header p = Some (CHAP_RESPONSE, pid, pkt)" "ss_has v LOWERUP" "ss_has v CHALLENGE_VALID" "\<not> ss_has v AUTH_DONE" "\<not> ss_has v AUTH_FAILED"
    and "ss_digest (sv v) = Some d" "pid = ss_challenge (sv v) ! 5" "2 \<le> length pkt" "unat (hd pkt) + 1 \<le> length pkt"
    and "run_verifier env v d pid pkt = (ok, msg)" "v' = chap_input env p v"
  shows "chap_reports v' = chap_reports v @
      [if ok \<and> number_allowed env \<and> (session_mgmt env \<longrightarrow> session_check env (response_name env pkt)) then Peer_success (response_name env pkt) else Peer_fail]"
    "chap_out v' = chap_out v @ [status_packet (if ok \<and> number_allowed env then CHAP_SUCCESS else CHAP_FAILURE) pid msg]"
proof -
  have c: "CHAP_CHALLENGE \<noteq> CHAP_RESPONSE" by (simp add: CHAP_CHALLENGE_def CHAP_RESPONSE_def)
  define j where "j = judge_response env pid pkt d v"
  have v': "v' = conclude env (response_name env pkt) (send_status pid j)"
    using assms c by (simp add: chap_input_parsed chap_handle_response_def PPP_HDRLEN_def j_def)
  have j: "\<not> bit (ss_flags (sv j)) 2" "bit (ss_flags (sv j)) 3 \<longleftrightarrow> \<not> (ok \<and> number_allowed env)" "chap_reports j = chap_reports v"
    using assms(4,5,10) by (auto simp: j_def chap_simps)
  have j': "chap_out j = chap_out v" "ss_message (sv j) = msg"
    using assms(10) by (simp_all add: j_def judge_response_def Let_def split_beta chap_simps run_verifier_def)
  show "chap_reports v' = chap_reports v @
      [if ok \<and> number_allowed env \<and> (session_mgmt env \<longrightarrow> session_check env (response_name env pkt)) then Peer_success (response_name env pkt) else Peer_fail]"
    using j by (auto simp: v' conclude_def Let_def chap_simps)
  have "chap_out v' = chap_out (send_status pid j)" by (simp add: v' conclude_def Let_def chap_simps)
  then show "chap_out v' = chap_out v @ [status_packet (if ok \<and> number_allowed env then CHAP_SUCCESS else CHAP_FAILURE) pid msg]"
    using j(2) j' by (simp add: send_status_def chap_simps)
qed

section \<open>The client\<close>

lemma client_responds:
  assumes "parse_header p = Some (CHAP_CHALLENGE, pid, chal @ name)" "framed chal" "cs_has c LOWERUP" "cs_has c AUTH_STARTED" "cs_digest (cl c) = Some d"
    and "printable name" "name \<noteq> []" "length name \<le> MAXNAMELEN" "\<not> explicit_remote env"
    and "get_secret (secret_source env) (cs_name (cl c)) name False = Some w" "c' = chap_input env p c"
  shows "chap_out c' = chap_out c @ [response_packet pid (fst (make_response d pid (cs_name (cl c)) (chal @ name) w (cs_priv (cl c)))) (cs_name (cl c))]"
    "cs_flags (cl c') = cs_flags (cl c)" "cs_digest (cl c') = cs_digest (cl c)" "chap_reports c' = chap_reports c"
proof -
  have n: "respond_name env (chal @ name) = name"
    using assms(2,6-9) by (simp add: respond_name_def vis_string_printable)
  have "2 \<le> length (chal @ name)" using assms(2,7) by (cases name) auto
  then have "c' = chap_respond env pid (chal @ name) c" "\<not> (length (chal @ name) < 2 \<or> length (chal @ name) < unat (hd (chal @ name)) + 1)"
    using assms(1,2,7,11) by (simp_all add: chap_input_parsed)
  moreover have "bit (cs_flags (cl c)) 0" "bit (cs_flags (cl c)) 1" using assms(3,4) by (simp_all add: chap_simps)
  ultimately show "chap_out c' = chap_out c @ [response_packet pid (fst (make_response d pid (cs_name (cl c)) (chal @ name) w (cs_priv (cl c)))) (cs_name (cl c))]"
    "cs_flags (cl c') = cs_flags (cl c)" "cs_digest (cl c') = cs_digest (cl c)" "chap_reports c' = chap_reports c"
    using assms(5,10) unfolding chap_respond_def by (simp_all add: flag_masks n Let_def split_beta chap_simps)
qed

lemma client_learns:
  assumes "parse_header p = Some (if ok then CHAP_SUCCESS else CHAP_FAILURE, pid, msg)"
    and "cs_has c LOWERUP" "cs_has c AUTH_STARTED" "\<not> cs_has c AUTH_DONE" "cs_digest (cl c) = Some d" "check_success d = None"
  shows "chap_reports (chap_input env p c) = chap_reports c @ [if ok then Withpeer_success else Withpeer_fail]"
proof -
  have "CHAP_CHALLENGE \<noteq> CHAP_SUCCESS" "CHAP_CHALLENGE \<noteq> CHAP_FAILURE" "CHAP_RESPONSE \<noteq> CHAP_SUCCESS" "CHAP_RESPONSE \<noteq> CHAP_FAILURE" "CHAP_SUCCESS \<noteq> CHAP_FAILURE"
    by (simp_all add: CHAP_CHALLENGE_def CHAP_RESPONSE_def CHAP_SUCCESS_def CHAP_FAILURE_def)
  then show ?thesis
    using assms by (auto simp: chap_input_parsed chap_handle_status_def flag_masks Let_def chap_simps)
qed

section \<open>Digests\<close>

text \<open>What CHAP relies on in a digest: challenges and responses carry their length, a response is not empty, and the response
  that is made with a secret is accepted for this secret.\<close>

locale chap_digest =
  fixes digest :: chap_digest_type
  assumes challenge_framed: "framed (fst (generate_challenge digest x))"
    and response_framed: "framed (fst (make_response digest pid n c w pr))"
    and response_filled: "0 < unat (hd (fst (make_response digest pid n c w pr)))"
    and made_accepted: "framed chal \<Longrightarrow>
      fst (verify_response digest pid n w (chal @ r) (fst (make_response digest pid n (chal @ r') w pr) @ r'') msg space)"
begin

text \<open>The answer that an honest client gives to the challenge of a server that has just been started, and what the verifier
  says of it.\<close>

lemma honest_response:
  assumes "ss_flags (sv v0) = LOWERUP" "find_digest code v0 = Some digest" "v = chap_do envv (Chap_auth_peer name code) v0"
    and "cs_has c LOWERUP" "cs_has c AUTH_STARTED" "cs_digest (cl c) = Some digest"
    and "printable name" "name \<noteq> []" "length name \<le> MAXNAMELEN" "printable (cs_name (cl c))" "length (cs_name (cl c)) \<le> MAXNAMELEN"
    and "\<not> explicit_remote envc" "\<not> explicit_remote envv" "chap_verify_hook envv = None"
    and "get_secret (secret_source envc) (cs_name (cl c)) name False = Some w"
    and "get_secret (secret_source envv) (cs_name (cl c)) name True = Some w'"
    and "c' = chap_input envc (drop 4 (last (chap_out v))) c"
  obtains pid pkt chal r where "parse_header (drop 4 (last (chap_out c'))) = Some (CHAP_RESPONSE, pid, pkt)" "pid = ss_challenge (sv v) ! 5"
    "pkt = fst (make_response digest pid (cs_name (cl c)) (chal @ name) w (cs_priv (cl c))) @ cs_name (cl c)" "framed chal"
    "2 \<le> length pkt" "unat (hd pkt) + 1 \<le> length pkt" "response_name envv pkt = cs_name (cl c)"
    "drop 8 (ss_challenge (sv v)) = chal @ name @ r"
    "run_verifier envv v digest pid pkt = verify_response digest pid (cs_name (cl c)) w' (chal @ name @ r) pkt (ss_message (sv v)) 256"
    "ss_flags (sv v) = LOWERUP OR AUTH_STARTED OR CHALLENGE_VALID OR TIMEOUT_PENDING" "ss_digest (sv v) = Some digest"
    "chap_reports v = chap_reports v0" "cs_flags (cl c') = cs_flags (cl c)" "cs_digest (cl c') = cs_digest (cl c)" "chap_reports c' = chap_reports c"
proof (rule auth_peer_starts [OF assms(1-3) challenge_framed], goal_cases)
  case (1 pid chal)
  note v = 1(2-)
  define rsp where "rsp = fst (make_response digest pid (cs_name (cl c)) (chal @ name) w (cs_priv (cl c)))"
  have rf: "framed rsp" "0 < unat (hd rsp)" by (simp_all add: rsp_def response_framed response_filled)
  have "parse_header (drop 4 (last (chap_out v))) = Some (CHAP_CHALLENGE, pid, chal @ name)"
    using parse_framed [OF v(1) assms(9)] by (simp add: v(1,2) challenge_packet_framed)
  note c' = client_responds [OF this v(1) assms(4-9,12,15,17)]
  have p: "parse_header (drop 4 (last (chap_out c'))) = Some (CHAP_RESPONSE, pid, rsp @ cs_name (cl c))"
    using parse_framed [OF rf(1) assms(11)] rf(1) by (simp add: c'(1) response_packet_framed rsp_def [symmetric])
  have n: "response_name envv (rsp @ cs_name (cl c)) = cs_name (cl c)"
    using rf assms(10,11,13) by (simp add: response_name_def vis_string_printable)
  have b: "pid = ss_challenge (sv v) ! 5" "drop 8 (ss_challenge (sv v)) = chal @ name @ drop (length (challenge_packet pid chal name)) (ss_challenge (sv v0))"
    using v(1,3) by (simp_all add: challenge_buffer)
  have "run_verifier envv v digest pid (rsp @ cs_name (cl c)) =
      verify_response digest pid (cs_name (cl c)) w' (drop 8 (ss_challenge (sv v))) (rsp @ cs_name (cl c)) (ss_message (sv v)) 256"
    using assms(14,16) v(6) n by (simp add: run_verifier_def chap_verify_response_def PPP_HDRLEN_def CHAP_HDRLEN_def)
  with 1(1) [of pid "rsp @ cs_name (cl c)" chal, OF p b(1) _ v(1) _ _ n b(2) _ v(4,5,7) c'(2-4)] rf show ?case
    unfolding rsp_def b(2) by fastforce
qed

end

section \<open>The MD5 digest\<close>

lemma md5_challenge_framed:
  "framed (fst (chap_md5_generate_challenge x))" "length (fst (chap_md5_generate_challenge x)) \<in> {17..24}"
proof -
  define clen where "clen = fst (drand48_times 8 x) + 16"
  have l: "16 \<le> clen" "clen < 24" using drand48_times_less [of 8 x] by (simp_all add: clen_def)
  have c: "fst (chap_md5_generate_challenge x) = of_nat clen # fst (random_bytes clen (snd (drand48_times 8 x)))"
    by (simp add: chap_md5_generate_challenge_def MD5_MAX_CHALLENGE_def MD5_MIN_CHALLENGE_def clen_def split_beta Let_def)
  show "framed (fst (chap_md5_generate_challenge x))"
    using l by (simp add: c framed_def unat_of_nat take_bit_eq_mod)
  show "length (fst (chap_md5_generate_challenge x)) \<in> {17..24}"
    using l by (simp add: c)
qed

lemma length_md5_of [simp]: "length (md5_of pid w chal) = 16"
  by (simp add: md5_of_def MD5_Final_def digest_bytes_def word_bytes_def Let_def split_beta)

lemma md5_of_append: "framed chal \<Longrightarrow> md5_of pid w (chal @ r) = md5_of pid w chal"
proof -
  assume "framed chal"
  then obtain b cs where "chal = b # cs" "length cs = unat b" by (cases chal) (auto simp: framed_def simp del: hd_framed)
  then show ?thesis by (simp add: md5_of_def)
qed

interpretation md5_chap: chap_digest md5_digest
proof
  show "framed (fst (generate_challenge md5_digest x))" for x
    by (simp add: md5_digest_def md5_challenge_framed)
  have m: "fst (make_response md5_digest pid n c w pr) = 16 # md5_of pid w c" for pid n c w pr
    by (simp add: md5_digest_def chap_md5_make_response_def MD5_HASH_SIZE_def)
  show "framed (fst (make_response md5_digest pid n c w pr))" "0 < unat (hd (fst (make_response md5_digest pid n c w pr)))" for pid n c w pr
    by (simp_all add: m framed_def)
  fix chal pid n w r r' pr r'' msg space
  assume "framed chal"
  then show "fst (verify_response md5_digest pid n w (chal @ r) (fst (make_response md5_digest pid n (chal @ r') w pr) @ r'') msg space)"
    unfolding m by (simp add: md5_digest_def chap_md5_verify_response_def md5_of_append MD5_HASH_SIZE_def)
qed

text \<open>The hash of RFC 1994: the identifier, the secret and the challenge.\<close>

definition chap_hash :: "u8 \<Rightarrow> bytes \<Rightarrow> bytes \<Rightarrow> bytes" where
  "chap_hash pid w chal = md5 (pid # w @ take (unat (hd chal)) (tl chal))"

lemma md5_of_hash: "length w \<le> MAXSECRETLEN \<Longrightarrow> md5_of pid w chal = chap_hash pid w chal"
proof -
  assume "length w \<le> MAXSECRETLEN"
  moreover have "length (take (unat (hd chal)) (tl chal)) < 2 ^ 32"
    by (rule order.strict_trans1 [of _ "unat (hd chal)"], simp, rule order.strict_trans [OF byte_bound]) simp
  ultimately show ?thesis
    using reading_final [OF reading_updates [OF reading_init [of stack_ctx], of "[[pid], w, take (unat (hd chal)) (tl chal)]"]]
    by (simp add: md5_of_def chap_hash_def stack_ctx_def MAXSECRETLEN_def Let_def)
qed

lemma get_secret_length: "get_secret sec n m b = Some w \<Longrightarrow> length w \<le> MAXSECRETLEN"
  by (auto simp: get_secret_def Let_def)

text \<open>C15: Client and server come to the same result: let a server that is up be told to authenticate its peer with MD5 and a
  client be up and started, each with a secret for the other. The response of the client to the challenge that the server
  sends makes the server report success exactly when the hash of the identifier, the client's secret and the challenge is
  that with the server's secret and the number is allowed, in particular whenever the two secrets are the same; and the
  client is told the same result. Names are printable and at most 256 bytes long, and session management is off.\<close>

theorem chap_exchange:
  assumes "ss_flags (sv v0) = LOWERUP" "find_digest CHAP_MD5 v0 = Some md5_digest" "v = chap_do envv (Chap_auth_peer name CHAP_MD5) v0"
    and "cs_has c LOWERUP" "cs_has c AUTH_STARTED" "\<not> cs_has c AUTH_DONE" "cs_digest (cl c) = Some md5_digest"
    and "printable name" "name \<noteq> []" "length name \<le> MAXNAMELEN" "printable (cs_name (cl c))" "length (cs_name (cl c)) \<le> MAXNAMELEN"
    and "\<not> explicit_remote envc" "\<not> explicit_remote envv" "chap_verify_hook envv = None" "\<not> session_mgmt envv"
    and "get_secret (secret_source envc) (cs_name (cl c)) name False = Some w"
    and "get_secret (secret_source envv) (cs_name (cl c)) name True = Some w'"
    and "c' = chap_input envc (drop 4 (last (chap_out v))) c"
    and "v' = chap_input envv (drop 4 (last (chap_out c'))) v"
    and "c'' = chap_input envc (drop 4 (last (chap_out v'))) c'"
    and "pid = ss_challenge (sv v) ! 5" "chal = drop 8 (ss_challenge (sv v))"
    and "good \<longleftrightarrow> number_allowed envv \<and> chap_hash pid w chal = chap_hash pid w' chal"
  shows "chap_reports v' = chap_reports v0 @ [if good then Peer_success (cs_name (cl c)) else Peer_fail] \<and>
    chap_reports c'' = chap_reports c @ [if good then Withpeer_success else Withpeer_fail]"
proof (rule md5_chap.honest_response [OF assms(1-5,7-15,17,18,19)], goal_cases)
  case (1 i pkt chal0 r)
  have i: "i = pid" using 1 assms(22) by simp
  define ok where "ok \<longleftrightarrow> md5_of pid w' (chal0 @ name @ r) = md5_of pid w (chal0 @ name)"
  have v: "run_verifier envv v md5_digest pid pkt = (ok, text_bytes (if ok then ''Access granted'' else ''Access denied''))"
    unfolding 1(9)[unfolded i] by (simp add: 1(3) i md5_digest_def chap_md5_verify_response_def chap_md5_make_response_def MD5_HASH_SIZE_def ok_def text_bytes_def)
  have good: "good \<longleftrightarrow> number_allowed envv \<and> ok"
    using assms(24) md5_of_hash [OF get_secret_length [OF assms(17)], of pid chal] md5_of_hash [OF get_secret_length [OF assms(18)], of pid chal] 1(4,8)
    by (auto simp: ok_def assms(23) md5_of_append)
  have f: "ss_has v LOWERUP" "ss_has v CHALLENGE_VALID" "\<not> ss_has v AUTH_DONE" "\<not> ss_has v AUTH_FAILED"
    by (simp_all add: chap_simps 1(10) flag_bits bit_or_iff)
  have c': "cs_has c' LOWERUP" "cs_has c' AUTH_STARTED" "\<not> cs_has c' AUTH_DONE" using assms(4-6) 1(13) by (simp_all add: cs_has_def)
  have cd: "cs_digest (cl c') = Some md5_digest" "check_success md5_digest = None" using assms(7) 1(14) by (simp, simp add: md5_digest_def)
  note s = server_concludes [OF 1(1)[unfolded i] f 1(11) assms(22) 1(5,6) v assms(20)]
  have "parse_header (drop 4 (last (chap_out v'))) =
      Some (if good then CHAP_SUCCESS else CHAP_FAILURE, pid, text_bytes (if ok then ''Access granted'' else ''Access denied''))"
    by (simp add: s(2) parse_status text_bytes_def good conj_commute)
  then have "chap_reports c'' = chap_reports c' @ [if good then Withpeer_success else Withpeer_fail]"
    unfolding assms(21) by (rule client_learns [OF _ c' cd])
  then show ?case using s(1) 1(7,12,15) assms(16) by (simp add: good conj_commute)
qed

section \<open>A silent peer\<close>

text \<open>A pending timeout with a valid challenge that may still be sent, or not.\<close>

lemma resend:
  assumes "ss_has s CHALLENGE_VALID" "chap_timers s = 1" "challenge_xmits (sv s) < chap_max_transmits env" "s' = chap_do env Chap_timeout s"
  shows "ss_has s' CHALLENGE_VALID" "chap_timers s' = 1" "challenge_xmits (sv s') = challenge_xmits (sv s) + 1" "chap_reports s' = chap_reports s"
    "chap_out s' = chap_out s @ [take (challenge_pktlen (sv s)) (ss_challenge (sv s))]" "challenge_pktlen (sv s') = challenge_pktlen (sv s)"
    "ss_challenge (sv s') = ss_challenge (sv s)"
  using assms by (simp_all add: chap_timeout_def chap_send_challenge_def Let_def chap_simps)

lemma give_up:
  assumes "ss_has s CHALLENGE_VALID" "chap_timers s = 1" "\<not> challenge_xmits (sv s) < chap_max_transmits env" "s' = chap_do env Chap_timeout s"
  shows "chap_timers s' = 0" "chap_reports s' = chap_reports s @ [Peer_fail]" "chap_out s' = chap_out s"
  using assms by (simp_all add: chap_timeout_def Let_def chap_simps)

lemma resend_many:
  assumes "ss_has v CHALLENGE_VALID" "chap_timers v = 1" "challenge_xmits (sv v) = 1" "int k < chap_max_transmits env"
  defines "s \<equiv> fold (chap_do env) (replicate k Chap_timeout) v"
  shows "ss_has s CHALLENGE_VALID \<and> chap_timers s = 1 \<and> challenge_xmits (sv s) = 1 + int k \<and> chap_reports s = chap_reports v \<and>
    chap_out s = chap_out v @ replicate k (take (challenge_pktlen (sv v)) (ss_challenge (sv v))) \<and>
    challenge_pktlen (sv s) = challenge_pktlen (sv v) \<and> ss_challenge (sv s) = ss_challenge (sv v)"
  using assms(4) unfolding s_def
proof (induction k)
  case (Suc k)
  let ?s = "fold (chap_do env) (replicate k Chap_timeout) v"
  have e: "fold (chap_do env) (replicate (Suc k) Chap_timeout) v = chap_do env Chap_timeout ?s"
    by (simp only: replicate_append_same [symmetric] replicate_Suc fold_append fold_simps comp_apply)
  have ih: "ss_has ?s CHALLENGE_VALID" "chap_timers ?s = 1" "challenge_xmits (sv ?s) = 1 + int k"
    using Suc by simp_all
  have "challenge_xmits (sv ?s) < chap_max_transmits env" using Suc.prems ih(3) by simp
  note r = resend [OF ih(1,2) this refl]
  show ?case unfolding e using r Suc.IH Suc.prems by (simp add: replicate_append_same)
qed (use assms in simp)

text \<open>C36: A server whose peer never answers sends its challenge exactly \<open>chap_max_transmits\<close> times, the same packet every time,
  and then gives up: until the last firing of its timer one timeout is pending and nothing is reported; the last firing
  reports the failure and leaves no timeout behind.\<close>

theorem chap_silent_peer:
  assumes "ss_flags (sv v0) = LOWERUP" "chap_timers v0 = 0" "find_digest CHAP_MD5 v0 = Some md5_digest"
    and "v = chap_do env (Chap_auth_peer name CHAP_MD5) v0" "chap_max_transmits env = int (Suc n)"
    and "s = (\<lambda>k. fold (chap_do env) (replicate k Chap_timeout) v)"
  shows "(\<forall>k \<le> n. chap_out (s k) = chap_out v0 @ replicate (Suc k) (last (chap_out v)) \<and> chap_reports (s k) = chap_reports v0 \<and> chap_timers (s k) = 1) \<and>
    chap_out (s (Suc n)) = chap_out v0 @ replicate (Suc n) (last (chap_out v)) \<and> chap_reports (s (Suc n)) = chap_reports v0 @ [Peer_fail] \<and>
    chap_timers (s (Suc n)) = 0"
proof (rule auth_peer_starts [OF assms(1,3,4) md5_chap.challenge_framed], goal_cases)
  case (1 pid chal)
  note v = 1
  have i: "ss_has v CHALLENGE_VALID" "chap_timers v = 1" "challenge_xmits (sv v) = 1"
    using v(4,8,9) assms(2) by (simp_all add: chap_simps flag_bits bit_or_iff)
  have p: "take (challenge_pktlen (sv v)) (ss_challenge (sv v)) = last (chap_out v)"
    using v(2,3,10) by (simp add: overwrite_def)
  have k: "chap_out (s k) = chap_out v0 @ replicate (Suc k) (last (chap_out v)) \<and> chap_reports (s k) = chap_reports v0 \<and> chap_timers (s k) = 1 \<and>
      ss_has (s k) CHALLENGE_VALID \<and> challenge_xmits (sv (s k)) = 1 + int k" if "k \<le> n" for k
    using resend_many [OF i, of k env] that assms(5) v(2,7) by (simp add: assms(6) p)
  have e: "s (Suc n) = chap_do env Chap_timeout (s n)"
    unfolding assms(6) by (simp only: replicate_append_same [symmetric] replicate_Suc fold_append fold_simps comp_apply)
  have "\<not> challenge_xmits (sv (s n)) < chap_max_transmits env" using k [of n] assms(5) by simp
  with k [of n] give_up [of "s n" env, OF _ _ _ e] show ?case using k by auto
qed

text \<open>The success goes out before the session is checked: a response that is accepted by the digest in a session that is not
  allowed is answered with \<open>CHAP_SUCCESS\<close>, and reported as a failure.\<close>

lemma chap_success_then_fail:
  assumes "parse_header p = Some (CHAP_RESPONSE, pid, pkt)" "ss_has v LOWERUP" "ss_has v CHALLENGE_VALID" "\<not> ss_has v AUTH_DONE" "\<not> ss_has v AUTH_FAILED"
    and "ss_digest (sv v) = Some d" "pid = ss_challenge (sv v) ! 5" "2 \<le> length pkt" "unat (hd pkt) + 1 \<le> length pkt"
    and "run_verifier env v d pid pkt = (True, msg)" "number_allowed env" "session_mgmt env" "\<not> session_check env (response_name env pkt)"
  shows "chap_out (chap_input env p v) = chap_out v @ [status_packet CHAP_SUCCESS pid msg] \<and>
    chap_reports (chap_input env p v) = chap_reports v @ [Peer_fail]"
  using server_concludes [OF assms(1-10) refl] assms(11-13) by simp

section \<open>Runs\<close>

text \<open>In every run of CHAP in which the link comes up only when it was down, the flag \<open>TIMEOUT_PENDING\<close> tells the truth:
  there is one pending call of \<open>chap_timeout\<close> if it is set and none if not, and it is set only while the server is up and
  started; and no digest pointer is followed that was not set.\<close>

theorem chap_timer_flag:
  assumes "chap_reach ms_digests env s"
  shows "chap_timers s = (if ss_has s TIMEOUT_PENDING then 1 else 0) \<and>
    (ss_has s TIMEOUT_PENDING \<longrightarrow> ss_has s LOWERUP \<and> ss_has s AUTH_STARTED) \<and> \<not> null_deref s"
  using chap_reach_ok [OF assms] by (simp add: chap_ok_def)

text \<open>C34: The server reports a peer as authenticated only for cause: whenever a run of CHAP, in whatever order its events come,
  has reported success for a name and no plugin replaces the verifier, one of its events was a response with the identifier
  of the challenge in force, received while the link was up, whose name is the one reported, for which there is a secret,
  which the digest accepted for this secret and the challenge sent, from an allowed number, in a session that is allowed.\<close>

theorem chap_success_verified:
  assumes "Peer_success n \<in> set (chap_reports (fold (chap_do env) es s))" "chap_reports s = []" "chap_verify_hook env = None"
  shows "\<exists>before p rest t pid pkt d secret. es = before @ Chap_input p # rest \<and> t = fold (chap_do env) before s \<and>
    parse_header p = Some (CHAP_RESPONSE, pid, pkt) \<and> ss_has t LOWERUP \<and> ss_has t CHALLENGE_VALID \<and>
    pid = ss_challenge (sv t) ! 5 \<and> n = response_name env pkt \<and> ss_digest (sv t) = Some d \<and>
    get_secret (secret_source env) n (ss_name (sv t)) True = Some secret \<and>
    fst (verify_response d pid n secret (drop 8 (ss_challenge (sv t))) pkt (ss_message (sv t)) 256) \<and>
    number_allowed env \<and> (session_mgmt env \<longrightarrow> session_check env n)"
proof -
  obtain before e rest where e: "es = before @ e # rest" "chap_cause env (fold (chap_do env) before s) e n"
    using chap.success_has_cause [OF assms(1)] assms(2) by auto
  define t where "t = fold (chap_do env) before s"
  obtain p pid pkt d where c: "e = Chap_input p" "parse_header p = Some (CHAP_RESPONSE, pid, pkt)" "ss_has t LOWERUP" "ss_has t CHALLENGE_VALID"
      "pid = ss_challenge (sv t) ! 5" "ss_digest (sv t) = Some d" "n = response_name env pkt" "fst (run_verifier env t d pid pkt)"
      "number_allowed env" "session_mgmt env \<longrightarrow> session_check env n"
    using e(2) by (auto simp: chap_cause_def t_def [symmetric])
  obtain secret where "get_secret (secret_source env) n (ss_name (sv t)) True = Some secret"
      "fst (verify_response d pid n secret (drop 8 (ss_challenge (sv t))) pkt (ss_message (sv t)) 256)"
    using c(7,8) assms(3) by (auto simp: run_verifier_def chap_verify_response_def PPP_HDRLEN_def CHAP_HDRLEN_def split: option.splits)
  with c e(1) t_def show ?thesis by blast
qed

section \<open>A second connection\<close>

text \<open>A failed response leaves \<open>AUTH_DONE\<close> behind: it is set after \<open>auth_peer_fail\<close> has taken CHAP down.\<close>

lemma failure_leaves_done:
  assumes "parse_header p = Some (CHAP_RESPONSE, pid, pkt)" "ss_has v LOWERUP" "ss_has v CHALLENGE_VALID"
    and "ss_digest (sv v) = Some d" "pid = ss_challenge (sv v) ! 5" "2 \<le> length pkt" "unat (hd pkt) + 1 \<le> length pkt"
    and "\<not> fst (run_verifier env v d pid pkt)" "chap_lcp_opened env" "v1 = chap_input env p v"
  shows "ss_flags (sv v1) = AUTH_DONE" "chap_digests v1 = chap_digests v" "chap_reports v1 = chap_reports v @ [Peer_fail]"
proof -
  have c: "CHAP_CHALLENGE \<noteq> CHAP_RESPONSE" by (simp add: CHAP_CHALLENGE_def CHAP_RESPONSE_def)
  define j where "j = judge_response env pid pkt d v"
  have v1: "v1 = conclude env (response_name env pkt) (send_status pid j)"
    using assms c by (simp add: chap_input_parsed chap_handle_response_def PPP_HDRLEN_def j_def)
  have j: "bit (ss_flags (sv j)) 3" "chap_reports j = chap_reports v" "chap_digests j = chap_digests v"
    using assms(8) by (simp_all add: j_def chap_simps) (simp add: judge_response_def Let_def split_beta chap_simps)
  show "ss_flags (sv v1) = AUTH_DONE" "chap_digests v1 = chap_digests v" "chap_reports v1 = chap_reports v @ [Peer_fail]"
    using j assms(9) by (simp_all add: v1 conclude_def Let_def chap_simps) (simp_all add: send_status_def chap_simps)
qed

lemma second_start:
  assumes "ss_flags (sv v1) = AUTH_DONE" "find_digest code v1 = Some d" "v2 = fold (chap_do env) [Chap_lowerup, Chap_auth_peer name code] v1"
  shows "ss_has v2 LOWERUP" "ss_has v2 CHALLENGE_VALID" "ss_has v2 AUTH_DONE" "\<not> ss_has v2 AUTH_FAILED" "ss_digest (sv v2) = Some d"
    "chap_reports v2 = chap_reports v1"
  using assms
  by (simp_all add: chap_lowerup_def chap_auth_peer_def chap_timeout_def chap_generate_challenge_def chap_send_challenge_def find_digest_def Let_def split_beta
      chap_simps flag_bits)

text \<open>C35: A peer that failed once is never reported as authenticated in the next connection: when a response is refused while
  LCP is open, \<open>AUTH_DONE\<close> survives; after the link has come up again and a new authentication was started, a response that
  the digest accepts, from an allowed number, is answered with \<open>CHAP_SUCCESS\<close>, but no success is reported.\<close>

theorem chap_success_lost:
  assumes "parse_header p = Some (CHAP_RESPONSE, pid, pkt)" "ss_has v LOWERUP" "ss_has v CHALLENGE_VALID"
    and "ss_digest (sv v) = Some d" "pid = ss_challenge (sv v) ! 5" "2 \<le> length pkt" "unat (hd pkt) + 1 \<le> length pkt"
    and "\<not> fst (run_verifier env v d pid pkt)" "chap_lcp_opened env" "number_allowed env" "find_digest code v = Some d'"
    and "v2 = fold (chap_do env) [Chap_input p, Chap_lowerup, Chap_auth_peer name code] v"
    and "parse_header p' = Some (CHAP_RESPONSE, pid', pkt')" "pid' = ss_challenge (sv v2) ! 5" "2 \<le> length pkt'" "unat (hd pkt') + 1 \<le> length pkt'"
    and "run_verifier env v2 d' pid' pkt' = (True, msg)"
  shows "chap_out (chap_input env p' v2) = chap_out v2 @ [status_packet CHAP_SUCCESS pid' msg] \<and>
    chap_reports (chap_input env p' v2) = chap_reports v @ [Peer_fail]"
proof -
  note v1 = failure_leaves_done [OF assms(1-9) refl]
  have v2: "v2 = fold (chap_do env) [Chap_lowerup, Chap_auth_peer name code] (chap_input env p v)" by (simp add: assms(12))
  have "find_digest code (chap_input env p v) = Some d'" using assms(11) v1(2) by (simp add: find_digest_def)
  note s = second_start [OF v1(1) this v2]
  define j where "j = judge_response env pid' pkt' d' v2"
  have c: "CHAP_CHALLENGE \<noteq> CHAP_RESPONSE" by (simp add: CHAP_CHALLENGE_def CHAP_RESPONSE_def)
  have v3: "chap_input env p' v2 = conclude env (response_name env pkt') (send_status pid' j)"
    using assms(13-16) s c by (simp add: chap_input_parsed chap_handle_response_def PPP_HDRLEN_def j_def)
  have j: "bit (ss_flags (sv j)) 2" "\<not> bit (ss_flags (sv j)) 3" "chap_reports j = chap_reports v2"
    using s assms(10,17) by (simp_all add: j_def chap_simps)
  have j': "chap_out j = chap_out v2" "ss_message (sv j) = msg"
    using assms(17) by (simp_all add: j_def judge_response_def Let_def split_beta chap_simps run_verifier_def)
  have "chap_reports (chap_input env p' v2) = chap_reports v2" "chap_out (chap_input env p' v2) = chap_out (send_status pid' j)"
    using j by (simp_all add: v3 conclude_def Let_def chap_simps)
  then show ?thesis
    using j j' s(6) v1(3) by (simp add: send_status_def chap_simps)
qed

section \<open>Examples\<close>

definition demo_chap_env :: chap_env where
  "demo_chap_env = \<lparr>secret_source = \<lparr>opt_passwd = [], chap_passwd_hook = None, scan_authfile = (\<lambda>u v. Some [112])\<rparr>, number_allowed = True,
     explicit_remote = False, remote_name = [], chap_verify_hook = None, session_mgmt = False, session_check = (\<lambda>_. True),
     chap_max_transmits = 2, chap_rechallenge_time = 0, chap_lcp_opened = True\<rparr>"

definition demo_chap :: chap_sys where
  "demo_chap = \<lparr>cl = \<lparr>cs_flags = LOWERUP OR AUTH_STARTED, cs_name = [117], cs_digest = Some md5_digest, cs_priv = []\<rparr>,
     sv = \<lparr>ss_flags = LOWERUP, ss_id = 0, ss_name = [], ss_digest = Some md5_digest, challenge_xmits = 0, challenge_pktlen = 0,
       ss_challenge = replicate 332 0, ss_message = []\<rparr>,
     chap_digests = [md5_digest], chap_timers = 0, rnd = 7, chap_out = [], chap_reports = [], null_deref = False, died = False\<rparr>"

lemma demo_facts:
  "ss_flags (sv demo_chap) = LOWERUP" "find_digest CHAP_MD5 demo_chap = Some md5_digest" "chap_timers demo_chap = 0" "chap_reports demo_chap = []"
  "cs_has demo_chap LOWERUP" "cs_has demo_chap AUTH_STARTED" "\<not> cs_has demo_chap AUTH_DONE" "cs_digest (cl demo_chap) = Some md5_digest"
  "get_secret (secret_source demo_chap_env) n m b = Some [112]"
  by (simp_all add: demo_chap_def find_digest_def md5_digest_def demo_chap_env_def get_secret_def MAXSECRETLEN_def Let_def chap_simps flag_bits)

theorem chap_exchange_witness:
  "\<exists>v c' v'. v = chap_do demo_chap_env (Chap_auth_peer [115] CHAP_MD5) demo_chap \<and> c' = chap_input demo_chap_env (drop 4 (last (chap_out v))) demo_chap \<and>
     v' = chap_input demo_chap_env (drop 4 (last (chap_out c'))) v \<and> chap_reports v' = [Peer_success [117]]"
  using chap_exchange [OF demo_facts(1,2) refl demo_facts(5-8) _ _ _ _ _ _ _ _ _ demo_facts(9,9) refl refl refl refl refl refl, where name = "[115]"]
  by (simp add: demo_facts) (simp add: demo_chap_def demo_chap_env_def printable_def MAXNAMELEN_def)

theorem chap_silent_peer_witness:
  "chap_reports (fold (chap_do demo_chap_env) [Chap_timeout, Chap_timeout] (chap_do demo_chap_env (Chap_auth_peer [115] CHAP_MD5) demo_chap)) = [Peer_fail]"
  using chap_silent_peer [OF demo_facts(1,3,2) refl _ refl, of demo_chap_env 1 "[115]"]
  by (simp add: demo_facts(4) del: chap_do.simps) (simp add: demo_chap_env_def numeral_2_eq_2 del: chap_do.simps)

text \<open>A server that waits for the response to a challenge of length 0 with identifier 0, and the right response.\<close>

definition demo_waiting :: chap_sys where
  "demo_waiting = ss_set CHALLENGE_VALID demo_chap"

definition demo_response :: bytes where
  "demo_response = 16 # md5_of 0 [112] (replicate 324 0) @ [117]"

lemma demo_waiting_accepts:
  "Peer_success [117] \<in> set (chap_reports (fold (chap_do demo_chap_env) [Chap_input ([CHAP_RESPONSE, 0] @ be16 (4 + length demo_response) @ demo_response)] demo_waiting))"
proof -
  have p: "parse_header ([CHAP_RESPONSE, 0] @ be16 (4 + length demo_response) @ demo_response) = Some (CHAP_RESPONSE, 0, demo_response)"
    by (rule parse_packet) (simp add: demo_response_def)
  have w: "ss_has demo_waiting LOWERUP" "ss_has demo_waiting CHALLENGE_VALID" "\<not> ss_has demo_waiting AUTH_DONE" "\<not> ss_has demo_waiting AUTH_FAILED"
      "ss_digest (sv demo_waiting) = Some md5_digest" "0 = ss_challenge (sv demo_waiting) ! 5"
    by (simp_all add: demo_waiting_def demo_chap_def chap_simps flag_bits)
  have h: "chap_verify_hook demo_chap_env = None" "number_allowed demo_chap_env" "\<not> session_mgmt demo_chap_env" by (simp_all add: demo_chap_env_def)
  have n: "response_name demo_chap_env demo_response = [117]"
    by (simp add: response_name_def demo_chap_env_def demo_response_def vis_string_printable printable_def MAXNAMELEN_def)
  have "drop 8 (ss_challenge (sv demo_waiting)) = replicate 324 0" by (simp add: demo_waiting_def demo_chap_def chap_simps)
  then have "fst (run_verifier demo_chap_env demo_waiting md5_digest 0 demo_response)"
    using n by (simp add: run_verifier_def h chap_verify_response_def PPP_HDRLEN_def CHAP_HDRLEN_def demo_facts(9))
      (simp add: md5_digest_def chap_md5_verify_response_def demo_response_def MD5_HASH_SIZE_def)
  then obtain msg where v: "run_verifier demo_chap_env demo_waiting md5_digest 0 demo_response = (True, msg)" by (metis prod.collapse)
  have l: "2 \<le> length demo_response" "unat (hd demo_response) + 1 \<le> length demo_response" by (simp_all add: demo_response_def)
  show ?thesis
    using server_concludes(1) [OF p w l v refl] n h by simp
qed

theorem chap_success_verified_witness:
  "\<exists>t pid pkt d secret. ss_has t CHALLENGE_VALID \<and> pid = ss_challenge (sv t) ! 5 \<and> [117] = response_name demo_chap_env pkt \<and> ss_digest (sv t) = Some d \<and>
     fst (verify_response d pid [117] secret (drop 8 (ss_challenge (sv t))) pkt (ss_message (sv t)) 256)"
proof -
  have "chap_reports demo_waiting = []" "chap_verify_hook demo_chap_env = None"
    by (simp_all add: demo_waiting_def demo_chap_def demo_chap_env_def chap_simps)
  from chap_success_verified [OF demo_waiting_accepts this] show ?thesis by blast
qed

theorem chap_timer_flag_witness:
  "chap_timers (chap_do demo_chap_env Chap_lowerup (chap_init [] demo_chap)) =
   (if ss_has (chap_do demo_chap_env Chap_lowerup (chap_init [] demo_chap)) TIMEOUT_PENDING then 1 else 0)"
proof -
  have "chap_reach [] demo_chap_env (chap_init [] demo_chap)"
    by (rule reach_init) (simp_all add: demo_chap_def)
  then have "chap_reach [] demo_chap_env (chap_do demo_chap_env Chap_lowerup (chap_init [] demo_chap))"
    by (rule reach_step) (simp_all add: chap_init_def chap_md5_init_def chap_register_digest_def demo_chap_def chap_simps)
  from chap_timer_flag [OF this] show ?thesis by blast
qed

theorem chap_success_lost_witness:
  "\<exists>p' v2. chap_reports (chap_input demo_chap_env p' v2) = [Peer_fail] \<and> hd (drop 4 (last (chap_out (chap_input demo_chap_env p' v2)))) = CHAP_SUCCESS"
proof -
  define p where "p = [CHAP_RESPONSE, 0] @ be16 (4 + length [0, 117 :: u8]) @ [0, 117]"
  define v2 where "v2 = fold (chap_do demo_chap_env) [Chap_input p, Chap_lowerup, Chap_auth_peer [115] CHAP_MD5] demo_waiting"
  define pid where "pid = ss_challenge (sv v2) ! 5"
  define pkt where "pkt = 16 # md5_of pid [112] (drop 8 (ss_challenge (sv v2))) @ [117]"
  define p' where "p' = [CHAP_RESPONSE, pid] @ be16 (4 + length pkt) @ pkt"
  have ph: "parse_header p = Some (CHAP_RESPONSE, 0, [0, 117])" unfolding p_def by (rule parse_packet) simp
  have ph': "parse_header p' = Some (CHAP_RESPONSE, pid, pkt)" unfolding p'_def by (rule parse_packet) (simp add: pkt_def)
  have h: "chap_verify_hook demo_chap_env = None" "number_allowed demo_chap_env" "chap_lcp_opened demo_chap_env" by (simp_all add: demo_chap_env_def)
  have w: "ss_has demo_waiting LOWERUP" "ss_has demo_waiting CHALLENGE_VALID"
      "ss_digest (sv demo_waiting) = Some md5_digest" "0 = ss_challenge (sv demo_waiting) ! 5" "find_digest CHAP_MD5 demo_waiting = Some md5_digest"
    by (simp_all add: demo_waiting_def demo_chap_def chap_simps flag_bits find_digest_def md5_digest_def)
  have verif: "run_verifier demo_chap_env s md5_digest i q = chap_md5_verify_response i (response_name demo_chap_env q) [112] (drop 8 (ss_challenge (sv s))) q (ss_message (sv s)) 256" for s i q
    by (simp add: run_verifier_def h chap_verify_response_def PPP_HDRLEN_def CHAP_HDRLEN_def demo_facts(9)) (simp add: md5_digest_def)
  have f: "\<not> fst (run_verifier demo_chap_env demo_waiting md5_digest 0 [0, 117])"
    by (simp add: verif chap_md5_verify_response_def MD5_HASH_SIZE_def)
  have "fst (run_verifier demo_chap_env v2 md5_digest pid pkt)"
    by (simp add: verif chap_md5_verify_response_def MD5_HASH_SIZE_def pkt_def)
  then obtain msg where m: "run_verifier demo_chap_env v2 md5_digest pid pkt = (True, msg)" by (metis prod.collapse)
  from chap_success_lost [OF ph w(1-4) _ _ f h(3,2) w(5) v2_def ph' pid_def _ _ m]
  have "chap_out (chap_input demo_chap_env p' v2) = chap_out v2 @ [status_packet CHAP_SUCCESS pid msg]"
      "chap_reports (chap_input demo_chap_env p' v2) = chap_reports demo_waiting @ [Peer_fail]"
    by (simp_all add: pkt_def)
  moreover have "chap_reports demo_waiting = []" by (simp add: demo_waiting_def demo_chap_def chap_simps)
  ultimately show ?thesis by (intro exI [of _ p'] exI [of _ v2]) (simp add: status_packet_def)
qed

end
