(* ===== verification/Ppp_Link.thy ===== *)
theory Ppp_Link
  imports Ppp_Upap Ppp_Chap_Runs "HOL-Library.Sublist"
begin

text \<open>
  The phases of a link, \<open>src/external/ppp/pppd/auth.c\<close>: what happens when LCP comes up (\<open>link_established\<close>), when an
  authentication protocol reports its result, when the network protocols are started and counted, and when LCP goes down.
  PAP (\<^verbatim>\<open>Ppp_Upap\<close>) and CHAP (\<^verbatim>\<open>Ppp_Chap\<close>) are parts of the state, run by their own operations; EAP is any source of
  reports. The options that LCP negotiated, the other protocols and the configuration are parameters; what is called in other
  protocols is recorded in \<open>lcalls\<close>, in order.

  A report is handled after the operation that made it. A failure has then already taken the reporting protocol down
  (\<open>auth_fail\<close>, \<open>chap_fail\<close>), so that only the others are left to take down. Of \<open>lcp_close\<close> the model has here what it does to the
  link (\<open>close_link\<close>): the phase and, when LCP was open, \<open>link_down\<close>. Multilink, callback, packet filters and traffic limits are not compiled in.
\<close>

section \<open>Data\<close>

definition PAP_WITHPEER :: u32 where "PAP_WITHPEER = 0x1"
definition PAP_PEER :: u32 where "PAP_PEER = 0x2"
definition CHAP_WITHPEER :: u32 where "CHAP_WITHPEER = 0x4"
definition CHAP_PEER :: u32 where "CHAP_PEER = 0x8"
definition EAP_WITHPEER :: u32 where "EAP_WITHPEER = 0x10"
definition EAP_PEER :: u32 where "EAP_PEER = 0x20"
definition CHAP_MD5_WITHPEER :: u32 where "CHAP_MD5_WITHPEER = 0x40"
definition CHAP_MD5_PEER :: u32 where "CHAP_MD5_PEER = 0x80"
definition CHAP_MS_WITHPEER :: u32 where "CHAP_MS_WITHPEER = 0x100"
definition CHAP_MS_PEER :: u32 where "CHAP_MS_PEER = 0x200"
definition CHAP_MS2_WITHPEER :: u32 where "CHAP_MS2_WITHPEER = 0x400"
definition CHAP_MS2_PEER :: u32 where "CHAP_MS2_PEER = 0x800"

definition CHAP_MICROSOFT :: int where "CHAP_MICROSOFT = 0x80"
definition CHAP_MICROSOFT_V2 :: int where "CHAP_MICROSOFT_V2 = 0x81"
definition EXIT_OK :: int where "EXIT_OK = 0"
definition EXIT_PEER_AUTH_FAILED :: int where "EXIT_PEER_AUTH_FAILED = 11"
definition EXIT_AUTH_TOPEER_FAILED :: int where "EXIT_AUTH_TOPEER_FAILED = 19"
definition PPP_CCP :: u16 where "PPP_CCP = 0x80fd"
definition PPP_ECP :: u16 where "PPP_ECP = 0x8053"

datatype phase = PHASE_DEAD | PHASE_INITIALIZE | PHASE_SERIALCONN | PHASE_DORMANT | PHASE_ESTABLISH | PHASE_AUTHENTICATE
  | PHASE_CALLBACK | PHASE_NETWORK | PHASE_RUNNING | PHASE_TERMINATE | PHASE_DISCONNECT | PHASE_HOLDOFF | PHASE_MASTER

text \<open>\<open>CHAP_DIGEST\<close>: the digest of the first method of the set.\<close>

definition CHAP_DIGEST :: "u8 \<Rightarrow> int" where
  "CHAP_DIGEST mdtype =
     (if mdtype AND 0x4 \<noteq> 0 then CHAP_MD5 else if mdtype AND 0x1 \<noteq> 0 then CHAP_MICROSOFT_V2
      else if mdtype AND 0x2 \<noteq> 0 then CHAP_MICROSOFT else 0)"

record auth_options =
  neg_eap :: bool
  neg_chap :: bool
  chap_mdtype :: u8
  neg_upap :: bool

text \<open>An entry of \<open>protocols\<close> other than LCP, PAP and CHAP; \<open>openable\<close>: it has an \<open>open\<close> function.\<close>

record protent =
  prot :: u16
  enabled_flag :: bool
  openable :: bool

record link_env =
  chap_cfg :: chap_env
  pap_cfg :: upap_env
  wo_neg_upap :: bool
  go_opts :: auth_options
  ho_opts :: auth_options
  auth_required :: bool
  noauth_addrs :: bool
  uselogin :: bool
  null_login :: bool
  our_name :: bytes
  user_name :: bytes
  explicit_passwd :: bool
  get_pap_passwd :: "bytes option"
  protocols :: "protent list"
  ecp_required :: bool
  mppe_required :: bool
  script_starts :: "bool \<Rightarrow> bool"

datatype link_call = Lower_up u16 | Lower_down u16 | Open_proto u16 | Close_proto u16 | Eap_authpeer bytes | Eap_authwithpeer bytes
  | Auth_script bool | Start_limits | Stop_limits

record link_sys =
  l_chap :: chap_sys
  l_pap :: upap_sys
  lcp_is_open :: bool
  l_phase :: phase
  l_status :: int
  auth_pending :: u32
  auth_done :: u32
  auth_up :: bool
  auth_script_up :: bool
  auth_script_running :: bool
  num_np_open :: int
  num_np_up :: int
  peer_authname :: bytes
  l_passwd :: bytes
  passwd_from_file :: bool
  close_reasons :: "string list"
  lcalls :: "link_call list"

datatype reporter = From_chap | From_pap | From_eap | From_link

section \<open>Going down\<close>

definition new_phase :: "phase \<Rightarrow> link_sys \<Rightarrow> link_sys" where
  "new_phase p s = s\<lparr>l_phase := p\<rparr>"

definition call :: "link_call list \<Rightarrow> link_sys \<Rightarrow> link_sys" where
  "call cs s = s\<lparr>lcalls := lcalls s @ cs\<rparr>"

definition auth_script :: "link_env \<Rightarrow> bool \<Rightarrow> link_sys \<Rightarrow> link_sys" where
  "auth_script env b s = call [Auth_script b] (s\<lparr>auth_script_up := b, auth_script_running := script_starts env b\<rparr>)"

definition upper_layers_down :: "link_env \<Rightarrow> reporter \<Rightarrow> link_sys \<Rightarrow> link_sys" where
  "upper_layers_down env who s =
     (let s = (if who = From_pap then s else s\<lparr>l_pap := upap_lowerdown (l_pap s)\<rparr>);
          s = (if who = From_chap then s else s\<lparr>l_chap := chap_lowerdown (l_chap s)\<rparr>);
          s = call (concat (map (\<lambda>p. if enabled_flag p then Lower_down (prot p) # (if prot p < 0xC000 then [Close_proto (prot p)] else []) else [])
                (protocols env))) s
      in s\<lparr>num_np_open := 0, num_np_up := 0\<rparr>)"

definition link_down :: "link_env \<Rightarrow> reporter \<Rightarrow> link_sys \<Rightarrow> link_sys" where
  "link_down env who s =
     (let s = (if auth_up s
               then let s = s\<lparr>auth_up := False\<rparr>
                    in if auth_script_up s \<and> \<not> auth_script_running s then auth_script env False s else s
               else s);
          s = upper_layers_down env who s
      in if l_phase s \<noteq> PHASE_DEAD \<and> l_phase s \<noteq> PHASE_MASTER then new_phase PHASE_ESTABLISH s else s)"

definition terminating :: "link_sys \<Rightarrow> link_sys" where
  "terminating s = (if l_phase s \<noteq> PHASE_DEAD \<and> l_phase s \<noteq> PHASE_MASTER then new_phase PHASE_TERMINATE s else s)"

text \<open>What \<open>lcp_close\<close> does to the link; what it does to LCP itself is up to \<^verbatim>\<open>Ppp_Lcp\<close>, which finds the call in \<open>close_reasons\<close>.\<close>

definition close_link :: "link_env \<Rightarrow> reporter \<Rightarrow> string \<Rightarrow> link_sys \<Rightarrow> link_sys" where
  "close_link env who reason s =
     (let s = s\<lparr>close_reasons := close_reasons s @ [reason]\<rparr>;
          s = terminating s
      in if lcp_is_open s then link_down env who (s\<lparr>lcp_is_open := False\<rparr>) else s)"

section \<open>The network phase\<close>

definition continue_networks :: "link_env \<Rightarrow> reporter \<Rightarrow> link_sys \<Rightarrow> link_sys" where
  "continue_networks env who s =
     (let nps = filter (\<lambda>p. prot p < 0xC000 \<and> prot p \<noteq> PPP_CCP \<and> prot p \<noteq> PPP_ECP \<and> enabled_flag p \<and> openable p) (protocols env);
          s = call (map (\<lambda>p. Open_proto (prot p)) nps) s;
          s = s\<lparr>num_np_open := num_np_open s + int (length nps)\<rparr>
      in if num_np_open s = 0 then close_link env who ''No network protocols running'' s else s)"

definition start_networks :: "link_env \<Rightarrow> reporter \<Rightarrow> link_sys \<Rightarrow> link_sys" where
  "start_networks env who s =
     (let s = new_phase PHASE_NETWORK s;
          s = call (map (\<lambda>p. Open_proto (prot p))
                (filter (\<lambda>p. (prot p = PPP_ECP \<or> prot p = PPP_CCP) \<and> enabled_flag p \<and> openable p) (protocols env))) s
      in if \<not> ecp_required env \<and> \<not> mppe_required env then continue_networks env who s else s)"

definition network_phase :: "link_env \<Rightarrow> reporter \<Rightarrow> link_sys \<Rightarrow> link_sys" where
  "network_phase env who s =
     (let s = (if neg_chap (go_opts env) \<or> neg_upap (go_opts env) \<or> neg_eap (go_opts env)
               then let s = s\<lparr>auth_up := True\<rparr>
                    in if \<not> auth_script_up s \<and> \<not> auth_script_running s then auth_script env True s else s
               else s)
      in start_networks env who s)"

section \<open>Results of authentication\<close>

definition peer_bit :: "reporter \<Rightarrow> int \<Rightarrow> u32" where
  "peer_bit who prot_flavor =
     (case who of
        From_chap \<Rightarrow> CHAP_PEER OR (if prot_flavor = CHAP_MD5 then CHAP_MD5_PEER else if prot_flavor = CHAP_MICROSOFT then CHAP_MS_PEER
                     else if prot_flavor = CHAP_MICROSOFT_V2 then CHAP_MS2_PEER else 0)
      | From_pap \<Rightarrow> PAP_PEER
      | From_eap \<Rightarrow> EAP_PEER
      | From_link \<Rightarrow> 0)"

definition withpeer_bit :: "reporter \<Rightarrow> int \<Rightarrow> u32" where
  "withpeer_bit who prot_flavor =
     (case who of
        From_chap \<Rightarrow> CHAP_WITHPEER OR (if prot_flavor = CHAP_MD5 then CHAP_MD5_WITHPEER else if prot_flavor = CHAP_MICROSOFT then CHAP_MS_WITHPEER
                     else if prot_flavor = CHAP_MICROSOFT_V2 then CHAP_MS2_WITHPEER else 0)
      | From_pap \<Rightarrow> PAP_WITHPEER
      | From_eap \<Rightarrow> EAP_WITHPEER
      | From_link \<Rightarrow> 0)"

definition auth_passed :: "link_env \<Rightarrow> reporter \<Rightarrow> u32 \<Rightarrow> link_sys \<Rightarrow> link_sys" where
  "auth_passed env who b s =
     (let s = s\<lparr>auth_done := auth_done s OR b, auth_pending := auth_pending s AND NOT b\<rparr>
      in if auth_pending s = 0 then network_phase env who s else s)"

definition auth_peer_success :: "link_env \<Rightarrow> reporter \<Rightarrow> int \<Rightarrow> bytes \<Rightarrow> link_sys \<Rightarrow> link_sys" where
  "auth_peer_success env who prot_flavor name s =
     auth_passed env who (peer_bit who prot_flavor) (s\<lparr>peer_authname := take (MAXNAMELEN - 1) name\<rparr>)"

definition auth_peer_fail :: "link_env \<Rightarrow> reporter \<Rightarrow> link_sys \<Rightarrow> link_sys" where
  "auth_peer_fail env who s = close_link env who ''Authentication failed'' (s\<lparr>l_status := EXIT_PEER_AUTH_FAILED\<rparr>)"

definition auth_withpeer_success :: "link_env \<Rightarrow> reporter \<Rightarrow> int \<Rightarrow> link_sys \<Rightarrow> link_sys" where
  "auth_withpeer_success env who prot_flavor s =
     (let s = (if who = From_pap \<and> passwd_from_file s then s\<lparr>l_passwd := []\<rparr> else s)
      in auth_passed env who (withpeer_bit who prot_flavor) s)"

definition auth_withpeer_fail :: "link_env \<Rightarrow> reporter \<Rightarrow> link_sys \<Rightarrow> link_sys" where
  "auth_withpeer_fail env who s =
     (let s = (if passwd_from_file s then s\<lparr>l_passwd := []\<rparr> else s)
      in close_link env who ''Failed to authenticate ourselves to peer'' (s\<lparr>l_status := EXIT_AUTH_TOPEER_FAILED\<rparr>))"

primrec handle_report :: "link_env \<Rightarrow> reporter \<Rightarrow> int \<Rightarrow> auth_report \<Rightarrow> link_sys \<Rightarrow> link_sys" where
  "handle_report env who fl (Peer_success name) s = auth_peer_success env who fl name s"
| "handle_report env who fl Peer_fail s = auth_peer_fail env who s"
| "handle_report env who fl Withpeer_success s = auth_withpeer_success env who fl s"
| "handle_report env who fl Withpeer_fail s = auth_withpeer_fail env who s"

section \<open>Running the protocols\<close>

text \<open>An operation of a protocol, with what is reported in the course of it. The flavour of a success is the code of the digest.\<close>

definition digest_flavor :: "auth_report \<Rightarrow> chap_sys \<Rightarrow> int" where
  "digest_flavor r c =
     (let d = (case r of Peer_success n \<Rightarrow> ss_digest (sv c) | _ \<Rightarrow> cs_digest (cl c))
      in case d of Some dp \<Rightarrow> digest_code dp | None \<Rightarrow> 0)"

definition run_chap :: "link_env \<Rightarrow> (chap_env \<Rightarrow> chap_sys \<Rightarrow> chap_sys) \<Rightarrow> link_sys \<Rightarrow> link_sys" where
  "run_chap env f s =
     (let c = f ((chap_cfg env)\<lparr>chap_lcp_opened := lcp_is_open s\<rparr>) (l_chap s);
          rs = drop (length (chap_reports (l_chap s))) (chap_reports c)
      in fold (\<lambda>r. handle_report env From_chap (digest_flavor r c) r) rs (s\<lparr>l_chap := c\<rparr>))"

definition run_pap :: "link_env \<Rightarrow> (upap_env \<Rightarrow> upap_sys \<Rightarrow> upap_sys) \<Rightarrow> link_sys \<Rightarrow> link_sys" where
  "run_pap env f s =
     (let u = f ((pap_cfg env)\<lparr>lcp_opened := lcp_is_open s\<rparr>) (l_pap s);
          rs = drop (length (reports (l_pap s))) (reports u)
      in fold (\<lambda>r. handle_report env From_pap 0 r) rs (s\<lparr>l_pap := u\<rparr>))"

section \<open>LCP comes up\<close>

definition lower_layers_up :: "link_env \<Rightarrow> link_sys \<Rightarrow> link_sys" where
  "lower_layers_up env s =
     (let s = run_pap env (\<lambda>e. upap_do e Pap_lowerup) s;
          s = run_chap env (\<lambda>e. chap_do e Chap_lowerup) s
      in call (concat (map (\<lambda>p. if enabled_flag p then [Lower_up (prot p)] else []) (protocols env))) s)"

definition start_peer :: "link_env \<Rightarrow> link_sys \<Rightarrow> u32 \<times> link_sys" where
  "start_peer env s =
     (let go = go_opts env in
      if neg_eap go then (EAP_PEER, call [Eap_authpeer (our_name env)] s)
      else if neg_chap go then (CHAP_PEER, run_chap env (\<lambda>e. chap_do e (Chap_auth_peer (our_name env) (CHAP_DIGEST (chap_mdtype go)))) s)
      else if neg_upap go then (PAP_PEER, run_pap env (\<lambda>e. upap_do e Pap_authpeer) s)
      else (0, s))"

definition start_withpeer :: "link_env \<Rightarrow> link_sys \<Rightarrow> u32 \<times> link_sys" where
  "start_withpeer env s =
     (let ho = ho_opts env in
      if neg_eap ho then (EAP_WITHPEER, call [Eap_authwithpeer (user_name env)] s)
      else if neg_chap ho
      then (CHAP_WITHPEER, run_chap env (\<lambda>e. chap_do e (Chap_auth_with_peer (user_name env) (CHAP_DIGEST (chap_mdtype ho)))) s)
      else if neg_upap ho
      then let s = (if l_passwd s = [] \<and> \<not> explicit_passwd env
                    then s\<lparr>passwd_from_file := True, l_passwd := (case get_pap_passwd env of None \<Rightarrow> l_passwd s | Some w \<Rightarrow> w)\<rparr> else s)
           in (PAP_WITHPEER, run_pap env (\<lambda>e. upap_do e (Pap_authwithpeer (user_name env) (l_passwd s))) s)
      else (0, s))"

definition link_established :: "link_env \<Rightarrow> link_sys \<Rightarrow> link_sys" where
  "link_established env s =
     (let s = lower_layers_up env s; go = go_opts env in
      if auth_required env \<and> \<not> (neg_upap go \<or> neg_chap go \<or> neg_eap go) \<and> \<not> noauth_addrs env \<and>
         (\<not> wo_neg_upap env \<or> uselogin env \<or> \<not> null_login env)
      then close_link env From_link ''peer refused to authenticate'' (s\<lparr>l_status := EXIT_PEER_AUTH_FAILED\<rparr>)
      else let s = new_phase PHASE_AUTHENTICATE s;
               (a, s) = start_peer env s;
               (b, s) = start_withpeer env s;
               s = s\<lparr>auth_pending := a OR b, auth_done := 0\<rparr>
           in if a OR b = 0 then network_phase env From_link s else s)"

section \<open>The network protocols\<close>

text \<open>\<open>Start_limits\<close> and \<open>Stop_limits\<close>: the timeouts for idle time and connection time are set and cancelled.\<close>

definition np_up :: "link_sys \<Rightarrow> link_sys" where
  "np_up s =
     (let s = (if num_np_up s = 0 then call [Start_limits] (new_phase PHASE_RUNNING (s\<lparr>l_status := EXIT_OK\<rparr>)) else s)
      in s\<lparr>num_np_up := num_np_up s + 1\<rparr>)"

definition np_down :: "link_sys \<Rightarrow> link_sys" where
  "np_down s =
     (let s = s\<lparr>num_np_up := num_np_up s - 1\<rparr>
      in if num_np_up s = 0 then new_phase PHASE_NETWORK (call [Stop_limits] s) else s)"

definition np_finished :: "link_env \<Rightarrow> link_sys \<Rightarrow> link_sys" where
  "np_finished env s =
     (let s = s\<lparr>num_np_open := num_np_open s - 1\<rparr>
      in if num_np_open s \<le> 0 then close_link env From_link ''No network protocols running'' s else s)"

definition auth_script_done :: "link_env \<Rightarrow> link_sys \<Rightarrow> link_sys" where
  "auth_script_done env s =
     (let s = s\<lparr>auth_script_running := False\<rparr>
      in if auth_script_up s then (if \<not> auth_up s then auth_script env False s else s)
         else (if auth_up s then auth_script env True s else s))"

section \<open>Steps\<close>

datatype link_event = L_established | L_down | L_chap chap_event | L_pap upap_event | L_eap auth_report
  | L_np_up | L_np_down | L_np_finished | L_script_done

fun link_do :: "link_env \<Rightarrow> link_event \<Rightarrow> link_sys \<Rightarrow> link_sys" where
  "link_do env L_established s = link_established env (s\<lparr>lcp_is_open := True\<rparr>)"
| "link_do env L_down s = (if lcp_is_open s then link_down env From_link (s\<lparr>lcp_is_open := False\<rparr>) else s)"
| "link_do env (L_chap e) s = run_chap env (\<lambda>c. chap_do c e) s"
| "link_do env (L_pap e) s = run_pap env (\<lambda>c. upap_do c e) s"
| "link_do env (L_eap r) s = handle_report env From_eap 0 r s"
| "link_do env L_np_up s = np_up s"
| "link_do env L_np_down s = np_down s"
| "link_do env L_np_finished s = np_finished env s"
| "link_do env L_script_done s = auth_script_done env s"

section \<open>What a report can do\<close>

text \<open>A step that leaves a bit pending and opens no network protocol.\<close>

definition no_open :: "link_call list \<Rightarrow> bool" where
  "no_open cs \<longleftrightarrow> (\<forall>p. Open_proto p \<notin> set cs)"

lemma no_open_simps [simp]: "no_open []" "no_open (a @ b) \<longleftrightarrow> no_open a \<and> no_open b" "no_open (c # cs) \<longleftrightarrow> (\<forall>p. c \<noteq> Open_proto p) \<and> no_open cs"
  by (auto simp: no_open_def)

definition keeps :: "nat \<Rightarrow> link_sys \<Rightarrow> link_sys \<Rightarrow> bool" where
  "keeps b s s' \<longleftrightarrow> bit (auth_pending s') b \<and> (\<exists>cs. lcalls s' = lcalls s @ cs \<and> no_open cs)"

lemma keeps_trans: "keeps b s s' \<Longrightarrow> keeps b s' s'' \<Longrightarrow> keeps b s s''"
  by (auto simp: keeps_def)

lemma keeps_same: "bit (auth_pending s') b \<Longrightarrow> lcalls s' = lcalls s \<Longrightarrow> keeps b s s'"
  by (simp add: keeps_def)

lemma link_call_sel [simp]: "lcalls (call cs s) = lcalls s @ cs" "auth_pending (call cs s) = auth_pending s" "l_chap (call cs s) = l_chap s"
    "l_pap (call cs s) = l_pap s" "auth_done (call cs s) = auth_done s" "lcp_is_open (call cs s) = lcp_is_open s" "num_np_open (call cs s) = num_np_open s"
  by (simp_all add: call_def)

lemma new_phase_sel [simp]: "lcalls (new_phase p s) = lcalls s" "auth_pending (new_phase p s) = auth_pending s" "l_chap (new_phase p s) = l_chap s"
    "l_pap (new_phase p s) = l_pap s" "lcp_is_open (new_phase p s) = lcp_is_open s" "num_np_open (new_phase p s) = num_np_open s"
  by (simp_all add: new_phase_def)

lemma link_script_sel [simp]: "lcalls (auth_script env b s) = lcalls s @ [Auth_script b]" "auth_pending (auth_script env b s) = auth_pending s"
    "l_chap (auth_script env b s) = l_chap s" "l_pap (auth_script env b s) = l_pap s" "num_np_open (auth_script env b s) = num_np_open s"
  by (simp_all add: auth_script_def)

lemma no_open_down [simp]: "no_open (concat (map (\<lambda>p. if P p then Lower_down (f p) # (if Q p then [Close_proto (f p)] else []) else []) ps))"
  by (induction ps) auto

lemma chap_lowerdown_reports [simp]: "chap_reports (chap_lowerdown c) = chap_reports c"
  by (simp add: chap_lowerdown_def Let_def chap_simps)

lemma upper_layers_down_keeps: "bit (auth_pending s) b \<Longrightarrow> keeps b s (upper_layers_down env who s)"
  and upper_layers_down_reports: "chap_reports (l_chap (upper_layers_down env who s)) = chap_reports (l_chap s)"
    "reports (l_pap (upper_layers_down env who s)) = reports (l_pap s)"
  by (simp_all add: upper_layers_down_def keeps_def Let_def)

lemma link_down_keeps: "bit (auth_pending s) b \<Longrightarrow> keeps b s (link_down env who s)"
proof -
  assume b: "bit (auth_pending s) b"
  define s1 where "s1 = (if auth_up s then let s = s\<lparr>auth_up := False\<rparr> in if auth_script_up s \<and> \<not> auth_script_running s then auth_script env False s else s else s)"
  have s1: "keeps b s s1" using b by (simp add: s1_def keeps_def Let_def)
  then have "keeps b s (upper_layers_down env who s1)"
    by (meson keeps_def keeps_trans upper_layers_down_keeps)
  then show ?thesis unfolding link_down_def s1_def [symmetric] by (simp add: keeps_def Let_def)
qed

lemma link_down_reports: "chap_reports (l_chap (link_down env who s)) = chap_reports (l_chap s)" "reports (l_pap (link_down env who s)) = reports (l_pap s)"
  by (simp_all add: link_down_def Let_def upper_layers_down_reports)

lemma close_link_keeps: "bit (auth_pending s) b \<Longrightarrow> keeps b s (close_link env who reason s)"
proof -
  assume b: "bit (auth_pending s) b"
  define s1 where "s1 = terminating (s\<lparr>close_reasons := close_reasons s @ [reason]\<rparr>)"
  have "bit (auth_pending (s1\<lparr>lcp_is_open := False\<rparr>)) b" "lcalls (s1\<lparr>lcp_is_open := False\<rparr>) = lcalls s" "bit (auth_pending s1) b" "lcalls s1 = lcalls s"
    using b by (simp_all add: s1_def terminating_def)
  with link_down_keeps [of "s1\<lparr>lcp_is_open := False\<rparr>" b env who] show ?thesis
    unfolding close_link_def Let_def s1_def [symmetric] by (simp add: keeps_def)
qed

lemma close_link_reports [simp]: "chap_reports (l_chap (close_link env who reason s)) = chap_reports (l_chap s)" "reports (l_pap (close_link env who reason s)) = reports (l_pap s)"
  by (simp_all add: close_link_def terminating_def Let_def link_down_reports)

lemma network_phase_reports [simp]:
  "chap_reports (l_chap (network_phase env who s)) = chap_reports (l_chap s)" "reports (l_pap (network_phase env who s)) = reports (l_pap s)"
  by (simp_all add: network_phase_def start_networks_def continue_networks_def Let_def)

lemma handle_report_reports [simp]:
  "chap_reports (l_chap (handle_report env who fl r s)) = chap_reports (l_chap s)" "reports (l_pap (handle_report env who fl r s)) = reports (l_pap s)"
  by (cases r; simp add: auth_peer_success_def auth_withpeer_success_def auth_passed_def auth_peer_fail_def auth_withpeer_fail_def Let_def)+

text \<open>The bits that a report takes off the pending ones.\<close>

definition report_bit :: "reporter \<Rightarrow> int \<Rightarrow> auth_report \<Rightarrow> u32" where
  "report_bit who fl r = (case r of Peer_success n \<Rightarrow> peer_bit who fl | Withpeer_success \<Rightarrow> withpeer_bit who fl | _ \<Rightarrow> 0)"

lemma auth_passed_keeps: "bit (auth_pending s) b \<Longrightarrow> \<not> bit x b \<Longrightarrow> keeps b s (auth_passed env who x s)"
proof -
  assume "bit (auth_pending s) b" "\<not> bit x b"
  then have b: "bit (auth_pending s AND NOT x) b" by (auto simp: bit_simps dest: bit_imp_possible_bit)
  then have "auth_pending s AND NOT x \<noteq> 0" by auto
  with b show ?thesis by (simp add: auth_passed_def keeps_def Let_def)
qed

lemma handle_report_keeps:
  assumes "bit (auth_pending s) b" "\<not> bit (report_bit who fl r) b"
  shows "keeps b s (handle_report env who fl r s)"
proof (cases r)
  case (Peer_success n)
  then show ?thesis
    using assms auth_passed_keeps [of "s\<lparr>peer_authname := take (MAXNAMELEN - 1) n\<rparr>" b]
    by (simp add: report_bit_def auth_peer_success_def keeps_def)
next
  case Peer_fail
  then show ?thesis
    using assms close_link_keeps [of "s\<lparr>l_status := EXIT_PEER_AUTH_FAILED\<rparr>" b] by (simp add: auth_peer_fail_def keeps_def)
next
  case Withpeer_success
  define s1 where "s1 = (if who = From_pap \<and> passwd_from_file s then s\<lparr>l_passwd := []\<rparr> else s)"
  have "bit (auth_pending s1) b" "lcalls s1 = lcalls s" using assms(1) by (simp_all add: s1_def)
  with Withpeer_success assms(2) auth_passed_keeps [of s1 b "withpeer_bit who fl" env who] show ?thesis
    by (simp add: report_bit_def auth_withpeer_success_def s1_def [symmetric] keeps_def)
next
  case Withpeer_fail
  define s1 where "s1 = (if passwd_from_file s then s\<lparr>l_passwd := []\<rparr> else s)"
  have "bit (auth_pending (s1\<lparr>l_status := EXIT_AUTH_TOPEER_FAILED\<rparr>)) b" "lcalls s1 = lcalls s" using assms(1) by (simp_all add: s1_def)
  with Withpeer_fail close_link_keeps [of "s1\<lparr>l_status := EXIT_AUTH_TOPEER_FAILED\<rparr>" b env who] show ?thesis
    by (simp add: auth_withpeer_fail_def s1_def [symmetric] keeps_def)
qed

lemma handle_reports_keeps:
  assumes "bit (auth_pending s) b" "\<forall>r\<in>set rs. \<not> bit (report_bit who (fl r) r) b"
  shows "keeps b s (fold (\<lambda>r. handle_report env who (fl r) r) rs s)"
  using assms
proof (induction rs arbitrary: s)
  case (Cons r rs)
  then have k: "keeps b s (handle_report env who (fl r) r s)" by (simp add: handle_report_keeps)
  then have "bit (auth_pending (handle_report env who (fl r) r s)) b" by (simp add: keeps_def)
  from Cons.IH [OF this] Cons.prems(2) keeps_trans [OF k] show ?case by simp
qed (simp add: keeps_same)

lemma handle_reports_reports [simp]:
  "chap_reports (l_chap (fold (\<lambda>r. handle_report env who (fl r) r) rs s)) = chap_reports (l_chap s)"
  "reports (l_pap (fold (\<lambda>r. handle_report env who (fl r) r) rs s)) = reports (l_pap s)"
  by (induction rs arbitrary: s) simp_all

lemma run_reports:
  "chap_reports (l_chap (run_chap env f s)) = chap_reports (f ((chap_cfg env)\<lparr>chap_lcp_opened := lcp_is_open s\<rparr>) (l_chap s))"
  "reports (l_pap (run_chap env f s)) = reports (l_pap s)"
  "reports (l_pap (run_pap env g s)) = reports (g ((pap_cfg env)\<lparr>lcp_opened := lcp_is_open s\<rparr>) (l_pap s))"
  "chap_reports (l_chap (run_pap env g s)) = chap_reports (l_chap s)"
  by (simp_all add: run_chap_def run_pap_def Let_def)

text \<open>Only a success of CHAP takes \<open>CHAP_PEER\<close> away, only one of PAP \<open>PAP_PEER\<close>.\<close>

lemma link_bits:
  "bit PAP_WITHPEER n \<longleftrightarrow> n = 0" "bit PAP_PEER n \<longleftrightarrow> n = 1" "bit CHAP_WITHPEER n \<longleftrightarrow> n = 2" "bit CHAP_PEER n \<longleftrightarrow> n = 3"
  "bit EAP_WITHPEER n \<longleftrightarrow> n = 4" "bit EAP_PEER n \<longleftrightarrow> n = 5" "bit CHAP_MD5_WITHPEER n \<longleftrightarrow> n = 6" "bit CHAP_MD5_PEER n \<longleftrightarrow> n = 7"
  "bit CHAP_MS_WITHPEER n \<longleftrightarrow> n = 8" "bit CHAP_MS_PEER n \<longleftrightarrow> n = 9" "bit CHAP_MS2_WITHPEER n \<longleftrightarrow> n = 10" "bit CHAP_MS2_PEER n \<longleftrightarrow> n = 11"
proof -
  have e: "PAP_WITHPEER = 2 ^ 0" "PAP_PEER = 2 ^ 1" "CHAP_WITHPEER = 2 ^ 2" "CHAP_PEER = 2 ^ 3" "EAP_WITHPEER = 2 ^ 4" "EAP_PEER = 2 ^ 5"
      "CHAP_MD5_WITHPEER = 2 ^ 6" "CHAP_MD5_PEER = 2 ^ 7" "CHAP_MS_WITHPEER = 2 ^ 8" "CHAP_MS_PEER = 2 ^ 9" "CHAP_MS2_WITHPEER = 2 ^ 10" "CHAP_MS2_PEER = 2 ^ 11"
    by (simp_all add: PAP_WITHPEER_def PAP_PEER_def CHAP_WITHPEER_def CHAP_PEER_def EAP_WITHPEER_def EAP_PEER_def CHAP_MD5_WITHPEER_def
        CHAP_MD5_PEER_def CHAP_MS_WITHPEER_def CHAP_MS_PEER_def CHAP_MS2_WITHPEER_def CHAP_MS2_PEER_def)
  show "bit PAP_WITHPEER n \<longleftrightarrow> n = 0" "bit PAP_PEER n \<longleftrightarrow> n = 1" "bit CHAP_WITHPEER n \<longleftrightarrow> n = 2" "bit CHAP_PEER n \<longleftrightarrow> n = 3"
    "bit EAP_WITHPEER n \<longleftrightarrow> n = 4" "bit EAP_PEER n \<longleftrightarrow> n = 5" "bit CHAP_MD5_WITHPEER n \<longleftrightarrow> n = 6" "bit CHAP_MD5_PEER n \<longleftrightarrow> n = 7"
    "bit CHAP_MS_WITHPEER n \<longleftrightarrow> n = 8" "bit CHAP_MS_PEER n \<longleftrightarrow> n = 9" "bit CHAP_MS2_WITHPEER n \<longleftrightarrow> n = 10" "bit CHAP_MS2_PEER n \<longleftrightarrow> n = 11"
    unfolding e bit_exp_iff by auto
qed

lemma report_bit_chap: "bit (report_bit who fl r) 3 \<longleftrightarrow> who = From_chap \<and> (\<exists>n. r = Peer_success n)"
  by (cases r; cases who) (auto simp: report_bit_def peer_bit_def withpeer_bit_def link_bits bit_or_iff)

lemma report_bit_pap: "bit (report_bit who fl r) 1 \<longleftrightarrow> who = From_pap \<and> (\<exists>n. r = Peer_success n)"
  by (cases r; cases who) (auto simp: report_bit_def peer_bit_def withpeer_bit_def link_bits bit_or_iff)

section \<open>No network before authentication\<close>

lemma run_chap_keeps:
  assumes "bit (auth_pending s) b" "\<forall>r fl. r \<in> set (chap_reports (l_chap (run_chap env f s))) \<longrightarrow> \<not> bit (report_bit From_chap fl r) b"
  shows "keeps b s (run_chap env f s)"
proof -
  define c where "c = f ((chap_cfg env)\<lparr>chap_lcp_opened := lcp_is_open s\<rparr>) (l_chap s)"
  have "\<forall>r\<in>set (drop (length (chap_reports (l_chap s))) (chap_reports c)). \<not> bit (report_bit From_chap (digest_flavor r c) r) b"
    using assms(2) by (auto simp: run_reports c_def dest: in_set_dropD)
  from handle_reports_keeps [OF _ this, of "s\<lparr>l_chap := c\<rparr>" env] assms(1) show ?thesis
    by (simp add: run_chap_def c_def [symmetric] keeps_def Let_def)
qed

lemma run_pap_keeps:
  assumes "bit (auth_pending s) b" "\<forall>r fl. r \<in> set (reports (l_pap (run_pap env f s))) \<longrightarrow> \<not> bit (report_bit From_pap fl r) b"
  shows "keeps b s (run_pap env f s)"
proof -
  define u where "u = f ((pap_cfg env)\<lparr>lcp_opened := lcp_is_open s\<rparr>) (l_pap s)"
  have "\<forall>r\<in>set (drop (length (reports (l_pap s))) (reports u)). \<not> bit (report_bit From_pap 0 r) b"
    using assms(2) by (auto simp: run_reports u_def dest: in_set_dropD)
  from handle_reports_keeps [OF _ this, of "s\<lparr>l_pap := u\<rparr>" env] assms(1) show ?thesis
    by (simp add: run_pap_def u_def [symmetric] keeps_def Let_def)
qed

lemma link_do_keeps:
  assumes "e \<noteq> L_established" "bit (auth_pending s) b" "\<And>fl r. \<not> bit (report_bit From_eap fl r) b"
    and "\<And>fl r. r \<in> set (chap_reports (l_chap (link_do env e s))) \<Longrightarrow> \<not> bit (report_bit From_chap fl r) b"
    and "\<And>fl r. r \<in> set (reports (l_pap (link_do env e s))) \<Longrightarrow> \<not> bit (report_bit From_pap fl r) b"
  shows "keeps b s (link_do env e s)"
proof (cases e)
  case L_down
  then show ?thesis
    using assms(2) link_down_keeps [of "s\<lparr>lcp_is_open := False\<rparr>" b] by (simp add: keeps_def)
next
  case (L_chap c)
  then show ?thesis using assms(2,4) by (simp add: run_chap_keeps)
next
  case (L_pap c)
  then show ?thesis using assms(2,5) by (simp add: run_pap_keeps)
next
  case (L_eap r)
  then show ?thesis using assms(2,3) by (simp add: handle_report_keeps)
next
  case L_np_finished
  then show ?thesis
    using assms(2) close_link_keeps [of "s\<lparr>num_np_open := num_np_open s - 1\<rparr>" b] by (simp add: np_finished_def keeps_def Let_def)
qed (use assms(1,2) in \<open>simp_all add: keeps_def np_up_def np_down_def auth_script_done_def Let_def\<close>)

text \<open>CHAP and PAP within the link: who reports a success, and why.\<close>

lemma quiet_chap_event:
  assumes "Peer_success n \<in> set (chap_reports (chap_do c e t))" "\<forall>p. e \<noteq> Chap_input p"
  shows "Peer_success n \<in> set (chap_reports t)"
  using chap.success_caused [OF assms(1)] assms(2) by (auto simp: chap_cause_def)

lemma quiet_pap_event:
  assumes "Peer_success n \<in> set (reports (upap_do c e t))" "\<forall>p. e \<noteq> Pap_input p"
  shows "Peer_success n \<in> set (reports t)"
  using pap.success_caused [OF assms(1)] assms(2) by (auto simp: pap_cause_def)

lemma link_established_reports:
  "Peer_success n \<in> set (chap_reports (l_chap (link_established env s))) \<Longrightarrow> Peer_success n \<in> set (chap_reports (l_chap s))"
  "Peer_success n \<in> set (reports (l_pap (link_established env s))) \<Longrightarrow> Peer_success n \<in> set (reports (l_pap s))"
  by (auto simp: link_established_def lower_layers_up_def start_peer_def start_withpeer_def run_reports Let_def split_beta simp del: chap_do.simps upap_do.simps
      dest!: quiet_chap_event quiet_pap_event split: if_splits)

definition link_chap_cause :: "link_env \<Rightarrow> link_sys \<Rightarrow> link_event \<Rightarrow> bytes \<Rightarrow> bool" where
  "link_chap_cause env s e n \<longleftrightarrow> (\<exists>c. e = L_chap c \<and> chap_cause ((chap_cfg env)\<lparr>chap_lcp_opened := lcp_is_open s\<rparr>) (l_chap s) c n)"

definition link_pap_cause :: "link_env \<Rightarrow> link_sys \<Rightarrow> link_event \<Rightarrow> bytes \<Rightarrow> bool" where
  "link_pap_cause env s e n \<longleftrightarrow> (\<exists>c. e = L_pap c \<and> pap_cause ((pap_cfg env)\<lparr>lcp_opened := lcp_is_open s\<rparr>) (l_pap s) c n)"

lemma chap_cause_opened: "chap_cause (c\<lparr>chap_lcp_opened := x\<rparr>) t e n = chap_cause c t e n"
proof -
  have "response_name (c\<lparr>chap_lcp_opened := x\<rparr>) = response_name c" "chap_verify_response (c\<lparr>chap_lcp_opened := x\<rparr>) = chap_verify_response c"
    by (auto simp: fun_eq_iff response_name_def chap_verify_response_def)
  then have "response_name (c\<lparr>chap_lcp_opened := x\<rparr>) = response_name c" "run_verifier (c\<lparr>chap_lcp_opened := x\<rparr>) = run_verifier c"
    by (auto simp: fun_eq_iff run_verifier_def split: option.split)
  then show ?thesis by (simp add: chap_cause_def)
qed

interpretation link_chap: authenticator "link_do env" "\<lambda>s. chap_reports (l_chap s)" "link_chap_cause env" for env
proof
  fix n e s
  assume a: "Peer_success n \<in> set (chap_reports (l_chap (link_do env e s)))"
  show "Peer_success n \<in> set (chap_reports (l_chap s)) \<or> link_chap_cause env s e n"
  proof (cases e)
    case L_established
    then show ?thesis using a link_established_reports(1) by fastforce
  next
    case (L_chap c)
    then show ?thesis
      using a chap.success_caused [of n "(chap_cfg env)\<lparr>chap_lcp_opened := lcp_is_open s\<rparr>" c "l_chap s"]
      by (simp add: run_reports link_chap_cause_def del: chap_do.simps)
  qed (use a in \<open>simp_all add: run_reports link_down_reports np_up_def np_down_def np_finished_def auth_script_done_def Let_def split: if_splits\<close>)
qed

interpretation link_pap: authenticator "link_do env" "\<lambda>s. reports (l_pap s)" "link_pap_cause env" for env
proof
  fix n e s
  assume a: "Peer_success n \<in> set (reports (l_pap (link_do env e s)))"
  show "Peer_success n \<in> set (reports (l_pap s)) \<or> link_pap_cause env s e n"
  proof (cases e)
    case L_established
    then show ?thesis using a link_established_reports(2) by fastforce
  next
    case (L_pap c)
    then show ?thesis
      using a pap.success_caused [of n "(pap_cfg env)\<lparr>lcp_opened := lcp_is_open s\<rparr>" c "l_pap s"]
      by (simp add: run_reports link_pap_cause_def del: upap_do.simps)
  qed (use a in \<open>simp_all add: run_reports link_down_reports np_up_def np_down_def np_finished_def auth_script_done_def Let_def split: if_splits\<close>)
qed

text \<open>As long as the bit is pending, a run without a new start opens nothing.\<close>

lemma run_keeps:
  assumes "L_established \<notin> set es" "bit (auth_pending s) b" "\<And>fl r. \<not> bit (report_bit From_eap fl r) b"
    and "\<And>before fl r. prefix before es \<Longrightarrow> r \<in> set (chap_reports (l_chap (fold (link_do env) before s))) \<Longrightarrow> \<not> bit (report_bit From_chap fl r) b"
    and "\<And>before fl r. prefix before es \<Longrightarrow> r \<in> set (reports (l_pap (fold (link_do env) before s))) \<Longrightarrow> \<not> bit (report_bit From_pap fl r) b"
  shows "keeps b s (fold (link_do env) es s)"
  using assms
proof (induction es rule: rev_induct)
  case (snoc e es)
  have p: "prefix before (es @ [e])" if "prefix before es" for before using that by simp
  have k: "keeps b s (fold (link_do env) es s)"
  proof (rule snoc.IH)
    show "L_established \<notin> set es" using snoc.prems(1) by simp
  qed (fact snoc.prems(2), fact snoc.prems(3), erule snoc.prems(4) [OF p], assumption, erule snoc.prems(5) [OF p], assumption)
  moreover have "keeps b (fold (link_do env) es s) (link_do env e (fold (link_do env) es s))"
  proof (rule link_do_keeps)
    show "e \<noteq> L_established" using snoc.prems(1) by auto
    show "bit (auth_pending (fold (link_do env) es s)) b" using k by (simp add: keeps_def)
    show "\<And>fl r. \<not> bit (report_bit From_eap fl r) b" by (rule snoc.prems(3))
    show "\<And>fl r. r \<in> set (chap_reports (l_chap (link_do env e (fold (link_do env) es s)))) \<Longrightarrow> \<not> bit (report_bit From_chap fl r) b"
      using snoc.prems(4) [of "es @ [e]"] by simp
    show "\<And>fl r. r \<in> set (reports (l_pap (link_do env e (fold (link_do env) es s)))) \<Longrightarrow> \<not> bit (report_bit From_pap fl r) b"
      using snoc.prems(5) [of "es @ [e]"] by simp
  qed
  ultimately show ?case using keeps_trans by simp
qed (simp add: keeps_same)

lemma established_pending:
  assumes "\<not> neg_eap (go_opts env)" "neg_chap (go_opts env) \<or> neg_upap (go_opts env)"
  shows "bit (auth_pending (link_do env L_established s)) (if neg_chap (go_opts env) then 3 else 1)"
proof -
  have "CHAP_PEER OR x \<noteq> 0" "PAP_PEER OR x \<noteq> 0" for x
    using bit_or_iff [of CHAP_PEER x 3] bit_or_iff [of PAP_PEER x 1] by (auto simp: link_bits)
  then show ?thesis
    using assms by (auto simp: link_established_def start_peer_def Let_def split_beta bit_or_iff link_bits)
qed


text \<open>C5: The same for PAP: when PAP was agreed on for the peer, then before any network protocol is opened on this link PAP has
  received, while it was listening, a request with a name and a password that \<open>check_passwd\<close> accepted, from an allowed number.\<close>

theorem network_needs_pap:
  assumes "neg_upap (go_opts env)" "\<not> neg_chap (go_opts env)" "\<not> neg_eap (go_opts env)"
    and "s1 = link_do env L_established s" "reports (l_pap s1) = []" "L_established \<notin> set es"
    and "Open_proto p \<in> set (drop (length (lcalls s1)) (lcalls (fold (link_do env) es s1)))"
  shows "\<exists>before q rest n pw. es = before @ L_pap (Pap_input q) # rest \<and>
    us_serverstate (upap (l_pap (fold (link_do env) before s1))) = UPAPSS_LISTEN \<and> pap_request q = Some (n, pw) \<and>
    fst (check_passwd (pap_cfg env) n pw) = UPAP_AUTHACK \<and> number_ok (pap_cfg env)"
proof -
  have "\<exists>before n. prefix before es \<and> Peer_success n \<in> set (reports (l_pap (fold (link_do env) before s1)))"
  proof (rule ccontr)
    assume "\<not> ?thesis"
    then have no: "\<not> bit (report_bit From_pap fl r) 1" if "prefix before es" "r \<in> set (reports (l_pap (fold (link_do env) before s1)))" for before fl r
      using that by (auto simp: report_bit_pap simp del: One_nat_def)
    have "keeps 1 s1 (fold (link_do env) es s1)"
      by (rule run_keeps [OF assms(6)]) (use established_pending [of env s] assms(1-4) no in \<open>auto simp: report_bit_pap simp del: One_nat_def\<close>)
    with assms(7) show False by (auto simp: keeps_def no_open_def)
  qed
  then obtain before0 n where b0: "prefix before0 es" "Peer_success n \<in> set (reports (l_pap (fold (link_do env) before0 s1)))" by blast
  from link_pap.success_has_cause [OF b0(2)] assms(5)
  obtain before e rest where c: "before0 = before @ e # rest" "link_pap_cause env (fold (link_do env) before s1) e n" by auto
  then obtain q pw where q: "e = L_pap (Pap_input q)" "us_serverstate (upap (l_pap (fold (link_do env) before s1))) = UPAPSS_LISTEN" "pap_request q = Some (n, pw)"
      "fst (check_passwd (pap_cfg env) n pw) = UPAP_AUTHACK" "number_ok (pap_cfg env)"
    by (auto simp: link_pap_cause_def pap_cause_def)
  moreover obtain rest' where "es = before @ L_pap (Pap_input q) # rest'" using b0(1) c(1) q(1) by (auto simp: prefix_def)
  ultimately show ?thesis by blast
qed

section \<open>Examples\<close>

definition demo_link_env :: "bool \<Rightarrow> link_env" where
  "demo_link_env b = \<lparr>chap_cfg = demo_chap_env, pap_cfg = demo_pap_env, wo_neg_upap = (\<not> b),
     go_opts = \<lparr>neg_eap = False, neg_chap = b, chap_mdtype = (if b then 4 else 0), neg_upap = (\<not> b)\<rparr>,
     ho_opts = \<lparr>neg_eap = False, neg_chap = False, chap_mdtype = 0, neg_upap = False\<rparr>, auth_required = True, noauth_addrs = False,
     uselogin = False, null_login = False, our_name = [115], user_name = [], explicit_passwd = False, get_pap_passwd = None,
     protocols = [\<lparr>prot = 0x8021, enabled_flag = True, openable = True\<rparr>], ecp_required = False, mppe_required = False, script_starts = (\<lambda>_. False)\<rparr>"

definition demo_link :: link_sys where
  "demo_link = \<lparr>l_chap = demo_chap\<lparr>sv := (sv demo_chap)\<lparr>ss_flags := 0\<rparr>\<rparr>, l_pap = pap_start\<lparr>upap := (upap pap_start)\<lparr>us_serverstate := UPAPSS_INITIAL\<rparr>\<rparr>,
     lcp_is_open = False, l_phase = PHASE_ESTABLISH, l_status = 10, auth_pending = 0, auth_done = 0, auth_up = False, auth_script_up = False,
     auth_script_running = False, num_np_open = 0, num_np_up = 0, peer_authname = [], l_passwd = [], passwd_from_file = False, close_reasons = [], lcalls = []\<rparr>"

lemma run_quiet:
  "chap_reports (f ((chap_cfg env)\<lparr>chap_lcp_opened := lcp_is_open s\<rparr>) (l_chap s)) = chap_reports (l_chap s) \<Longrightarrow>
   run_chap env f s = s\<lparr>l_chap := f ((chap_cfg env)\<lparr>chap_lcp_opened := lcp_is_open s\<rparr>) (l_chap s)\<rparr>"
  "reports (g ((pap_cfg env)\<lparr>lcp_opened := lcp_is_open s\<rparr>) (l_pap s)) = reports (l_pap s) \<Longrightarrow>
   run_pap env g s = s\<lparr>l_pap := g ((pap_cfg env)\<lparr>lcp_opened := lcp_is_open s\<rparr>) (l_pap s)\<rparr>"
  by (simp_all add: run_chap_def run_pap_def)

lemma open_after_last:
  assumes "auth_pending s = b OR 0" "bit (peer_bit who fl) n" "b = 2 ^ n" "n < 32" "e = demo_link_env c" "num_np_open s = 0"
  shows "Open_proto 0x8021 \<in> set (drop (length (lcalls s)) (lcalls (handle_report e who fl (Peer_success m) s)))"
proof -
  have "b AND NOT (peer_bit who fl) = 0"
    using assms(2-4) by (intro bit_word_eqI) (auto simp: bit_simps)
  then show ?thesis
    using assms(1,6) unfolding assms(5)
    by (simp add: auth_peer_success_def auth_passed_def network_phase_def start_networks_def continue_networks_def demo_link_env_def Let_def
        PPP_CCP_def PPP_ECP_def)
qed

text \<open>A link on which CHAP, or PAP, was agreed on, just after LCP came up.\<close>

definition demo_up :: chap_sys where
  "demo_up = chap_do (demo_chap_env\<lparr>chap_lcp_opened := True\<rparr>) Chap_lowerup (l_chap demo_link)"

lemma demo_up_facts: "ss_flags (sv demo_up) = LOWERUP" "find_digest CHAP_MD5 demo_up = Some md5_digest" "chap_reports demo_up = []"
proof -
  have b: "\<not> bit (LOWERUP :: u32) 1" by (simp add: flag_bits)
  show "ss_flags (sv demo_up) = LOWERUP" "find_digest CHAP_MD5 demo_up = Some md5_digest" "chap_reports demo_up = []"
    using b by (simp_all add: demo_up_def demo_link_def demo_chap_def chap_lowerup_def Let_def chap_simps find_digest_def md5_digest_def)
qed

definition demo_started :: chap_sys where
  "demo_started = chap_do (demo_chap_env\<lparr>chap_lcp_opened := True\<rparr>) (Chap_auth_peer [115] CHAP_MD5) demo_up"

lemma demo_started_facts: "ss_has demo_started LOWERUP" "ss_has demo_started CHALLENGE_VALID" "\<not> ss_has demo_started AUTH_DONE"
    "\<not> ss_has demo_started AUTH_FAILED" "ss_digest (sv demo_started) = Some md5_digest" "chap_reports demo_started = []"
  by (rule auth_peer_starts [OF demo_up_facts(1,2) demo_started_def md5_chap.challenge_framed],
      simp add: chap_simps flag_bits bit_or_iff demo_up_facts)+

definition demo_pap :: upap_sys where
  "demo_pap = upap_listen (server_to UPAPSS_CLOSED (l_pap demo_link))"

lemma demo_pap_facts: "us_serverstate (upap demo_pap) = UPAPSS_LISTEN" "reports demo_pap = []" "us_reqtimeout (upap demo_pap) = 0"
  by (simp_all add: demo_pap_def demo_link_def pap_start_def)

lemma demo_established:
  "link_do (demo_link_env True) L_established demo_link =
     demo_link\<lparr>lcp_is_open := True, l_pap := server_to UPAPSS_CLOSED (l_pap demo_link), l_chap := demo_started, l_phase := PHASE_AUTHENTICATE,
       auth_pending := CHAP_PEER OR 0, lcalls := [Lower_up 0x8021]\<rparr>"
  "link_do (demo_link_env False) L_established demo_link =
     demo_link\<lparr>lcp_is_open := True, l_pap := demo_pap, l_chap := demo_up, l_phase := PHASE_AUTHENTICATE,
       auth_pending := PAP_PEER OR 0, lcalls := [Lower_up 0x8021]\<rparr>"
proof -
  have p: "upap_lowerup (l_pap demo_link) = server_to UPAPSS_CLOSED (l_pap demo_link)"
    by (simp add: upap_lowerup_def demo_link_def pap_start_def)
  have l: "lower_layers_up (demo_link_env b) (demo_link\<lparr>lcp_is_open := True\<rparr>) =
      demo_link\<lparr>lcp_is_open := True, l_pap := server_to UPAPSS_CLOSED (l_pap demo_link), l_chap := demo_up, lcalls := [Lower_up 0x8021]\<rparr>" for b
  proof -
    have "chap_reports (l_chap demo_link) = []" "lcalls demo_link = []" by (simp_all add: demo_link_def demo_chap_def)
    then show ?thesis
      by (simp add: lower_layers_up_def Let_def run_quiet p demo_up_def [symmetric, simplified] demo_up_facts demo_link_env_def call_def)
  qed
  have w: "start_withpeer (demo_link_env b) t = (0, t)" for b t by (simp add: start_withpeer_def demo_link_env_def)
  have d: "CHAP_DIGEST 4 = CHAP_MD5" by (simp add: CHAP_DIGEST_def)
  have e: "chap_cfg (demo_link_env b) = demo_chap_env" "pap_cfg (demo_link_env b) = demo_pap_env" "our_name (demo_link_env b) = [115]" for b
    by (simp_all add: demo_link_env_def)
  have c: "start_peer (demo_link_env True) t = (CHAP_PEER, t\<lparr>l_chap := demo_started\<rparr>)" if "l_chap t = demo_up" "lcp_is_open t" for t
    using that demo_started_facts(6) demo_up_facts(3) unfolding demo_started_def
    by (subst start_peer_def) (simp add: run_quiet e d Let_def demo_link_env_def [of True] del: chap_do.simps)
  have u: "start_peer (demo_link_env False) t = (PAP_PEER, t\<lparr>l_pap := demo_pap\<rparr>)" if "l_pap t = server_to UPAPSS_CLOSED (l_pap demo_link)" for t
    using that by (subst start_peer_def) (simp add: run_quiet Let_def demo_link_env_def upap_authpeer_def demo_pap_def)
  have ok: "\<not> (auth_required (demo_link_env b) \<and> \<not> (neg_upap (go_opts (demo_link_env b)) \<or> neg_chap (go_opts (demo_link_env b)) \<or> neg_eap (go_opts (demo_link_env b))) \<and>
      \<not> noauth_addrs (demo_link_env b) \<and> (\<not> wo_neg_upap (demo_link_env b) \<or> uselogin (demo_link_env b) \<or> \<not> null_login (demo_link_env b)))" for b
    by (simp add: demo_link_env_def)
  have n: "CHAP_PEER OR 0 \<noteq> 0" "PAP_PEER OR 0 \<noteq> 0" "auth_done demo_link = 0" by (simp_all add: CHAP_PEER_def PAP_PEER_def demo_link_def)
  show "link_do (demo_link_env True) L_established demo_link =
     demo_link\<lparr>lcp_is_open := True, l_pap := server_to UPAPSS_CLOSED (l_pap demo_link), l_chap := demo_started, l_phase := PHASE_AUTHENTICATE,
       auth_pending := CHAP_PEER OR 0, lcalls := [Lower_up 0x8021]\<rparr>"
    using n by (simp only: link_do.simps link_established_def l Let_def ok if_False) (simp add: c w new_phase_def)
  show "link_do (demo_link_env False) L_established demo_link =
     demo_link\<lparr>lcp_is_open := True, l_pap := demo_pap, l_chap := demo_up, l_phase := PHASE_AUTHENTICATE,
       auth_pending := PAP_PEER OR 0, lcalls := [Lower_up 0x8021]\<rparr>"
    using n by (simp only: link_do.simps link_established_def l Let_def ok if_False) (simp add: u w new_phase_def)
qed


definition demo_pap_request :: bytes where
  "demo_pap_request = authreq_packet 1 [117] [112]"

definition demo_authenticated :: link_sys where
  "demo_authenticated = link_do (demo_link_env False) (L_pap (Pap_input demo_pap_request)) (link_do (demo_link_env False) L_established demo_link)"

lemma demo_pap_run:
  defines "s1 \<equiv> link_do (demo_link_env False) L_established demo_link"
  shows "demo_authenticated = handle_report (demo_link_env False) From_pap 0 (Peer_success [117]) (s1\<lparr>l_pap := upap_input demo_pap_env demo_pap_request demo_pap\<rparr>)"
    "l_pap s1 = demo_pap" "lcp_is_open s1" "auth_pending s1 = PAP_PEER OR 0" "num_np_open s1 = 0" "close_reasons s1 = []" "auth_done s1 = 0"
proof -
  show s1: "l_pap s1 = demo_pap" "lcp_is_open s1" "auth_pending s1 = PAP_PEER OR 0" "num_np_open s1 = 0" "close_reasons s1 = []" "auth_done s1 = 0"
    unfolding s1_def demo_established by (simp_all add: demo_link_def)
  have env: "demo_pap_env\<lparr>lcp_opened := True\<rparr> = demo_pap_env" "pap_cfg (demo_link_env False) = demo_pap_env"
    by (simp_all add: demo_pap_env_def demo_link_env_def)
  have v: "rauthreq_verdict demo_pap_env [117] [112] = (UPAP_AUTHACK, Some [79, 75])" by (simp add: rauthreq_verdict_def demo_pap_env_def)
  have "reports (upap_input demo_pap_env demo_pap_request demo_pap) = [Peer_success [117]]"
    using server_answers [OF demo_pap_facts(1) demo_request v] demo_pap_facts(2) by (auto simp: demo_pap_request_def rauthreq_answer_def Let_def)
  then show "demo_authenticated = handle_report (demo_link_env False) From_pap 0 (Peer_success [117]) (s1\<lparr>l_pap := upap_input demo_pap_env demo_pap_request demo_pap\<rparr>)"
    unfolding demo_authenticated_def s1_def [symmetric] by (simp add: run_pap_def s1 env demo_pap_facts(2) Let_def del: handle_report.simps)
qed

theorem network_needs_pap_witness:
  "\<exists>q n pw. pap_request q = Some (n, pw) \<and> fst (check_passwd demo_pap_env n pw) = UPAP_AUTHACK"
proof -
  define s1 where "s1 = link_do (demo_link_env False) L_established demo_link"
  note run = demo_pap_run [folded s1_def]
  have env: "pap_cfg (demo_link_env False) = demo_pap_env" "neg_upap (go_opts (demo_link_env False))"
      "\<not> neg_chap (go_opts (demo_link_env False))" "\<not> neg_eap (go_opts (demo_link_env False))"
    by (simp_all add: demo_link_env_def)
  have a: "link_do (demo_link_env False) (L_pap (Pap_input demo_pap_request)) s1 = demo_authenticated" unfolding demo_authenticated_def s1_def by (rule refl)
  have "Open_proto 0x8021 \<in> set (drop (length (lcalls s1)) (lcalls (fold (link_do (demo_link_env False)) [L_pap (Pap_input demo_pap_request)] s1)))"
    using open_after_last [of "s1\<lparr>l_pap := upap_input demo_pap_env demo_pap_request demo_pap\<rparr>" PAP_PEER From_pap 0 1 "demo_link_env False" False]
    by (simp add: a run peer_bit_def link_bits PAP_PEER_def del: link_do.simps handle_report.simps)
  from network_needs_pap [OF env(2-4) s1_def _ _ this] run(2) demo_pap_facts(2) env(1) show ?thesis by fastforce
qed

end
