(* ===== verification/Ppp_Lcp.thy ===== *)
theory Ppp_Lcp
  imports Ppp_Link
begin

text \<open>
  The link control protocol of \<open>pppd\<close>, \<open>src/external/ppp/pppd/lcp.c\<close> and \<open>lcp.h\<close>, with the start and the end of a link
  (\<open>start_link\<close>, \<open>link_terminated\<close>, \<open>auth_reset\<close> of \<open>auth.c\<close>) and the reader of packets (\<open>get_input\<close> of \<open>main.c\<close>): the client of
  the automaton of \<^verbatim>\<open>Ppp_Fsm\<close> on which the link of \<^verbatim>\<open>Ppp_Link\<close> stands.

  The state is that of the automaton, with the option records, the echo counters, the link and the channel as the data of the
  protocol. LCP and the link call each other: LCP calls the link's operations on the link's state and then takes up the calls
  of \<open>lcp_close\<close> that they made (\<open>close_reasons\<close>), in order. The callbacks that lead back into the automaton are built in layers:
  \<open>finished\<close> takes the lower layer down, which needs \<open>down\<close> and \<open>starting\<close>; closing needs \<open>finished\<close>; \<open>up\<close>, \<open>nakci\<close> and \<open>extcode\<close>
  may close. The arrays indexed by unit have one element; multilink is not compiled in, so that \<open>doing_multilink\<close> is 0, but the
  option \<open>multilink\<close> is kept. \<open>lcp_magic\<close> is the sequence of values of \<open>magic\<close>. Log output is left out.
\<close>

section \<open>Data\<close>

definition PPP_LCP :: u16 where "PPP_LCP = 0xc021"
definition PPP_LQR :: u16 where "PPP_LQR = 0xc025"
definition PPP_EAP :: u16 where "PPP_EAP = 0xc227"
definition PPP_MRU :: int where "PPP_MRU = 1500"
definition DEFMRU :: int where "DEFMRU = 1500"
definition MINMRU :: int where "MINMRU = 128"
definition MAXMRU :: int where "MAXMRU = 16384"
definition MAX_ENDP_LEN :: nat where "MAX_ENDP_LEN = 20"
definition MDTYPE_ALL :: u8 where "MDTYPE_ALL = 7"

definition CI_MRU :: u8 where "CI_MRU = 1"
definition CI_ASYNCMAP :: u8 where "CI_ASYNCMAP = 2"
definition CI_AUTHTYPE :: u8 where "CI_AUTHTYPE = 3"
definition CI_QUALITY :: u8 where "CI_QUALITY = 4"
definition CI_MAGICNUMBER :: u8 where "CI_MAGICNUMBER = 5"
definition CI_PCOMPRESSION :: u8 where "CI_PCOMPRESSION = 7"
definition CI_ACCOMPRESSION :: u8 where "CI_ACCOMPRESSION = 8"
definition CI_CALLBACK :: u8 where "CI_CALLBACK = 13"
definition CI_MRRU :: u8 where "CI_MRRU = 17"
definition CI_SSNHF :: u8 where "CI_SSNHF = 18"
definition CI_EPDISC :: u8 where "CI_EPDISC = 19"

lemmas ci_codes = CI_MRU_def CI_ASYNCMAP_def CI_AUTHTYPE_def CI_QUALITY_def CI_MAGICNUMBER_def CI_PCOMPRESSION_def CI_ACCOMPRESSION_def
  CI_CALLBACK_def CI_MRRU_def CI_SSNHF_def CI_EPDISC_def

definition CILEN_VOID :: nat where "CILEN_VOID = 2"
definition CILEN_CHAR :: nat where "CILEN_CHAR = 3"
definition CILEN_SHORT :: nat where "CILEN_SHORT = 4"
definition CILEN_CHAP :: nat where "CILEN_CHAP = 5"
definition CILEN_LONG :: nat where "CILEN_LONG = 6"
definition CILEN_LQR :: nat where "CILEN_LQR = 8"

lemmas cilens = CILEN_VOID_def CILEN_CHAR_def CILEN_SHORT_def CILEN_CHAP_def CILEN_LONG_def CILEN_LQR_def

definition PROTREJ :: u8 where "PROTREJ = 8"
definition ECHOREQ :: u8 where "ECHOREQ = 9"
definition ECHOREP :: u8 where "ECHOREP = 10"
definition DISCREQ :: u8 where "DISCREQ = 11"
definition IDENTIF :: u8 where "IDENTIF = 12"
definition TIMEREM :: u8 where "TIMEREM = 13"
definition CBCP_OPT :: u8 where "CBCP_OPT = 6"

lemmas ext_codes = PROTREJ_def ECHOREQ_def ECHOREP_def DISCREQ_def IDENTIF_def TIMEREM_def

definition DELAYED_UP :: u32 where "DELAYED_UP = 0x100"

definition EXIT_FATAL_ERROR :: int where "EXIT_FATAL_ERROR = 1"
definition EXIT_CONNECT_FAILED :: int where "EXIT_CONNECT_FAILED = 8"
definition EXIT_NEGOTIATION_FAILED :: int where "EXIT_NEGOTIATION_FAILED = 10"
definition EXIT_PEER_DEAD :: int where "EXIT_PEER_DEAD = 15"
definition EXIT_HANGUP :: int where "EXIT_HANGUP = 16"
definition EXIT_LOOPBACK :: int where "EXIT_LOOPBACK = 17"
definition EXIT_CNID_AUTH_FAILED :: int where "EXIT_CNID_AUTH_FAILED = 21"

text \<open>The endpoint discriminator: its class and the bytes of \<open>value\<close> up to \<open>length\<close>.\<close>

record epdisc =
  ep_class :: u8
  ep_value :: bytes

text \<open>\<open>lcp_options\<close>; the fields that the link reads (\<open>neg_eap\<close>, \<open>neg_chap\<close>, \<open>chap_mdtype\<close>, \<open>neg_upap\<close>) come from \<open>auth_options\<close>.\<close>

record lcp_options = auth_options +
  opt_passive :: bool
  opt_silent :: bool
  neg_mru :: bool
  neg_asyncmap :: bool
  neg_magicnumber :: bool
  neg_pcompression :: bool
  neg_accompression :: bool
  neg_lqr :: bool
  neg_cbcp :: bool
  neg_mrru :: bool
  neg_ssnhf :: bool
  neg_endpoint :: bool
  mru :: int
  mrru :: int
  asyncmap :: u32
  magicnumber :: u32
  numloops :: int
  lqr_period :: u32
  endpoint :: epdisc

definition zero_options :: lcp_options where
  "zero_options = \<lparr>neg_eap = False, neg_chap = False, chap_mdtype = 0, neg_upap = False, opt_passive = False, opt_silent = False,
     neg_mru = False, neg_asyncmap = False, neg_magicnumber = False, neg_pcompression = False, neg_accompression = False,
     neg_lqr = False, neg_cbcp = False, neg_mrru = False, neg_ssnhf = False, neg_endpoint = False, mru = 0, mrru = 0,
     asyncmap = 0, magicnumber = 0, numloops = 0, lqr_period = 0, endpoint = \<lparr>ep_class = 0, ep_value = []\<rparr>\<rparr>"

text \<open>What is called in the kernel, in the channel and in the other protocols.\<close>

datatype lcp_action =
    Send_config int u32 bool bool
  | Recv_config int u32 bool bool
  | Netif_set_mtu int
  | Protrej u16
  | Proto_input u16 bytes
  | Proto_datainput u16 bytes
  | Connect
  | Establish_ppp
  | Disestablish_ppp
  | Disconnect
  | Cleanup
  | Logout_hook
  | Session_end

record lcp =
  wantoptions :: lcp_options
  gotoptions :: lcp_options
  allowoptions :: lcp_options
  hisoptions :: lcp_options
  lcp_echos_pending :: int
  lcp_echo_number :: int
  lcp_echo_timer_running :: bool
  echo_timers :: nat
  delayed_timers :: nat
  mdraws :: nat
  lnk :: link_sys
  hungup :: bool
  dev_open :: bool
  ppp_open :: bool
  lcp_calls :: "lcp_action list"

type_synonym lcp_sys = "lcp sys"

text \<open>Configuration and environment; the results of calls are functions of the calls so far.\<close>

record lcp_env =
  link_cfg :: link_env
  lcp_magic :: "nat \<Rightarrow> u32"
  lcp_echo_interval :: int
  lcp_echo_fails :: int
  lcp_loopbackfail :: int
  lax_recv :: bool
  noendpoint :: bool
  multilink :: bool
  listen_time :: int
  send_config_ok :: "lcp_action list \<Rightarrow> bool"
  recv_config_ok :: "lcp_action list \<Rightarrow> bool"
  has_disconnect :: bool
  has_cleanup :: bool
  pap_logout_hook :: bool
  has_datainput :: "u16 \<Rightarrow> bool"
  refuse_pap :: bool
  refuse_chap :: bool
  refuse_mschap :: bool
  refuse_mschap_v2 :: bool
  refuse_eap :: bool
  have_pap_passwd :: bool
  have_pap_secret :: bool
  have_chap_secret :: "bool \<Rightarrow> bool"
  have_srp_secret :: "bool \<Rightarrow> bool"

definition on_lcp :: "('c \<Rightarrow> 'c) \<Rightarrow> 'c sys \<Rightarrow> 'c sys" where
  "on_lcp g s = s\<lparr>client := g (client s)\<rparr>"

definition on_link :: "(link_sys \<Rightarrow> link_sys) \<Rightarrow> lcp_sys \<Rightarrow> lcp_sys" where
  "on_link g = on_lcp (lnk_update g)"

definition lcp_call :: "lcp_action list \<Rightarrow> lcp_sys \<Rightarrow> lcp_sys" where
  "lcp_call ks = on_lcp (\<lambda>c. c\<lparr>lcp_calls := lcp_calls c @ ks\<rparr>)"

definition set_peer_mru :: "int \<Rightarrow> 'c sys \<Rightarrow> 'c sys" where
  "set_peer_mru n s = s\<lparr>peer_mru := n\<rparr>"

definition set_flag :: "u32 \<Rightarrow> 'c sys \<Rightarrow> 'c sys" where
  "set_flag b = upd (flags_update (\<lambda>f. f OR b))"

definition clear_flag :: "u32 \<Rightarrow> 'c sys \<Rightarrow> 'c sys" where
  "clear_flag b = upd (flags_update (\<lambda>f. f AND NOT b))"

text \<open>The configuration as the link sees it, with the options that LCP has negotiated.\<close>

definition lenv :: "lcp_env \<Rightarrow> lcp \<Rightarrow> link_env" where
  "lenv env c = (link_cfg env)\<lparr>wo_neg_upap := neg_upap (wantoptions c), go_opts := auth_options.truncate (gotoptions c),
     ho_opts := auth_options.truncate (hisoptions c)\<rparr>"

section \<open>Numbers in packets\<close>

definition put_short :: "int \<Rightarrow> bytes" where
  "put_short n = be16 (nat (n mod 65536))"

definition put_long :: "u32 \<Rightarrow> bytes" where
  "put_long w = rev (bytes32 w)"

definition get_short :: "bytes \<Rightarrow> int" where
  "get_short p = int (unat (p ! 0) * 256 + unat (p ! 1))"

definition get_long :: "bytes \<Rightarrow> u32" where
  "get_long p = le32 (p ! 3) (p ! 2) (p ! 1) (p ! 0)"

text \<open>\<open>CHAP_MDTYPE_D\<close>, \<open>CHAP_CANDIGEST\<close> and \<open>CHAP_MDTYPE\<close> of \<open>chap-new.h\<close>.\<close>

definition CHAP_MDTYPE_D :: "int \<Rightarrow> u8" where
  "CHAP_MDTYPE_D digest = (if digest = CHAP_MICROSOFT_V2 then 0x1 else if digest = CHAP_MICROSOFT then 0x2 else if digest = CHAP_MD5 then 0x4 else 0)"

definition CHAP_CANDIGEST :: "u8 \<Rightarrow> int \<Rightarrow> bool" where
  "CHAP_CANDIGEST mdtype digest =
     (if digest = CHAP_MICROSOFT_V2 then mdtype AND 0x1 \<noteq> 0 else if digest = CHAP_MICROSOFT then mdtype AND 0x2 \<noteq> 0
      else if digest = CHAP_MD5 then mdtype AND 0x4 \<noteq> 0 else False)"

definition CHAP_MDTYPE :: "u8 \<Rightarrow> u8" where
  "CHAP_MDTYPE mdtype = (mdtype XOR (mdtype - 1)) AND mdtype"

text \<open>\<open>cichar != CHAP_DIGEST(mdtype)\<close> as the compiler reads it: the macro has no parentheses around it, so the comparison is
  with \<open>mdtype & MDTYPE_MD5\<close> and is itself the condition of the first \<open>?:\<close>.\<close>

definition differs_from_CHAP_DIGEST :: "int \<Rightarrow> u8 \<Rightarrow> bool" where
  "differs_from_CHAP_DIGEST cichar mdtype =
     (if cichar \<noteq> uint (mdtype AND 0x4) then CHAP_MD5 \<noteq> 0
      else if mdtype AND 0x1 \<noteq> 0 then CHAP_MICROSOFT_V2 \<noteq> 0 else if mdtype AND 0x2 \<noteq> 0 then CHAP_MICROSOFT \<noteq> 0 else False)"

section \<open>Requests\<close>

text \<open>\<open>ADDCIVOID\<close> to \<open>ADDCIENDP\<close>: the bytes that are put.\<close>

definition ADDCIVOID :: "u8 \<Rightarrow> bool \<Rightarrow> bytes" where
  "ADDCIVOID opt neg = (if neg then [opt, of_nat CILEN_VOID] else [])"

definition ADDCISHORT :: "u8 \<Rightarrow> bool \<Rightarrow> int \<Rightarrow> bytes" where
  "ADDCISHORT opt neg val = (if neg then [opt, of_nat CILEN_SHORT] @ put_short val else [])"

definition ADDCICHAP :: "u8 \<Rightarrow> bool \<Rightarrow> u8 \<Rightarrow> bytes" where
  "ADDCICHAP opt neg val = (if neg then [opt, of_nat CILEN_CHAP] @ be16 (unat PPP_CHAP) @ [of_int (CHAP_DIGEST val)] else [])"

definition ADDCILONG :: "u8 \<Rightarrow> bool \<Rightarrow> u32 \<Rightarrow> bytes" where
  "ADDCILONG opt neg val = (if neg then [opt, of_nat CILEN_LONG] @ put_long val else [])"

definition ADDCILQR :: "u8 \<Rightarrow> bool \<Rightarrow> u32 \<Rightarrow> bytes" where
  "ADDCILQR opt neg val = (if neg then [opt, of_nat CILEN_LQR] @ be16 (unat PPP_LQR) @ put_long val else [])"

definition ADDCICHAR :: "u8 \<Rightarrow> bool \<Rightarrow> u8 \<Rightarrow> bytes" where
  "ADDCICHAR opt neg val = (if neg then [opt, of_nat CILEN_CHAR, val] else [])"

definition ADDCIENDP :: "u8 \<Rightarrow> bool \<Rightarrow> epdisc \<Rightarrow> bytes" where
  "ADDCIENDP opt neg ep = (if neg then [opt, of_nat (CILEN_CHAR + length (ep_value ep)), ep_class ep] @ ep_value ep else [])"

abbreviation asks_mru :: "lcp_options \<Rightarrow> bool" where
  "asks_mru go \<equiv> neg_mru go \<and> mru go \<noteq> DEFMRU"

abbreviation asks_asyncmap :: "lcp_options \<Rightarrow> bool" where
  "asks_asyncmap go \<equiv> neg_asyncmap go \<and> asyncmap go \<noteq> 0xFFFFFFFF"

definition lcp_request :: "lcp_options \<Rightarrow> bytes" where
  "lcp_request go =
     ADDCISHORT CI_MRU (asks_mru go) (mru go) @
     ADDCILONG CI_ASYNCMAP (asks_asyncmap go) (asyncmap go) @
     ADDCISHORT CI_AUTHTYPE (neg_eap go) (uint PPP_EAP) @
     ADDCICHAP CI_AUTHTYPE (\<not> neg_eap go \<and> neg_chap go) (chap_mdtype go) @
     ADDCISHORT CI_AUTHTYPE (\<not> neg_eap go \<and> \<not> neg_chap go \<and> neg_upap go) (uint PPP_PAP) @
     ADDCILQR CI_QUALITY (neg_lqr go) (lqr_period go) @
     ADDCICHAR CI_CALLBACK (neg_cbcp go) CBCP_OPT @
     ADDCILONG CI_MAGICNUMBER (neg_magicnumber go) (magicnumber go) @
     ADDCIVOID CI_PCOMPRESSION (neg_pcompression go) @
     ADDCIVOID CI_ACCOMPRESSION (neg_accompression go) @
     ADDCISHORT CI_MRRU (neg_mrru go) (mrru go) @
     ADDCIVOID CI_SSNHF (neg_ssnhf go) @
     ADDCIENDP CI_EPDISC (neg_endpoint go) (endpoint go)"

text \<open>\<open>lcp_addci\<close> writes all options, whatever length it is given.\<close>

definition lcp_addci :: "int \<Rightarrow> lcp_sys \<Rightarrow> bytes \<times> lcp_sys" where
  "lcp_addci len s = (lcp_request (gotoptions (client s)), s)"

definition lcp_cilen :: "lcp_sys \<Rightarrow> int" where
  "lcp_cilen s =
     (let go = gotoptions (client s); cnt = (\<lambda>neg n. if neg then int n else 0) in
      cnt (asks_mru go) CILEN_SHORT +
      cnt (asks_asyncmap go) CILEN_LONG +
      cnt (neg_eap go) CILEN_SHORT +
      cnt (\<not> neg_eap go \<and> neg_chap go) CILEN_CHAP +
      cnt (\<not> neg_eap go \<and> \<not> neg_chap go \<and> neg_upap go) CILEN_SHORT +
      cnt (neg_lqr go) CILEN_LQR +
      cnt (neg_cbcp go) CILEN_CHAR +
      cnt (neg_magicnumber go) CILEN_LONG +
      cnt (neg_pcompression go) CILEN_VOID +
      cnt (neg_accompression go) CILEN_VOID +
      cnt (neg_mrru go) CILEN_SHORT +
      cnt (neg_ssnhf go) CILEN_VOID +
      cnt (neg_endpoint go) (CILEN_CHAR + length (ep_value (endpoint go))))"

text \<open>The option \<open>-all\<close>.\<close>

definition noopt :: "lcp_sys \<Rightarrow> lcp_sys" where
  "noopt = on_lcp (\<lambda>c. c\<lparr>wantoptions := zero_options, allowoptions := zero_options\<rparr>)"

text \<open>\<open>auth_check_options\<close>, after the options have been read: which authentication of the peer to ask for. \<open>Inl\<close> is an exit of the program with
  its code. The names have been set, and \<open>auth_required\<close> is what it is after the default for hosts with a route, which
  \<open>auth_by_default\<close> gives.\<close>

definition auth_by_default :: "bool \<Rightarrow> bool \<Rightarrow> bool \<Rightarrow> bool \<Rightarrow> bool" where
  "auth_by_default required any_ip route privileged = (required \<or> \<not> any_ip \<and> route \<and> \<not> privileged)"

definition auth_wanted :: "bool \<Rightarrow> lcp_options \<Rightarrow> lcp_options" where
  "auth_wanted required wo =
     (let wo = (if chap_mdtype wo \<noteq> 0 then wo\<lparr>neg_chap := True\<rparr> else wo)
      in if required
         then if \<not> neg_chap wo \<and> \<not> neg_upap wo \<and> \<not> neg_eap wo
              then wo\<lparr>neg_chap := MDTYPE_ALL \<noteq> 0, chap_mdtype := MDTYPE_ALL, neg_upap := True, neg_eap := True\<rparr> else wo
         else wo\<lparr>neg_chap := False, chap_mdtype := 0, neg_upap := False, neg_eap := False\<rparr>)"

definition auth_check_options :: "lcp_env \<Rightarrow> lcp_options \<Rightarrow> int + lcp_options" where
  "auth_check_options env wo =
     (let required = auth_required (link_cfg env); wo = auth_wanted required wo;
          can_auth = neg_upap wo \<and> (uselogin (link_cfg env) \<or> have_pap_secret env);
          can_auth = (if \<not> can_auth \<and> (neg_chap wo \<or> neg_eap wo) then have_chap_secret env True else can_auth);
          can_auth = (if \<not> can_auth \<and> neg_eap wo then have_srp_secret env True else can_auth)
      in if required \<and> \<not> can_auth \<and> \<not> noauth_addrs (link_cfg env) then Inl 1
         else if \<not> number_allowed (chap_cfg (link_cfg env)) then Inl EXIT_CNID_AUTH_FAILED
         else Inr wo)"

text \<open>\<open>auth_reset\<close>: which authentication we can offer, and which we can ask for, with the secrets there are.\<close>

definition auth_reset_allowed :: "lcp_env \<Rightarrow> bytes \<Rightarrow> lcp_options \<Rightarrow> lcp_options" where
  "auth_reset_allowed env passwd ao =
     (let any_chap = \<not> refuse_chap env \<or> \<not> refuse_mschap env \<or> \<not> refuse_mschap_v2 env;
          hadchap = (if any_chap \<and> passwd = [] then Some (have_chap_secret env False) else None);
          ao = ao\<lparr>neg_upap := \<not> refuse_pap env \<and> (passwd \<noteq> [] \<or> have_pap_passwd env)\<rparr>;
          ao = ao\<lparr>neg_chap := any_chap \<and> (passwd \<noteq> [] \<or> hadchap = Some True)\<rparr>
      in ao\<lparr>neg_eap := \<not> refuse_eap env \<and>
            (passwd \<noteq> [] \<or> (hadchap = Some True \<or> hadchap = None \<and> have_chap_secret env False) \<or> have_srp_secret env False)\<rparr>)"

definition auth_reset_wanted :: "lcp_env \<Rightarrow> lcp_options \<Rightarrow> lcp_options" where
  "auth_reset_wanted env go =
     (let go = (if neg_upap go \<and> \<not> uselogin (link_cfg env) \<and> \<not> have_pap_secret env then go\<lparr>neg_upap := False\<rparr> else go);
          hadchap = (if neg_chap go then Some (have_chap_secret env True) else None);
          go = (if hadchap = Some False then go\<lparr>neg_chap := False\<rparr> else go)
      in if neg_eap go \<and> (hadchap = Some False \<or> hadchap = None \<and> \<not> have_chap_secret env True) \<and> \<not> have_srp_secret env True
         then go\<lparr>neg_eap := False\<rparr> else go)"

definition auth_reset :: "lcp_env \<Rightarrow> lcp_sys \<Rightarrow> lcp_sys" where
  "auth_reset env = on_lcp (\<lambda>c. c\<lparr>allowoptions := auth_reset_allowed env (l_passwd (lnk c)) (allowoptions c),
     gotoptions := auth_reset_wanted env (gotoptions c)\<rparr>)"

definition lcp_resetci :: "lcp_env \<Rightarrow> lcp_sys \<Rightarrow> lcp_sys" where
  "lcp_resetci env s =
     (let s = on_lcp (\<lambda>c.
            let wo = (wantoptions c)\<lparr>magicnumber := lcp_magic env (mdraws c), numloops := 0\<rparr>;
                go = (if \<not> multilink env then wo\<lparr>neg_mrru := False, neg_ssnhf := False, neg_endpoint := False\<rparr> else wo);
                ao = (if noendpoint env then (allowoptions c)\<lparr>neg_endpoint := False\<rparr> else allowoptions c)
            in c\<lparr>wantoptions := wo, gotoptions := go, allowoptions := ao, mdraws := mdraws c + 1\<rparr>) s
      in auth_reset env (set_peer_mru PPP_MRU s))"

section \<open>Acknowledgements\<close>

text \<open>What is left of the packet after an option, \<open>None\<close> for \<open>goto bad\<close>.\<close>

definition ACKCI :: "u8 \<Rightarrow> bool \<Rightarrow> nat \<Rightarrow> (bytes \<Rightarrow> bool) \<Rightarrow> bytes \<Rightarrow> bytes option" where
  "ACKCI opt neg clen same p =
     (if \<not> neg then Some p
      else if length p < clen then None
      else if unat (p ! 1) \<noteq> clen \<or> p ! 0 \<noteq> opt then None
      else if \<not> same (take (clen - 2) (drop 2 p)) then None
      else Some (drop clen p))"

definition same_short :: "int \<Rightarrow> bytes \<Rightarrow> bool" where
  "same_short val q \<longleftrightarrow> get_short q = val"

definition same_long :: "u32 \<Rightarrow> bytes \<Rightarrow> bool" where
  "same_long val q \<longleftrightarrow> get_long q = val"

definition same_chap :: "u8 \<Rightarrow> bytes \<Rightarrow> bool" where
  "same_chap val q \<longleftrightarrow> get_short q = uint PPP_CHAP \<and> int (unat (q ! 2)) = CHAP_DIGEST val"

definition same_lqr :: "u32 \<Rightarrow> bytes \<Rightarrow> bool" where
  "same_lqr val q \<longleftrightarrow> get_short q = uint PPP_LQR \<and> get_long (drop 2 q) = val"

definition same_char :: "u8 \<Rightarrow> bytes \<Rightarrow> bool" where
  "same_char val q \<longleftrightarrow> q ! 0 = val"

definition same_endp :: "epdisc \<Rightarrow> bytes \<Rightarrow> bool" where
  "same_endp ep q \<longleftrightarrow> q ! 0 = ep_class ep \<and> take (length (ep_value ep)) (drop 1 q) = ep_value ep"

definition lcp_ack_matches :: "lcp_options \<Rightarrow> bytes \<Rightarrow> bool" where
  "lcp_ack_matches go p =
     (fold (\<lambda>f r. Option.bind r f)
       [ACKCI CI_MRU (asks_mru go) CILEN_SHORT (same_short (mru go)),
        ACKCI CI_ASYNCMAP (asks_asyncmap go) CILEN_LONG (same_long (asyncmap go)),
        ACKCI CI_AUTHTYPE (neg_eap go) CILEN_SHORT (same_short (uint PPP_EAP)),
        ACKCI CI_AUTHTYPE (\<not> neg_eap go \<and> neg_chap go) CILEN_CHAP (same_chap (chap_mdtype go)),
        ACKCI CI_AUTHTYPE (\<not> neg_eap go \<and> \<not> neg_chap go \<and> neg_upap go) CILEN_SHORT (same_short (uint PPP_PAP)),
        ACKCI CI_QUALITY (neg_lqr go) CILEN_LQR (same_lqr (lqr_period go)),
        ACKCI CI_CALLBACK (neg_cbcp go) CILEN_CHAR (same_char CBCP_OPT),
        ACKCI CI_MAGICNUMBER (neg_magicnumber go) CILEN_LONG (same_long (magicnumber go)),
        ACKCI CI_PCOMPRESSION (neg_pcompression go) CILEN_VOID (\<lambda>_. True),
        ACKCI CI_ACCOMPRESSION (neg_accompression go) CILEN_VOID (\<lambda>_. True),
        ACKCI CI_MRRU (neg_mrru go) CILEN_SHORT (same_short (mrru go)),
        ACKCI CI_SSNHF (neg_ssnhf go) CILEN_VOID (\<lambda>_. True),
        ACKCI CI_EPDISC (neg_endpoint go) (CILEN_CHAR + length (ep_value (endpoint go))) (same_endp (endpoint go))]
       (Some p) = Some [])"

definition lcp_ackci :: "bytes \<Rightarrow> lcp_sys \<Rightarrow> bool \<times> lcp_sys" where
  "lcp_ackci p s = (lcp_ack_matches (gotoptions (client s)) p, s)"

section \<open>Nak and Reject\<close>

text \<open>The variables of \<open>lcp_nakci\<close>: the rest of the packet, the options seen and the options to ask for next.\<close>

record nak_vars =
  n_p :: bytes
  n_no :: lcp_options
  n_try :: lcp_options
  n_looped :: bool
  n_draws :: nat

definition on_try :: "(lcp_options \<Rightarrow> lcp_options) \<Rightarrow> nak_vars \<Rightarrow> nak_vars" where
  "on_try g v = v\<lparr>n_try := g (n_try v)\<rparr>"

text \<open>\<open>NAKCIVOID\<close>, \<open>NAKCICHAR\<close>, \<open>NAKCISHORT\<close>, \<open>NAKCILONG\<close> and \<open>NAKCILQR\<close>: \<open>code\<close> gets the contents of the option.\<close>

definition NAKCI :: "u8 \<Rightarrow> bool \<Rightarrow> nat \<Rightarrow> (lcp_options \<Rightarrow> lcp_options) \<Rightarrow> (bytes \<Rightarrow> nak_vars \<Rightarrow> nak_vars) \<Rightarrow> nak_vars \<Rightarrow> nak_vars" where
  "NAKCI opt neg clen seen code v =
     (if neg \<and> length (n_p v) \<ge> clen \<and> unat (n_p v ! 1) = clen \<and> n_p v ! 0 = opt
      then code (take (clen - 2) (drop 2 (n_p v))) (v\<lparr>n_p := drop clen (n_p v), n_no := seen (n_no v)\<rparr>)
      else v)"

definition NAKCIENDP :: "u8 \<Rightarrow> bool \<Rightarrow> nak_vars \<Rightarrow> nak_vars" where
  "NAKCIENDP opt neg v =
     (if neg \<and> length (n_p v) \<ge> CILEN_CHAR \<and> n_p v ! 0 = opt \<and> unat (n_p v ! 1) \<ge> CILEN_CHAR \<and> unat (n_p v ! 1) \<le> length (n_p v)
      then on_try (neg_endpoint_update (\<lambda>_. False))
             (v\<lparr>n_p := drop (unat (n_p v ! 1)) (n_p v), n_no := (n_no v)\<lparr>neg_endpoint := True\<rparr>\<rparr>)
      else v)"

text \<open>What a Nak of the authentication protocol makes of the options; \<open>None\<close> for \<open>goto bad\<close>.\<close>

definition nak_auth_try :: "lcp_options \<Rightarrow> nat \<Rightarrow> bytes \<Rightarrow> lcp_options \<Rightarrow> lcp_options option" where
  "nak_auth_try go clen q tr =
     (let cishort = get_short q in
      if cishort = uint PPP_PAP \<and> clen = CILEN_SHORT then
        (if neg_eap go then Some (tr\<lparr>neg_eap := False\<rparr>)
         else if neg_chap go then Some (tr\<lparr>neg_chap := False\<rparr>)
         else None)
      else if cishort = uint PPP_CHAP \<and> clen = CILEN_CHAP then
        (let cichar = int (unat (q ! 2)) in
         if neg_eap go then
           (let tr = tr\<lparr>neg_eap := False\<rparr>
            in Some (if CHAP_CANDIGEST (chap_mdtype go) cichar then tr\<lparr>chap_mdtype := CHAP_MDTYPE_D cichar\<rparr> else tr))
         else if neg_chap go then
           (if differs_from_CHAP_DIGEST cichar (chap_mdtype go) then
              (if CHAP_CANDIGEST (chap_mdtype go) cichar then Some (tr\<lparr>chap_mdtype := CHAP_MDTYPE_D cichar\<rparr>)
               else let tr = tr\<lparr>chap_mdtype := chap_mdtype tr AND NOT (CHAP_MDTYPE (chap_mdtype tr))\<rparr>
                    in Some (if chap_mdtype tr = 0 then tr\<lparr>neg_chap := False\<rparr> else tr))
            else None)
         else Some (tr\<lparr>neg_upap := False\<rparr>))
      else Some (if neg_eap go then tr\<lparr>neg_eap := False\<rparr>
                 else if neg_chap go then tr\<lparr>neg_chap := False\<rparr>
                 else tr\<lparr>neg_upap := False\<rparr>))"

definition nak_auth :: "lcp_options \<Rightarrow> nak_vars \<Rightarrow> nak_vars option" where
  "nak_auth go v =
     (let p = n_p v in
      if (neg_chap go \<or> neg_upap go \<or> neg_eap go) \<and> length p \<ge> CILEN_SHORT \<and> p ! 0 = CI_AUTHTYPE \<and>
         unat (p ! 1) \<ge> CILEN_SHORT \<and> unat (p ! 1) \<le> length p
      then let clen = unat (p ! 1);
               v = v\<lparr>n_p := drop clen p,
                     n_no := (n_no v)\<lparr>neg_chap := neg_chap go, neg_upap := neg_upap go, neg_eap := neg_eap go\<rparr>\<rparr>
           in map_option (\<lambda>tr. v\<lparr>n_try := tr\<rparr>) (nak_auth_try go clen (take (clen - 2) (drop 2 p)) (n_try v))
      else Some v)"

text \<open>The options that were asked for and may come back changed: before and after the authentication protocol.\<close>

definition nak_first :: "lcp_options \<Rightarrow> lcp_options \<Rightarrow> nak_vars \<Rightarrow> nak_vars" where
  "nak_first go wo v =
     (let v = NAKCI CI_MRU (asks_mru go) CILEN_SHORT (neg_mru_update (\<lambda>_. True))
                (\<lambda>q. if get_short q \<le> mru wo \<or> get_short q \<le> DEFMRU then on_try (mru_update (\<lambda>_. get_short q)) else (\<lambda>v. v)) v
      in NAKCI CI_ASYNCMAP (asks_asyncmap go) CILEN_LONG (neg_asyncmap_update (\<lambda>_. True))
           (\<lambda>q. on_try (asyncmap_update (\<lambda>_. asyncmap go OR get_long q))) v)"

definition nak_rest :: "lcp_env \<Rightarrow> bool \<Rightarrow> lcp_options \<Rightarrow> lcp_options \<Rightarrow> nak_vars \<Rightarrow> nak_vars" where
  "nak_rest env treat_as_reject go wo v =
     (let v = NAKCI CI_QUALITY (neg_lqr go) CILEN_LQR (neg_lqr_update (\<lambda>_. True))
                (\<lambda>q. if get_short q \<noteq> uint PPP_LQR then on_try (neg_lqr_update (\<lambda>_. False))
                     else on_try (lqr_period_update (\<lambda>_. get_long (drop 2 q)))) v;
          v = NAKCI CI_CALLBACK (neg_cbcp go) CILEN_CHAR (neg_cbcp_update (\<lambda>_. True)) (\<lambda>q. on_try (neg_cbcp_update (\<lambda>_. False))) v;
          v = NAKCI CI_MAGICNUMBER (neg_magicnumber go) CILEN_LONG (neg_magicnumber_update (\<lambda>_. True))
                (\<lambda>q v. v\<lparr>n_try := (n_try v)\<lparr>magicnumber := lcp_magic env (n_draws v)\<rparr>, n_looped := True, n_draws := n_draws v + 1\<rparr>) v;
          v = NAKCI CI_PCOMPRESSION (neg_pcompression go) CILEN_VOID (neg_pcompression_update (\<lambda>_. True))
                (\<lambda>q. on_try (neg_pcompression_update (\<lambda>_. False))) v;
          v = NAKCI CI_ACCOMPRESSION (neg_accompression go) CILEN_VOID (neg_accompression_update (\<lambda>_. True))
                (\<lambda>q. on_try (neg_accompression_update (\<lambda>_. False))) v;
          v = NAKCI CI_MRRU (neg_mrru go) CILEN_SHORT (neg_mrru_update (\<lambda>_. True))
                (\<lambda>q. if treat_as_reject then on_try (neg_mrru_update (\<lambda>_. False))
                     else if get_short q \<le> mrru wo then on_try (mrru_update (\<lambda>_. get_short q)) else (\<lambda>v. v)) v;
          v = NAKCI CI_SSNHF (neg_ssnhf go) CILEN_VOID (neg_ssnhf_update (\<lambda>_. True)) (\<lambda>q. on_try (neg_ssnhf_update (\<lambda>_. False))) v
      in NAKCIENDP CI_EPDISC (neg_endpoint go) v)"

text \<open>One turn of the loop over the options that were not asked for: the new options, \<open>None\<close> for \<open>goto bad\<close>.\<close>

definition nak_unasked :: "lcp_options \<Rightarrow> lcp_options \<Rightarrow> u8 \<Rightarrow> nat \<Rightarrow> bytes \<Rightarrow> lcp_options \<Rightarrow> lcp_options option" where
  "nak_unasked go no citype clen q tr =
     (if citype = CI_MRU then
        (if asks_mru go \<or> neg_mru no \<or> clen \<noteq> CILEN_SHORT then None
         else Some (if get_short q < DEFMRU then tr\<lparr>neg_mru := True, mru := get_short q\<rparr> else tr))
      else if citype = CI_ASYNCMAP then
        (if asks_asyncmap go \<or> neg_asyncmap no \<or> clen \<noteq> CILEN_LONG then None else Some tr)
      else if citype = CI_AUTHTYPE then
        (if neg_chap go \<or> neg_chap no \<or> neg_upap go \<or> neg_upap no \<or> neg_eap go \<or> neg_eap no then None else Some tr)
      else if citype = CI_MAGICNUMBER then
        (if neg_magicnumber go \<or> neg_magicnumber no \<or> clen \<noteq> CILEN_LONG then None else Some tr)
      else if citype = CI_PCOMPRESSION then
        (if neg_pcompression go \<or> neg_pcompression no \<or> clen \<noteq> CILEN_VOID then None else Some tr)
      else if citype = CI_ACCOMPRESSION then
        (if neg_accompression go \<or> neg_accompression no \<or> clen \<noteq> CILEN_VOID then None else Some tr)
      else if citype = CI_QUALITY then
        (if neg_lqr go \<or> neg_lqr no \<or> clen \<noteq> CILEN_LQR then None else Some tr)
      else if citype = CI_MRRU then
        (if neg_mrru go \<or> neg_mrru no \<or> clen \<noteq> CILEN_SHORT then None else Some tr)
      else if citype = CI_SSNHF then
        (if neg_ssnhf go \<or> neg_ssnhf no \<or> clen \<noteq> CILEN_VOID then None else Some (tr\<lparr>neg_ssnhf := True\<rparr>))
      else if citype = CI_EPDISC then
        (if neg_endpoint go \<or> neg_endpoint no \<or> clen < CILEN_CHAR then None else Some tr)
      else Some tr)"

function nak_more :: "lcp_options \<Rightarrow> lcp_options \<Rightarrow> bytes \<Rightarrow> lcp_options \<Rightarrow> lcp_options option" where
  "nak_more go no p tr =
     (if length p < CILEN_VOID then Some tr
      else let citype = p ! 0; clen = unat (p ! 1) in
        if clen < CILEN_VOID \<or> length p < clen then None
        else case nak_unasked go no citype clen (take (clen - 2) (drop 2 p)) tr of
          None \<Rightarrow> None
        | Some tr \<Rightarrow> nak_more go no (drop clen p) tr)"
  by pat_completeness auto
termination by (relation "measure (\<lambda>(go, no, p, tr). length p)") (auto simp: cilens)

declare nak_more.simps [simp del]

text \<open>The whole reading of a Nak: what to ask for next, whether the line looks looped back, and how many magic numbers were drawn.
  Numbers are drawn also for a Nak that turns out bad.\<close>

definition lcp_nak_reading :: "lcp_env \<Rightarrow> bytes \<Rightarrow> bool \<Rightarrow> lcp \<Rightarrow> (lcp_options \<times> bool) option \<times> nat" where
  "lcp_nak_reading env p treat_as_reject c =
     (let go = gotoptions c; wo = wantoptions c;
          v = nak_first go wo \<lparr>n_p = p, n_no = zero_options, n_try = go, n_looped = False, n_draws = mdraws c\<rparr>
      in case nak_auth go v of
           None \<Rightarrow> (None, n_draws v)
         | Some v \<Rightarrow>
            (let v = nak_rest env treat_as_reject go wo v
             in (map_option (\<lambda>tr. (tr, n_looped v)) (nak_more go (n_no v) (n_p v) (n_try v)), n_draws v)))"

text \<open>\<open>REJCIVOID\<close> to \<open>REJCIENDP\<close>: the rest of the packet and the new options, \<open>None\<close> for \<open>goto bad\<close>.\<close>

definition REJCI :: "u8 \<Rightarrow> bool \<Rightarrow> nat \<Rightarrow> (bytes \<Rightarrow> bool) \<Rightarrow> (lcp_options \<Rightarrow> lcp_options) \<Rightarrow> bytes \<times> lcp_options \<Rightarrow> (bytes \<times> lcp_options) option" where
  "REJCI opt neg clen same off = (\<lambda>(p, tr).
     if neg \<and> length p \<ge> clen \<and> unat (p ! 1) = clen \<and> p ! 0 = opt
     then if \<not> same (take (clen - 2) (drop 2 p)) then None else Some (drop clen p, off tr)
     else Some (p, tr))"

definition lcp_rej_reading :: "lcp_options \<Rightarrow> bytes \<Rightarrow> (bytes \<times> lcp_options) option" where
  "lcp_rej_reading go p =
     fold (\<lambda>f r. Option.bind r f)
       [REJCI CI_MRU (neg_mru go) CILEN_SHORT (same_short (mru go)) (neg_mru_update (\<lambda>_. False)),
        REJCI CI_ASYNCMAP (neg_asyncmap go) CILEN_LONG (same_long (asyncmap go)) (neg_asyncmap_update (\<lambda>_. False)),
        REJCI CI_AUTHTYPE (neg_eap go) CILEN_SHORT (same_short (uint PPP_EAP)) (neg_eap_update (\<lambda>_. False)),
        REJCI CI_AUTHTYPE (\<not> neg_eap go \<and> neg_chap go) CILEN_CHAP (same_chap (chap_mdtype go))
          (\<lambda>tr. tr\<lparr>neg_chap := False, neg_eap := False, neg_upap := False\<rparr>),
        REJCI CI_AUTHTYPE (\<not> neg_eap go \<and> \<not> neg_chap go \<and> neg_upap go) CILEN_SHORT (same_short (uint PPP_PAP)) (neg_upap_update (\<lambda>_. False)),
        REJCI CI_QUALITY (neg_lqr go) CILEN_LQR (same_lqr (lqr_period go)) (neg_lqr_update (\<lambda>_. False)),
        REJCI CI_CALLBACK (neg_cbcp go) CILEN_CHAR (same_char CBCP_OPT) (neg_cbcp_update (\<lambda>_. False)),
        REJCI CI_MAGICNUMBER (neg_magicnumber go) CILEN_LONG (same_long (magicnumber go)) (neg_magicnumber_update (\<lambda>_. False)),
        REJCI CI_PCOMPRESSION (neg_pcompression go) CILEN_VOID (\<lambda>_. True) (neg_pcompression_update (\<lambda>_. False)),
        REJCI CI_ACCOMPRESSION (neg_accompression go) CILEN_VOID (\<lambda>_. True) (neg_accompression_update (\<lambda>_. False)),
        REJCI CI_MRRU (neg_mrru go) CILEN_SHORT (same_short (mrru go)) (neg_mrru_update (\<lambda>_. False)),
        REJCI CI_SSNHF (neg_ssnhf go) CILEN_VOID (\<lambda>_. True) (neg_ssnhf_update (\<lambda>_. False)),
        REJCI CI_EPDISC (neg_endpoint go) (CILEN_CHAR + length (ep_value (endpoint go))) (same_endp (endpoint go)) (neg_endpoint_update (\<lambda>_. False))]
       (Some (p, go))"

definition lcp_rejci :: "bytes \<Rightarrow> lcp_sys \<Rightarrow> int \<times> lcp_sys" where
  "lcp_rejci p s =
     (case lcp_rej_reading (gotoptions (client s)) p of
        Some ([], tr) \<Rightarrow> (1, if f_state (fsm s) \<noteq> OPENED then on_lcp (gotoptions_update (\<lambda>_. tr)) s else s)
      | _ \<Rightarrow> (0, s))"

section \<open>Requests of the peer\<close>

text \<open>The authentication protocol that is suggested instead, with the preference that the case has.\<close>

definition nak_eap :: bytes where
  "nak_eap = [CI_AUTHTYPE, of_nat CILEN_SHORT] @ be16 (unat PPP_EAP)"

definition nak_pap :: bytes where
  "nak_pap = [CI_AUTHTYPE, of_nat CILEN_SHORT] @ be16 (unat PPP_PAP)"

definition nak_chap :: "lcp_options \<Rightarrow> bytes" where
  "nak_chap ao = [CI_AUTHTYPE, of_nat CILEN_CHAP] @ be16 (unat PPP_CHAP) @ [of_int (CHAP_DIGEST (chap_mdtype ao))]"

text \<open>The verdict on one option: the code, the bytes put into the Nak buffer, and the options of the peer.\<close>

definition reqci_auth :: "lcp_options \<Rightarrow> nat \<Rightarrow> bytes \<Rightarrow> lcp_options \<Rightarrow> u8 \<times> bytes \<times> lcp_options" where
  "reqci_auth ao clen q ho =
     (if clen < CILEN_SHORT \<or> \<not> (neg_upap ao \<or> neg_chap ao \<or> neg_eap ao) then (CONFREJ, [], ho)
      else let cishort = get_short q in
        if cishort = uint PPP_PAP then
          (if neg_chap ho \<or> neg_eap ho \<or> clen \<noteq> CILEN_SHORT then (CONFREJ, [], ho)
           else if \<not> neg_upap ao then (CONFNAK, if neg_eap ao then nak_eap else nak_chap ao, ho)
           else (CONFACK, [], ho\<lparr>neg_upap := True\<rparr>))
        else if cishort = uint PPP_CHAP then
          (if neg_upap ho \<or> neg_eap ho \<or> clen \<noteq> CILEN_CHAP then (CONFREJ, [], ho)
           else if \<not> neg_chap ao then (CONFNAK, if neg_eap ao then nak_eap else nak_pap, ho)
           else let cichar = int (unat (q ! 2)) in
             if \<not> CHAP_CANDIGEST (chap_mdtype ao) cichar then (CONFNAK, nak_chap ao, ho)
             else (CONFACK, [], ho\<lparr>chap_mdtype := CHAP_MDTYPE_D cichar, neg_chap := True\<rparr>))
        else if cishort = uint PPP_EAP then
          (if neg_chap ho \<or> neg_upap ho \<or> clen \<noteq> CILEN_SHORT then (CONFREJ, [], ho)
           else if \<not> neg_eap ao then (CONFNAK, if neg_chap ao then nak_chap ao else nak_pap, ho)
           else (CONFACK, [], ho\<lparr>neg_eap := True\<rparr>))
        else (CONFNAK, if neg_eap ao then nak_eap else if neg_chap ao then nak_chap ao else nak_pap, ho))"

definition reqci_option :: "lcp_env \<Rightarrow> lcp_options \<Rightarrow> lcp_options \<Rightarrow> u8 \<Rightarrow> nat \<Rightarrow> bytes \<Rightarrow> lcp_options \<Rightarrow> nat
    \<Rightarrow> (u8 \<times> bytes \<times> lcp_options) \<times> nat" where
  "reqci_option env go ao citype clen q ho d =
     (if citype = CI_MRU then
        (if \<not> neg_mru ao \<or> clen \<noteq> CILEN_SHORT then (CONFREJ, [], ho)
         else if get_short q < MINMRU then (CONFNAK, ADDCISHORT CI_MRU True MINMRU, ho)
         else (CONFACK, [], ho\<lparr>neg_mru := True, mru := get_short q\<rparr>), d)
      else if citype = CI_ASYNCMAP then
        (if \<not> neg_asyncmap ao \<or> clen \<noteq> CILEN_LONG then (CONFREJ, [], ho)
         else if asyncmap ao AND NOT (get_long q) \<noteq> 0 then (CONFNAK, ADDCILONG CI_ASYNCMAP True (asyncmap ao OR get_long q), ho)
         else (CONFACK, [], ho\<lparr>neg_asyncmap := True, asyncmap := get_long q\<rparr>), d)
      else if citype = CI_AUTHTYPE then (reqci_auth ao clen q ho, d)
      else if citype = CI_QUALITY then
        (if \<not> neg_lqr ao \<or> clen \<noteq> CILEN_LQR then (CONFREJ, [], ho)
         else if get_short q \<noteq> uint PPP_LQR then (CONFNAK, ADDCILQR CI_QUALITY True (lqr_period ao), ho)
         else (CONFACK, [], ho), d)
      else if citype = CI_MAGICNUMBER then
        (if \<not> (neg_magicnumber ao \<or> neg_magicnumber go) \<or> clen \<noteq> CILEN_LONG then ((CONFREJ, [], ho), d)
         else if neg_magicnumber go \<and> get_long q = magicnumber go
         then ((CONFNAK, ADDCILONG CI_MAGICNUMBER True (lcp_magic env d), ho), d + 1)
         else ((CONFACK, [], ho\<lparr>neg_magicnumber := True, magicnumber := get_long q\<rparr>), d))
      else if citype = CI_PCOMPRESSION then
        (if \<not> neg_pcompression ao \<or> clen \<noteq> CILEN_VOID then (CONFREJ, [], ho) else (CONFACK, [], ho\<lparr>neg_pcompression := True\<rparr>), d)
      else if citype = CI_ACCOMPRESSION then
        (if \<not> neg_accompression ao \<or> clen \<noteq> CILEN_VOID then (CONFREJ, [], ho) else (CONFACK, [], ho\<lparr>neg_accompression := True\<rparr>), d)
      else if citype = CI_MRRU then
        (if \<not> neg_mrru ao \<or> \<not> multilink env \<or> clen \<noteq> CILEN_SHORT then (CONFREJ, [], ho)
         else (CONFACK, [], ho\<lparr>neg_mrru := True, mrru := get_short q\<rparr>), d)
      else if citype = CI_SSNHF then
        (if \<not> neg_ssnhf ao \<or> \<not> multilink env \<or> clen \<noteq> CILEN_VOID then (CONFREJ, [], ho) else (CONFACK, [], ho\<lparr>neg_ssnhf := True\<rparr>), d)
      else if citype = CI_EPDISC then
        (if \<not> neg_endpoint ao \<or> clen < CILEN_CHAR \<or> clen > CILEN_CHAR + MAX_ENDP_LEN then (CONFREJ, [], ho)
         else (CONFACK, [], ho\<lparr>neg_endpoint := True, endpoint := \<lparr>ep_class = q ! 0, ep_value = drop 1 q\<rparr>\<rparr>), d)
      else ((CONFREJ, [], ho), d))"

text \<open>The variables of \<open>lcp_reqci\<close>. Rejected options are moved to the front of the packet, over options that have been read: \<open>q_rej\<close> is the
  part of the packet up to \<open>rejp\<close>, \<open>q_nak\<close> that of \<open>nak_buffer\<close> up to \<open>nakp\<close>.\<close>

record req_vars =
  q_rc :: u8
  q_ho :: lcp_options
  q_nak :: bytes
  q_rej :: bytes
  q_draws :: nat

text \<open>What follows \<open>endswitch\<close>.\<close>

definition reqci_tally :: "bool \<Rightarrow> u8 \<Rightarrow> u8 \<Rightarrow> bytes \<Rightarrow> req_vars \<Rightarrow> req_vars" where
  "reqci_tally reject_if_disagree orc citype opt v =
     (if orc = CONFACK \<and> q_rc v \<noteq> CONFACK then v
      else if orc = CONFNAK \<and> \<not> (reject_if_disagree \<and> citype \<noteq> CI_MAGICNUMBER)
      then (if q_rc v = CONFREJ then v else v\<lparr>q_rc := CONFNAK\<rparr>)
      else if orc = CONFNAK \<or> orc = CONFREJ then v\<lparr>q_rc := CONFREJ, q_rej := q_rej v @ opt\<rparr>
      else v)"

function reqci_loop :: "lcp_env \<Rightarrow> lcp_options \<Rightarrow> lcp_options \<Rightarrow> bool \<Rightarrow> bytes \<Rightarrow> req_vars \<Rightarrow> req_vars" where
  "reqci_loop env go ao rej p v =
     (if p = [] then v
      else if length p < 2 \<or> unat (p ! 1) < 2 \<or> unat (p ! 1) > length p then reqci_tally rej CONFREJ 0 p v
      else let citype = p ! 0; clen = unat (p ! 1);
               ((orc, nak, ho), d) = reqci_option env go ao citype clen (take (clen - 2) (drop 2 p)) (q_ho v) (q_draws v);
               v = v\<lparr>q_ho := ho, q_nak := q_nak v @ nak, q_draws := d\<rparr>
           in reqci_loop env go ao rej (drop clen p) (reqci_tally rej orc citype (take clen p) v))"
  by pat_completeness auto
termination by (relation "measure (\<lambda>(env, go, ao, rej, p, v). length p)") auto

declare reqci_loop.simps [simp del]

definition lcp_reqci :: "lcp_env \<Rightarrow> bytes \<Rightarrow> bool \<Rightarrow> lcp_sys \<Rightarrow> u8 \<times> bytes \<times> lcp_sys" where
  "lcp_reqci env inp reject_if_disagree s =
     (let c = client s;
          v = reqci_loop env (gotoptions c) (allowoptions c) reject_if_disagree inp
                \<lparr>q_rc = CONFACK, q_ho = zero_options, q_nak = [], q_rej = [], q_draws = mdraws c\<rparr>
      in (q_rc v, if q_rc v = CONFACK then inp else if q_rc v = CONFNAK then q_nak v else q_rej v,
          s\<lparr>client := c\<lparr>hisoptions := q_ho v, mdraws := q_draws v\<rparr>\<rparr>))"

section \<open>Going down\<close>

definition ppp_send_config :: "int \<Rightarrow> u32 \<Rightarrow> bool \<Rightarrow> bool \<Rightarrow> lcp_sys \<Rightarrow> lcp_sys" where
  "ppp_send_config mtu accm pcomp accomp = lcp_call [Send_config mtu accm pcomp accomp]"

definition ppp_recv_config :: "int \<Rightarrow> u32 \<Rightarrow> bool \<Rightarrow> bool \<Rightarrow> lcp_sys \<Rightarrow> lcp_sys" where
  "ppp_recv_config m accm pcomp accomp = lcp_call [Recv_config m accm pcomp accomp]"

definition lcp_echo_lowerdown :: "lcp_sys \<Rightarrow> lcp_sys" where
  "lcp_echo_lowerdown = on_lcp (\<lambda>c. if lcp_echo_timer_running c
     then c\<lparr>echo_timers := echo_timers c - 1, lcp_echo_timer_running := False\<rparr> else c)"

definition lcp_down :: "lcp_env \<Rightarrow> lcp_sys \<Rightarrow> lcp_sys" where
  "lcp_down env s =
     (let s = lcp_echo_lowerdown s;
          s = on_link (link_do (lenv env (client s)) L_down) s;
          s = ppp_send_config PPP_MRU 0xffffffff False False s;
          go = gotoptions (client s);
          s = ppp_recv_config PPP_MRU (if neg_asyncmap go then asyncmap go else 0xffffffff) (neg_pcompression go) (neg_accompression go) s
      in set_peer_mru PPP_MRU s)"

text \<open>\<open>link_required\<close> is empty.\<close>

definition lcp_starting :: "lcp_sys \<Rightarrow> lcp_sys" where
  "lcp_starting s = s"

definition no_callbacks :: "'c fsm_callbacks" where
  "no_callbacks = \<lparr>resetci = None, cilen = None, addci = None, ackci = None, nakci = None, rejci = None, reqci = None, up = None,
     down = None, starting = None, finished = None, retransmit = None, extcode = None\<rparr>"

definition down_callbacks :: "lcp_env \<Rightarrow> lcp fsm_callbacks" where
  "down_callbacks env = no_callbacks\<lparr>down := Some (lcp_down env), starting := Some lcp_starting\<rparr>"

text \<open>\<open>untimeout(lcp_delayed_up, f)\<close>.\<close>

definition undelay :: "lcp_sys \<Rightarrow> lcp_sys" where
  "undelay = on_lcp (\<lambda>c. c\<lparr>delayed_timers := delayed_timers c - 1\<rparr>)"

definition lcp_lowerdown :: "lcp_env \<Rightarrow> lcp_sys \<Rightarrow> lcp_sys" where
  "lcp_lowerdown env s =
     (if has_flag DELAYED_UP s then undelay (clear_flag DELAYED_UP s)
      else fsm_lowerdown (down_callbacks env) s)"

text \<open>\<open>link_terminated\<close>: what comes before and after the lower layer is taken down.\<close>

definition release_ppp :: "lcp_env \<Rightarrow> lcp_sys \<Rightarrow> lcp_sys" where
  "release_ppp env s =
     (let s = on_link (new_phase PHASE_DISCONNECT) s;
          s = lcp_call ((if pap_logout_hook env then [Logout_hook] else []) @ [Session_end]) s
      in if ppp_open (client s) then on_lcp (ppp_open_update (\<lambda>_. False)) (lcp_call [Disestablish_ppp] s) else s)"

definition release_device :: "lcp_env \<Rightarrow> lcp_sys \<Rightarrow> lcp_sys" where
  "release_device env s =
     (let s = (if dev_open (client s) \<and> has_disconnect env then on_lcp (dev_open_update (\<lambda>_. False)) (lcp_call [Disconnect] s) else s);
          s = (if has_cleanup env then lcp_call [Cleanup] s else s)
      in on_link (new_phase PHASE_DEAD) s)"

definition link_terminated :: "lcp_env \<Rightarrow> lcp_sys \<Rightarrow> lcp_sys" where
  "link_terminated env s =
     (if l_phase (lnk (client s)) = PHASE_DEAD \<or> l_phase (lnk (client s)) = PHASE_MASTER then s
      else let s = release_ppp env s
           in release_device env (if \<not> hungup (client s) then lcp_lowerdown env s else s))"

definition lcp_finished :: "lcp_env \<Rightarrow> lcp_sys \<Rightarrow> lcp_sys" where
  "lcp_finished env s = link_terminated env s"

definition close_callbacks :: "lcp_env \<Rightarrow> lcp fsm_callbacks" where
  "close_callbacks env = (down_callbacks env)\<lparr>finished := Some (lcp_finished env)\<rparr>"

text \<open>\<open>lcp_close\<close>: the phase first, which the link has set already when it was the link that closed.\<close>

definition close_fsm :: "lcp_env \<Rightarrow> string \<Rightarrow> lcp_sys \<Rightarrow> lcp_sys" where
  "close_fsm env reason s =
     (let s = (if has_flag DELAYED_UP s then goto STOPPED (undelay s) else s);
          oldstate = f_state (fsm s);
          s = fsm_close (close_callbacks env) (map of_char reason) s
      in if oldstate = STOPPED \<and> has_flag (OPT_PASSIVE OR OPT_SILENT OR DELAYED_UP) s
         then lcp_finished env (clear_flag DELAYED_UP s) else s)"

definition lcp_close :: "lcp_env \<Rightarrow> string \<Rightarrow> lcp_sys \<Rightarrow> lcp_sys" where
  "lcp_close env reason s = close_fsm env reason (on_link terminating s)"

text \<open>An operation of the link, and the closing of LCP that it asked for.\<close>

definition run_link :: "lcp_env \<Rightarrow> link_event \<Rightarrow> lcp_sys \<Rightarrow> lcp_sys" where
  "run_link env e s =
     (let l = link_do (lenv env (client s)) e (lnk (client s));
          rs = drop (length (close_reasons (lnk (client s)))) (close_reasons l)
      in fold (close_fsm env) rs (on_link (\<lambda>_. l) s))"

section \<open>Echo\<close>

definition LcpLinkFailure :: "lcp_env \<Rightarrow> lcp_sys \<Rightarrow> lcp_sys" where
  "LcpLinkFailure env s =
     (if f_state (fsm s) = OPENED
      then lcp_close env ''Peer not responding'' (on_link (l_status_update (\<lambda>_. EXIT_PEER_DEAD)) s) else s)"

definition LcpSendEchoRequest :: "lcp_env \<Rightarrow> lcp_sys \<Rightarrow> lcp_sys" where
  "LcpSendEchoRequest env s =
     (let s = (if lcp_echo_fails env \<noteq> 0 \<and> lcp_echos_pending (client s) \<ge> lcp_echo_fails env
               then on_lcp (lcp_echos_pending_update (\<lambda>_. 0)) (LcpLinkFailure env s) else s)
      in if f_state (fsm s) = OPENED
         then let c = client s;
                  s = fsm_sdata ECHOREQ (of_int (lcp_echo_number c)) (put_long (magicnumber (gotoptions c))) s
              in on_lcp (\<lambda>c. c\<lparr>lcp_echo_number := lcp_echo_number c + 1, lcp_echos_pending := lcp_echos_pending c + 1\<rparr>) s
         else s)"

definition LcpEchoCheck :: "lcp_env \<Rightarrow> lcp_sys \<Rightarrow> lcp_sys" where
  "LcpEchoCheck env s =
     (let s = LcpSendEchoRequest env s
      in if f_state (fsm s) \<noteq> OPENED then s
         else on_lcp (\<lambda>c. c\<lparr>echo_timers := echo_timers c + 1, lcp_echo_timer_running := True\<rparr>) s)"

definition LcpEchoTimeout :: "lcp_env \<Rightarrow> lcp_sys \<Rightarrow> lcp_sys" where
  "LcpEchoTimeout env s =
     (if lcp_echo_timer_running (client s)
      then LcpEchoCheck env (on_lcp (lcp_echo_timer_running_update (\<lambda>_. False)) s) else s)"

definition lcp_received_echo_reply :: "bytes \<Rightarrow> lcp_sys \<Rightarrow> lcp_sys" where
  "lcp_received_echo_reply inp s =
     (let go = gotoptions (client s) in
      if length inp < 4 then s
      else if neg_magicnumber go \<and> get_long inp = magicnumber go then s
      else on_lcp (lcp_echos_pending_update (\<lambda>_. 0)) s)"

definition lcp_echo_lowerup :: "lcp_env \<Rightarrow> lcp_sys \<Rightarrow> lcp_sys" where
  "lcp_echo_lowerup env s =
     (let s = on_lcp (\<lambda>c. c\<lparr>lcp_echos_pending := 0, lcp_echo_number := 0, lcp_echo_timer_running := False\<rparr>) s
      in if lcp_echo_interval env \<noteq> 0 then LcpEchoCheck env s else s)"

section \<open>Nak, packets of LCP only, coming up\<close>

definition lcp_nakci :: "lcp_env \<Rightarrow> bytes \<Rightarrow> bool \<Rightarrow> lcp_sys \<Rightarrow> int \<times> lcp_sys" where
  "lcp_nakci env p treat_as_reject s =
     (let (r, d) = lcp_nak_reading env p treat_as_reject (client s);
          s = on_lcp (mdraws_update (\<lambda>_. d)) s
      in case r of
           None \<Rightarrow> (0, s)
         | Some (tr, looped_back) \<Rightarrow>
            (1, if f_state (fsm s) = OPENED then s
                else let tr = tr\<lparr>numloops := if looped_back then numloops tr + 1 else 0\<rparr>;
                         s = (if looped_back \<and> numloops tr \<ge> lcp_loopbackfail env
                              then lcp_close env ''Loopback detected'' (on_link (l_status_update (\<lambda>_. EXIT_LOOPBACK)) s) else s)
                     in on_lcp (gotoptions_update (\<lambda>_. tr)) s))"

definition lcp_protrej :: "lcp_env \<Rightarrow> lcp_sys \<Rightarrow> lcp_sys" where
  "lcp_protrej env s = fsm_protreject (close_callbacks env) s"

text \<open>\<open>lcp_rprotrej\<close>: the first enabled protocol with the number. LCP, PAP and CHAP are always enabled and come first.\<close>

definition lcp_rprotrej :: "lcp_env \<Rightarrow> bytes \<Rightarrow> lcp_sys \<Rightarrow> lcp_sys" where
  "lcp_rprotrej env inp s =
     (if length inp < 2 then s
      else let p = word_of_int (get_short inp) in
        if f_state (fsm s) \<noteq> OPENED then s
        else if p = PPP_LCP then lcp_protrej env s
        else if p = PPP_PAP then run_link env (L_pap Pap_protrej) s
        else if p = PPP_CHAP then run_link env (L_chap Chap_protrej) s
        else if \<exists>e\<in>set (protocols (link_cfg env)). prot e = p \<and> enabled_flag e then lcp_call [Protrej p] s
        else s)"

definition lcp_sprotrej :: "bytes \<Rightarrow> lcp_sys \<Rightarrow> lcp_sys" where
  "lcp_sprotrej p s =
     (let s = upd (\<lambda>f. f\<lparr>id := id f + 1\<rparr>) s
      in fsm_sdata PROTREJ (id (fsm s)) (drop 2 p) s)"

text \<open>The magic number is put over the first four bytes of the request, of which \<open>len\<close> bytes are sent back.\<close>

definition lcp_extcode :: "lcp_env \<Rightarrow> u8 \<Rightarrow> u8 \<Rightarrow> bytes \<Rightarrow> lcp_sys \<Rightarrow> bool \<times> lcp_sys" where
  "lcp_extcode env code pid inp s =
     (if code = PROTREJ then (True, lcp_rprotrej env inp s)
      else if code = ECHOREQ then
        (True, if f_state (fsm s) \<noteq> OPENED then s
               else fsm_sdata ECHOREP pid (take (length inp) (put_long (magicnumber (gotoptions (client s)))) @ drop 4 inp) s)
      else if code = ECHOREP then (True, lcp_received_echo_reply inp s)
      else if code = DISCREQ \<or> code = IDENTIF \<or> code = TIMEREM then (True, s)
      else (False, s))"

definition lcp_configure :: "lcp_env \<Rightarrow> lcp_sys \<Rightarrow> lcp_sys" where
  "lcp_configure env s =
     (let wo = wantoptions (client s); ho = hisoptions (client s); go = gotoptions (client s); ao = allowoptions (client s);
          mtu = (if neg_mru ho then mru ho else PPP_MRU);
          m = (if neg_mru go then max (mru wo) (mru go) else PPP_MRU);
          s = lcp_call [Netif_set_mtu (min (min mtu m) (mru ao))] s;
          s = ppp_send_config mtu (if neg_asyncmap ho then asyncmap ho else 0xffffffff) (neg_pcompression ho) (neg_accompression ho) s;
          s = ppp_recv_config m (if lax_recv env then 0 else if neg_asyncmap go then asyncmap go else 0xffffffff)
                (neg_pcompression go) (neg_accompression go) s
      in if neg_mru ho then set_peer_mru (mru ho) s else s)"

definition lcp_up :: "lcp_env \<Rightarrow> lcp_sys \<Rightarrow> lcp_sys" where
  "lcp_up env s =
     (let s = on_lcp (\<lambda>c. c\<lparr>gotoptions := (if \<not> neg_magicnumber (gotoptions c) then (gotoptions c)\<lparr>magicnumber := 0\<rparr> else gotoptions c),
                hisoptions := (if \<not> neg_magicnumber (hisoptions c) then (hisoptions c)\<lparr>magicnumber := 0\<rparr> else hisoptions c)\<rparr>) s;
          s = lcp_configure env s;
          s = lcp_echo_lowerup env s
      in run_link env L_established s)"

definition lcp_callbacks :: "lcp_env \<Rightarrow> lcp fsm_callbacks" where
  "lcp_callbacks env = (close_callbacks env)\<lparr>resetci := Some (lcp_resetci env), cilen := Some lcp_cilen, addci := Some lcp_addci,
     ackci := Some lcp_ackci, nakci := Some (lcp_nakci env), rejci := Some lcp_rejci, reqci := Some (lcp_reqci env),
     up := Some (lcp_up env), extcode := Some (lcp_extcode env)\<rparr>"

section \<open>Entry points\<close>

definition lcp_init :: "lcp_sys \<Rightarrow> lcp_sys" where
  "lcp_init s =
     (let s = fsm_init (upd (\<lambda>f. f\<lparr>unit := 0, protocol := PPP_LCP\<rparr>) s)
      in on_lcp (\<lambda>c. c\<lparr>wantoptions := zero_options\<lparr>neg_mru := True, mru := DEFMRU, neg_asyncmap := True, neg_magicnumber := True,
             neg_pcompression := True, neg_accompression := True\<rparr>,
           allowoptions := zero_options\<lparr>neg_mru := True, mru := MAXMRU, neg_asyncmap := True, neg_chap := True, chap_mdtype := MDTYPE_ALL,
             neg_upap := True, neg_eap := True, neg_magicnumber := True, neg_pcompression := True, neg_accompression := True,
             neg_endpoint := True\<rparr>\<rparr>) s)"

definition lcp_open :: "lcp_env \<Rightarrow> lcp_sys \<Rightarrow> lcp_sys" where
  "lcp_open env s =
     (let s = clear_flag (OPT_PASSIVE OR OPT_SILENT) s;
          s = (if opt_passive (wantoptions (client s)) then set_flag OPT_PASSIVE s else s);
          s = (if opt_silent (wantoptions (client s)) then set_flag OPT_SILENT s else s)
      in fsm_open (lcp_callbacks env) s)"

definition lcp_lowerup :: "lcp_env \<Rightarrow> lcp_sys \<Rightarrow> lcp_sys" where
  "lcp_lowerup env s =
     (let s = ppp_send_config PPP_MRU 0xffffffff False False s in
      if \<not> send_config_ok env (lcp_calls (client s)) then s
      else let wo = wantoptions (client s);
               s = ppp_recv_config PPP_MRU (if lax_recv env then 0 else 0xffffffff) (neg_pcompression wo) (neg_accompression wo) s in
        if \<not> recv_config_ok env (lcp_calls (client s)) then s
        else let s = set_peer_mru PPP_MRU s in
          if listen_time env \<noteq> 0 then on_lcp (\<lambda>c. c\<lparr>delayed_timers := delayed_timers c + 1\<rparr>) (set_flag DELAYED_UP s)
          else fsm_lowerup (lcp_callbacks env) s)"

definition lcp_delayed_up :: "lcp_env \<Rightarrow> lcp_sys \<Rightarrow> lcp_sys" where
  "lcp_delayed_up env s =
     (if has_flag DELAYED_UP s then fsm_lowerup (lcp_callbacks env) (clear_flag DELAYED_UP s) else s)"

definition lcp_input :: "lcp_env \<Rightarrow> bytes \<Rightarrow> lcp_sys \<Rightarrow> lcp_sys" where
  "lcp_input env p s =
     (let s = (if has_flag DELAYED_UP s then fsm_lowerup (lcp_callbacks env) (undelay (clear_flag DELAYED_UP s)) else s)
      in fsm_input (lcp_callbacks env) p s)"

text \<open>\<open>start_link\<close>, given whether the channel can be connected and whether PPP can be established on it.\<close>

definition set_status :: "int \<Rightarrow> lcp_sys \<Rightarrow> lcp_sys" where
  "set_status n = on_link (l_status_update (\<lambda>_. n))"

definition link_fail :: "lcp_env \<Rightarrow> lcp_sys \<Rightarrow> lcp_sys" where
  "link_fail env s =
     (let s = on_link (new_phase PHASE_DEAD) s in if has_cleanup env then lcp_call [Cleanup] s else s)"

definition start_link :: "lcp_env \<Rightarrow> bool \<Rightarrow> bool \<Rightarrow> lcp_sys \<Rightarrow> lcp_sys" where
  "start_link env connects establishes s =
     (let s = on_link (new_phase PHASE_SERIALCONN) (set_status EXIT_CONNECT_FAILED s);
          s = lcp_call [Connect] (on_lcp (hungup_update (\<lambda>_. False)) s);
          s = on_lcp (dev_open_update (\<lambda>_. connects)) s
      in if \<not> connects then link_fail env s
         else let s = lcp_call [Establish_ppp] (on_lcp (ppp_open_update (\<lambda>_. establishes)) s) in
           if \<not> establishes
           then let s = on_link (new_phase PHASE_DISCONNECT) (set_status EXIT_FATAL_ERROR s);
                    s = (if has_disconnect env then lcp_call [Disconnect] s else s)
                in link_fail env s
           else lcp_lowerup env (on_link (new_phase PHASE_ESTABLISH) (set_status EXIT_NEGOTIATION_FAILED s)))"

text \<open>\<open>get_input\<close>: an empty packet is the end of the line.\<close>

definition up_to_authenticate :: "phase \<Rightarrow> bool" where
  "up_to_authenticate p = (p \<in> {PHASE_DEAD, PHASE_INITIALIZE, PHASE_SERIALCONN, PHASE_DORMANT, PHASE_ESTABLISH, PHASE_AUTHENTICATE})"

fun find_input :: "lcp_env \<Rightarrow> u16 \<Rightarrow> bytes \<Rightarrow> protent list \<Rightarrow> lcp_action option" where
  "find_input env p bs [] = None"
| "find_input env p bs (e # es) =
     (if prot e = p \<and> enabled_flag e then Some (Proto_input p bs)
      else if p = prot e AND NOT 0x8000 \<and> enabled_flag e \<and> has_datainput env (prot e) then Some (Proto_datainput p bs)
      else find_input env p bs es)"

definition dispatch :: "lcp_env \<Rightarrow> bytes \<Rightarrow> lcp_sys \<Rightarrow> lcp_sys" where
  "dispatch env pkt s =
     (let p = word_of_int (get_short (drop 2 pkt)); bs = drop 4 pkt in
      if p \<noteq> PPP_LCP \<and> f_state (fsm s) \<noteq> OPENED then s
      else if up_to_authenticate (l_phase (lnk (client s))) \<and> p \<notin> {PPP_LCP, PPP_LQR, PPP_PAP, PPP_CHAP, PPP_EAP} then s
      else if p = PPP_LCP then lcp_input env bs s
      else if p = PPP_PAP then run_link env (L_pap (Pap_input bs)) s
      else if p = PPP_CHAP then run_link env (L_chap (Chap_input bs)) s
      else case find_input env p bs (protocols (link_cfg env)) of
        Some k \<Rightarrow> lcp_call [k] s
      | None \<Rightarrow> lcp_sprotrej pkt s)"

definition get_input :: "lcp_env \<Rightarrow> bytes \<Rightarrow> lcp_sys \<Rightarrow> lcp_sys" where
  "get_input env pkt s =
     (if pkt = [] then link_terminated env (lcp_lowerdown env (set_status EXIT_HANGUP (on_lcp (hungup_update (\<lambda>_. True)) s)))
      else if length pkt < PPP_HDRLEN then s
      else dispatch env pkt s)"

section \<open>Printing\<close>

definition lcp_codenames :: "string list" where
  "lcp_codenames = [''ConfReq'', ''ConfAck'', ''ConfNak'', ''ConfRej'', ''TermReq'', ''TermAck'', ''CodeRej'', ''ProtRej'', ''EchoReq'', ''EchoRep'',
     ''DiscReq'', ''Ident'', ''TimeRem'']"

text \<open>One option, \<open>ci\<close> with its type and length: what is printed for it, and the part that is left for the loop over the rest of the option.
  Where the length is wrong, and for the endpoint, nothing of the option has been taken.\<close>

definition print_auth :: "bytes \<Rightarrow> string list \<times> bytes" where
  "print_auth q =
     (let cishort = get_short q; r = drop 2 q in
      if cishort = uint PPP_PAP then ([''pap''], r)
      else if cishort = uint PPP_CHAP then
        (if r = [] then ([''chap''], r)
         else if uint (hd r) = CHAP_MD5 then ([''chap'', '' MD5''], tl r)
         else if uint (hd r) = CHAP_MICROSOFT then ([''chap'', '' MS''], tl r)
         else if uint (hd r) = CHAP_MICROSOFT_V2 then ([''chap'', '' MS-v2''], tl r)
         else ([''chap''], r))
      else if cishort = uint PPP_EAP then ([''eap''], r)
      else ([''0x'' @ numeral_text 16 (nat cishort)], r))"

definition lcp_print_option :: "bytes \<Rightarrow> string list \<times> bytes" where
  "lcp_print_option ci =
     (let citype = ci ! 0; olen = length ci; q = drop 2 ci; r = drop 4 ci in
      if citype = CI_MRU \<and> olen = CILEN_SHORT then ([''mru '' @ dec (get_short q)], r)
      else if citype = CI_ASYNCMAP \<and> olen = CILEN_LONG then ([''asyncmap 0x'' @ numeral_text 16 (unat (get_long q))], drop 4 q)
      else if citype = CI_AUTHTYPE \<and> olen \<ge> CILEN_SHORT then (let (t, r) = print_auth q in (''auth '' # t, r))
      else if citype = CI_QUALITY \<and> olen \<ge> CILEN_SHORT
      then ([''quality '', if get_short q = uint PPP_LQR then ''lqr'' else ''0x'' @ numeral_text 16 (nat (get_short q))], r)
      else if citype = CI_CALLBACK \<and> olen \<ge> CILEN_CHAR
      then ([''callback '', if q ! 0 = CBCP_OPT then ''CBCP'' else ''0x'' @ numeral_text 16 (unat (q ! 0))], drop 1 q)
      else if citype = CI_MAGICNUMBER \<and> olen = CILEN_LONG then ([''magic 0x'' @ numeral_text 16 (unat (get_long q))], drop 4 q)
      else if citype = CI_PCOMPRESSION \<and> olen = CILEN_VOID then ([''pcomp''], q)
      else if citype = CI_ACCOMPRESSION \<and> olen = CILEN_VOID then ([''accomp''], q)
      else if citype = CI_MRRU \<and> olen = CILEN_SHORT then ([''mrru '' @ dec (get_short q)], r)
      else if citype = CI_SSNHF \<and> olen = CILEN_VOID then ([''ssnhf''], q)
      else if citype = CI_EPDISC then ([''endpoint''], ci)
      else ([], ci))"

function lcp_print_cis :: "bytes \<Rightarrow> string list \<times> bytes" where
  "lcp_print_cis p =
     (if length p < 2 then ([], p)
      else let olen = unat (p ! 1) in
        if olen < 2 \<or> olen > length p then ([], p)
        else let (t, r) = lcp_print_option (take olen p); (ts, rest) = lcp_print_cis (drop olen p)
             in ([CHR 0x20 # ''<''] @ t @ print_rest r @ [''>''] @ ts, rest))"
  by pat_completeness auto
termination by (relation "measure length") auto

declare lcp_print_cis.simps [simp del]

definition print_magic :: "bytes \<Rightarrow> string list \<times> bytes" where
  "print_magic p = (if length p \<ge> 4 then (['' magic=0x'' @ numeral_text 16 (unat (get_long p))], drop 4 p) else ([], p))"

definition print_message :: "bytes \<Rightarrow> string list \<times> bytes" where
  "print_message p = (if p \<noteq> [] then ([CHR 0x20] # print_string p, []) else ([], p))"

definition lcp_print_body :: "u8 \<Rightarrow> bytes \<Rightarrow> string list \<times> bytes" where
  "lcp_print_body code inp =
     (if code \<in> {CONFREQ, CONFACK, CONFNAK, CONFREJ} then lcp_print_cis inp
      else if code \<in> {TERMACK, TERMREQ} then (if inp \<noteq> [] \<and> hd inp \<ge> 0x20 \<and> hd inp < 0x7f then print_message inp else ([], inp))
      else if code \<in> {ECHOREQ, ECHOREP, DISCREQ} then print_magic inp
      else if code \<in> {IDENTIF, TIMEREM} then
        (let (t, r) = print_magic inp in
         if code = TIMEREM \<and> length r < 4 then (t, r)
         else let (u, r) = (if code = TIMEREM then (['' seconds='' @ numeral_text 10 (unat (get_long r))], drop 4 r) else ([], r));
                  (v, r) = print_message r
              in (t @ u @ v, r))
      else ([], inp))"

text \<open>At most 32 bytes of what is left are printed.\<close>

definition lcp_printpkt :: "bytes \<Rightarrow> nat \<times> string list" where
  "lcp_printpkt p =
     (case parse_header p of
        None \<Rightarrow> (0, [])
      | Some (code, pid, inp) \<Rightarrow>
         (let (t, rest) = lcp_print_body code inp
          in (HEADERLEN + (length inp - length rest) + length rest,
              print_code lcp_codenames code pid @ t @ print_rest (take 32 rest) @ (if length rest > 32 then ['' ...''] else []))))"

section \<open>Steps\<close>

text \<open>What happens to a link: the main loop starts it when it is dead, packets come in, timeouts fire, LCP is closed from outside
  (signals, limits), the other protocols report. A callout that fires is no longer pending. The timeouts of PAP and CHAP run in any
  state; EAP works only on packets that the open link lets through; the network protocols come up and go down only after they have
  been opened.\<close>

datatype lcp_event = Run bool bool | Closed_by string | Packet bytes | Fsm_timer | Delayed_timer | Echo_timer
  | Chap_timer | Pap_timer | Pap_req_timer | Eap_report auth_report | Np_is_up | Np_is_down | Np_is_finished | Script_is_done

definition idle :: "phase \<Rightarrow> bool" where
  "idle p = (p \<in> {PHASE_DEAD, PHASE_INITIALIZE, PHASE_DORMANT, PHASE_HOLDOFF})"

definition networking :: "lcp_sys \<Rightarrow> bool" where
  "networking s = (f_state (fsm s) = OPENED \<and> l_phase (lnk (client s)) \<in> {PHASE_NETWORK, PHASE_RUNNING})"

fun lcp_do :: "lcp_env \<Rightarrow> lcp_event \<Rightarrow> lcp_sys \<Rightarrow> lcp_sys" where
  "lcp_do env (Run connects establishes) s =
     (if idle (l_phase (lnk (client s))) then start_link env connects establishes (lcp_open env s) else s)"
| "lcp_do env (Closed_by reason) s = lcp_close env reason s"
| "lcp_do env (Packet p) s = get_input env p s"
| "lcp_do env Fsm_timer s = timer_fires (lcp_callbacks env) s"
| "lcp_do env Delayed_timer s = (if delayed_timers (client s) = 0 then s else lcp_delayed_up env (undelay s))"
| "lcp_do env Echo_timer s =
     (if echo_timers (client s) = 0 then s else LcpEchoTimeout env (on_lcp (\<lambda>c. c\<lparr>echo_timers := echo_timers c - 1\<rparr>) s))"
| "lcp_do env Chap_timer s = run_link env (L_chap Chap_timeout) s"
| "lcp_do env Pap_timer s = run_link env (L_pap Pap_timeout) s"
| "lcp_do env Pap_req_timer s = run_link env (L_pap Pap_reqtimeout) s"
| "lcp_do env (Eap_report r) s = (if f_state (fsm s) = OPENED then run_link env (L_eap r) s else s)"
| "lcp_do env Np_is_up s = (if networking s then run_link env L_np_up s else s)"
| "lcp_do env Np_is_down s = (if networking s then run_link env L_np_down s else s)"
| "lcp_do env Np_is_finished s = (if networking s then run_link env L_np_finished s else s)"
| "lcp_do env Script_is_done s = run_link env L_script_done s"

end
