(* ===== verification/Ppp_Link_Proofs.thy ===== *)
theory Ppp_Link_Proofs
  imports Ppp_Lcp
begin

text \<open>
  What the operations of the link (\<^verbatim>\<open>Ppp_Link\<close>) promise to LCP: they close LCP or leave it open, and an open link is in the phase that
  its authentication is in.
\<close>

section \<open>The link\<close>

text \<open>The bit of the protocol with which the peer has to authenticate itself.\<close>

definition peer_need :: "auth_options \<Rightarrow> u32" where
  "peer_need go = (if neg_eap go then EAP_PEER else if neg_chap go then CHAP_PEER else if neg_upap go then PAP_PEER else 0)"

text \<open>An open link waits for authentication as long as some is pending, and networks run only then; the peer's own is pending or
  done; there is one if it is required, up to the exceptions that the configuration makes.\<close>

definition auth_ok :: "link_env \<Rightarrow> link_sys \<Rightarrow> bool" where
  "auth_ok e l \<longleftrightarrow>
     (if auth_pending l = 0 then l_phase l \<in> {PHASE_NETWORK, PHASE_RUNNING} else l_phase l = PHASE_AUTHENTICATE) \<and>
     peer_need (go_opts e) AND NOT (auth_pending l OR auth_done l) = 0 \<and>
     (auth_required e \<longrightarrow> peer_need (go_opts e) \<noteq> 0 \<or> noauth_addrs e \<or> wo_neg_upap e \<and> \<not> uselogin e \<and> null_login e)"

text \<open>What every operation of the link but its start and end does: it closes LCP or leaves it as it is, and keeps \<open>auth_ok\<close>.\<close>

definition sound :: "link_env \<Rightarrow> link_sys \<Rightarrow> link_sys \<Rightarrow> bool" where
  "sound e l l' \<longleftrightarrow>
     (\<exists>rs. close_reasons l' = close_reasons l @ rs \<and> (lcp_is_open l' \<longleftrightarrow> lcp_is_open l \<and> rs = [])) \<and>
     (idle (l_phase l') \<longrightarrow> idle (l_phase l)) \<and> (lcp_is_open l' \<longrightarrow> auth_ok e l \<longrightarrow> auth_ok e l')"

lemma sound_refl [simp]: "sound e l l"
  by (simp add: sound_def)

lemma sound_trans: "sound e l l' \<Longrightarrow> sound e l' l'' \<Longrightarrow> sound e l l''"
  by (fastforce simp: sound_def)

lemma phase_sel [simp]: "l_phase (new_phase p l) = p" "close_reasons (new_phase p l) = close_reasons l" "auth_done (new_phase p l) = auth_done l"
    "l_phase (call cs l) = l_phase l" "close_reasons (call cs l) = close_reasons l"
    "l_phase (auth_script e b l) = l_phase l" "close_reasons (auth_script e b l) = close_reasons l" "lcp_is_open (auth_script e b l) = lcp_is_open l"
    "auth_done (auth_script e b l) = auth_done l"
  by (simp_all add: new_phase_def call_def auth_script_def)

lemma idle_simps [simp]: "idle PHASE_DEAD" "\<not> idle PHASE_ESTABLISH" "\<not> idle PHASE_TERMINATE" "\<not> idle PHASE_NETWORK" "\<not> idle PHASE_RUNNING"
    "\<not> idle PHASE_AUTHENTICATE" "\<not> idle PHASE_DISCONNECT" "\<not> idle PHASE_SERIALCONN"
  by (simp_all add: idle_def)

lemma link_down_sel [simp]: "lcp_is_open (link_down e who l) = lcp_is_open l" "close_reasons (link_down e who l) = close_reasons l"
  by (auto simp: link_down_def upper_layers_down_def Let_def)

lemma link_down_idle: "idle (l_phase (link_down e who l)) \<Longrightarrow> idle (l_phase l)"
  by (auto simp: link_down_def upper_layers_down_def Let_def split: if_splits)

lemma terminating_sel [simp]: "lcp_is_open (terminating l) = lcp_is_open l" "close_reasons (terminating l) = close_reasons l"
    "auth_pending (terminating l) = auth_pending l" "lcalls (terminating l) = lcalls l"
  by (auto simp: terminating_def)

lemma terminating_idle: "idle (l_phase (terminating l)) \<Longrightarrow> idle (l_phase l)"
  by (auto simp: terminating_def split: if_splits)

lemma close_link_sel [simp]: "close_reasons (close_link e who r l) = close_reasons l @ [r]" "\<not> lcp_is_open (close_link e who r l)"
  by (auto simp: close_link_def Let_def)

lemma close_link_idle: "idle (l_phase (close_link e who r l)) \<Longrightarrow> idle (l_phase l)"
  by (auto simp: close_link_def Let_def split: if_splits dest!: link_down_idle terminating_idle)

lemma close_link_sound: "sound e l (close_link e who r l)"
  using close_link_idle by (simp add: sound_def)

lemma auth_ok_cong:
  "l_phase m = l_phase l \<Longrightarrow> auth_pending m = auth_pending l \<Longrightarrow> auth_done m = auth_done l \<Longrightarrow> auth_ok e m \<longleftrightarrow> auth_ok e l"
  by (simp add: auth_ok_def)

lemma sound_from:
  "sound e m l' \<Longrightarrow> close_reasons m = close_reasons l \<Longrightarrow> lcp_is_open m = lcp_is_open l \<Longrightarrow> l_phase m = l_phase l \<Longrightarrow>
   auth_pending m = auth_pending l \<Longrightarrow> auth_done m = auth_done l \<Longrightarrow> sound e l l'"
  using auth_ok_cong [of m l e] by (simp add: sound_def)

text \<open>The network phase, entered when nothing is pending any more.\<close>

lemma network_phase_sound:
  "\<exists>rs. close_reasons (network_phase e who l) = close_reasons l @ rs \<and> (lcp_is_open (network_phase e who l) \<longleftrightarrow> lcp_is_open l \<and> rs = [])"
  "\<not> idle (l_phase (network_phase e who l))"
  "lcp_is_open (network_phase e who l) \<Longrightarrow> l_phase (network_phase e who l) = PHASE_NETWORK \<and>
     auth_pending (network_phase e who l) = auth_pending l \<and> auth_done (network_phase e who l) = auth_done l"
proof -
  have i: "\<not> idle (l_phase m) \<Longrightarrow> \<not> idle (l_phase (close_link e who r m))" for r m using close_link_idle by blast
  define m where "m = (if neg_chap (go_opts e) \<or> neg_upap (go_opts e) \<or> neg_eap (go_opts e)
     then let s = l\<lparr>auth_up := True\<rparr> in if \<not> auth_script_up s \<and> \<not> auth_script_running s then auth_script e True s else s else l)"
  have m: "close_reasons m = close_reasons l" "lcp_is_open m = lcp_is_open l" "auth_pending m = auth_pending l" "auth_done m = auth_done l"
    by (simp_all add: m_def Let_def)
  have l': "network_phase e who l = start_networks e who m" unfolding network_phase_def m_def Let_def by simp
  show "\<exists>rs. close_reasons (network_phase e who l) = close_reasons l @ rs \<and> (lcp_is_open (network_phase e who l) \<longleftrightarrow> lcp_is_open l \<and> rs = [])"
    "\<not> idle (l_phase (network_phase e who l))"
    "lcp_is_open (network_phase e who l) \<Longrightarrow> l_phase (network_phase e who l) = PHASE_NETWORK \<and>
     auth_pending (network_phase e who l) = auth_pending l \<and> auth_done (network_phase e who l) = auth_done l"
    using i by (auto simp: l' start_networks_def continue_networks_def Let_def m split: if_splits)
qed

lemma auth_passed_sound: "sound e l (auth_passed e who b l)"
proof -
  define m where "m = l\<lparr>auth_done := auth_done l OR b, auth_pending := auth_pending l AND NOT b\<rparr>"
  have need: "n AND NOT (auth_pending m OR auth_done m) = 0" if "n AND NOT (auth_pending l OR auth_done l) = 0" for n
    using that by (auto simp: m_def bit_eq_iff bit_simps)
  have e: "auth_passed e who b l = (if auth_pending m = 0 then network_phase e who m else m)"
    by (simp add: auth_passed_def m_def Let_def)
  have m: "close_reasons m = close_reasons l" "lcp_is_open m = lcp_is_open l" "l_phase m = l_phase l"
    "auth_pending m \<noteq> 0 \<Longrightarrow> auth_pending l \<noteq> 0" by (auto simp: m_def)
  show ?thesis
    using network_phase_sound [of e who m] need [of "peer_need (go_opts e)"] m by (auto simp: e sound_def auth_ok_def)
qed

lemma handle_report_sound: "sound e l (handle_report e who fl r l)"
  by (cases r) (auto simp: auth_peer_success_def auth_peer_fail_def auth_withpeer_success_def auth_withpeer_fail_def Let_def
      intro: sound_from [OF auth_passed_sound] sound_from [OF close_link_sound] auth_passed_sound close_link_sound)

lemma handle_reports_sound: "sound e l (fold (\<lambda>r. handle_report e who (fl r) r) rs l)"
  by (induction rs arbitrary: l) (auto intro: handle_report_sound sound_trans)

lemma run_protocols_sound: "sound e l (run_chap e f l)" "sound e l (run_pap e g l)"
  by (auto simp: run_chap_def run_pap_def Let_def intro!: sound_from [OF handle_reports_sound])

lemma link_do_sound:
  assumes "ev \<noteq> L_established" "ev \<noteq> L_down" "ev = L_np_up \<or> ev = L_np_down \<Longrightarrow> l_phase l \<in> {PHASE_NETWORK, PHASE_RUNNING}"
  shows "sound e l (link_do e ev l)"
proof (cases ev)
  case L_np_up
  then show ?thesis using assms(3) by (auto simp: np_up_def Let_def sound_def auth_ok_def)
next
  case L_np_down
  then show ?thesis using assms(3) by (auto simp: np_down_def Let_def sound_def auth_ok_def)
next
  case L_np_finished
  then show ?thesis by (auto simp: np_finished_def Let_def sound_def auth_ok_def dest: close_link_idle)
next
  case L_script_done
  then show ?thesis by (auto simp: auth_script_done_def Let_def sound_def auth_ok_def)
qed (use assms(1,2) in \<open>auto simp: run_protocols_sound handle_report_sound simp del: handle_report.simps\<close>)

text \<open>Starting a protocol reports no success.\<close>

definition mild :: "link_sys \<Rightarrow> link_sys \<Rightarrow> bool" where
  "mild l l' \<longleftrightarrow> (\<exists>rs. close_reasons l' = close_reasons l @ rs \<and> (lcp_is_open l' \<longleftrightarrow> lcp_is_open l \<and> rs = [])) \<and>
     (idle (l_phase l') \<longrightarrow> idle (l_phase l)) \<and> (lcp_is_open l' \<longrightarrow> l_phase l' = l_phase l)"

lemma mild_trans: "mild l l' \<Longrightarrow> mild l' l'' \<Longrightarrow> mild l l''"
  by (fastforce simp: mild_def)

lemma mild_same: "close_reasons l' = close_reasons l \<Longrightarrow> lcp_is_open l' = lcp_is_open l \<Longrightarrow> l_phase l' = l_phase l \<Longrightarrow> mild l l'"
  by (simp add: mild_def)

definition fails_only :: "chap_sys \<Rightarrow> chap_sys \<Rightarrow> bool" where
  "fails_only t t' \<longleftrightarrow> chap_reports t' = chap_reports t \<or> chap_reports t' = chap_reports t @ [Peer_fail]"

lemma fails_only_same: "chap_reports t' = chap_reports t \<Longrightarrow> fails_only t t'"
  by (simp add: fails_only_def)

lemma timeout_fails_only: "chap_reports t' = chap_reports t \<Longrightarrow> fails_only t (chap_timeout env t')"
  by (auto simp: fails_only_def chap_timeout_def chap_send_challenge_def chap_generate_challenge_def chap_fail_def Let_def chap_simps split_beta
      split: option.split)

lemma chap_starts_fail_only:
  "fails_only t (chap_do env Chap_lowerup t)" "fails_only t (chap_do env (Chap_auth_peer n k) t)" "fails_only t (chap_do env (Chap_auth_with_peer n k) t)"
  by (auto simp: chap_lowerup_def chap_auth_peer_def chap_auth_with_peer_def Let_def chap_simps split_beta timeout_fails_only fails_only_same split: option.split)

lemma run_chap_mild:
  assumes "\<And>c t. fails_only t (f c t)"
  shows "mild l (run_chap e f l)"
proof -
  define c where "c = f ((chap_cfg e)\<lparr>chap_lcp_opened := lcp_is_open l\<rparr>) (l_chap l)"
  have "fails_only (l_chap l) c" unfolding c_def by (rule assms)
  then show ?thesis
    by (auto simp: fails_only_def run_chap_def c_def [symmetric] Let_def auth_peer_fail_def mild_def dest!: close_link_idle)
qed

lemma run_pap_mild: "(\<And>c t. reports (g c t) = reports t) \<Longrightarrow> mild l (run_pap e g l)"
  by (simp add: run_pap_def Let_def mild_same)

lemma pap_starts_reports:
  "reports (upap_do c Pap_lowerup t) = reports t" "reports (upap_do c Pap_authpeer t) = reports t" "reports (upap_do c (Pap_authwithpeer n p) t) = reports t"
  by (simp_all add: upap_lowerup_def upap_authpeer_def upap_authwithpeer_def Let_def)

lemma starts_mild: "mild l (lower_layers_up e l)" "mild l (snd (start_peer e l))" "mild l (snd (start_withpeer e l))"
proof -
  have c: "mild m (call cs m)" for m cs by (rule mild_same) simp_all
  show "mild l (lower_layers_up e l)"
    unfolding lower_layers_up_def Let_def
    by (rule mild_trans [OF mild_trans c]) (rule run_pap_mild run_chap_mild, rule pap_starts_reports chap_starts_fail_only)+
  show "mild l (snd (start_peer e l))"
    by (auto simp: start_peer_def Let_def c mild_same simp del: chap_do.simps upap_do.simps intro!: run_pap_mild run_chap_mild pap_starts_reports chap_starts_fail_only)
  define m where "m = (if l_passwd l = [] \<and> \<not> explicit_passwd e
     then l\<lparr>passwd_from_file := True, l_passwd := (case get_pap_passwd e of None \<Rightarrow> l_passwd l | Some w \<Rightarrow> w)\<rparr> else l)"
  have "mild l m" by (rule mild_same) (simp_all add: m_def)
  moreover have "mild m (run_pap e (\<lambda>c. upap_do c (Pap_authwithpeer n p)) m)" for n p by (rule run_pap_mild) (rule pap_starts_reports)
  ultimately have "mild l (run_pap e (\<lambda>c. upap_do c (Pap_authwithpeer n p)) m)" for n p by (rule mild_trans)
  then show "mild l (snd (start_withpeer e l))"
    by (auto simp: start_withpeer_def m_def [symmetric] Let_def c mild_same simp del: chap_do.simps upap_do.simps
        intro!: run_chap_mild chap_starts_fail_only)
qed

lemma peer_need_started: "fst (start_peer e l) = peer_need (go_opts e)"
  by (simp add: start_peer_def peer_need_def Let_def)

lemma peer_need_0: "peer_need go = 0 \<longleftrightarrow> \<not> neg_upap go \<and> \<not> neg_chap go \<and> \<not> neg_eap go"
  by (simp add: peer_need_def EAP_PEER_def CHAP_PEER_def PAP_PEER_def)

text \<open>When LCP comes up, the link closes it or is in order.\<close>

lemma established_sound:
  fixes e :: link_env and l :: link_sys
  defines "l' \<equiv> link_do e L_established l"
  shows "\<exists>rs. close_reasons l' = close_reasons l @ rs \<and> (lcp_is_open l' \<longleftrightarrow> rs = [])" "lcp_is_open l' \<Longrightarrow> auth_ok e l'"
    "idle (l_phase l') \<Longrightarrow> idle (l_phase l)"
proof -
  define l1 where "l1 = lower_layers_up e (l\<lparr>lcp_is_open := True\<rparr>)"
  define l2 where "l2 = new_phase PHASE_AUTHENTICATE l1"
  define l3 where "l3 = snd (start_peer e l2)"
  define l4 where "l4 = snd (start_withpeer e l3)"
  define b where "b = fst (start_withpeer e l3)"
  define l5 where "l5 = l4\<lparr>auth_pending := peer_need (go_opts e) OR b, auth_done := 0\<rparr>"
  have m1: "mild (l\<lparr>lcp_is_open := True\<rparr>) l1" and m4: "mild l2 l4"
    using starts_mild(1) mild_trans [OF starts_mild(2,3)] by (auto simp: l1_def l3_def l4_def)
  have need0: "neg_upap (go_opts e) \<or> neg_chap (go_opts e) \<or> neg_eap (go_opts e) \<longleftrightarrow> peer_need (go_opts e) \<noteq> 0"
    by (auto simp: peer_need_0)
  define refuse where "refuse \<longleftrightarrow> auth_required e \<and> peer_need (go_opts e) = 0 \<and> \<not> noauth_addrs e \<and> (\<not> wo_neg_upap e \<or> uselogin e \<or> \<not> null_login e)"
  have l': "l' = (if refuse then close_link e From_link ''peer refused to authenticate'' (l1\<lparr>l_status := EXIT_PEER_AUTH_FAILED\<rparr>)
      else if peer_need (go_opts e) OR b = 0 then network_phase e From_link l5 else l5)"
    unfolding l'_def link_do.simps link_established_def Let_def split_beta l1_def [symmetric] l2_def [symmetric] l3_def [symmetric] l4_def [symmetric]
      b_def [symmetric] peer_need_started need0 refuse_def l5_def by auto
  have l5: "close_reasons l5 = close_reasons l4" "lcp_is_open l5 = lcp_is_open l4" "l_phase l5 = l_phase l4"
    "auth_pending l5 = peer_need (go_opts e) OR b" "auth_done l5 = 0" by (simp_all add: l5_def)
  note n = network_phase_sound [of e From_link l5]
  have w: "peer_need (go_opts e) AND NOT (peer_need (go_opts e) OR b) = 0"
    by (auto simp: bit_eq_iff bit_simps)
  have l2: "close_reasons l2 = close_reasons l1" "lcp_is_open l2 = lcp_is_open l1" "l_phase l2 = PHASE_AUTHENTICATE" by (simp_all add: l2_def)
  show "\<exists>rs. close_reasons l' = close_reasons l @ rs \<and> (lcp_is_open l' \<longleftrightarrow> rs = [])"
    using m1 m4 n(1) by (auto simp: l' mild_def l2 l5)
  have w0: "peer_need (go_opts e) = 0" if "peer_need (go_opts e) OR b = 0"
    using that by (auto simp: bit_eq_iff bit_simps)
  have l4: "lcp_is_open l4 \<Longrightarrow> l_phase l4 = PHASE_AUTHENTICATE" using m4 l2(3) by (simp add: mild_def)
  have a: "auth_required e \<longrightarrow> peer_need (go_opts e) \<noteq> 0 \<or> noauth_addrs e \<or> wo_neg_upap e \<and> \<not> uselogin e \<and> null_login e" if "\<not> refuse"
    using that by (auto simp: refuse_def)
  show "lcp_is_open l' \<Longrightarrow> auth_ok e l'"
    using n(3) w w0 l4 a by (simp add: l' l5 auth_ok_def split: if_splits)
  show "idle (l_phase l') \<Longrightarrow> idle (l_phase l)"
    using m1 m4 n(2) by (auto simp: l' mild_def l2 l5 split: if_splits dest!: close_link_idle)
qed

end
