(* ===== verification/Ppp_Lcp_Proofs.thy ===== *)
theory Ppp_Lcp_Proofs
  imports Ppp_Link_Proofs
begin

text \<open>
  LCP (\<^verbatim>\<open>Ppp_Lcp\<close>) as a client of the automaton (\<^verbatim>\<open>Ppp_Fsm\<close>): its invariant, and that it keeps the contracts \<open>fsm_closer\<close>, for the callbacks
  that closing needs, and \<open>fsm_layer\<close>, for all of them, although \<open>finished\<close>, \<open>up\<close>, \<open>nakci\<close> and \<open>extcode\<close> call back into the automaton.
\<close>

section \<open>Effects of the building blocks\<close>

lemma on_lcp_sel [simp]: "fsm (on_lcp g s) = fsm s" "timers (on_lcp g s) = timers s" "client (on_lcp g s) = g (client s)"
    "sent (on_lcp g s) = sent s" "peer_mru (on_lcp g s) = peer_mru s"
  by (simp_all add: on_lcp_def)

lemma on_link_sel [simp]: "fsm (on_link g s) = fsm s" "timers (on_link g s) = timers s" "client (on_link g s) = (client s)\<lparr>lnk := g (lnk (client s))\<rparr>"
    "sent (on_link g s) = sent s" "peer_mru (on_link g s) = peer_mru s"
  by (simp_all add: on_link_def)

lemma lcp_call_sel [simp]: "fsm (lcp_call ks s) = fsm s" "timers (lcp_call ks s) = timers s"
    "client (lcp_call ks s) = (client s)\<lparr>lcp_calls := lcp_calls (client s) @ ks\<rparr>" "sent (lcp_call ks s) = sent s" "peer_mru (lcp_call ks s) = peer_mru s"
  by (simp_all add: lcp_call_def)

lemma set_sel [simp]: "fsm (set_peer_mru n s) = fsm s" "timers (set_peer_mru n s) = timers s" "client (set_peer_mru n s) = client s"
    "client (set_flag b s) = client s" "timers (set_flag b s) = timers s" "fsm (set_flag b s) = (fsm s)\<lparr>flags := flags (fsm s) OR b\<rparr>"
    "client (clear_flag b s) = client s" "timers (clear_flag b s) = timers s" "fsm (clear_flag b s) = (fsm s)\<lparr>flags := flags (fsm s) AND NOT b\<rparr>"
    "peer_mru (set_peer_mru n s) = n" "peer_mru (set_flag b s) = peer_mru s" "peer_mru (clear_flag b s) = peer_mru s"
    "sent (set_peer_mru n s) = sent s" "sent (set_flag b s) = sent s" "sent (clear_flag b s) = sent s"
  by (simp_all add: set_peer_mru_def set_flag_def clear_flag_def)

lemma undelay_sel [simp]: "fsm (undelay s) = fsm s" "timers (undelay s) = timers s"
    "client (undelay s) = (client s)\<lparr>delayed_timers := delayed_timers (client s) - 1\<rparr>" "sent (undelay s) = sent s" "peer_mru (undelay s) = peer_mru s"
  by (simp_all add: undelay_def)

lemmas lcp_basic = ppp_send_config_def ppp_recv_config_def lcp_echo_lowerdown_def set_status_def

section \<open>The invariant\<close>

text \<open>What holds of the data of LCP even while the layer is being taken down: no delayed start, the echo timer pending exactly when it is
  said to run; a link that is idle or hung up only while the layer below is down.\<close>

definition lcp_base :: "lcp_env \<Rightarrow> bool \<Rightarrow> u32 \<Rightarrow> lcp \<Rightarrow> bool" where
  "lcp_base env b fl c \<longleftrightarrow> fl AND DELAYED_UP = 0 \<and> delayed_timers c = 0 \<and> 0 \<le> lcp_echo_fails env \<and>
     echo_timers c = (if lcp_echo_timer_running c then 1 else 0) \<and> (idle (l_phase (lnk c)) \<longrightarrow> b) \<and> (hungup c \<longrightarrow> b)"

text \<open>And between operations: echo requests are sent exactly on an open link, if at all, and an open link is in order.\<close>

definition lcp_inv :: "lcp_env \<Rightarrow> bool \<Rightarrow> u32 \<Rightarrow> lcp \<Rightarrow> bool" where
  "lcp_inv env b fl c \<longleftrightarrow> lcp_base env b fl c \<and> (lcp_echo_timer_running c \<longleftrightarrow> lcp_is_open (lnk c) \<and> lcp_echo_interval env \<noteq> 0) \<and>
     (lcp_is_open (lnk c) \<longrightarrow> auth_ok (lenv env c) (lnk c))"

abbreviation link_open :: "lcp \<Rightarrow> bool" where
  "link_open c \<equiv> lcp_is_open (lnk c)"

abbreviation lcp_steady :: "lcp_env \<Rightarrow> lcp_sys \<Rightarrow> bool" where
  "lcp_steady env \<equiv> fsm_inv link_open (lcp_inv env)"

lemma lowD: "low st \<Longrightarrow> \<not> waiting st \<and> st \<noteq> OPENED"
  by (auto simp: low_def)

lemma lcp_base_low: "lcp_base env False fl c \<Longrightarrow> lcp_base env b fl c"
  by (auto simp: lcp_base_def)

lemma lcp_inv_low: "lcp_inv env False fl c \<Longrightarrow> lcp_inv env b fl c"
  by (auto simp: lcp_inv_def intro: lcp_base_low)

lemma lcp_invD: "lcp_inv env b fl c \<Longrightarrow> lcp_base env b fl c"
  by (simp add: lcp_inv_def)

lemma lcp_down_sel: "fsm (lcp_down env s) = fsm s" "timers (lcp_down env s) = timers s" "\<not> link_open (client (lcp_down env s))"
    "hungup (client (lcp_down env s)) = hungup (client s)"
  by (auto simp: lcp_down_def lcp_basic Let_def)

lemma lcp_down_inv: "lcp_base env b fl (client s) \<Longrightarrow> lcp_inv env b fl (client (lcp_down env s))"
  by (auto simp: lcp_down_def lcp_basic Let_def lcp_inv_def lcp_base_def dest!: link_down_idle split: if_splits)

section \<open>Closing\<close>

lemma has_DELAYED: "lcp_base env b (flags (fsm s)) c \<Longrightarrow> \<not> has_flag DELAYED_UP s"
  by (simp add: lcp_base_def has_flag_def)

lemma release_sel [simp]: "fsm (release_ppp env s) = fsm s" "timers (release_ppp env s) = timers s" "hungup (client (release_ppp env s)) = hungup (client s)"
    "fsm (release_device env s) = fsm s" "timers (release_device env s) = timers s"
    "l_phase (lnk (client (release_ppp env s))) = PHASE_DISCONNECT" "l_phase (lnk (client (release_device env s))) = PHASE_DEAD"
    "link_open (client (release_ppp env s)) = link_open (client s)" "link_open (client (release_device env s)) = link_open (client s)"
  by (simp_all add: release_ppp_def release_device_def Let_def)

lemma release_inv: "\<not> link_open (client s) \<Longrightarrow> lcp_inv env b fl (client s) \<Longrightarrow> lcp_inv env b fl (client (release_ppp env s))"
    "\<not> link_open (client s) \<Longrightarrow> lcp_inv env True fl (client s) \<Longrightarrow> lcp_inv env True fl (client (release_device env s))"
  by (simp_all add: release_ppp_def release_device_def Let_def lcp_inv_def lcp_base_def)

lemma lowerdown_rests:
  assumes "f_state (fsm s) \<in> {CLOSED, STOPPED}"
  shows "resting (f_state (fsm (lcp_lowerdown env s)))"
    "\<not> has_flag DELAYED_UP s \<Longrightarrow> low (f_state (fsm (lcp_lowerdown env s))) \<and> f_state (fsm (lcp_lowerdown env s)) \<noteq> OPENED \<and>
       client (lcp_lowerdown env s) = client s \<and> timers (lcp_lowerdown env s) = timers s \<and> flags (fsm (lcp_lowerdown env s)) = flags (fsm s)"
  using assms by (auto simp: lcp_lowerdown_def fsm_lowerdown_def down_callbacks_def no_callbacks_def lcp_starting_def resting_def)

lemma finished_state: "f_state (fsm s) \<in> {CLOSED, STOPPED} \<Longrightarrow> resting (f_state (fsm (lcp_finished env s)))"
  using lowerdown_rests(1) [of "release_ppp env s"] by (auto simp: lcp_finished_def link_terminated_def Let_def resting_def)

lemma finished_steady:
  assumes "f_state (fsm s) \<in> {CLOSED, STOPPED}" "lcp_steady env s"
  shows "lcp_steady env (lcp_finished env s)"
proof (cases "l_phase (lnk (client s)) = PHASE_MASTER")
  case False
  have s: "lcp_inv env False (flags (fsm s)) (client s)" "\<not> link_open (client s)" "timers s = 0"
    using assms by (auto simp: fsm_inv_def timers_ok_def)
  then have d: "\<not> hungup (client s)" "l_phase (lnk (client s)) \<noteq> PHASE_DEAD" "\<not> has_flag DELAYED_UP (release_ppp env s)"
    by (auto simp: lcp_inv_def lcp_base_def has_flag_def)
  note l = lowerdown_rests(2) [where s = "release_ppp env s" and env = env, OF _ d(3)]
  have "lcp_inv env True (flags (fsm s)) (client (release_ppp env s))"
    using release_inv(1) [OF s(2,1)] by (rule lcp_inv_low)
  then have "lcp_inv env True (flags (fsm s)) (client (release_device env (lcp_lowerdown env (release_ppp env s))))"
    using l assms(1) s(2) by (intro release_inv(2)) auto
  then show ?thesis
    using l assms(1) s d False by (auto simp: lcp_finished_def link_terminated_def Let_def fsm_inv_def timers_ok_def dest: lowD)
qed (use assms in \<open>simp add: lcp_finished_def link_terminated_def\<close>)

interpretation lcp_closing: fsm_closer "close_callbacks env" link_open "lcp_inv env" for env
proof (unfold_locales, goal_cases)
  case 1 show ?case by (simp add: close_callbacks_def down_callbacks_def keeps_def Ppp_Fsm.keeps_def lcp_starting_def)
next
  case 2 show ?case by (simp add: close_callbacks_def down_callbacks_def lcp_down_sel)
next
  case 3 show ?case by (simp add: close_callbacks_def down_callbacks_def lcp_down_sel)
next
  case 4 show ?case by (simp add: close_callbacks_def down_callbacks_def lcp_down_sel)
next
  case 5 then show ?case using lcp_down_inv by (auto simp: close_callbacks_def down_callbacks_def dest: lcp_invD)
next
  case 6 then show ?case by (simp add: close_callbacks_def finished_steady)
next
  case 7 then show ?case by (simp add: close_callbacks_def finished_state)
next
  case 8 then show ?case by (rule lcp_inv_low)
qed

lemma clear_DELAYED [simp]: "lcp_inv env b (fl AND NOT DELAYED_UP) c \<longleftrightarrow> lcp_inv env b fl c" if "fl AND DELAYED_UP = 0"
proof -
  have "(fl AND NOT DELAYED_UP) AND DELAYED_UP = 0" by (rule bit_word_eqI) (auto simp: bit_simps)
  then show ?thesis using that by (simp add: lcp_inv_def lcp_base_def)
qed

lemma steadyD: "lcp_steady env s \<Longrightarrow> lcp_inv env (low (f_state (fsm s))) (flags (fsm s)) (client s)" "lcp_steady env s \<Longrightarrow> flags (fsm s) AND DELAYED_UP = 0"
    "lcp_steady env s \<Longrightarrow> \<not> has_flag DELAYED_UP s" "lcp_steady env s \<Longrightarrow> link_open (client s) \<longleftrightarrow> f_state (fsm s) = OPENED"
    "lcp_steady env s \<Longrightarrow> f_state (fsm s) = OPENED \<Longrightarrow> timers s = 0"
  by (auto simp: fsm_inv_def timers_ok_def lcp_inv_def lcp_base_def has_flag_def)

lemma close_fsm_steady: "lcp_steady env s \<Longrightarrow> lcp_steady env (close_fsm env r s)"
proof -
  assume s: "lcp_steady env s"
  define t where "t = fsm_close (close_callbacks env) (map of_char r) s"
  have t: "lcp_steady env t" unfolding t_def by (rule lcp_closing.close_inv [OF s])
  have c: "lcp_steady env (clear_flag DELAYED_UP t)"
    using t steadyD(2) [OF t] by (simp add: fsm_inv_def timers_ok_def)
  have "f_state (fsm t) = CLOSED" if "f_state (fsm s) = STOPPED" using that by (simp add: t_def fsm_close_def Let_def)
  then show ?thesis
    using t steadyD(3) [OF s] finished_steady [OF _ c] by (auto simp: close_fsm_def t_def [symmetric] Let_def)
qed

lemma close_opened_steady:
  assumes "f_state (fsm s) = OPENED" "timers s = 0" "lcp_base env False (flags (fsm s)) (client s)"
  shows "lcp_steady env (close_fsm env r s)" "f_state (fsm (close_fsm env r s)) \<noteq> OPENED"
proof -
  have "lcp_inv env False (flags (fsm s)) (client (opt_call (down (close_callbacks env)) (upd (term_reason_update (\<lambda>_. map of_char r)) s)))"
    using assms(3) by (simp add: close_callbacks_def down_callbacks_def lcp_down_inv)
  note c = lcp_closing.close_opened [OF assms(1,2) this]
  have e: "close_fsm env r s = fsm_close (close_callbacks env) (map of_char r) s"
    using assms(1,3) has_DELAYED by (auto simp: close_fsm_def Let_def)
  show "lcp_steady env (close_fsm env r s)" "f_state (fsm (close_fsm env r s)) \<noteq> OPENED"
    unfolding e using c by simp_all
qed

lemma fold_close_steady: "lcp_steady env s \<Longrightarrow> lcp_steady env (fold (close_fsm env) rs s)"
  by (induction rs arbitrary: s) (auto intro: close_fsm_steady)

lemma terminating_steady:
  assumes "lcp_steady env s" "f_state (fsm s) \<noteq> OPENED"
  shows "lcp_steady env (on_link terminating s)"
  using assms terminating_idle by (auto simp: fsm_inv_def timers_ok_def lcp_inv_def lcp_base_def)

lemma close_steady: "lcp_steady env s \<Longrightarrow> lcp_steady env (lcp_close env r s)" "lcp_steady env s \<Longrightarrow> f_state (fsm s) = OPENED \<Longrightarrow> f_state (fsm (lcp_close env r s)) \<noteq> OPENED"
proof -
  assume s: "lcp_steady env s"
  have o: "lcp_base env False (flags (fsm (on_link terminating s))) (client (on_link terminating s))" if "f_state (fsm s) = OPENED"
    using s that terminating_idle by (auto simp: fsm_inv_def lcp_inv_def lcp_base_def)
  show "lcp_steady env (lcp_close env r s)"
    using close_opened_steady(1) [OF _ _ o] close_fsm_steady [OF terminating_steady [OF s]] steadyD(5) [OF s]
    by (cases "f_state (fsm s) = OPENED") (auto simp: lcp_close_def)
  show "f_state (fsm s) = OPENED \<Longrightarrow> f_state (fsm (lcp_close env r s)) \<noteq> OPENED"
    using close_opened_steady(2) [OF _ _ o] steadyD(5) [OF s] by (auto simp: lcp_close_def)
qed

section \<open>The link and LCP\<close>

lemma lenv_sel [simp]: "go_opts (lenv env c) = auth_options.truncate (gotoptions c)" "wo_neg_upap (lenv env c) = neg_upap (wantoptions c)"
    "auth_required (lenv env c) = auth_required (link_cfg env)" "noauth_addrs (lenv env c) = noauth_addrs (link_cfg env)"
    "uselogin (lenv env c) = uselogin (link_cfg env)" "null_login (lenv env c) = null_login (link_cfg env)"
  by (simp_all add: lenv_def)

lemma auth_ok_lenv: "auth_ok (lenv env c) l \<Longrightarrow> auth_options.truncate (gotoptions c') = auth_options.truncate (gotoptions c) \<Longrightarrow>
    neg_upap (wantoptions c') = neg_upap (wantoptions c) \<Longrightarrow> auth_ok (lenv env c') l"
  by (auto simp: auth_ok_def)

text \<open>After an operation of the link, LCP is steady again: if the link is still open it is in order, and otherwise the link has asked to close.\<close>

lemma taken_up_steady:
  assumes "f_state (fsm s) = OPENED \<Longrightarrow> timers s = 0 \<and> lcp_base env False (flags (fsm s)) (client s)"
    and "lcp_is_open l \<longleftrightarrow> f_state (fsm s) = OPENED \<and> rs = []"
    and "lcp_steady env (on_link (\<lambda>_. l) s) \<or> f_state (fsm s) = OPENED \<and> rs \<noteq> []" "idle (l_phase l) \<Longrightarrow> idle (l_phase (lnk (client s)))"
  shows "lcp_steady env (fold (close_fsm env) rs (on_link (\<lambda>_. l) s))"
proof (cases "lcp_steady env (on_link (\<lambda>_. l) s)")
  case False
  with assms obtain r rs' where rs: "rs = r # rs'" and o: "f_state (fsm s) = OPENED" by (cases rs) auto
  have "lcp_base env False (flags (fsm (on_link (\<lambda>_. l) s))) (client (on_link (\<lambda>_. l) s))"
    using assms(1,4) o by (auto simp: lcp_base_def)
  from close_opened_steady(1) [OF _ _ this] o assms(1) show ?thesis
    by (simp add: rs fold_close_steady)
qed (rule fold_close_steady)

lemma run_link_steady:
  assumes "lcp_steady env s" "e \<noteq> L_established" "e \<noteq> L_down" "e = L_np_up \<or> e = L_np_down \<Longrightarrow> networking s"
  shows "lcp_steady env (run_link env e s)"
proof -
  define l where "l = link_do (lenv env (client s)) e (lnk (client s))"
  have so: "sound (lenv env (client s)) (lnk (client s)) l"
    unfolding l_def using assms(2-4) by (intro link_do_sound) (auto simp: networking_def)
  then obtain rs where rs: "close_reasons l = close_reasons (lnk (client s)) @ rs" "lcp_is_open l \<longleftrightarrow> link_open (client s) \<and> rs = []"
    by (auto simp: sound_def)
  have "lcp_steady env (on_link (\<lambda>_. l) s)" if "\<not> (f_state (fsm s) = OPENED \<and> rs \<noteq> [])"
  proof -
    have "auth_ok (lenv env ((client s)\<lparr>lnk := l\<rparr>)) l" if "lcp_is_open l"
      by (rule auth_ok_lenv [of env "client s"]) (use that so rs steadyD(1,4) [OF assms(1)] in \<open>auto simp: sound_def lcp_inv_def\<close>)
    then show ?thesis
      using that assms(1) rs so by (auto simp: fsm_inv_def timers_ok_def lcp_inv_def lcp_base_def sound_def)
  qed
  moreover have "f_state (fsm s) = OPENED \<Longrightarrow> timers s = 0 \<and> lcp_base env False (flags (fsm s)) (client s)"
    using steadyD(1,5) [OF assms(1)] by (auto dest: lcp_invD)
  ultimately have "lcp_steady env (fold (close_fsm env) rs (on_link (\<lambda>_. l) s))"
    using rs(2) so steadyD(4) [OF assms(1)] by (intro taken_up_steady) (auto simp: sound_def)
  then show ?thesis by (simp add: run_link_def l_def [symmetric] rs(1))
qed

text \<open>LCP comes up, with echo requests under way if there are to be any.\<close>

lemma established_steady:
  assumes "f_state (fsm s) = OPENED" "timers s = 0" "lcp_base env False (flags (fsm s)) (client s)"
    "lcp_echo_timer_running (client s) \<longleftrightarrow> lcp_echo_interval env \<noteq> 0"
  shows "lcp_steady env (run_link env L_established s)"
proof -
  define l where "l = link_do (lenv env (client s)) L_established (lnk (client s))"
  note so = established_sound [of "lenv env (client s)" "lnk (client s)", folded l_def]
  then obtain rs where rs: "close_reasons l = close_reasons (lnk (client s)) @ rs" "lcp_is_open l \<longleftrightarrow> rs = []" by auto
  have "lcp_steady env (on_link (\<lambda>_. l) s)" if "rs = []"
  proof -
    have "auth_ok (lenv env ((client s)\<lparr>lnk := l\<rparr>)) l"
      by (rule auth_ok_lenv [of env "client s"]) (use that so rs in auto)
    then show ?thesis
      using that assms rs so(3) by (auto simp: fsm_inv_def timers_ok_def lcp_inv_def lcp_base_def)
  qed
  then have "lcp_steady env (fold (close_fsm env) rs (on_link (\<lambda>_. l) s))"
    using rs(2) so(3) assms by (intro taken_up_steady) auto
  then show ?thesis unfolding run_link_def l_def [symmetric] Let_def rs(1) by simp
qed

section \<open>Echo requests\<close>

lemma close_from_base:
  assumes "f_state (fsm s) = OPENED" "timers s = 0" "lcp_base env False (flags (fsm s)) (client s)"
  shows "lcp_steady env (lcp_close env r s)" "f_state (fsm (lcp_close env r s)) \<noteq> OPENED"
proof -
  have "lcp_base env False (flags (fsm (on_link terminating s))) (client (on_link terminating s))"
    using assms(3) terminating_idle by (auto simp: lcp_base_def)
  from close_opened_steady [OF _ _ this] show "lcp_steady env (lcp_close env r s)" "f_state (fsm (lcp_close env r s)) \<noteq> OPENED"
    using assms by (simp_all add: lcp_close_def)
qed

lemma echo_check:
  assumes "f_state (fsm s) = OPENED" "timers s = 0" "lcp_base env False (flags (fsm s)) (client s)" "\<not> lcp_echo_timer_running (client s)"
  defines "t \<equiv> LcpEchoCheck env s" and "failing \<equiv> lcp_echo_fails env \<noteq> 0 \<and> lcp_echos_pending (client s) \<ge> lcp_echo_fails env"
  shows "failing \<Longrightarrow> lcp_steady env t \<and> f_state (fsm t) \<noteq> OPENED"
    "\<not> failing \<Longrightarrow> fsm t = fsm s \<and> timers t = 0 \<and> client t = (client s)\<lparr>lcp_echo_number := lcp_echo_number (client s) + 1,
       lcp_echos_pending := lcp_echos_pending (client s) + 1, echo_timers := 1, lcp_echo_timer_running := True\<rparr>"
proof -
  define s' where "s' = on_link (l_status_update (\<lambda>_. EXIT_PEER_DEAD)) s"
  have "lcp_base env False (flags (fsm s')) (client s')" using assms(3) by (simp add: s'_def lcp_base_def)
  then have c: "lcp_steady env (lcp_close env r s')" "f_state (fsm (lcp_close env r s')) \<noteq> OPENED" for r
    using close_from_base [of s'] assms(1,2) by (auto simp: s'_def)
  show "lcp_steady env t \<and> f_state (fsm t) \<noteq> OPENED" if failing
    using that c assms(1)
    by (auto simp: t_def failing_def LcpEchoCheck_def LcpSendEchoRequest_def LcpLinkFailure_def s'_def [symmetric] Let_def
        fsm_inv_def timers_ok_def lcp_inv_def lcp_base_def auth_ok_def)
  show "fsm t = fsm s \<and> timers t = 0 \<and> client t = (client s)\<lparr>lcp_echo_number := lcp_echo_number (client s) + 1,
       lcp_echos_pending := lcp_echos_pending (client s) + 1, echo_timers := 1, lcp_echo_timer_running := True\<rparr>" if "\<not> failing"
    using that assms(1-4) unfolding t_def failing_def LcpEchoCheck_def LcpSendEchoRequest_def Let_def
    by (auto simp: lcp_base_def)
qed

lemma echo_timeout_steady:
  assumes "lcp_steady env s" "echo_timers (client s) \<noteq> 0"
  shows "lcp_steady env (LcpEchoTimeout env (on_lcp (\<lambda>c. c\<lparr>echo_timers := echo_timers c - 1\<rparr>) s))"
proof -
  define u where "u = on_lcp (lcp_echo_timer_running_update (\<lambda>_. False)) (on_lcp (\<lambda>c. c\<lparr>echo_timers := echo_timers c - 1\<rparr>) s)"
  have r: "lcp_echo_timer_running (client s)" "link_open (client s)" "f_state (fsm s) = OPENED" "timers s = 0" "lcp_echo_interval env \<noteq> 0"
    using assms by (auto simp: fsm_inv_def timers_ok_def lcp_inv_def lcp_base_def split: if_splits)
  have u: "f_state (fsm u) = OPENED" "timers u = 0" "lcp_base env False (flags (fsm u)) (client u)" "\<not> lcp_echo_timer_running (client u)"
    using assms r by (auto simp: u_def fsm_inv_def lcp_inv_def lcp_base_def)
  have e: "LcpEchoTimeout env (on_lcp (\<lambda>c. c\<lparr>echo_timers := echo_timers c - 1\<rparr>) s) = LcpEchoCheck env u"
    using r(1) by (simp add: LcpEchoTimeout_def u_def)
  have a: "auth_ok (lenv env (client s)) (lnk (client s))" using assms(1) r(2) by (simp add: fsm_inv_def lcp_inv_def)
  have "lcp_steady env (LcpEchoCheck env u)" if "fsm (LcpEchoCheck env u) = fsm u" "timers (LcpEchoCheck env u) = 0"
    "client (LcpEchoCheck env u) = (client u)\<lparr>lcp_echo_number := lcp_echo_number (client u) + 1,
       lcp_echos_pending := lcp_echos_pending (client u) + 1, echo_timers := 1, lcp_echo_timer_running := True\<rparr>"
    using that u(1,3) r auth_ok_lenv [OF a]
    by (auto simp: fsm_inv_def timers_ok_def lcp_inv_def lcp_base_def u_def)
  then show ?thesis unfolding e using echo_check [OF u] by argo
qed

section \<open>LCP as a client of the automaton\<close>

text \<open>What \<open>lcp_up\<close> tells the kernel.\<close>

definition configure_calls :: "lcp_env \<Rightarrow> lcp \<Rightarrow> lcp_action list" where
  "configure_calls env c =
     (let wo = wantoptions c; ho = hisoptions c; go = gotoptions c;
          mtu = (if neg_mru ho then mru ho else PPP_MRU); m = (if neg_mru go then max (mru wo) (mru go) else PPP_MRU)
      in [Netif_set_mtu (min (min mtu m) (mru (allowoptions c))),
          Send_config mtu (if neg_asyncmap ho then asyncmap ho else 0xffffffff) (neg_pcompression ho) (neg_accompression ho),
          Recv_config m (if lax_recv env then 0 else if neg_asyncmap go then asyncmap go else 0xffffffff) (neg_pcompression go) (neg_accompression go)])"

lemma lcp_call_call: "lcp_call ks' (lcp_call ks s) = lcp_call (ks @ ks') s"
  by (simp add: lcp_call_def on_lcp_def)

lemma configure_eq: "lcp_configure env s =
    (if neg_mru (hisoptions (client s)) then set_peer_mru (mru (hisoptions (client s))) (lcp_call (configure_calls env (client s)) s)
     else lcp_call (configure_calls env (client s)) s)"
  unfolding lcp_configure_def configure_calls_def ppp_send_config_def ppp_recv_config_def lcp_call_call Let_def append.simps by (rule refl)

lemma configure_sel [simp]: "fsm (lcp_configure env s) = fsm s" "timers (lcp_configure env s) = timers s"
    "client (lcp_configure env s) = (client s)\<lparr>lcp_calls := lcp_calls (client s) @ configure_calls env (client s)\<rparr>"
  by (simp_all add: configure_eq set_peer_mru_def)
lemma lcp_up_steady:
  assumes "f_state (fsm s) = OPENED" "timers s = 0" "\<not> link_open (client s)" "lcp_inv env False (flags (fsm s)) (client s)"
  shows "lcp_steady env (lcp_up env s)"
proof -
  define s2 where "s2 = on_lcp (\<lambda>c. c\<lparr>lcp_echos_pending := 0, lcp_echo_number := 0, lcp_echo_timer_running := False\<rparr>)
    (lcp_configure env (on_lcp (\<lambda>c. c\<lparr>gotoptions := (if \<not> neg_magicnumber (gotoptions c) then (gotoptions c)\<lparr>magicnumber := 0\<rparr> else gotoptions c),
      hisoptions := (if \<not> neg_magicnumber (hisoptions c) then (hisoptions c)\<lparr>magicnumber := 0\<rparr> else hisoptions c)\<rparr>) s))"
  define t where "t = (if lcp_echo_interval env \<noteq> 0 then LcpEchoCheck env s2 else s2)"
  have s2: "f_state (fsm s2) = OPENED" "timers s2 = 0" "lcp_base env False (flags (fsm s2)) (client s2)" "\<not> lcp_echo_timer_running (client s2)"
      "0 \<le> lcp_echo_fails env" "lcp_echos_pending (client s2) = 0"
    using assms unfolding s2_def by (auto simp: lcp_inv_def lcp_base_def)
  have "f_state (fsm t) = OPENED \<and> timers t = 0 \<and> lcp_base env False (flags (fsm t)) (client t) \<and>
      (lcp_echo_timer_running (client t) \<longleftrightarrow> lcp_echo_interval env \<noteq> 0)"
    using s2 echo_check(2) [OF s2(1-4)] by (auto simp: t_def lcp_base_def)
  moreover have "lcp_up env s = run_link env L_established t"
    unfolding lcp_up_def lcp_echo_lowerup_def t_def s2_def Let_def by simp
  ultimately show ?thesis by (simp add: established_steady)
qed

lemma steady_on_lcp:
  assumes "lcp_steady env s" "delayed_timers (g (client s)) = delayed_timers (client s)" "echo_timers (g (client s)) = echo_timers (client s)"
    "lcp_echo_timer_running (g (client s)) = lcp_echo_timer_running (client s)" "hungup (g (client s)) = hungup (client s)"
    "lnk (g (client s)) = lnk (client s)" "neg_upap (wantoptions (g (client s))) = neg_upap (wantoptions (client s))"
    "f_state (fsm s) = OPENED \<Longrightarrow> auth_options.truncate (gotoptions (g (client s))) = auth_options.truncate (gotoptions (client s))"
  shows "lcp_steady env (on_lcp g s)"
  using assms auth_ok_lenv [of env "client s" "lnk (client s)" "g (client s)"]
  by (auto simp: fsm_inv_def timers_ok_def lcp_inv_def lcp_base_def)

lemma steady_status: "lcp_steady env s \<Longrightarrow> lcp_steady env (on_link (l_status_update (\<lambda>_. n)) s)"
  by (auto simp: fsm_inv_def timers_ok_def lcp_inv_def lcp_base_def auth_ok_def)

lemma close_fsm_not_opened: "lcp_steady env s \<Longrightarrow> f_state (fsm (close_fsm env r s)) \<noteq> OPENED"
proof -
  assume s: "lcp_steady env s"
  show ?thesis
  proof (cases "f_state (fsm s) = OPENED")
    case True
    then show ?thesis using close_opened_steady(2) [of s env r] steadyD(1,5) [OF s] by (auto dest: lcp_invD)
  next
    case False
    have fin: "f_state (fsm (lcp_finished env (goto CLOSED u))) \<noteq> OPENED" for u
      using finished_state [of "goto CLOSED u" env] by (auto simp: resting_def)
    have "f_state (fsm (fsm_close (close_callbacks env) (map of_char r) s)) \<noteq> OPENED"
      using False fin by (auto simp: fsm_close_def terminate_layer_def close_callbacks_def Let_def split: fsm_state.split)
    moreover have "f_state (fsm (fsm_close (close_callbacks env) (map of_char r) s)) = CLOSED" if "f_state (fsm s) = STOPPED"
      using that by (simp add: fsm_close_def Let_def)
    ultimately show ?thesis
      using finished_state [of "clear_flag DELAYED_UP (fsm_close (close_callbacks env) (map of_char r) s)" env] steadyD(3) [OF s]
      by (auto simp: close_fsm_def Let_def resting_def)
  qed
qed

lemma nakci_steady: "lcp_steady env s \<Longrightarrow> lcp_steady env (snd (lcp_nakci env bs x s))"
proof -
  assume "lcp_steady env s"
  then have s: "lcp_steady env (on_lcp (mdraws_update (\<lambda>_. d)) s)" for d by (rule steady_on_lcp) simp_all
  have c: "lcp_steady env (on_lcp (gotoptions_update (\<lambda>_. tr)) t)" if "lcp_steady env t" "f_state (fsm t) \<noteq> OPENED" for tr t
    using that by (intro steady_on_lcp) auto
  define n where "n d = on_link (l_status_update (\<lambda>_. EXIT_LOOPBACK)) (on_lcp (mdraws_update (\<lambda>_. d)) s)" for d
  have l: "lcp_steady env (lcp_close env r (n d)) \<and> f_state (fsm (lcp_close env r (n d))) \<noteq> OPENED" if "f_state (fsm s) \<noteq> OPENED" for r d
    using close_steady(1) [OF steady_status [OF s]] close_fsm_not_opened [OF terminating_steady [OF steady_status [OF s]]] that
    by (simp add: n_def lcp_close_def)
  show ?thesis
    using s c l by (auto simp: lcp_nakci_def Let_def split_beta n_def split: option.split)
qed

lemma extcode_steady: "lcp_steady env s \<Longrightarrow> lcp_steady env (snd (lcp_extcode env c i bs s))"
proof -
  assume s: "lcp_steady env s"
  have "lcp_steady env (lcp_call ks s)" for ks unfolding lcp_call_def using s by (rule steady_on_lcp) simp_all
  moreover have "lcp_steady env (lcp_protrej env s)" unfolding lcp_protrej_def by (rule lcp_closing.protreject_inv [OF s])
  moreover have "lcp_steady env (run_link env (L_pap Pap_protrej) s)" "lcp_steady env (run_link env (L_chap Chap_protrej) s)"
    by (rule run_link_steady [OF s]; simp)+
  ultimately have "lcp_steady env (lcp_rprotrej env bs s)" using s by (simp add: lcp_rprotrej_def Let_def)
  moreover have "lcp_steady env (lcp_received_echo_reply bs s)"
    using s by (auto simp: lcp_received_echo_reply_def Let_def intro: steady_on_lcp)
  ultimately show ?thesis using s by (simp add: lcp_extcode_def lcp_closing.sdata_inv)
qed

lemma lcp_keeps: "Ppp_Fsm.keeps link_open (lcp_inv env) s (snd (lcp_addci n s))" "Ppp_Fsm.keeps link_open (lcp_inv env) s (snd (lcp_ackci bs s))"
    "Ppp_Fsm.keeps link_open (lcp_inv env) s (snd (lcp_rejci bs s))" "Ppp_Fsm.keeps link_open (lcp_inv env) s (snd (snd (lcp_reqci env bs x s)))"
  using auth_ok_lenv [of env "client s" "lnk (client s)"]
  by (auto simp: Ppp_Fsm.keeps_def lcp_addci_def lcp_ackci_def lcp_rejci_def lcp_reqci_def Let_def lcp_inv_def lcp_base_def split: option.split list.split)

lemma resetci_sel: "fsm (lcp_resetci env s) = fsm s" "timers (lcp_resetci env s) = timers s" "lnk (client (lcp_resetci env s)) = lnk (client s)"
    "lcp_base env b fl (client (lcp_resetci env s)) = lcp_base env b fl (client s)"
    "lcp_echo_timer_running (client (lcp_resetci env s)) = lcp_echo_timer_running (client s)"
  by (simp_all add: lcp_resetci_def auth_reset_def Let_def lcp_base_def)

lemma lcp_callbacks_sel: "starting (lcp_callbacks env) = starting (close_callbacks env)" "down (lcp_callbacks env) = down (close_callbacks env)"
    "finished (lcp_callbacks env) = finished (close_callbacks env)" "retransmit (lcp_callbacks env) = None"
    "starting (close_callbacks env) = starting (down_callbacks env)" "down (close_callbacks env) = down (down_callbacks env)"
  by (simp_all add: lcp_callbacks_def close_callbacks_def down_callbacks_def no_callbacks_def)

interpretation lcp: fsm_layer "lcp_callbacks env" link_open "lcp_inv env" for env
proof (unfold_locales, unfold lcp_callbacks_sel(1-4), goal_cases)
  case 8 then show ?case by (rule lcp_inv_low)
next
  case 9 show ?case by (simp add: lcp_callbacks_def Ppp_Fsm.keeps_def resetci_sel)
next
  case 10 then show ?case by (simp add: lcp_callbacks_def resetci_sel lcp_inv_def)
next
  case 11 show ?case by (simp add: Ppp_Fsm.keeps_def)
next
  case 12 then show ?case by (auto simp: lcp_callbacks_def lcp_keeps)
next
  case 13 then show ?case by (auto simp: lcp_callbacks_def lcp_keeps)
next
  case 14 then show ?case by (auto simp: lcp_callbacks_def lcp_keeps)
next
  case 15 then show ?case by (auto simp: lcp_callbacks_def lcp_keeps)
next
  case 16 then show ?case by (auto simp: lcp_callbacks_def nakci_steady)
next
  case 17 then show ?case by (auto simp: lcp_callbacks_def extcode_steady)
next
  case 18 then show ?case by (simp add: lcp_callbacks_def lcp_up_steady)
qed (fact lcp_closing.starting_keeps lcp_closing.down_takes_down lcp_closing.finished_consistent lcp_closing.finished_rests)+

end
