(* ===== verification/Ppp_Lcp_Options.thy ===== *)
theory Ppp_Lcp_Options
  imports Ppp_Lcp
begin

text \<open>
  The options of LCP (\<^verbatim>\<open>Ppp_Lcp\<close>): what is acknowledged is what was requested, how long an answer can get, and what is taken over from the peer.
\<close>

section \<open>Numbers\<close>

lemma put_sel [simp]: "length (put_short n) = 2" "length (put_long w) = 4" "length (be16 k) = 2"
  by (simp_all add: put_short_def put_long_def be16_def)

lemma CHAP_DIGEST_range: "0 \<le> CHAP_DIGEST m" "CHAP_DIGEST m < 256"
  by (simp_all add: CHAP_DIGEST_def CHAP_MD5_def CHAP_MICROSOFT_def CHAP_MICROSOFT_V2_def)

lemma be16_iff:
  assumes "n < 65536"
  shows "be16 n = [a, b] \<longleftrightarrow> unat a * 256 + unat b = n"
proof -
  have a: "n div 256 mod 256 = n div 256" using assms by (intro mod_less) (simp add: less_mult_imp_div_less)
  show ?thesis
    using a unat_u8_less [of b]
    by (auto simp: be16_def word_unat_eq_iff unat_of_nat take_bit_eq_mod) (metis div_mult_mod_eq)
qed

lemma get_short_pair: "get_short (a # b # r) = int (unat a * 256 + unat b)"
  by (simp add: get_short_def)

lemma same_short_iff: "length q = 2 \<Longrightarrow> 0 \<le> v \<Longrightarrow> v < 65536 \<Longrightarrow> same_short v q \<longleftrightarrow> q = put_short v"
  using be16_iff [of "nat v" "q ! 0" "q ! 1"] 
  by (elim length2E) (auto simp: same_short_def get_short_pair put_short_def eq_commute [of _ "be16 _"] simp del: of_nat_unat of_nat_add)

lemma get_long_iff: "length q = 4 \<Longrightarrow> get_long q = w \<longleftrightarrow> q = put_long w"
  by (auto elim!: length4E simp: get_long_def put_long_def bytes32_def)

lemma get_short_iff: "length q = 2 \<Longrightarrow> get_short q = uint (w::u16) \<longleftrightarrow> q = be16 (unat w)"
  using be16_iff [of "unat w" "q ! 0" "q ! 1"] unat_u16_less [of w]
  by (elim length2E) (auto simp: get_short_pair uint_nat eq_commute [of _ "be16 _"] simp del: of_nat_unat of_nat_add)

section \<open>Acknowledgements\<close>

text \<open>A reader that takes exactly one encoding off the front of a packet.\<close>

definition takes_off :: "(bytes \<Rightarrow> bytes option) \<Rightarrow> bytes \<Rightarrow> bool" where
  "takes_off f enc \<longleftrightarrow> (\<forall>p r. f p = Some r \<longleftrightarrow> p = enc @ r)"

lemma takes_off_fold:
  "list_all2 takes_off fs encs \<Longrightarrow> fold (\<lambda>f r. Option.bind r f) fs (Some p) = Some r \<longleftrightarrow> p = concat encs @ r"
proof (induction fs encs arbitrary: p rule: list_all2_induct)
  case (Cons f fs e es)
  have n: "fold (\<lambda>f r. Option.bind r f) gs None = None" for gs :: "(bytes \<Rightarrow> bytes option) list" by (induction gs) auto
  have f: "f p = Some x \<longleftrightarrow> p = e @ x" for x using Cons.hyps(1) by (simp add: takes_off_def)
  show ?case
  proof (cases "f p")
    case None
    then show ?thesis using n f [of "concat es @ r"] by simp
  next
    case (Some a)
    then show ?thesis using Cons.IH [of a] f [of a] by simp
  qed
qed auto

lemma ACKCI_takes_off:
  assumes "\<And>q. length q = length body \<Longrightarrow> same q \<longleftrightarrow> q = body" "clen = 2 + length body" "clen < 256"
  shows "takes_off (ACKCI opt neg clen same) (if neg then [opt, of_nat clen] @ body else [])"
proof -
  have "ACKCI opt True clen same p = Some r \<longleftrightarrow> p = [opt, of_nat clen] @ body @ r" for p r
  proof (cases "clen \<le> length p")
    case True
    then obtain a b p' where p: "p = a # b # p'" using assms(2) by (cases p; cases "tl p") auto
    have b: "unat b = clen \<longleftrightarrow> b = of_nat clen" using assms(3) by (auto simp: word_unat_eq_iff unat_of_nat take_bit_eq_mod)
    have "take (length body) p' = body \<and> drop (length body) p' = r \<longleftrightarrow> p' = body @ r"
      by (metis append_eq_conv_conj)
    then show ?thesis using True assms(1) [of "take (length body) p'"] assms(2) p b by (auto simp: ACKCI_def)
  qed (use assms(2) in \<open>auto simp: ACKCI_def\<close>)
  then show ?thesis by (simp add: takes_off_def ACKCI_def)
qed

text \<open>The options that fit their encoding.\<close>

definition fits :: "lcp_options \<Rightarrow> bool" where
  "fits go \<longleftrightarrow> 0 \<le> mru go \<and> mru go < 65536 \<and> 0 \<le> mrru go \<and> mrru go < 65536 \<and> length (ep_value (endpoint go)) \<le> MAX_ENDP_LEN"

lemma request_takes_off:
  "takes_off (ACKCI opt neg CILEN_VOID (\<lambda>_. True)) (ADDCIVOID opt neg)"
  "0 \<le> v \<Longrightarrow> v < 65536 \<Longrightarrow> takes_off (ACKCI opt neg CILEN_SHORT (same_short v)) (ADDCISHORT opt neg v)"
  "takes_off (ACKCI opt neg CILEN_LONG (same_long w)) (ADDCILONG opt neg w)"
  "takes_off (ACKCI opt neg CILEN_CHAP (same_chap m)) (ADDCICHAP opt neg m)"
  "takes_off (ACKCI opt neg CILEN_LQR (same_lqr w)) (ADDCILQR opt neg w)"
  "takes_off (ACKCI opt neg CILEN_CHAR (same_char b)) (ADDCICHAR opt neg b)"
  "length (ep_value ep) \<le> MAX_ENDP_LEN \<Longrightarrow> takes_off (ACKCI opt neg (CILEN_CHAR + length (ep_value ep)) (same_endp ep)) (ADDCIENDP opt neg ep)"
proof -
  show "takes_off (ACKCI opt neg CILEN_VOID (\<lambda>_. True)) (ADDCIVOID opt neg)"
    using ACKCI_takes_off [of "[]" "\<lambda>_. True" CILEN_VOID opt neg] by (simp add: ADDCIVOID_def cilens cong: if_cong split del: if_split)
  show "0 \<le> v \<Longrightarrow> v < 65536 \<Longrightarrow> takes_off (ACKCI opt neg CILEN_SHORT (same_short v)) (ADDCISHORT opt neg v)"
    unfolding ADDCISHORT_def by (rule ACKCI_takes_off) (simp_all add: same_short_iff cilens)
  show "takes_off (ACKCI opt neg CILEN_LONG (same_long w)) (ADDCILONG opt neg w)"
    unfolding ADDCILONG_def by (rule ACKCI_takes_off) (simp_all add: same_long_def get_long_iff cilens)
  have "same_chap m q \<longleftrightarrow> q = be16 (unat PPP_CHAP) @ [of_int (CHAP_DIGEST m)]" if l: "length q = 3" for q
  proof -
    obtain a b c where q: "q = [a, b, c]" using l by (auto simp: length_Suc_conv numeral_3_eq_3)
    have "int (unat c) = CHAP_DIGEST m \<longleftrightarrow> c = of_int (CHAP_DIGEST m)"
      using CHAP_DIGEST_range [of m] by (auto simp: word_uint_eq_iff uint_word_of_int simp flip: uint_nat)
    moreover have "get_short [a, b, c] = get_short [a, b]" by (simp add: get_short_def)
    ultimately show ?thesis using get_short_iff [of "[a, b]" PPP_CHAP] by (auto simp: q same_chap_def be16_def)
  qed
  then show "takes_off (ACKCI opt neg CILEN_CHAP (same_chap m)) (ADDCICHAP opt neg m)"
    unfolding ADDCICHAP_def by (intro ACKCI_takes_off) (simp_all add: cilens)
  have "same_lqr w q \<longleftrightarrow> q = be16 (unat PPP_LQR) @ put_long w" if "length q = 6" for q
  proof -
    have "get_short q = get_short (take 2 q)" by (simp add: get_short_def)
    moreover have "q = be16 (unat PPP_LQR) @ put_long w \<longleftrightarrow> take 2 q = be16 (unat PPP_LQR) \<and> drop 2 q = put_long w"
      using append_eq_conv_conj [of "be16 (unat PPP_LQR)" "put_long w" q] by auto
    ultimately show ?thesis
      using get_short_iff [of "take 2 q" PPP_LQR] get_long_iff [of "drop 2 q" w] that by (simp add: same_lqr_def)
  qed
  then show "takes_off (ACKCI opt neg CILEN_LQR (same_lqr w)) (ADDCILQR opt neg w)"
    unfolding ADDCILQR_def by (intro ACKCI_takes_off) (simp_all add: cilens)
  have "same_char b q \<longleftrightarrow> q = [b]" if "length q = 1" for q
    using that by (auto simp: same_char_def length_Suc_conv)
  then show "takes_off (ACKCI opt neg CILEN_CHAR (same_char b)) (ADDCICHAR opt neg b)"
    using ACKCI_takes_off [of "[b]" "same_char b" CILEN_CHAR opt neg] by (simp add: ADDCICHAR_def cilens cong: if_cong split del: if_split)
  have "same_endp ep q \<longleftrightarrow> q = [ep_class ep] @ ep_value ep" if "length q = Suc (length (ep_value ep))" for q
    using that by (auto simp: same_endp_def length_Suc_conv)
  then show "length (ep_value ep) \<le> MAX_ENDP_LEN \<Longrightarrow>
      takes_off (ACKCI opt neg (CILEN_CHAR + length (ep_value ep)) (same_endp ep)) (ADDCIENDP opt neg ep)"
    using ACKCI_takes_off [of "[ep_class ep] @ ep_value ep" "same_endp ep" "CILEN_CHAR + length (ep_value ep)" opt neg]
    by (simp add: ADDCIENDP_def cilens MAX_ENDP_LEN_def cong: if_cong split del: if_split)
qed

lemma ack_matches_iff: "fits go \<Longrightarrow> lcp_ack_matches go p \<longleftrightarrow> p = lcp_request go"
proof -
  assume f: "fits go"
  define encs where "encs = [ADDCISHORT CI_MRU (asks_mru go) (mru go),
     ADDCILONG CI_ASYNCMAP (asks_asyncmap go) (asyncmap go),
     ADDCISHORT CI_AUTHTYPE (neg_eap go) (uint PPP_EAP),
     ADDCICHAP CI_AUTHTYPE (\<not> neg_eap go \<and> neg_chap go) (chap_mdtype go),
     ADDCISHORT CI_AUTHTYPE (\<not> neg_eap go \<and> \<not> neg_chap go \<and> neg_upap go) (uint PPP_PAP),
     ADDCILQR CI_QUALITY (neg_lqr go) (lqr_period go),
     ADDCICHAR CI_CALLBACK (neg_cbcp go) CBCP_OPT,
     ADDCILONG CI_MAGICNUMBER (neg_magicnumber go) (magicnumber go),
     ADDCIVOID CI_PCOMPRESSION (neg_pcompression go),
     ADDCIVOID CI_ACCOMPRESSION (neg_accompression go),
     ADDCISHORT CI_MRRU (neg_mrru go) (mrru go),
     ADDCIVOID CI_SSNHF (neg_ssnhf go),
     ADDCIENDP CI_EPDISC (neg_endpoint go) (endpoint go)]"
  have "0 \<le> uint w" "uint w < 65536" for w :: u16 using uint_lt2p [of w] by simp_all
  then show ?thesis
    unfolding lcp_ack_matches_def using f
    by (subst takes_off_fold [where encs = encs]) (simp_all add: encs_def request_takes_off fits_def lcp_request_def)
qed

lemma addci_length:
  "int (length (ADDCIVOID opt neg)) = (if neg then int CILEN_VOID else 0)" "int (length (ADDCISHORT opt neg v)) = (if neg then int CILEN_SHORT else 0)"
  "int (length (ADDCILONG opt neg w)) = (if neg then int CILEN_LONG else 0)" "int (length (ADDCICHAP opt neg m)) = (if neg then int CILEN_CHAP else 0)"
  "int (length (ADDCILQR opt neg w)) = (if neg then int CILEN_LQR else 0)" "int (length (ADDCICHAR opt neg b)) = (if neg then int CILEN_CHAR else 0)"
  "int (length (ADDCIENDP opt neg ep)) = (if neg then int (CILEN_CHAR + length (ep_value ep)) else 0)"
  by (simp_all add: ADDCISHORT_def ADDCILONG_def ADDCICHAP_def ADDCILQR_def ADDCICHAR_def ADDCIVOID_def ADDCIENDP_def cilens)

lemma request_length: "int (length (lcp_request (gotoptions (client s)))) = lcp_cilen s"
  unfolding lcp_request_def lcp_cilen_def Let_def length_append of_nat_add addci_length by (simp only: add.assoc)

section \<open>The answer to a request\<close>

text \<open>What a peer's options are after a request has been read: sizes in range, and at most one authentication protocol, one that is allowed.\<close>

definition peer_opts_ok :: "lcp_options \<Rightarrow> lcp_options \<Rightarrow> bool" where
  "peer_opts_ok ao ho \<longleftrightarrow> (neg_mru ho \<longrightarrow> MINMRU \<le> mru ho \<and> mru ho < 65536) \<and> length (ep_value (endpoint ho)) \<le> MAX_ENDP_LEN \<and>
     \<not> (neg_upap ho \<and> neg_chap ho) \<and> \<not> (neg_upap ho \<and> neg_eap ho) \<and> \<not> (neg_chap ho \<and> neg_eap ho) \<and>
     (neg_upap ho \<longrightarrow> neg_upap ao) \<and> (neg_eap ho \<longrightarrow> neg_eap ao) \<and>
     (neg_chap ho \<longrightarrow> neg_chap ao \<and> chap_mdtype ho \<in> {1, 2, 4} \<and> chap_mdtype ho AND chap_mdtype ao \<noteq> 0)"

lemma get_short_range: "0 \<le> get_short q" "get_short q < 65536"
proof -
  have "unat (q ! 0) * 256 + unat (q ! 1) < 65536" using unat_u8_less [of "q ! 0"] unat_u8_less [of "q ! 1"] by arith
  then show "0 \<le> get_short q" "get_short q < 65536" unfolding get_short_def by linarith+
qed

lemma candigest: "CHAP_CANDIGEST m d \<Longrightarrow> CHAP_MDTYPE_D d \<in> {1, 2, 4} \<and> CHAP_MDTYPE_D d AND m \<noteq> 0"
  by (auto simp: CHAP_CANDIGEST_def CHAP_MDTYPE_D_def and.commute split: if_splits)

definition is_answer :: "u8 \<Rightarrow> bool" where
  "is_answer c \<longleftrightarrow> c = CONFACK \<or> c = CONFNAK \<or> c = CONFREJ"

lemma is_answer_simps [simp]: "is_answer CONFACK" "is_answer CONFNAK" "is_answer CONFREJ"
  by (simp_all add: is_answer_def)

lemma peer_opts_set [simp]:
  "peer_opts_ok ao (ho\<lparr>neg_mru := True, mru := m\<rparr>) \<longleftrightarrow> MINMRU \<le> m \<and> m < 65536 \<and> peer_opts_ok ao (ho\<lparr>neg_mru := False\<rparr>)"
  "peer_opts_ok ao (ho\<lparr>neg_asyncmap := b, asyncmap := w\<rparr>) = peer_opts_ok ao ho"
  "peer_opts_ok ao (ho\<lparr>neg_magicnumber := b, magicnumber := w\<rparr>) = peer_opts_ok ao ho"
  "peer_opts_ok ao (ho\<lparr>neg_mrru := b, mrru := m\<rparr>) = peer_opts_ok ao ho"
  "peer_opts_ok ao (neg_pcompression_update f ho) = peer_opts_ok ao ho" "peer_opts_ok ao (neg_accompression_update f ho) = peer_opts_ok ao ho"
  "peer_opts_ok ao (neg_ssnhf_update f ho) = peer_opts_ok ao ho"
  "peer_opts_ok ao ho \<Longrightarrow> peer_opts_ok ao (ho\<lparr>neg_mru := False\<rparr>)"
  "peer_opts_ok ao ho \<Longrightarrow> peer_opts_ok ao (ho\<lparr>neg_endpoint := b, endpoint := e\<rparr>) \<longleftrightarrow> length (ep_value e) \<le> MAX_ENDP_LEN"
  by (auto simp: peer_opts_ok_def)

lemma peer_opts_auth [simp]:
  "peer_opts_ok ao ho \<Longrightarrow> \<not> neg_chap ho \<Longrightarrow> \<not> neg_eap ho \<Longrightarrow> neg_upap ao \<Longrightarrow> peer_opts_ok ao (ho\<lparr>neg_upap := True\<rparr>)"
  "peer_opts_ok ao ho \<Longrightarrow> \<not> neg_chap ho \<Longrightarrow> \<not> neg_upap ho \<Longrightarrow> neg_eap ao \<Longrightarrow> peer_opts_ok ao (ho\<lparr>neg_eap := True\<rparr>)"
  "peer_opts_ok ao ho \<Longrightarrow> \<not> neg_upap ho \<Longrightarrow> \<not> neg_eap ho \<Longrightarrow> neg_chap ao \<Longrightarrow> CHAP_CANDIGEST (chap_mdtype ao) d \<Longrightarrow>
     peer_opts_ok ao (ho\<lparr>chap_mdtype := CHAP_MDTYPE_D d, neg_chap := True\<rparr>)"
  using candigest [of "chap_mdtype ao" d] by (simp_all add: peer_opts_ok_def)

lemma nak_lengths: "length nak_eap = 4" "length nak_pap = 4" "length (nak_chap ao) = 5"
  by (simp_all add: nak_eap_def nak_pap_def nak_chap_def)

lemma reqci_auth_bounds:
  assumes "reqci_auth ao clen q ho = (orc, nak, ho')"
  shows "4 * length nak \<le> 5 * clen" "neg_eap ao \<or> \<not> neg_chap ao \<Longrightarrow> length nak \<le> clen" "peer_opts_ok ao ho \<Longrightarrow> peer_opts_ok ao ho'"
    "is_answer orc"
  using assms by (auto simp: reqci_auth_def Let_def nak_lengths cilens split: if_splits)

lemma reqci_option_bounds:
  assumes "reqci_option env go ao citype clen q ho d = ((orc, nak, ho'), d')" "length q = clen - 2"
  shows "4 * length nak \<le> 5 * clen" "neg_eap ao \<or> \<not> neg_chap ao \<Longrightarrow> length nak \<le> clen" "peer_opts_ok ao ho \<Longrightarrow> peer_opts_ok ao ho'"
    "is_answer orc"
proof -
  show "4 * length nak \<le> 5 * clen" "neg_eap ao \<or> \<not> neg_chap ao \<Longrightarrow> length nak \<le> clen" "is_answer orc"
    using assms reqci_auth_bounds(1,2,4) [of ao clen q ho orc nak ho']
    by (auto simp: reqci_option_def ADDCISHORT_def ADDCILONG_def ADDCILQR_def cilens split: if_splits)
  show "peer_opts_ok ao ho'" if "peer_opts_ok ao ho"
    using assms that reqci_auth_bounds(3) [of ao clen q ho orc nak ho'] get_short_range [of q]
    by (auto simp: reqci_option_def cilens split: if_splits)
qed

lemma tally_sel [simp]: "q_nak (reqci_tally rej orc ty opt v) = q_nak v" "q_ho (reqci_tally rej orc ty opt v) = q_ho v"
    "q_draws (reqci_tally rej orc ty opt v) = q_draws v"
  by (simp_all add: reqci_tally_def)

lemma tally_rej: "\<exists>r. q_rej (reqci_tally rej orc ty opt v) = q_rej v @ r \<and> subseq r opt"
  by (auto simp: reqci_tally_def)

lemma tally_rc: "is_answer orc \<Longrightarrow> is_answer (q_rc v) \<Longrightarrow>
    is_answer (q_rc (reqci_tally rej orc ty opt v))"
  by (auto simp: reqci_tally_def)

text \<open>What a run of the loop over \<open>p\<close> makes of its variables.\<close>

definition loop_ok :: "lcp_options \<Rightarrow> bytes \<Rightarrow> req_vars \<Rightarrow> req_vars \<Rightarrow> bool" where
  "loop_ok ao p v w \<longleftrightarrow> (\<exists>r. q_rej w = q_rej v @ r \<and> subseq r p) \<and>
     4 * length (q_nak w) \<le> 4 * length (q_nak v) + 5 * length p \<and>
     (neg_eap ao \<or> \<not> neg_chap ao \<longrightarrow> length (q_nak w) \<le> length (q_nak v) + length p) \<and>
     (peer_opts_ok ao (q_ho v) \<longrightarrow> peer_opts_ok ao (q_ho w)) \<and>
     (is_answer (q_rc v) \<longrightarrow> is_answer (q_rc w))"

lemma loop_ok_append: "loop_ok ao p v w \<Longrightarrow> loop_ok ao p' w u \<Longrightarrow> loop_ok ao (p @ p') v u"
proof -
  assume a: "loop_ok ao p v w" and b: "loop_ok ao p' w u"
  obtain r where "q_rej w = q_rej v @ r" "subseq r p" using a unfolding loop_ok_def by blast
  moreover obtain r' where "q_rej u = q_rej w @ r'" "subseq r' p'" using b unfolding loop_ok_def by blast
  ultimately have "\<exists>r. q_rej u = q_rej v @ r \<and> subseq r (p @ p')" by (intro exI [of _ "r @ r'"]) (simp add: list_emb_append_mono)
  moreover have "neg_eap ao \<or> \<not> neg_chap ao \<longrightarrow> length (q_nak w) \<le> length (q_nak v) + length p"
    "neg_eap ao \<or> \<not> neg_chap ao \<longrightarrow> length (q_nak u) \<le> length (q_nak w) + length p'"
    using a b unfolding loop_ok_def by blast+
  then have "neg_eap ao \<or> \<not> neg_chap ao \<longrightarrow> length (q_nak u) \<le> length (q_nak v) + length (p @ p')" by auto
  ultimately show ?thesis using a b unfolding loop_ok_def by simp
qed

lemma reqci_loop_ok: "loop_ok ao p v (reqci_loop env go ao rej p v)"
proof (induction env go ao rej p v rule: reqci_loop.induct)
  case (1 env go ao rej p v)
  consider "p = []" | "p \<noteq> []" "length p < 2 \<or> unat (p ! 1) < 2 \<or> unat (p ! 1) > length p"
    | "p \<noteq> []" "\<not> (length p < 2 \<or> unat (p ! 1) < 2 \<or> unat (p ! 1) > length p)" by blast
  then show ?case
  proof cases
    case 1
    then show ?thesis by (simp add: reqci_loop.simps [of env go ao rej "[]" v] loop_ok_def)
  next
    case 2
    then show ?thesis using tally_rej [of rej CONFREJ 0 p v] tally_rc [of CONFREJ v rej 0 p]
      by (simp add: reqci_loop.simps [of env go ao rej p v] loop_ok_def)
  next
    case 3
    define clen where "clen = unat (p ! 1)"
    obtain orc nak ho d where o: "reqci_option env go ao (p ! 0) clen (take (clen - 2) (drop 2 p)) (q_ho v) (q_draws v) = ((orc, nak, ho), d)"
      by (metis prod_cases3 surj_pair)
    define w where "w = reqci_tally rej orc (p ! 0) (take clen p) (v\<lparr>q_ho := ho, q_nak := q_nak v @ nak, q_draws := d\<rparr>)"
    have l: "length (take (clen - 2) (drop 2 p)) = clen - 2" "length (take clen p) = clen" using 3 by (auto simp: clen_def)
    note b = reqci_option_bounds [OF o l(1)]
    have "loop_ok ao (take clen p) v w"
      using b l tally_rej [of rej orc "p ! 0" "take clen p" "v\<lparr>q_ho := ho, q_nak := q_nak v @ nak, q_draws := d\<rparr>"]
        tally_rc [of orc "v\<lparr>q_ho := ho, q_nak := q_nak v @ nak, q_draws := d\<rparr>" rej "p ! 0" "take clen p"]
      by (simp add: loop_ok_def w_def)
    moreover have "loop_ok ao (drop clen p) w (reqci_loop env go ao rej (drop clen p) w)"
      using "1.IH" [OF 3 refl clen_def o [symmetric] refl refl refl refl] unfolding w_def clen_def by simp
    moreover have "reqci_loop env go ao rej p v = reqci_loop env go ao rej (drop clen p) w"
      using 3 o by (simp add: reqci_loop.simps [of env go ao rej p v] clen_def w_def Let_def)
    ultimately show ?thesis using loop_ok_append [of ao "take clen p" v w "drop clen p"] by simp
  qed
qed

text \<open>A run of equal options that are not acceptable.\<close>

lemma loop_naks:
  assumes "\<And>d. reqci_option env go ao (opt ! 0) (length opt) (drop 2 opt) zero_options d = ((CONFNAK, nak, zero_options), d)"
    and "2 \<le> length opt" "unat (opt ! 1) = length opt"
  shows "q_ho v = zero_options \<Longrightarrow> q_rc v \<in> {CONFACK, CONFNAK} \<Longrightarrow> q_rc v = CONFNAK \<or> n \<noteq> 0 \<Longrightarrow>
    reqci_loop env go ao False (concat (replicate n opt)) v = v\<lparr>q_rc := CONFNAK, q_nak := q_nak v @ concat (replicate n nak)\<rparr>"
proof (induction n arbitrary: v)
  case 0
  then show ?case by (simp add: reqci_loop.simps [of env go ao False "[]" v])
next
  case (Suc n)
  have o: "(opt @ r) ! 0 = opt ! 0" "(opt @ r) ! Suc 0 = opt ! Suc 0" "take (length opt - 2) (drop 2 opt @ r) = drop 2 opt" for r
    using assms(2) by (auto simp: nth_append)
  have t: "reqci_tally False CONFNAK ty opt (v\<lparr>q_ho := zero_options, q_nak := q_nak v @ nak, q_draws := q_draws v\<rparr>) =
      v\<lparr>q_rc := CONFNAK, q_nak := q_nak v @ nak\<rparr>" for ty opt
    using Suc.prems(1,2) by (cases v) (auto simp: reqci_tally_def CONFACK_def CONFNAK_def CONFREJ_def)
  have "reqci_loop env go ao False (concat (replicate (Suc n) opt)) v =
      reqci_loop env go ao False (concat (replicate n opt)) (v\<lparr>q_rc := CONFNAK, q_nak := q_nak v @ nak\<rparr>)"
    using assms Suc.prems o t by (subst reqci_loop.simps) (auto simp: Let_def)
  then show ?case using Suc.IH [of "v\<lparr>q_rc := CONFNAK, q_nak := q_nak v @ nak\<rparr>"] Suc.prems by simp
qed

definition pap_option :: bytes where
  "pap_option = [3, 4, 0xc0, 0x23]"

lemma pap_naks:
  assumes "\<not> neg_upap ao" "neg_chap ao" "\<not> neg_eap ao" "q_ho v = zero_options" "q_rc v = CONFACK" "n \<noteq> 0"
  shows "reqci_loop env go ao False (concat (replicate n pap_option)) v = v\<lparr>q_rc := CONFNAK, q_nak := q_nak v @ concat (replicate n (nak_chap ao))\<rparr>"
  by (rule loop_naks) (use assms in \<open>simp_all add: pap_option_def reqci_option_def reqci_auth_def ci_codes cilens get_short_def PPP_PAP_def zero_options_def\<close>)

section \<open>The digest of a Nak\<close>

lemma some_digest: "m AND 7 \<noteq> 0 \<Longrightarrow> m AND 4 \<noteq> 0 \<or> m AND 1 \<noteq> 0 \<or> m AND 2 \<noteq> 0" for m :: u8
proof (rule ccontr)
  assume "m AND 7 \<noteq> 0" "\<not> ?thesis"
  moreover have "m AND 7 = (m AND 4) OR (m AND 1) OR (m AND 2)" by (simp flip: bit.conj_disj_distrib)
  ultimately show False by simp
qed

lemma differs_anyway: "m AND 7 \<noteq> 0 \<Longrightarrow> differs_from_CHAP_DIGEST (CHAP_DIGEST m) m"
proof -
  assume "m AND 7 \<noteq> 0"
  moreover have "uint (m AND 4) \<le> 4" by (simp add: uint_and AND_upper2)
  ultimately show ?thesis
    using some_digest [of m]
    by (auto simp: differs_from_CHAP_DIGEST_def CHAP_DIGEST_def CHAP_MD5_def CHAP_MICROSOFT_def CHAP_MICROSOFT_V2_def)
qed

section \<open>An example\<close>

definition demo_lcp_env :: lcp_env where
  "demo_lcp_env = \<lparr>link_cfg = demo_link_env False, lcp_magic = (\<lambda>n. of_nat n + 1), lcp_echo_interval = 30, lcp_echo_fails = 2,
     lcp_loopbackfail = 10, lax_recv = False, noendpoint = False, multilink = False, listen_time = 0, send_config_ok = (\<lambda>_. True), recv_config_ok = (\<lambda>_. True),
     has_disconnect = True, has_cleanup = True, pap_logout_hook = False, has_datainput = (\<lambda>_. False), refuse_pap = False, refuse_chap = False,
     refuse_mschap = True, refuse_mschap_v2 = True, refuse_eap = True, have_pap_passwd = False, have_pap_secret = True,
     have_chap_secret = (\<lambda>_. True), have_srp_secret = (\<lambda>_. False)\<rparr>"

definition demo_lcp :: lcp_sys where
  "demo_lcp = \<lparr>fsm = \<lparr>unit = 0, protocol = PPP_LCP, f_state = INITIAL, flags = 0, id = 0, reqid = 0, seen_ack = False, timeouttime = 3,
      maxconfreqtransmits = 10, retransmits = 0, maxtermtransmits = 2, nakloops = 0, rnakloops = 0, maxnakloops = 5, term_reason = []\<rparr>,
     timers = 0, sent = [], peer_mru = 1500,
     client = \<lparr>wantoptions = zero_options, gotoptions = zero_options, allowoptions = zero_options, hisoptions = zero_options,
       lcp_echos_pending = 0, lcp_echo_number = 0, lcp_echo_timer_running = False, echo_timers = 0, delayed_timers = 0, mdraws = 0,
       lnk = demo_link\<lparr>l_phase := PHASE_INITIALIZE\<rparr>, hungup = False, dev_open = False, ppp_open = False, lcp_calls = []\<rparr>\<rparr>"

section \<open>Properties\<close>

lemma addci_lengths: "length (ADDCIVOID opt neg) \<le> 2" "length (ADDCISHORT opt neg v) \<le> 4" "length (ADDCILONG opt neg w) \<le> 6"
    "length (ADDCILQR opt neg w) \<le> 8" "length (ADDCICHAR opt neg b) \<le> 3" "length (ADDCIENDP opt neg ep) \<le> 3 + length (ep_value ep)"
    "length (ADDCISHORT opt e v) + length (ADDCICHAP opt (\<not> e \<and> c) m) + length (ADDCISHORT opt (\<not> e \<and> \<not> c \<and> u) v') \<le> 5"
  by (simp_all add: ADDCISHORT_def ADDCILONG_def ADDCICHAP_def ADDCILQR_def ADDCICHAR_def ADDCIVOID_def ADDCIENDP_def cilens)

lemma request_short: "fits go \<Longrightarrow> length (lcp_request go) \<le> 65"
  using addci_lengths(2) [of CI_MRU "asks_mru go" "mru go"] addci_lengths(3) [of CI_ASYNCMAP "asks_asyncmap go" "asyncmap go"]
    addci_lengths(7) [of CI_AUTHTYPE "neg_eap go" "uint PPP_EAP" "neg_chap go" "chap_mdtype go" "neg_upap go" "uint PPP_PAP"]
    addci_lengths(4) [of CI_QUALITY "neg_lqr go" "lqr_period go"] addci_lengths(5) [of CI_CALLBACK "neg_cbcp go" CBCP_OPT]
    addci_lengths(3) [of CI_MAGICNUMBER "neg_magicnumber go" "magicnumber go"] addci_lengths(1) [of CI_PCOMPRESSION "neg_pcompression go"]
    addci_lengths(1) [of CI_ACCOMPRESSION "neg_accompression go"] addci_lengths(2) [of CI_MRRU "neg_mrru go" "mrru go"]
    addci_lengths(1) [of CI_SSNHF "neg_ssnhf go"] addci_lengths(6) [of CI_EPDISC "neg_endpoint go" "endpoint go"]
  unfolding fits_def lcp_request_def length_append MAX_ENDP_LEN_def by linarith

text \<open>C11: \<open>lcp_ackci\<close> accepts exactly the options that \<open>lcp_addci\<close> wrote, which have the length that \<open>lcp_cilen\<close> announced, at most 65 bytes, so
  that a request is never cut off.\<close>

theorem lcp_request_acknowledged:
  assumes "fits (gotoptions (client s))"
  shows "(fst (lcp_ackci p s) \<longleftrightarrow> p = fst (lcp_addci n s)) \<and> int (length (fst (lcp_addci n s))) = lcp_cilen s \<and> lcp_cilen s \<le> 65"
  using ack_matches_iff [OF assms] request_length [of s] request_short [OF assms] by (simp add: lcp_ackci_def lcp_addci_def)


text \<open>C13: Where PAP and EAP are refused but CHAP is not, a packet of 374 requests for PAP, which is no longer than \<open>PPP_MRU\<close> with its header, makes
  \<open>lcp_reqci\<close> write 1870 bytes into \<open>nak_buffer\<close>, which has \<open>PPP_MRU\<close>.\<close>

theorem lcp_nak_overflow:
  assumes "\<not> neg_upap (allowoptions (client s))" "neg_chap (allowoptions (client s))" "\<not> neg_eap (allowoptions (client s))"
  defines "inp \<equiv> concat (replicate 374 [3, 4, 0xc0, 0x23])"
  shows "int (length inp + HEADERLEN) \<le> PPP_MRU \<and> fst (lcp_reqci env inp False s) = CONFNAK \<and>
    length (fst (snd (lcp_reqci env inp False s))) = 1870 \<and> (1870 :: int) > PPP_MRU"
proof -
  have l: "length (concat (replicate n xs)) = n * length xs" for n and xs :: bytes by (induction n) simp_all
  have "inp = concat (replicate 374 pap_option)" by (simp add: inp_def pap_option_def)
  then show ?thesis
    using pap_naks [OF assms(1-3), of "\<lparr>q_rc = CONFACK, q_ho = zero_options, q_nak = [], q_rej = [], q_draws = mdraws (client s)\<rparr>" 374 env "gotoptions (client s)"]
    by (simp add: lcp_reqci_def Let_def l fsm_codes nak_chap_def pap_option_def HEADERLEN_def PPP_MRU_def)
qed

text \<open>C40: A Nak that suggests the very digest that was asked for is meant to be a bad packet; the comparison that is to detect it never
  does, whatever digests are asked for, and the Nak is taken as a new suggestion.\<close>

theorem lcp_nak_same_digest:
  assumes "neg_chap go" "\<not> neg_eap go" "chap_mdtype go AND MDTYPE_ALL \<noteq> 0"
  shows "nak_auth_try go CILEN_CHAP (be16 (unat PPP_CHAP) @ [of_int (CHAP_DIGEST (chap_mdtype go))]) tr =
    Some (tr\<lparr>chap_mdtype := CHAP_MDTYPE_D (CHAP_DIGEST (chap_mdtype go))\<rparr>)"
proof -
  have "m AND 7 \<noteq> 0 \<Longrightarrow> CHAP_CANDIGEST m (CHAP_DIGEST m)" for m
    using some_digest [of m] by (auto simp: CHAP_CANDIGEST_def CHAP_DIGEST_def CHAP_MD5_def CHAP_MICROSOFT_def CHAP_MICROSOFT_V2_def)
  moreover have "int (unat (of_int (CHAP_DIGEST m) :: u8)) = CHAP_DIGEST m" for m
    using CHAP_DIGEST_range [of m] by (simp add: uint_word_of_int)
  moreover have "get_short (be16 (unat PPP_CHAP) @ r) = uint PPP_CHAP" for r by (simp add: get_short_def be16_def PPP_CHAP_def)
  ultimately show ?thesis
    using assms differs_anyway [of "chap_mdtype go"]
    by (simp add: nak_auth_try_def MDTYPE_ALL_def Let_def cilens PPP_PAP_def PPP_CHAP_def be16_def nth_append)
qed

theorem lcp_request_acknowledged_witness:
  "fst (lcp_ackci [5, 6, 0, 0, 0, 9] (on_lcp (\<lambda>c. c\<lparr>gotoptions := zero_options\<lparr>neg_magicnumber := True, magicnumber := 9\<rparr>\<rparr>) demo_lcp))"
  using lcp_request_acknowledged [of "on_lcp (\<lambda>c. c\<lparr>gotoptions := zero_options\<lparr>neg_magicnumber := True, magicnumber := 9\<rparr>\<rparr>) demo_lcp" "[5, 6, 0, 0, 0, 9]" 0]
  by (simp add: on_lcp_def fits_def zero_options_def lcp_addci_def lcp_request_def ADDCISHORT_def ADDCILONG_def ADDCICHAP_def ADDCILQR_def ADDCICHAR_def
      ADDCIVOID_def ADDCIENDP_def cilens ci_codes put_long_def bytes32_def demo_lcp_def)


theorem lcp_nak_overflow_witness:
  "length (fst (snd (lcp_reqci demo_lcp_env (concat (replicate 374 [3, 4, 0xc0, 0x23])) False
     (on_lcp (\<lambda>c. c\<lparr>allowoptions := zero_options\<lparr>neg_chap := True\<rparr>\<rparr>) demo_lcp)))) = 1870"
  using lcp_nak_overflow [of "on_lcp (\<lambda>c. c\<lparr>allowoptions := zero_options\<lparr>neg_chap := True\<rparr>\<rparr>) demo_lcp" demo_lcp_env]
  by (simp add: on_lcp_def zero_options_def)

theorem lcp_nak_same_digest_witness:
  "nak_auth_try (zero_options\<lparr>neg_chap := True, chap_mdtype := 4\<rparr>) 5 [0xc2, 0x23, 5] zero_options = Some (zero_options\<lparr>chap_mdtype := 4\<rparr>)"
  using lcp_nak_same_digest [of "zero_options\<lparr>neg_chap := True, chap_mdtype := 4\<rparr>" zero_options] be16_iff [of "unat PPP_CHAP" "0xc2" "0x23"]
  by (simp add: zero_options_def MDTYPE_ALL_def PPP_CHAP_def CHAP_DIGEST_def CHAP_MD5_def CHAP_MDTYPE_D_def CHAP_MICROSOFT_def CHAP_MICROSOFT_V2_def cilens)

end
