(* ===== verification/Ppp_Lcp_Runs.thy ===== *)
theory Ppp_Lcp_Runs
  imports Ppp_Lcp_Proofs Ppp_Lcp_Options
begin

text \<open>
  Runs of LCP and the link (\<^verbatim>\<open>Ppp_Lcp\<close>): every event keeps their common invariant, so that it holds in every reachable state.
\<close>

section \<open>A start that waits\<close>

text \<open>With \<open>listen_time\<close> the lower layer comes up for the automaton only after a while, or with the first packet. Until then the automaton
  is at rest below, and would be steady without the delay.\<close>

abbreviation undelayed :: "lcp_sys \<Rightarrow> lcp_sys" where
  "undelayed s \<equiv> undelay (clear_flag DELAYED_UP s)"

definition lcp_delayed :: "lcp_env \<Rightarrow> lcp_sys \<Rightarrow> bool" where
  "lcp_delayed env s \<longleftrightarrow> has_flag DELAYED_UP s \<and> delayed_timers (client s) = 1 \<and> low (f_state (fsm s)) \<and>
     \<not> idle (l_phase (lnk (client s))) \<and> \<not> hungup (client s) \<and> lcp_steady env (undelayed s)"

definition lcp_ok :: "lcp_env \<Rightarrow> lcp_sys \<Rightarrow> bool" where
  "lcp_ok env s \<longleftrightarrow> lcp_steady env s \<or> lcp_delayed env s"

lemma delayedD:
  assumes "lcp_delayed env s"
  shows "has_flag DELAYED_UP s" "delayed_timers (client s) = 1" "low (f_state (fsm s))" "f_state (fsm s) \<noteq> OPENED" "\<not> idle (l_phase (lnk (client s)))"
    "\<not> hungup (client s)" "lcp_steady env (undelayed s)" "lcp_inv env False (flags (fsm s) AND NOT DELAYED_UP) (client (undelayed s))"
    "\<not> link_open (client s)" "timers s = 0" "echo_timers (client s) = 0"
  using assms by (auto simp: lcp_delayed_def fsm_inv_def timers_ok_def lcp_inv_def lcp_base_def low_def split: if_splits)

lemma delayed_lowerup: "lcp_delayed env s \<Longrightarrow> lcp_steady env (fsm_lowerup (lcp_callbacks env) (undelayed s))"
  using delayedD(7,8) [of env s] by (intro lcp.lowerup_inv) auto

lemma more_flags: "fl AND b \<noteq> 0 \<Longrightarrow> fl AND (a OR b) \<noteq> 0" for fl a b :: u32
  by (auto simp: bit_eq_iff bit_simps)

lemma delayed_close_fsm: "lcp_delayed env s \<Longrightarrow> lcp_steady env (close_fsm env r s)"
proof -
  assume d: "lcp_delayed env s"
  define t where "t = upd (term_reason_update (\<lambda>_. map of_char r)) (goto CLOSED (undelay s))"
  have "fsm_close (close_callbacks env) (map of_char r) (goto STOPPED (undelay s)) = t"
    by (simp add: fsm_close_def t_def Let_def upd_def goto_def undelay_def on_lcp_def)
  then have e: "close_fsm env r s = lcp_finished env (clear_flag DELAYED_UP t)"
    using delayedD(1) [OF d] more_flags by (auto simp: close_fsm_def Let_def has_flag_def t_def)
  show ?thesis
    unfolding e using delayedD(8-10) [OF d] by (intro finished_steady) (auto simp: t_def fsm_inv_def timers_ok_def)
qed

lemma delayed_on_link:
  "lcp_delayed env s \<Longrightarrow> lcp_is_open l = lcp_is_open (lnk (client s)) \<Longrightarrow> \<not> idle (l_phase l) \<Longrightarrow> lcp_delayed env (on_link (\<lambda>_. l) s)"
  by (auto simp: lcp_delayed_def has_flag_def fsm_inv_def timers_ok_def lcp_inv_def lcp_base_def low_def)

lemma on_link_const: "on_link g s = on_link (\<lambda>_. g (lnk (client s))) s"
  by (simp add: on_link_def on_lcp_def)

lemma close_ok: "lcp_ok env s \<Longrightarrow> lcp_ok env (lcp_close env r s)"
proof -
  have "lcp_delayed env (on_link terminating s)" if "lcp_delayed env s"
    using delayed_on_link [OF that, of "terminating (lnk (client s))"] terminating_idle delayedD(5) [OF that]
    by (subst on_link_const) auto
  then show "lcp_ok env s \<Longrightarrow> ?thesis"
    using delayed_close_fsm close_steady(1) by (auto simp: lcp_ok_def lcp_close_def)
qed

lemma run_link_ok:
  assumes "lcp_ok env s" "e \<noteq> L_established" "e \<noteq> L_down" "e = L_np_up \<or> e = L_np_down \<Longrightarrow> networking s"
  shows "lcp_ok env (run_link env e s)"
proof (cases "lcp_delayed env s")
  case True
  define l where "l = link_do (lenv env (client s)) e (lnk (client s))"
  have so: "sound (lenv env (client s)) (lnk (client s)) l"
    unfolding l_def using assms(2-4) by (intro link_do_sound) (auto simp: networking_def)
  then obtain rs where rs: "close_reasons l = close_reasons (lnk (client s)) @ rs" "\<not> lcp_is_open l"
    using delayedD(9) [OF True] by (auto simp: sound_def)
  have d: "lcp_delayed env (on_link (\<lambda>_. l) s)"
    using delayed_on_link [OF True, of l] delayedD(5,9) [OF True] rs(2) so by (auto simp: sound_def)
  have "lcp_ok env (fold (close_fsm env) rs (on_link (\<lambda>_. l) s))"
    using d by (cases rs) (auto simp: lcp_ok_def fold_close_steady delayed_close_fsm)
  then show ?thesis unfolding run_link_def l_def [symmetric] Let_def rs(1) by simp
qed (use assms run_link_steady in \<open>auto simp: lcp_ok_def\<close>)

section \<open>Hanging up\<close>

lemma lowerdown_low: "low (f_state (fsm (fsm_lowerdown (down_callbacks env) s)))"
  by (auto simp: fsm_lowerdown_def down_callbacks_def no_callbacks_def lcp_down_sel lcp_starting_def low_def split: fsm_state.split)

lemma lowerdown_hungup: "hungup (client (fsm_lowerdown (down_callbacks env) s)) = hungup (client s)"
  by (auto simp: fsm_lowerdown_def down_callbacks_def no_callbacks_def lcp_down_sel lcp_starting_def split: fsm_state.split)

text \<open>The layer below goes down, whether the line is hung up or not.\<close>

lemma lowerdown_steady:
  assumes "timers_ok s" "lcp_base env True (flags (fsm s)) (client s)" "f_state (fsm s) \<noteq> OPENED \<Longrightarrow> \<not> link_open (client s) \<and> \<not> lcp_echo_timer_running (client s)"
  shows "lcp_steady env (fsm_lowerdown (down_callbacks env) s)"
  using assms lcp_down_inv [OF assms(2)]
  by (auto simp: fsm_lowerdown_def down_callbacks_def no_callbacks_def lcp_down_sel lcp_starting_def fsm_inv_def timers_ok_def lcp_inv_def
      split: fsm_state.split)

lemma dead_steady:
  assumes "lcp_steady env s" "low (f_state (fsm s))" "hungup (client s)"
  shows "lcp_steady env (link_terminated env s)"
proof -
  have s: "lcp_inv env True (flags (fsm s)) (client s)" "\<not> link_open (client s)" "timers s = 0"
    using assms by (auto simp: fsm_inv_def timers_ok_def low_def)
  have "lcp_inv env True (flags (fsm s)) (client (release_device env (release_ppp env s)))"
    using release_inv(2) [OF _ release_inv(1) [OF s(2,1)]] s(2) by simp
  then show ?thesis
    using assms s by (auto simp: link_terminated_def Let_def fsm_inv_def timers_ok_def low_def)
qed

abbreviation hang_up :: "lcp_sys \<Rightarrow> lcp_sys" where
  "hang_up s \<equiv> set_status EXIT_HANGUP (on_lcp (hungup_update (\<lambda>_. True)) s)"

lemma hangup_ok:
  assumes "lcp_ok env s"
  shows "lcp_steady env (link_terminated env (lcp_lowerdown env (hang_up s)))"
proof (cases "lcp_delayed env s")
  case True
  then have "lcp_lowerdown env (hang_up s) = undelayed (hang_up s)"
    by (simp add: lcp_lowerdown_def lcp_delayed_def has_flag_def set_status_def)
  moreover have "lcp_steady env (undelayed (hang_up s))"
    using delayedD [OF True] by (auto simp: fsm_inv_def timers_ok_def lcp_inv_def lcp_base_def set_status_def)
  ultimately show ?thesis
    using delayedD(3) [OF True] by (intro dead_steady) (simp_all add: set_status_def)
next
  case False
  with assms have s: "lcp_steady env s" by (simp add: lcp_ok_def)
  then have n: "\<not> has_flag DELAYED_UP (hang_up s)"
    using steadyD(3) [OF s] by (simp add: has_flag_def set_status_def)
  have "lcp_steady env (fsm_lowerdown (down_callbacks env) (hang_up s))"
    using s by (intro lowerdown_steady) (auto simp: set_status_def fsm_inv_def timers_ok_def lcp_inv_def lcp_base_def)
  then show ?thesis
    using n lowerdown_low lowerdown_hungup by (auto simp: lcp_lowerdown_def set_status_def intro!: dead_steady)
qed

section \<open>Starting\<close>

lemma other_flags: "a AND b = 0 \<Longrightarrow> (fl OR a) AND b = fl AND b" "a AND b = 0 \<Longrightarrow> (fl AND NOT a) AND b = fl AND b" for fl a b :: u32
  by (auto simp: bit_eq_iff bit_simps)

lemma open_flags [simp]: "OPT_PASSIVE AND DELAYED_UP = 0" "OPT_SILENT AND DELAYED_UP = 0" "(OPT_PASSIVE OR OPT_SILENT) AND DELAYED_UP = 0"
  by (simp_all add: OPT_PASSIVE_def OPT_SILENT_def DELAYED_UP_def)

lemma raised_flag: "((fl OR b) AND NOT b) AND b = 0" "b \<noteq> 0 \<Longrightarrow> (fl OR b) AND b \<noteq> 0" for fl b :: u32
  by (auto simp: bit_eq_iff bit_simps)

lemma steady_flags: "lcp_steady env s \<Longrightarrow> g (flags (fsm s)) AND DELAYED_UP = flags (fsm s) AND DELAYED_UP \<Longrightarrow> lcp_steady env (upd (flags_update g) s)"
  by (simp add: fsm_inv_def timers_ok_def lcp_inv_def lcp_base_def)

lemma open_steady: "lcp_steady env s \<Longrightarrow> lcp_steady env (lcp_open env s)"
  unfolding lcp_open_def Let_def set_flag_def clear_flag_def
  by (intro lcp.open_inv) (auto intro!: steady_flags other_flags simp del: bit.de_Morgan_disj)

lemma open_low: "low (f_state (fsm s)) \<Longrightarrow> low (f_state (fsm (lcp_open env s)))"
  by (auto simp: lcp_open_def Let_def fsm_open_def lcp_callbacks_sel down_callbacks_def lcp_starting_def low_def)

text \<open>From a state at rest below, whatever the phase was.\<close>

lemma lowerup_ok:
  assumes "lcp_steady env s" "low (f_state (fsm s))" "\<not> idle (l_phase (lnk (client s)))" "\<not> hungup (client s)"
  shows "lcp_ok env (lcp_lowerup env s)"
proof -
  define t where "t = set_peer_mru PPP_MRU (ppp_recv_config PPP_MRU (if lax_recv env then 0 else 0xffffffff)
     (neg_pcompression (wantoptions (client s))) (neg_accompression (wantoptions (client s))) (ppp_send_config PPP_MRU 0xffffffff False False s))"
  have c: "lcp_steady env (lcp_call ks u)" if "lcp_steady env u" for ks u unfolding lcp_call_def using that by (rule steady_on_lcp) simp_all
  have p: "lcp_steady env (set_peer_mru n u) = lcp_steady env u" for n u by (simp add: fsm_inv_def timers_ok_def)
  have t: "lcp_steady env t" using assms(1) by (simp add: t_def lcp_basic c p)
  have f: "fsm t = fsm s" "lnk (client t) = lnk (client s)" "hungup (client t) = hungup (client s)" by (simp_all add: t_def lcp_basic)
  have i: "lcp_inv env False (flags (fsm t)) (client t)" using t assms(3,4) f by (simp add: fsm_inv_def lcp_inv_def lcp_base_def)
  define d where "d = on_lcp (\<lambda>c. c\<lparr>delayed_timers := delayed_timers c + 1\<rparr>) (set_flag DELAYED_UP t)"
  have "undelayed d = upd (flags_update (\<lambda>fl. (fl OR DELAYED_UP) AND NOT DELAYED_UP)) t"
    by (simp add: d_def undelay_def on_lcp_def clear_flag_def set_flag_def upd_def comp_def)
  then have "lcp_steady env (undelayed d)"
    using t steadyD(2) [OF t] raised_flag(1) [of "flags (fsm t)" DELAYED_UP] by (auto intro!: steady_flags)
  moreover have "has_flag DELAYED_UP d"
    using raised_flag(2) [of DELAYED_UP "flags (fsm t)"] by (simp add: has_flag_def d_def DELAYED_UP_def)
  ultimately have "lcp_delayed env d"
    using t assms(2-4) f by (auto simp: lcp_delayed_def d_def fsm_inv_def lcp_inv_def lcp_base_def)
  then show ?thesis
    using assms(1) t c i lcp.lowerup_inv [OF t] unfolding lcp_lowerup_def Let_def
    by (auto simp: lcp_ok_def t_def lcp_basic d_def)
qed

lemma low_steady:
  assumes "lcp_steady env s" "low (f_state (fsm s))" "fsm t = fsm s" "timers t = timers s" "delayed_timers (client t) = delayed_timers (client s)"
    "echo_timers (client t) = echo_timers (client s)" "lcp_echo_timer_running (client t) = lcp_echo_timer_running (client s)"
    "link_open (client t) = link_open (client s)"
  shows "lcp_steady env t"
  using assms by (auto simp: fsm_inv_def timers_ok_def lcp_inv_def lcp_base_def low_def)

lemma start_link_ok:
  assumes s: "lcp_steady env s" "low (f_state (fsm s))"
  shows "lcp_ok env (start_link env connects establishes s)"
proof -
  define t where "t = on_link (new_phase PHASE_ESTABLISH) (set_status EXIT_NEGOTIATION_FAILED (lcp_call [Establish_ppp] (on_lcp (ppp_open_update (\<lambda>_. True))
    (on_lcp (dev_open_update (\<lambda>_. True)) (lcp_call [Connect] (on_lcp (hungup_update (\<lambda>_. False))
      (on_link (new_phase PHASE_SERIALCONN) (set_status EXIT_CONNECT_FAILED s))))))))"
  have "lcp_steady env t" by (rule low_steady [OF s]) (simp_all add: t_def set_status_def)
  then have "lcp_ok env (lcp_lowerup env t)" by (rule lowerup_ok) (use s(2) in \<open>simp_all add: t_def set_status_def\<close>)
  moreover have "lcp_steady env (start_link env connects establishes s)" if "\<not> (connects \<and> establishes)"
    using that by (intro low_steady [OF s]) (auto simp: start_link_def link_fail_def set_status_def Let_def)
  ultimately show ?thesis
    by (cases "connects \<and> establishes") (auto simp: lcp_ok_def start_link_def t_def Let_def)
qed

section \<open>Every event\<close>

lemma input_ok: "lcp_ok env s \<Longrightarrow> lcp_steady env (lcp_input env bs s)"
  using delayed_lowerup [of env s] delayedD(1) [of env s] steadyD(3) [of env s]
  by (auto simp: lcp_input_def lcp_ok_def Let_def intro: lcp.input_inv)

lemma opened_steady: "lcp_ok env s \<Longrightarrow> f_state (fsm s) = OPENED \<Longrightarrow> lcp_steady env s"
  using delayedD(4) by (auto simp: lcp_ok_def)

lemma dispatch_ok:
  assumes "lcp_ok env s"
  shows "lcp_ok env (dispatch env pkt s)"
proof -
  have "lcp_steady env (lcp_call ks s)" if "lcp_steady env s" for ks unfolding lcp_call_def using that by (rule steady_on_lcp) simp_all
  moreover have "lcp_steady env (lcp_sprotrej pkt s)" if "lcp_steady env s"
    using that unfolding lcp_sprotrej_def Let_def by (intro lcp.sdata_inv lcp.upd_inv) simp_all
  ultimately show ?thesis
    using assms opened_steady [OF assms] run_link_ok [OF assms] input_ok [OF assms]
    by (auto simp: dispatch_def Let_def lcp_ok_def split: option.split)
qed

lemma fsm_timer_ok: "lcp_ok env s \<Longrightarrow> lcp_ok env (timer_fires (lcp_callbacks env) s)"
  using lcp.timer_inv [of env s] delayedD(10) [of env s] by (auto simp: lcp_ok_def timer_fires_def)

theorem lcp_do_ok:
  assumes "lcp_ok env s"
  shows "lcp_ok env (lcp_do env e s)"
proof (cases e)
  case (Run connects establishes)
  have "lcp_steady env s \<and> low (f_state (fsm s))" if "idle (l_phase (lnk (client s)))"
    using assms that delayedD(5) by (auto simp: lcp_ok_def fsm_inv_def lcp_inv_def lcp_base_def)
  then show ?thesis using assms by (auto simp: Run intro!: start_link_ok open_steady open_low)
next
  case (Packet p)
  then show ?thesis using assms hangup_ok dispatch_ok by (auto simp: get_input_def lcp_ok_def)
next
  case Delayed_timer
  have u: "clear_flag DELAYED_UP (undelay s) = undelayed s" by (simp add: undelay_def on_lcp_def clear_flag_def upd_def)
  have "delayed_timers (client s) = 0" if "lcp_steady env s" using that by (simp add: fsm_inv_def lcp_inv_def lcp_base_def)
  moreover have "lcp_steady env (lcp_delayed_up env (undelay s))" if "lcp_delayed env s"
    using delayed_lowerup [OF that] delayedD(1) [OF that] by (simp add: lcp_delayed_up_def has_flag_def u)
  ultimately show ?thesis using assms by (auto simp: Delayed_timer lcp_ok_def)
next
  case Echo_timer
  then show ?thesis using assms echo_timeout_steady [of env s] delayedD(11) [of env s] by (auto simp: lcp_ok_def)
next
  case Np_is_up
  then show ?thesis using assms run_link_ok [OF assms, of L_np_up] by simp
next
  case Np_is_down
  then show ?thesis using assms run_link_ok [OF assms, of L_np_down] by simp
qed (use assms run_link_ok [OF assms] close_ok [OF assms] fsm_timer_ok [OF assms] in auto)

inductive lcp_reach :: "lcp_env \<Rightarrow> lcp_sys \<Rightarrow> lcp_sys \<Rightarrow> bool" for env s where
  start: "lcp_reach env s s"
| step: "lcp_reach env s t \<Longrightarrow> lcp_reach env s (lcp_do env e t)"

text \<open>Before \<open>lcp_init\<close>: no callout is pending, and no link is up.\<close>

definition fresh :: "lcp_sys \<Rightarrow> bool" where
  "fresh s \<longleftrightarrow> timers s = 0 \<and> delayed_timers (client s) = 0 \<and> echo_timers (client s) = 0 \<and> \<not> lcp_echo_timer_running (client s) \<and>
     \<not> link_open (client s)"

text \<open>The start of the program: \<open>lcp_init\<close>, the options, which set \<open>wo\<close> and \<open>ao\<close>, and \<open>auth_check_options\<close>.\<close>

definition lcp_configured :: "lcp_options \<Rightarrow> lcp_options \<Rightarrow> lcp_sys \<Rightarrow> lcp_sys" where
  "lcp_configured wo ao s = on_lcp (\<lambda>c. c\<lparr>wantoptions := wo, allowoptions := ao\<rparr>) (lcp_init s)"

definition lcp_starts :: "lcp_env \<Rightarrow> lcp_sys \<Rightarrow> lcp_options \<Rightarrow> lcp_options \<Rightarrow> lcp_sys \<Rightarrow> bool" where
  "lcp_starts env s0 wo ao s \<longleftrightarrow> fresh s0 \<and> 0 \<le> lcp_echo_fails env \<and>
     (case auth_check_options env wo of Inl _ \<Rightarrow> False | Inr wo' \<Rightarrow> s = lcp_configured wo' ao s0)"

lemma lcp_starts_ok: "lcp_starts env s0 wo ao s \<Longrightarrow> lcp_ok env s"
  by (auto simp: lcp_starts_def fresh_def lcp_ok_def lcp_configured_def lcp_init_def fsm_init_def Let_def fsm_inv_def timers_ok_def lcp_inv_def lcp_base_def
      split: sum.splits)

lemma reach_ok: "lcp_reach env s t \<Longrightarrow> lcp_starts env s0 wo ao s \<Longrightarrow> lcp_ok env t"
  by (induction rule: lcp_reach.induct) (auto intro: lcp_do_ok lcp_starts_ok simp del: lcp_do.simps)

section \<open>Safety\<close>

abbreviation pkt_protocol :: "bytes \<Rightarrow> u16" where
  "pkt_protocol pkt \<equiv> word_of_int (get_short (drop 2 pkt))"

lemma opened_phase: "lcp_ok env t \<Longrightarrow> f_state (fsm t) = OPENED \<Longrightarrow> auth_ok (lenv env (client t)) (lnk (client t))"
  using opened_steady [of env t] steadyD(1,4) [of env t] by (auto simp: lcp_inv_def)

lemma networking_authenticated:
  assumes "lcp_ok env t" "networking t"
  shows "auth_pending (lnk (client t)) = 0" "peer_need (auth_options.truncate (gotoptions (client t))) AND NOT (auth_done (lnk (client t))) = 0"
    "auth_required (link_cfg env) \<Longrightarrow> peer_need (auth_options.truncate (gotoptions (client t))) \<noteq> 0 \<or> noauth_addrs (link_cfg env) \<or>
       neg_upap (wantoptions (client t)) \<and> \<not> uselogin (link_cfg env) \<and> null_login (link_cfg env)"
  using opened_phase [OF assms(1)] assms(2) by (auto simp: networking_def auth_ok_def split: if_splits)

lemma dispatch_network:
  assumes "lcp_ok env t" "pkt_protocol pkt \<notin> {PPP_LCP, PPP_LQR, PPP_PAP, PPP_CHAP, PPP_EAP}" "dispatch env pkt t \<noteq> t"
  shows "networking t"
proof -
  have o: "f_state (fsm t) = OPENED" "\<not> up_to_authenticate (l_phase (lnk (client t)))"
    using assms(2,3) by (auto simp: dispatch_def Let_def split: if_splits)
  then show ?thesis
    using opened_phase [OF assms(1) o(1)] by (auto simp: networking_def auth_ok_def up_to_authenticate_def split: if_splits)
qed

text \<open>C1: After any run of LCP and the link from the start, a packet of a network protocol has an effect only if LCP is open, the network phase has
  been reached, nothing of the authentication is pending, the protocol with which the peer was to authenticate itself is done, and there was one if
  authentication is required, unless the configuration exempts the peer.\<close>

theorem lcp_network_authenticated:
  assumes "lcp_starts env s0 wo ao s" "lcp_reach env s t"
    and "PPP_HDRLEN \<le> length pkt" "pkt_protocol pkt \<notin> {PPP_LCP, PPP_LQR, PPP_PAP, PPP_CHAP, PPP_EAP}" "get_input env pkt t \<noteq> t"
  shows "f_state (fsm t) = OPENED \<and> l_phase (lnk (client t)) \<in> {PHASE_NETWORK, PHASE_RUNNING} \<and> auth_pending (lnk (client t)) = 0 \<and>
    peer_need (auth_options.truncate (gotoptions (client t))) AND NOT (auth_done (lnk (client t))) = 0 \<and>
    (auth_required (link_cfg env) \<longrightarrow> peer_need (auth_options.truncate (gotoptions (client t))) \<noteq> 0 \<or> noauth_addrs (link_cfg env) \<or>
       neg_upap (wantoptions (client t)) \<and> \<not> uselogin (link_cfg env) \<and> null_login (link_cfg env))"
proof -
  have ok: "lcp_ok env t" by (rule reach_ok [OF assms(2,1)])
  have "networking t"
    using assms(3-5) by (intro dispatch_network [OF ok, of pkt]) (auto simp: get_input_def PPP_HDRLEN_def split: if_splits)
  then show ?thesis using networking_authenticated [OF ok] by (simp add: networking_def)
qed

text \<open>C6: In every reachable state the retransmission timer is pending exactly in the states that wait, the link is open exactly when LCP is, the echo
  timer is pending exactly then if there is one, and at most one delayed start is pending, only while the layer below is down.\<close>

theorem lcp_consistent:
  assumes "lcp_starts env s0 wo ao s" "lcp_reach env s t"
  shows "timers t = (if waiting (f_state (fsm t)) then 1 else 0) \<and> (lcp_is_open (lnk (client t)) \<longleftrightarrow> f_state (fsm t) = OPENED) \<and>
    echo_timers (client t) = (if f_state (fsm t) = OPENED \<and> lcp_echo_interval env \<noteq> 0 then 1 else 0) \<and>
    delayed_timers (client t) = (if has_flag DELAYED_UP t then 1 else 0) \<and> (has_flag DELAYED_UP t \<longrightarrow> f_state (fsm t) \<in> {INITIAL, STARTING})"
  using reach_ok [OF assms(2,1)] unfolding lcp_ok_def
proof
  assume "lcp_steady env t"
  then show ?thesis using steadyD(3) [of env t] by (auto simp: fsm_inv_def timers_ok_def lcp_inv_def lcp_base_def)
next
  assume "lcp_delayed env t"
  from delayedD [OF this] show ?thesis by (auto simp: low_def)
qed

section \<open>Opening\<close>

lemma no_magic: "configure_calls env (c\<lparr>gotoptions := (gotoptions c)\<lparr>magicnumber := m\<rparr>\<rparr>) = configure_calls env c"
    "configure_calls env (c\<lparr>hisoptions := (hisoptions c)\<lparr>magicnumber := m\<rparr>\<rparr>) = configure_calls env c"
    "lenv env (c\<lparr>gotoptions := (gotoptions c)\<lparr>magicnumber := m\<rparr>\<rparr>) = lenv env c" "lenv env (c\<lparr>hisoptions := (hisoptions c)\<lparr>magicnumber := m\<rparr>\<rparr>) = lenv env c"
  unfolding configure_calls_def lenv_def auth_options.truncate_def Let_def by simp_all

lemma lcp_up_opens:
  assumes "f_state (fsm s) = OPENED" "timers s = 0" "\<not> link_open (client s)" "lcp_inv env False (flags (fsm s)) (client s)"
    and "link_do (lenv env (client s)) L_established (lnk (client s)) = l" "close_reasons l = close_reasons (lnk (client s))"
  shows "fsm (lcp_up env s) = fsm s" "lnk (client (lcp_up env s)) = l" "lcp_calls (client (lcp_up env s)) = lcp_calls (client s) @ configure_calls env (client s)"
    "lenv env (client (lcp_up env s)) = lenv env (client s)"
proof -
  define s1 where "s1 = on_lcp (\<lambda>c. c\<lparr>gotoptions := (if \<not> neg_magicnumber (gotoptions c) then (gotoptions c)\<lparr>magicnumber := 0\<rparr> else gotoptions c),
      hisoptions := (if \<not> neg_magicnumber (hisoptions c) then (hisoptions c)\<lparr>magicnumber := 0\<rparr> else hisoptions c)\<rparr>) s"
  define s2 where "s2 = on_lcp (\<lambda>c. c\<lparr>lcp_echos_pending := 0, lcp_echo_number := 0, lcp_echo_timer_running := False\<rparr>) (lcp_configure env s1)"
  define t where "t = (if lcp_echo_interval env \<noteq> 0 then LcpEchoCheck env s2 else s2)"
  have s2: "f_state (fsm s2) = OPENED" "timers s2 = 0" "lcp_base env False (flags (fsm s2)) (client s2)" "\<not> lcp_echo_timer_running (client s2)"
      "0 \<le> lcp_echo_fails env" "lcp_echos_pending (client s2) = 0"
    using assms unfolding s2_def s1_def by (auto simp: lcp_inv_def lcp_base_def)
  have q: "lenv env (client s2) = lenv env (client s)" "lnk (client s2) = lnk (client s)" "fsm s2 = fsm s"
      "lcp_calls (client s2) = lcp_calls (client s) @ configure_calls env (client s)" "hisoptions (client s2) = hisoptions (client s1)"
  proof -
    define c where "c = (client s)\<lparr>gotoptions := (if \<not> neg_magicnumber (gotoptions (client s)) then (gotoptions (client s))\<lparr>magicnumber := 0\<rparr> else gotoptions (client s))\<rparr>"
    have c1: "lenv env c = lenv env (client s)" "configure_calls env c = configure_calls env (client s)"
      using no_magic(1,3) [where c = "client s" and m = 0] by (auto simp: c_def)
    have "client s1 = c\<lparr>hisoptions := (if \<not> neg_magicnumber (hisoptions c) then (hisoptions c)\<lparr>magicnumber := 0\<rparr> else hisoptions c)\<rparr>" by (simp add: s1_def c_def)
    then have s1: "lenv env (client s1) = lenv env (client s)" "configure_calls env (client s1) = configure_calls env (client s)"
      using no_magic(2,4) [where c = c and m = 0] c1 by auto
    moreover have "lenv env (client s2) = lenv env (client s1)" by (simp add: s2_def configure_sel lenv_def)
    ultimately show "lenv env (client s2) = lenv env (client s)" by simp
    show "lnk (client s2) = lnk (client s)" "fsm s2 = fsm s"
      "lcp_calls (client s2) = lcp_calls (client s) @ configure_calls env (client s)" "hisoptions (client s2) = hisoptions (client s1)"
      using s1(2) by (simp_all add: s2_def s1_def configure_sel)
  qed
  have "lenv env (client t) = lenv env (client s)" "lnk (client t) = lnk (client s)" "fsm t = fsm s"
      "lcp_calls (client t) = lcp_calls (client s) @ configure_calls env (client s)" "hisoptions (client t) = hisoptions (client s1)"
    using s2 q echo_check(2) [OF s2(1-4)] by (auto simp: t_def lenv_def)
  moreover have "lcp_up env s = run_link env L_established t"
    unfolding lcp_up_def lcp_echo_lowerup_def t_def s2_def s1_def Let_def by simp
  ultimately show "fsm (lcp_up env s) = fsm s" "lnk (client (lcp_up env s)) = l" "lcp_calls (client (lcp_up env s)) = lcp_calls (client s) @ configure_calls env (client s)"
    "lenv env (client (lcp_up env s)) = lenv env (client s)"
    using assms(5,6) by (simp_all add: run_link_def Let_def lenv_def del: link_do.simps)
qed

lemma lcp_frame: "get_input env ([0xff, 3, 0xc0, 0x21] @ p) s = lcp_input env p s"
  by (simp add: get_input_def dispatch_def get_short_def PPP_LCP_def PPP_HDRLEN_def)

lemma not_low_steady: "lcp_ok env s \<Longrightarrow> \<not> low (f_state (fsm s)) \<Longrightarrow> lcp_steady env s"
  using delayedD(3) by (auto simp: lcp_ok_def)

lemma reqci_sel: "lcp_reqci env inp b s = (CONFACK, inp', s') \<Longrightarrow> inp' = inp \<and> fsm s' = fsm s \<and> timers s' = timers s \<and> sent s' = sent s \<and> peer_mru s' = peer_mru s \<and>
    gotoptions (client s') = gotoptions (client s) \<and> lnk (client s') = lnk (client s) \<and> lcp_calls (client s') = lcp_calls (client s)"
  by (auto simp: lcp_reqci_def Let_def)

lemma request_acked:
  assumes "lcp_steady env s" "f_state (fsm s) = REQSENT" "parse_header p = Some (CONFREQ, i, inp)"
    "lcp_reqci env inp (nakloops (fsm s) \<ge> maxnakloops (fsm s)) s = (CONFACK, inp', s')"
  shows "lcp_input env p s = upd (nakloops_update (\<lambda>_. 0)) (goto ACKSENT (fsm_sdata CONFACK i inp s'))"
  using assms steadyD(3) [OF assms(1)] reqci_sel [OF assms(4)]
  by (simp add: lcp_input_def fsm_input_def fsm_codes fsm_rconfreq_def rconfreq_restart_def reqci_verdict_def lcp_callbacks_def rconfreq_answer_def)

lemma ack_opens:
  assumes "lcp_steady env s" "f_state (fsm s) = ACKSENT" "\<not> seen_ack (fsm s)" "fits (gotoptions (client s))"
    "parse_header q = Some (CONFACK, reqid (fsm s), lcp_request (gotoptions (client s)))"
  shows "lcp_input env q s = lcp_up env (upd (\<lambda>f. f\<lparr>retransmits := maxconfreqtransmits f\<rparr>) (goto OPENED (UNTIMEOUT
    (upd (\<lambda>f. f\<lparr>seen_ack := True, rnakloops := 0\<rparr>) s))))"
proof -
  have "lcp_ack_matches (gotoptions (client s)) (lcp_request (gotoptions (client s)))"
    using ack_matches_iff [OF assms(4)] by simp
  then show ?thesis
    using assms steadyD(3) [OF assms(1)]
    by (simp add: lcp_input_def fsm_input_def fsm_codes fsm_rconfack_def lcp_callbacks_def lcp_ackci_def)
qed

lemma negotiates:
  assumes s: "lcp_steady env s" "f_state (fsm s) = REQSENT" "\<not> seen_ack (fsm s)" "fits (gotoptions (client s))"
    and p: "parse_header p = Some (CONFREQ, i, inp)" "lcp_reqci env inp (nakloops (fsm s) \<ge> maxnakloops (fsm s)) s = (CONFACK, inp', s')"
    and q: "parse_header q = Some (CONFACK, reqid (fsm s), lcp_request (gotoptions (client s)))"
    and l: "link_do (lenv env (client s')) L_established (lnk (client s)) = l" "close_reasons l = close_reasons (lnk (client s))"
  defines "t \<equiv> lcp_do env (Packet ([0xff, 3, 0xc0, 0x21] @ p)) s"
  defines "u \<equiv> lcp_do env (Packet ([0xff, 3, 0xc0, 0x21] @ q)) t"
  shows "f_state (fsm t) = ACKSENT" "sent t = sent (fsm_sdata CONFACK i inp s)" "f_state (fsm u) = OPENED" "lnk (client u) = l"
    "lcp_calls (client u) = lcp_calls (client s) @ configure_calls env (client s')" "lenv env (client u) = lenv env (client s')"
proof -
  note r = reqci_sel [OF p(2)]
  have t: "t = upd (nakloops_update (\<lambda>_. 0)) (goto ACKSENT (fsm_sdata CONFACK i inp s'))"
    unfolding t_def lcp_do.simps lcp_frame by (rule request_acked [OF s(1,2) p])
  have "lcp_ok env t" unfolding t_def by (rule lcp_do_ok) (simp add: lcp_ok_def s(1))
  then have ts: "lcp_steady env t" by (rule not_low_steady) (simp add: t)
  define v where "v = upd (\<lambda>f. f\<lparr>retransmits := maxconfreqtransmits f\<rparr>) (goto OPENED (UNTIMEOUT (upd (\<lambda>f. f\<lparr>seen_ack := True, rnakloops := 0\<rparr>) t)))"
  have c: "client t = client s'" "client v = client s'" by (simp_all add: t v_def)
  have u: "u = lcp_up env v"
    unfolding u_def lcp_do.simps lcp_frame v_def by (rule ack_opens [OF ts]) (use s(3,4) q r in \<open>simp_all add: t\<close>)
  have v: "f_state (fsm v) = OPENED" "timers v = 0" "\<not> link_open (client v)" "lcp_inv env False (flags (fsm v)) (client v)"
    using ts by (auto simp: v_def t fsm_inv_def timers_ok_def)
  have "link_do (lenv env (client v)) L_established (lnk (client v)) = l" "close_reasons l = close_reasons (lnk (client v))"
    using l r unfolding c by simp_all
  note o = lcp_up_opens [OF v this]
  show "f_state (fsm t) = ACKSENT" "sent t = sent (fsm_sdata CONFACK i inp s)" using r by (simp_all add: t fsm_sdata_def Let_def)
  show "f_state (fsm u) = OPENED" "lnk (client u) = l" "lcp_calls (client u) = lcp_calls (client s) @ configure_calls env (client s')"
    "lenv env (client u) = lenv env (client s')"
    using o r by (simp_all add: u c v(1))
qed

text \<open>C7: When LCP has sent its request and the peer sends an acceptable one and acknowledges ours, the peer's request is acknowledged as it came, LCP
  opens, the kernel gets exactly the parameters that were agreed on, and the link is established with the options of both sides, as long as it
  does not object.\<close>

theorem lcp_negotiates:
  assumes "lcp_starts env s0 wo ao s1" "lcp_reach env s1 s" "f_state (fsm s) = REQSENT" "\<not> seen_ack (fsm s)" "fits (gotoptions (client s))"
    and p: "parse_header p = Some (CONFREQ, i, inp)" "lcp_reqci env inp (nakloops (fsm s) \<ge> maxnakloops (fsm s)) s = (CONFACK, inp', s')"
    and q: "parse_header q = Some (CONFACK, reqid (fsm s), lcp_request (gotoptions (client s)))"
    and l: "link_do (lenv env (client s')) L_established (lnk (client s)) = l" "close_reasons l = close_reasons (lnk (client s))"
  defines "t \<equiv> lcp_do env (Packet ([0xff, 3, 0xc0, 0x21] @ p)) s"
  defines "u \<equiv> lcp_do env (Packet ([0xff, 3, 0xc0, 0x21] @ q)) t"
  shows "f_state (fsm t) = ACKSENT \<and> sent t = sent (fsm_sdata CONFACK i inp s) \<and> f_state (fsm u) = OPENED \<and> lnk (client u) = l \<and>
    lcp_calls (client u) = lcp_calls (client s) @ configure_calls env (client s')"
proof -
  have "lcp_steady env s" using reach_ok [OF assms(2,1)] not_low_steady assms(3) by simp
  from negotiates [OF this assms(3-5) p q l] show ?thesis unfolding u_def t_def by simp
qed

section \<open>Peers that fall silent\<close>

lemma finished_phase:
  assumes "f_state (fsm s) \<in> {CLOSED, STOPPED}" "\<not> has_flag DELAYED_UP s"
  shows "l_phase (lnk (client (lcp_finished env s))) \<in> {PHASE_DEAD, PHASE_MASTER}"
  by (auto simp: lcp_finished_def link_terminated_def Let_def)

lemma timeout_spends:
  assumes "lcp_steady env t" "waiting (f_state (fsm t))"
  defines "u \<equiv> timer_fires (lcp_callbacks env) t"
  shows "retransmits (fsm t) \<le> 0 \<Longrightarrow> \<not> has_flag OPT_PASSIVE t \<Longrightarrow> resting (f_state (fsm u)) \<and> l_phase (lnk (client u)) \<in> {PHASE_DEAD, PHASE_MASTER}"
    "0 < retransmits (fsm t) \<Longrightarrow> waiting (f_state (fsm u)) \<and> retransmits (fsm u) = retransmits (fsm t) - 1 \<and> flags (fsm u) = flags (fsm t)"
proof -
  have t: "timers t = 1" "\<not> has_flag DELAYED_UP t" using assms(1,2) steadyD(3) [OF assms(1)] by (auto simp: fsm_inv_def timers_ok_def)
  have fin: "resting (f_state (fsm (lcp_finished env (goto st (UNTIMEOUT t)))))"
    "l_phase (lnk (client (lcp_finished env (goto st (UNTIMEOUT t))))) = PHASE_DEAD \<or> l_phase (lnk (client (lcp_finished env (goto st (UNTIMEOUT t))))) = PHASE_MASTER"
    if "st = CLOSED \<or> st = STOPPED" for st
    using finished_state [of "goto st (UNTIMEOUT t)" env] finished_phase [of "goto st (UNTIMEOUT t)" env] that t(2) by (auto simp: has_flag_def)
  show "resting (f_state (fsm u)) \<and> l_phase (lnk (client u)) \<in> {PHASE_DEAD, PHASE_MASTER}" if "retransmits (fsm t) \<le> 0" "\<not> has_flag OPT_PASSIVE t"
    using assms(2) that t fin(1) [of CLOSED] fin(1) [of STOPPED] fin(2) [of CLOSED] fin(2) [of STOPPED]
    by (auto simp: u_def timer_fires_def fsm_timeout_def term_timeout_def conf_timeout_def waiting_def has_flag_def Let_def lcp_callbacks_sel close_callbacks_def)
  show "waiting (f_state (fsm u)) \<and> retransmits (fsm u) = retransmits (fsm t) - 1 \<and> flags (fsm u) = flags (fsm t)" if "0 < retransmits (fsm t)"
    using assms(2) that t
    by (auto simp: u_def timer_fires_def fsm_timeout_def term_timeout_def conf_timeout_def waiting_def has_flag_def Let_def lcp.sconfreq_sel lcp_callbacks_sel)
qed

lemma gives_up:
  "lcp_steady env t \<Longrightarrow> waiting (f_state (fsm t)) \<Longrightarrow> \<not> has_flag OPT_PASSIVE t \<Longrightarrow>
   \<exists>k \<le> nat (retransmits (fsm t)) + 1. resting (f_state (fsm ((lcp_do env Fsm_timer ^^ k) t))) \<and>
     l_phase (lnk (client ((lcp_do env Fsm_timer ^^ k) t))) \<in> {PHASE_DEAD, PHASE_MASTER}"
proof (induction "nat (retransmits (fsm t))" arbitrary: t)
  case 0
  then show ?case using timeout_spends(1) [of env t] by (intro exI [of _ 1]) auto
next
  case (Suc n)
  define u where "u = timer_fires (lcp_callbacks env) t"
  have u: "waiting (f_state (fsm u))" "n = nat (retransmits (fsm u))" "lcp_steady env u" "\<not> has_flag OPT_PASSIVE u"
    using Suc.hyps(2) Suc.prems timeout_spends(2) [of env t] lcp.timer_inv [of env t] by (auto simp: u_def has_flag_def)
  from Suc.hyps(1) [OF u(2,3,1,4)] obtain k where
    "k \<le> n + 1" "resting (f_state (fsm ((lcp_do env Fsm_timer ^^ k) u)))" "l_phase (lnk (client ((lcp_do env Fsm_timer ^^ k) u))) \<in> {PHASE_DEAD, PHASE_MASTER}"
    using u(2) by auto
  then show ?case
    using Suc.hyps(2) by (intro exI [of _ "Suc k"]) (auto simp: funpow_Suc_right u_def simp del: funpow.simps)
qed

text \<open>C9: A peer that falls silent while LCP negotiates or terminates does not keep the link: unless LCP is to wait for the peer, after at most
  one timeout more than the retransmissions that are left LCP is at rest and the link is dead, or the master of a bundle.\<close>

theorem lcp_gives_up:
  assumes "lcp_starts env s0 wo ao s" "lcp_reach env s t" "f_state (fsm t) \<in> {CLOSING, STOPPING, REQSENT, ACKRCVD, ACKSENT}"
    "\<not> has_flag OPT_PASSIVE t"
  shows "\<exists>k \<le> nat (retransmits (fsm t)) + 1. f_state (fsm ((lcp_do env Fsm_timer ^^ k) t)) \<in> {INITIAL, STARTING, CLOSED, STOPPED} \<and>
     l_phase (lnk (client ((lcp_do env Fsm_timer ^^ k) t))) \<in> {PHASE_DEAD, PHASE_MASTER}"
  using gives_up [OF not_low_steady [OF reach_ok [OF assms(2,1)]], unfolded resting_def] assms(3,4)
  by (auto simp: waiting_def simp del: funpow.simps lcp_do.simps)

lemma echo_sends:
  "f_state (fsm s) = OPENED \<Longrightarrow> \<not> (lcp_echo_fails env \<noteq> 0 \<and> lcp_echos_pending (client s) \<ge> lcp_echo_fails env) \<Longrightarrow>
   sent (LcpEchoCheck env s) = sent (fsm_sdata ECHOREQ (of_int (lcp_echo_number (client s))) (put_long (magicnumber (gotoptions (client s)))) s)"
  unfolding LcpEchoCheck_def LcpSendEchoRequest_def Let_def by auto

lemma sdata_sent: "length (sent (fsm_sdata c i bs s)) = Suc (length (sent s))"
  by (simp add: fsm_sdata_def Let_def)

lemma echo_tick:
  assumes "lcp_steady env t" "f_state (fsm t) = OPENED" "lcp_echo_interval env \<noteq> 0"
  defines "u \<equiv> lcp_do env Echo_timer t" and "failing \<equiv> lcp_echo_fails env \<noteq> 0 \<and> lcp_echos_pending (client t) \<ge> lcp_echo_fails env"
  shows "failing \<Longrightarrow> f_state (fsm u) \<noteq> OPENED"
    "\<not> failing \<Longrightarrow> f_state (fsm u) = OPENED \<and> lcp_echos_pending (client u) = lcp_echos_pending (client t) + 1 \<and> length (sent u) = length (sent t) + 1"
    "lcp_steady env u"
proof -
  define v where "v = on_lcp (lcp_echo_timer_running_update (\<lambda>_. False)) (on_lcp (\<lambda>c. c\<lparr>echo_timers := echo_timers c - 1\<rparr>) t)"
  have r: "lcp_echo_timer_running (client t)" "echo_timers (client t) = 1" "timers t = 0"
    using assms(1-3) by (auto simp: fsm_inv_def timers_ok_def lcp_inv_def lcp_base_def split: if_splits)
  have v: "f_state (fsm v) = OPENED" "timers v = 0" "lcp_base env False (flags (fsm v)) (client v)" "\<not> lcp_echo_timer_running (client v)"
    using assms(1,2) r by (auto simp: v_def fsm_inv_def lcp_inv_def lcp_base_def)
  have u: "u = LcpEchoCheck env v" using r by (simp add: u_def LcpEchoTimeout_def v_def)
  have p: "lcp_echos_pending (client v) = lcp_echos_pending (client t)" "length (sent v) = length (sent t)" by (simp_all add: v_def)
  show "failing \<Longrightarrow> f_state (fsm u) \<noteq> OPENED" using echo_check(1) [OF v] by (simp add: u failing_def p)
  show "\<not> failing \<Longrightarrow> f_state (fsm u) = OPENED \<and> lcp_echos_pending (client u) = lcp_echos_pending (client t) + 1 \<and> length (sent u) = length (sent t) + 1"
    using echo_check(2) [OF v] echo_sends [OF v(1), of env] v(1) p by (simp add: u failing_def sdata_sent)
  show "lcp_steady env u" using echo_timeout_steady [OF assms(1)] r(2) by (simp add: u_def)
qed

lemma echo_ticks:
  assumes "lcp_steady env t" "f_state (fsm t) = OPENED" "lcp_echo_interval env \<noteq> 0"
  shows "int n \<le> max 0 (lcp_echo_fails env - lcp_echos_pending (client t)) \<Longrightarrow>
    lcp_steady env ((lcp_do env Echo_timer ^^ n) t) \<and> f_state (fsm ((lcp_do env Echo_timer ^^ n) t)) = OPENED \<and>
    lcp_echos_pending (client ((lcp_do env Echo_timer ^^ n) t)) = lcp_echos_pending (client t) + int n \<and>
    length (sent ((lcp_do env Echo_timer ^^ n) t)) = length (sent t) + n"
proof (induction n)
  case (Suc n)
  then have "lcp_steady env ((lcp_do env Echo_timer ^^ n) t)" "f_state (fsm ((lcp_do env Echo_timer ^^ n) t)) = OPENED"
    "lcp_echos_pending (client ((lcp_do env Echo_timer ^^ n) t)) = lcp_echos_pending (client t) + int n"
    "length (sent ((lcp_do env Echo_timer ^^ n) t)) = length (sent t) + n" by (simp_all del: lcp_do.simps)
  moreover have "lcp_echos_pending (client t) + int n < lcp_echo_fails env" using Suc.prems by linarith
  ultimately show ?case using echo_tick(2,3) [OF _ _ assms(3), of "(lcp_do env Echo_timer ^^ n) t"] by (simp del: lcp_do.simps)
qed (use assms in simp)


section \<open>Examples\<close>

lemma sconfreq_from_starting:
  assumes "f_state (fsm s) = STARTING"
  shows "client (fsm_sconfreq (lcp_callbacks env) False s) = client (lcp_resetci env s)"
    "reqid (fsm (fsm_sconfreq (lcp_callbacks env) False s)) = id (fsm s) + 1"
    "nakloops (fsm (fsm_sconfreq (lcp_callbacks env) False s)) = 0" "maxnakloops (fsm (fsm_sconfreq (lcp_callbacks env) False s)) = maxnakloops (fsm s)"
  using assms by (simp_all add: fsm_sconfreq_def Let_def lcp_callbacks_def lcp_addci_def next_id_def resetci_sel)

lemma demo_env_sel [simp]: "listen_time demo_lcp_env = 0" "send_config_ok demo_lcp_env ks" "recv_config_ok demo_lcp_env ks" "\<not> lax_recv demo_lcp_env"
    "lcp_magic demo_lcp_env n = of_nat n + 1" "\<not> multilink demo_lcp_env" "\<not> noendpoint demo_lcp_env" "refuse_eap demo_lcp_env" "have_pap_secret demo_lcp_env" "lcp_echo_fails demo_lcp_env = 2"
    "lcp_echo_interval demo_lcp_env = 30" "link_cfg demo_lcp_env = demo_link_env False" "\<not> has_datainput demo_lcp_env p"
  by (simp_all add: demo_lcp_env_def)

text \<open>A system that asks its peer for PAP.\<close>

definition demo_want :: lcp_options where
  "demo_want = zero_options\<lparr>neg_mru := True, mru := 1500, neg_asyncmap := True, neg_magicnumber := True,
     neg_pcompression := True, neg_accompression := True, neg_upap := True\<rparr>"

definition demo_allow :: lcp_options where
  "demo_allow = zero_options\<lparr>neg_mru := True, mru := MAXMRU, neg_upap := True\<rparr>"

definition demo_begin :: lcp_sys where
  "demo_begin = lcp_configured demo_want demo_allow demo_lcp"

lemma demo_starts: "lcp_starts demo_lcp_env demo_lcp demo_want demo_allow demo_begin"
proof -
  have "number_allowed (chap_cfg (demo_link_env False))" "auth_required (demo_link_env False)" by (simp_all add: demo_link_env_def demo_chap_env_def)
  then have "auth_check_options demo_lcp_env demo_want = Inr demo_want"
    by (simp add: auth_check_options_def auth_wanted_def demo_want_def zero_options_def Let_def)
  then show ?thesis by (simp add: lcp_starts_def demo_begin_def fresh_def demo_lcp_def demo_link_def)
qed

lemma demo_init_sel: "fsm demo_begin = fsm demo_lcp" "f_state (fsm demo_lcp) = INITIAL" "lnk (client demo_begin) = demo_link\<lparr>l_phase := PHASE_INITIALIZE\<rparr>"
    "flags (fsm demo_lcp) = 0" "id (fsm demo_lcp) = 0" "maxnakloops (fsm demo_lcp) = 5" "maxconfreqtransmits (fsm demo_lcp) = 10"
    "wantoptions (client demo_begin) = demo_want" "allowoptions (client demo_begin) = demo_allow" "hisoptions (client demo_begin) = zero_options"
    "mdraws (client demo_begin) = 0" "lcp_calls (client demo_begin) = []"
  by (simp_all add: demo_begin_def lcp_configured_def lcp_init_def fsm_init_def demo_lcp_def DEFTIMEOUT_def DEFMAXCONFREQS_def DEFMAXTERMREQS_def DEFMAXNAKLOOPS_def Let_def DEFMRU_def)

definition demo_sent :: lcp_sys where
  "demo_sent = lcp_do demo_lcp_env (Run True True) demo_begin"

lemma demo_opened: "lcp_open demo_lcp_env demo_begin = goto STARTING demo_begin"
proof -
  have "clear_flag b demo_begin = demo_begin" for b
    using demo_init_sel(1,4) by (cases demo_begin) (simp add: clear_flag_def upd_def demo_lcp_def)
  moreover have "\<not> opt_passive demo_want" "\<not> opt_silent demo_want" by (simp_all add: demo_want_def zero_options_def)
  ultimately show ?thesis by (simp add: lcp_open_def Let_def fsm_open_def lcp_callbacks_sel down_callbacks_def lcp_starting_def demo_init_sel)
qed

definition demo_low :: lcp_sys where
  "demo_low = set_peer_mru PPP_MRU (lcp_call [Send_config PPP_MRU 0xffffffff False False, Recv_config PPP_MRU 0xffffffff True True]
     (on_link (new_phase PHASE_ESTABLISH) (set_status EXIT_NEGOTIATION_FAILED (lcp_call [Establish_ppp] (on_lcp (ppp_open_update (\<lambda>_. True))
    (on_lcp (dev_open_update (\<lambda>_. True)) (lcp_call [Connect] (on_lcp (hungup_update (\<lambda>_. False))
      (on_link (new_phase PHASE_SERIALCONN) (set_status EXIT_CONNECT_FAILED (goto STARTING demo_begin))))))))))) "

lemma demo_sent_eq: "demo_sent = goto REQSENT (fsm_sconfreq (lcp_callbacks demo_lcp_env) False demo_low)"
proof -
  have w: "neg_pcompression demo_want" "neg_accompression demo_want" by (simp_all add: demo_want_def)
  have i: "idle (l_phase (lnk (client demo_begin)))" by (simp add: demo_init_sel idle_def)
  have "start_link demo_lcp_env True True (goto STARTING demo_begin) = goto REQSENT (fsm_sconfreq (lcp_callbacks demo_lcp_env) False demo_low)"
    by (simp add: start_link_def lcp_lowerup_def Let_def fsm_lowerup_def demo_low_def ppp_send_config_def ppp_recv_config_def lcp_call_call set_status_def has_flag_def demo_init_sel w)
  then show ?thesis using i by (simp add: demo_sent_def demo_opened)
qed

lemma demo_low_sel: "fsm demo_low = (fsm demo_lcp)\<lparr>f_state := STARTING\<rparr>" "lnk (client demo_low) = demo_link"
    "wantoptions (client demo_low) = demo_want" "hisoptions (client demo_low) = zero_options" "mdraws (client demo_low) = 0"
    "allowoptions (client demo_low) = demo_allow"
  by (simp_all add: demo_low_def set_status_def demo_init_sel new_phase_def demo_link_def EXIT_NEGOTIATION_FAILED_def)

lemma demo_sent_facts: "f_state (fsm demo_sent) = REQSENT" "\<not> seen_ack (fsm demo_sent)" "reqid (fsm demo_sent) = 1" "nakloops (fsm demo_sent) = 0"
    "maxnakloops (fsm demo_sent) = 5" "retransmits (fsm demo_sent) = 9" "flags (fsm demo_sent) = 0" "gotoptions (client demo_sent) = demo_want\<lparr>magicnumber := 1\<rparr>"
    "wantoptions (client demo_sent) = demo_want\<lparr>magicnumber := 1\<rparr>" "lnk (client demo_sent) = demo_link" "neg_mru (allowoptions (client demo_sent))"
proof -
  have st: "f_state (fsm demo_low) = STARTING" by (simp add: demo_low_sel)
  have c: "client demo_sent = client (lcp_resetci demo_lcp_env demo_low)" by (simp add: demo_sent_eq sconfreq_from_starting st)
  show "f_state (fsm demo_sent) = REQSENT" "\<not> seen_ack (fsm demo_sent)" "reqid (fsm demo_sent) = 1" "nakloops (fsm demo_sent) = 0"
    "maxnakloops (fsm demo_sent) = 5" "retransmits (fsm demo_sent) = 9" "flags (fsm demo_sent) = 0"
    by (simp_all add: demo_sent_eq sconfreq_from_starting st lcp.sconfreq_sel) (simp_all add: demo_low_sel demo_init_sel)
  show "gotoptions (client demo_sent) = demo_want\<lparr>magicnumber := 1\<rparr>" "wantoptions (client demo_sent) = demo_want\<lparr>magicnumber := 1\<rparr>"
    "lnk (client demo_sent) = demo_link" "neg_mru (allowoptions (client demo_sent))"
    by (simp_all add: c lcp_resetci_def auth_reset_def auth_reset_wanted_def auth_reset_allowed_def Let_def demo_low_sel demo_want_def demo_allow_def zero_options_def)
qed

lemma demo_reach: "lcp_reach demo_lcp_env demo_begin demo_sent"
  unfolding demo_sent_def by (rule lcp_reach.step) (rule lcp_reach.start)

theorem lcp_gives_up_witness:
  "\<exists>k \<le> 10. f_state (fsm ((lcp_do demo_lcp_env Fsm_timer ^^ k) demo_sent)) \<in> {INITIAL, STARTING, CLOSED, STOPPED} \<and>
     l_phase (lnk (client ((lcp_do demo_lcp_env Fsm_timer ^^ k) demo_sent))) \<in> {PHASE_DEAD, PHASE_MASTER}"
  using lcp_gives_up [OF demo_starts demo_reach] demo_sent_facts(1,6,7) by (simp add: has_flag_def del: lcp_do.simps)

definition demo_confreq :: bytes where
  "demo_confreq = [CONFREQ, 5] @ be16 8 @ [1, 4, 5, 0x78]"

definition demo_ack :: bytes where
  "demo_ack = [CONFACK, 1] @ be16 (4 + length (lcp_request (gotoptions (client demo_sent)))) @ lcp_request (gotoptions (client demo_sent))"

definition demo_up_lcp :: lcp_sys where
  "demo_up_lcp = lcp_do demo_lcp_env (Packet ([0xff, 3, 0xc0, 0x21] @ demo_ack)) (lcp_do demo_lcp_env (Packet ([0xff, 3, 0xc0, 0x21] @ demo_confreq)) demo_sent)"

definition demo_agreed :: lcp_sys where
  "demo_agreed = demo_sent\<lparr>client := (client demo_sent)\<lparr>hisoptions := zero_options\<lparr>neg_mru := True, mru := 1400\<rparr>\<rparr>\<rparr>"

lemma demo_confreq_read: "parse_header demo_confreq = Some (CONFREQ, 5, [1, 4, 5, 0x78])"
    "lcp_reqci demo_lcp_env [1, 4, 5, 0x78] (nakloops (fsm demo_sent) \<ge> maxnakloops (fsm demo_sent)) demo_sent =
       (CONFACK, [1, 4, 5, 0x78], demo_agreed)"
proof -
  show "parse_header demo_confreq = Some (CONFREQ, 5, [1, 4, 5, 0x78])"
    using parse_packet [of "[1, 4, 5, 0x78]" CONFREQ 5] by (simp add: demo_confreq_def)
  show "lcp_reqci demo_lcp_env [1, 4, 5, 0x78] (nakloops (fsm demo_sent) \<ge> maxnakloops (fsm demo_sent)) demo_sent =
       (CONFACK, [1, 4, 5, 0x78], demo_agreed)"
    by (simp add: lcp_reqci_def Let_def reqci_loop.simps reqci_option_def ci_codes cilens get_short_def MINMRU_def demo_sent_facts reqci_tally_def fsm_codes demo_agreed_def)
qed

lemma demo_fits: "fits (gotoptions (client demo_sent))"
  by (simp add: fits_def demo_sent_facts demo_want_def zero_options_def)

lemma demo_ack_read: "parse_header demo_ack = Some (CONFACK, reqid (fsm demo_sent), lcp_request (gotoptions (client demo_sent)))"
proof -
  have "int (length (lcp_request (gotoptions (client demo_sent)))) \<le> 65"
    by (simp add: demo_sent_facts lcp_request_def ADDCISHORT_def ADDCILONG_def ADDCICHAP_def ADDCILQR_def ADDCICHAR_def ADDCIVOID_def ADDCIENDP_def cilens demo_want_def zero_options_def)
  then show ?thesis
    using parse_packet [of "lcp_request (gotoptions (client demo_sent))" CONFACK 1] by (simp add: demo_ack_def demo_sent_facts(3))
qed

lemma demo_lenv: "lenv demo_lcp_env (c\<lparr>hisoptions := zero_options\<lparr>neg_mru := True, mru := 1400\<rparr>\<rparr>) = demo_link_env False"
    if "gotoptions c = demo_want\<lparr>magicnumber := 1\<rparr>" "wantoptions c = demo_want\<lparr>magicnumber := 1\<rparr>" for c
  using that by (simp add: lenv_def demo_link_env_def demo_want_def zero_options_def auth_options.truncate_def)

lemma demo_link_up: "close_reasons (link_do (demo_link_env False) L_established demo_link) = close_reasons demo_link"
  using demo_pap_run(6) by (simp add: demo_link_def del: link_do.simps)

lemma demo_steady: "lcp_steady demo_lcp_env demo_sent"
  using reach_ok [OF demo_reach demo_starts] not_low_steady demo_sent_facts(1) by simp

lemma demo_up_lcp_facts: "f_state (fsm demo_up_lcp) = OPENED" "lnk (client demo_up_lcp) = link_do (demo_link_env False) L_established demo_link"
    "lenv demo_lcp_env (client demo_up_lcp) = demo_link_env False"
proof -
  have "link_do (lenv demo_lcp_env (client demo_agreed))
      L_established (lnk (client demo_sent)) = link_do (demo_link_env False) L_established demo_link"
    using demo_sent_facts(8-10) by (simp add: demo_agreed_def demo_lenv del: link_do.simps)
  from negotiates [OF demo_steady demo_sent_facts(1,2) demo_fits demo_confreq_read demo_ack_read this]
  show "f_state (fsm demo_up_lcp) = OPENED" "lnk (client demo_up_lcp) = link_do (demo_link_env False) L_established demo_link"
    "lenv demo_lcp_env (client demo_up_lcp) = demo_link_env False"
    using demo_link_up demo_sent_facts(8-10) by (simp_all add: demo_up_lcp_def demo_agreed_def demo_lenv del: link_do.simps lcp_do.simps)
qed

lemma demo_authenticated_facts: "l_phase demo_authenticated = PHASE_NETWORK" "close_reasons demo_authenticated = []"
proof -
  have "(PAP_PEER OR 0) AND NOT PAP_PEER = 0" by simp
  then show "l_phase demo_authenticated = PHASE_NETWORK" "close_reasons demo_authenticated = []"
    using demo_pap_run(3-7) unfolding demo_pap_run(1)
    by (simp_all add: auth_peer_success_def auth_passed_def network_phase_def start_networks_def continue_networks_def peer_bit_def Let_def del: link_do.simps)
      (simp_all add: demo_link_env_def PPP_CCP_def PPP_ECP_def)
qed

definition demo_auth_lcp :: lcp_sys where
  "demo_auth_lcp = lcp_do demo_lcp_env (Packet ([0xff, 3, 0xc0, 0x23] @ demo_pap_request)) demo_up_lcp"

lemma demo_auth_facts: "f_state (fsm demo_auth_lcp) = OPENED" "lnk (client demo_auth_lcp) = demo_authenticated"
proof -
  have "demo_auth_lcp = run_link demo_lcp_env (L_pap (Pap_input demo_pap_request)) demo_up_lcp"
    using demo_up_lcp_facts(1)
    by (simp add: demo_auth_lcp_def get_input_def dispatch_def get_short_def PPP_HDRLEN_def PPP_LCP_def PPP_PAP_def PPP_CHAP_def PPP_EAP_def PPP_LQR_def)
  then have e: "demo_auth_lcp = on_link (\<lambda>_. demo_authenticated) demo_up_lcp"
    using demo_up_lcp_facts demo_pap_run(6) demo_authenticated_facts(2)
    by (simp add: run_link_def demo_authenticated_def [symmetric] Let_def del: link_do.simps)
  show "f_state (fsm demo_auth_lcp) = OPENED" "lnk (client demo_auth_lcp) = demo_authenticated"
    unfolding e using demo_up_lcp_facts(1) by simp_all
qed

lemma demo_up_reach: "lcp_reach demo_lcp_env demo_begin demo_up_lcp" "lcp_reach demo_lcp_env demo_begin demo_auth_lcp"
  unfolding demo_auth_lcp_def demo_up_lcp_def by (intro lcp_reach.step demo_reach)+

definition demo_network_packet :: bytes where
  "demo_network_packet = [0xff, 3, 0x80, 0x21, 1, 1, 0, 4]"

lemma demo_network_read: "get_input demo_lcp_env demo_network_packet demo_auth_lcp = lcp_call [Proto_input 0x8021 [1, 1, 0, 4]] demo_auth_lcp"
  using demo_auth_facts demo_authenticated_facts(1)
  by (simp add: demo_network_packet_def get_input_def dispatch_def get_short_def PPP_HDRLEN_def PPP_LCP_def PPP_PAP_def PPP_CHAP_def PPP_EAP_def
      PPP_LQR_def up_to_authenticate_def) (simp add: demo_link_env_def)

theorem lcp_network_authenticated_witness:
  "lcp_calls (client (get_input demo_lcp_env demo_network_packet demo_auth_lcp)) = lcp_calls (client demo_auth_lcp) @ [Proto_input 0x8021 [1, 1, 0, 4]] \<and>
   peer_need (auth_options.truncate (gotoptions (client demo_auth_lcp))) AND NOT (auth_done (lnk (client demo_auth_lcp))) = 0"
proof -
  have n: "lcp_call [k] t \<noteq> t" for k t
  proof
    assume "lcp_call [k] t = t"
    then have "lcp_calls (client (lcp_call [k] t)) = lcp_calls (client t)" by (rule arg_cong)
    then show False by simp
  qed
  have "PPP_HDRLEN \<le> length demo_network_packet" "pkt_protocol demo_network_packet \<notin> {PPP_LCP, PPP_LQR, PPP_PAP, PPP_CHAP, PPP_EAP}"
    by (simp_all add: demo_network_packet_def PPP_HDRLEN_def get_short_def PPP_LCP_def PPP_PAP_def PPP_CHAP_def PPP_EAP_def PPP_LQR_def)
  from lcp_network_authenticated [OF demo_starts demo_up_reach(2) this] show ?thesis using n by (simp add: demo_network_read)
qed

theorem lcp_consistent_witness: "timers demo_up_lcp = 0 \<and> echo_timers (client demo_up_lcp) = 1 \<and> lcp_is_open (lnk (client demo_up_lcp))"
  using lcp_consistent [OF demo_starts demo_up_reach(1)] demo_up_lcp_facts(1) by simp

theorem lcp_negotiates_witness:
  "f_state (fsm demo_up_lcp) = OPENED \<and> lcp_calls (client demo_up_lcp) = lcp_calls (client demo_sent) @ configure_calls demo_lcp_env (client demo_agreed)"
proof -
  have "link_do (lenv demo_lcp_env (client demo_agreed)) L_established (lnk (client demo_sent)) = link_do (demo_link_env False) L_established demo_link"
    using demo_sent_facts(8-10) by (simp add: demo_agreed_def demo_lenv del: link_do.simps)
  from lcp_negotiates [OF demo_starts demo_reach demo_sent_facts(1,2) demo_fits demo_confreq_read demo_ack_read this] show ?thesis
    using demo_link_up demo_sent_facts(10) by (simp add: demo_up_lcp_def del: link_do.simps lcp_do.simps)
qed


end
