(* ===== verification/Spec2Isabelle.thy ===== *)
theory Spec2Isabelle
  imports Dhcp_Client Dhcp_Utils Ppp_Ipv6cp_Options Ppp_Lcp_Runs
begin

text \<open>
  Verification of the network daemons' own code in an Android platform tree: the DHCP client library \<open>libnetutils\<close>
  (\<open>src/system/core/libnetutils\<close>) and the core of the PPP daemon (\<open>src/external/ppp/pppd\<close>).

  \<^bold>\<open>The parts of the program.\<close> \<open>libnetutils\<close> brings an interface up: \<open>dhcpclient.c\<close> runs the DHCP exchange over a raw socket,
  for which \<open>packet.c\<close> builds and checks the IP and UDP headers and \<open>dhcpmsg.c\<close> the messages; the lease it gets goes to
  \<open>ifc_utils.c\<close>, which talks to the kernel; \<open>dhcp_utils.c\<close> is the other way to the same end, through the daemon \<open>dhcpcd\<close> and the
  property service. \<open>pppd\<close> negotiates options with the automaton of \<open>fsm.c\<close>, whose clients are the control protocols. \<open>lcp.c\<close>
  is the one that the link itself stands on: when it comes up, \<open>auth.c\<close> starts the authentication protocols that were agreed on, \<open>upap.c\<close> and
  \<open>chap-new.c\<close> authenticate either side to the other and report back, and then \<open>auth.c\<close> opens the network control protocols, of which \<open>ipv6cp.c\<close> is
  one. \<open>get_input\<close> in \<open>main.c\<close> gives a received packet to its protocol, or drops it when the link is not that far. Timeouts are
  callouts of \<open>main.c\<close>.

  \<^bold>\<open>Theories.\<close>
  \<^item> \<^verbatim>\<open>Net_Prelude\<close>: words, byte buffers, network order, and the contract of a retransmitter (\<open>retransmitter\<close>): a step that
    spends a budget stops. \<^verbatim>\<open>Os_Model\<close>: the kernel and library calls of \<open>libnetutils\<close> as a record of parameters, operations in the
    state monad.
  \<^item> \<^verbatim>\<open>Packet\<close> (\<open>packet.c\<close>), \<^verbatim>\<open>Dhcp_Msg\<close> (\<open>dhcpmsg.c\<close>, \<open>dhcpmsg.h\<close>), \<^verbatim>\<open>Ifc_Utils\<close> (\<open>ifc_utils.c\<close>), \<^verbatim>\<open>Dhcp_Client\<close> (\<open>dhcpclient.c\<close>,
    \<open>dhcptool.c\<close>), \<^verbatim>\<open>Dhcp_Utils\<close> (\<open>dhcp_utils.c\<close>).
  \<^item> \<^verbatim>\<open>Ppp_Fsm\<close> (\<open>fsm.c\<close>, \<open>fsm.h\<close>) with the contracts of the callbacks of a control protocol: \<open>fsm_closer\<close> (those
    it needs to go down), \<open>fsm_layer\<close> (all of them; they may call back into the automaton and leave it consistent), \<open>fsm_client\<close> (only \<open>up\<close>
    calls back); \<^verbatim>\<open>Ppp_Ipv6cp\<close> (\<open>ipv6cp.c\<close>,
    \<open>eui64.c\<close>), \<^verbatim>\<open>Ppp_Ipv6cp_Proofs\<close> (that its callbacks keep the contract), \<^verbatim>\<open>Ppp_Ipv6cp_Runs\<close> and \<^verbatim>\<open>Ppp_Ipv6cp_Options\<close> (its properties).
  \<^item> \<^verbatim>\<open>Ppp_Print\<close> (\<open>print_string\<close> and the \<open>%v\<close> conversion of \<open>utils.c\<close>), \<^verbatim>\<open>Ppp_Timer\<close> (the callouts of \<open>main.c\<close>) with the
    contract \<open>timer_service\<close>, \<^verbatim>\<open>Ppp_Magic\<close> (\<open>magic.c\<close>), \<^verbatim>\<open>Ppp_Md5\<close> (\<open>md5.c\<close>).
  \<^item> \<^verbatim>\<open>Ppp_Auth\<close>: what the authentication protocols share, with the functions of \<open>auth.c\<close> that decide for them and the contract
    \<open>authenticator\<close>; \<^verbatim>\<open>Ppp_Upap\<close> (\<open>upap.c\<close>); \<^verbatim>\<open>Ppp_Chap\<close> (\<open>chap-new.c\<close>, \<open>chap-md5.c\<close>), \<^verbatim>\<open>Ppp_Chap_Proofs\<close> and \<^verbatim>\<open>Ppp_Chap_Runs\<close> with the
    contract \<open>chap_digest\<close> of a digest; \<^verbatim>\<open>Ppp_Link\<close>, the phases of \<open>auth.c\<close>: LCP comes up, the protocols are started and
    report, the network protocols are opened, LCP goes down; PAP and CHAP are parts of its state. \<^verbatim>\<open>Ppp_Link_Proofs\<close>: what the link keeps.
  \<^item> \<^verbatim>\<open>Ppp_Lcp\<close> (\<open>lcp.c\<close>, \<open>lcp.h\<close>, \<open>get_input\<close>, the start and the end of a link), on the automaton and the link at once;
    \<^verbatim>\<open>Ppp_Lcp_Proofs\<close> (its callbacks keep the contracts), \<^verbatim>\<open>Ppp_Lcp_Options\<close> (its option codecs), \<^verbatim>\<open>Ppp_Lcp_Runs\<close> (runs of LCP and the link).

  \<^bold>\<open>How code becomes definitions.\<close> Functions keep their names. A struct is a record, an enumeration a datatype, an integer
  whose width matters a word. Static variables and everything that a call outside the file changes are one state record per
  component; packets sent, calls made and results reported are lists in it, in order. Code outside the sources (the kernel,
  the C library, the property service, plugins) is a parameter; so are calls of parts that are not modelled. A pointer into a
  packet is the list of the bytes that may be read; a read that could leave its object is an option. A function that the code
  may enter again through a callback does so in the model: the callbacks of the automaton act on its whole state, and the report of a
  failed authentication takes the protocol down before it returns.  \<^verbatim>\<open>Ppp_Link\<close> handles reports after the operation that made
  them, which differs from the code only for a link without any network protocol. In the same way a request of the link to close LCP is recorded in
  \<open>close_reasons\<close> and taken up by LCP after the operation of the link that made it (\<open>run_link\<close>). A run starts with \<open>lcp_init\<close>, the options and
  \<open>auth_check_options\<close>, and is a sequence of \<open>lcp_event\<close>s: packets, timeouts, and what the session asks for, in any order.

  \<^bold>\<open>What is shown.\<close>
  \<^item> DHCP: a session with a matching offer and acknowledgement configures the interface as acknowledged; the client
    succeeds only on an acknowledgement for its own transaction; it returns after seven timeouts at the latest; the decoder is exact on
    encoded options and stays within its buffer; the checksum is the one's complement sum, a frame that is sent is received
    unchanged, and what is accepted has the right addresses and checksums. Netmasks, netlink requests, address texts, route
    and property operations do what they should.
  \<^item> The automaton follows the transition table of RFC 1661 for every client that keeps the contract; its timers, its state
    and the up calls stay consistent; it gives up on a silent peer. IPv6CP keeps the contract, configures only identifiers that are
    different and not zero, and answers requests like a specification that gives each option its verdict.
  \<^item> No network protocol is opened on a link before the peer has been authenticated with the protocol that was agreed on:
    PAP and CHAP report a peer as authenticated only for cause, and the link waits for the report. With LCP below it: a packet of a network protocol has
    an effect only on an open link whose peer is authenticated, as the options of the administrator ask. Client and server come to the same result; a CHAP
    server repeats its challenge a fixed number of times. MD5 computes the digest of RFC 1321 however the message is cut. The
    callouts run in order and none is left overdue; counting pending calls, as the models of the protocols do, gives the numbers
    of the list (\<open>chap_timers_are_callouts\<close> below).
  \<^item> LCP: its three timers, the automaton and the link agree in every reachable state; a good negotiation opens it with the
    values that were exchanged; it gives up on a peer that is silent and closes on one that stops answering echo requests. The acknowledgement
    check accepts exactly the request that was built, and an answer to a request is a piece of the request or a Nak of well-formed options.
  \<^item> Where the code does not do what it means to, a theorem says so: a received packet that is longer than its buffer, a
    lease from an invalid offer, a rejected option that was altered, a success that is never reported, a success that is sent before
    the session is checked, a message that was never set, a Nak that is longer than the buffer it is built in, a digest that is not recognised as
    the one that was asked for.

  \<^bold>\<open>Loops and bounds.\<close> Loops over data are structural recursion or have a termination proof. The DHCP loop is a function of the
  sequence of poll results, and ends when they end. The three loops of IPv6CP that draw random identifiers until one is acceptable
  draw \<open>tries\<close> times and then set \<open>hung\<close>; \<open>ipv6cp_draws_end\<close> shows that this never happens when the numbers offer an acceptable one in
  that many draws. \<open>calltimeout\<close> has fuel, and \<open>calltimeout_clears_due\<close> shows how much is enough.

  \<^bold>\<open>Not modelled.\<close> Of \<open>pppd\<close>: \<open>ipcp.c\<close>, \<open>ccp.c\<close>, \<open>ecp.c\<close> and \<open>ipxcp.c\<close>, which are further clients of the automaton; \<open>eap.c\<close>, \<open>cbcp.c\<close> and
  \<open>chap_ms.c\<close>; the multilink branches of \<open>lcp.c\<close> and \<open>auth.c\<close>; the secrets-file scanner, the limits and the address checks of \<open>auth.c\<close>; \<open>session.c\<close>, \<open>options.c\<close> and the rest of \<open>utils.c\<close> and
  \<open>main.c\<close>; the device code of \<open>sys-linux.c\<close>, \<open>tty.c\<close>, \<open>pppox.c\<close> and \<open>demand.c\<close>, which is input and output. Log output is left out
  throughout. The other directories are third-party projects carried in the tree (\<open>valgrind\<close>, \<open>libvpx\<close>, \<open>e2fsprogs\<close>, \<open>tcpdump\<close>
  and others), Java tools, headers and samples.
\<close>

section \<open>Timers\<close>

text \<open>The counters that stand for pending calls in the models of the protocols are those of the list of callouts: the same requests give
  the same numbers.\<close>

lemma chap_timers_are_callouts:
  assumes "pending_of q () = chap_timers s"
  shows "pending_of (fold (callouts.perform clock) rs q) () = chap_timers (fold chap_timer.perform rs s)"
proof -
  have "(\<lambda>k. pending_of q k) = (\<lambda>k. chap_timers s)" using assms by (intro ext) simp
  then show ?thesis
    using callouts.pending_perform [of clock rs q] chap_timer.pending_perform [of rs s] by (metis (no_types))
qed

end
